(* ===== verification/Prelude.thy ===== *)
theory Prelude
  imports Main "HOL-Library.Word"
begin

text \<open>
  Shared vocabulary of the development: time as the program reads it from its clock, the hash map
  of the Rust standard library as an association list, the interface the peer database and the
  rate limiter use of it, and generic lemmas about counting and filtering the entries of a map.
\<close>

named_theorems hm_simps "laws of the hash map operations"
named_theorems count_simps "how the number of entries with a property changes"

section \<open>Time\<close>

text \<open>An \<open>Instant\<close> and a \<open>Duration\<close> are both kept in nanoseconds; the clock is an explicit argument
  of every operation that reads it.\<close>

type_synonym instant = nat
type_synonym duration = nat

definition nanos_per_sec :: nat where
  "nanos_per_sec = 1000000000"

definition from_secs :: "nat \<Rightarrow> duration" where
  "from_secs s = s * nanos_per_sec"

definition as_secs :: "duration \<Rightarrow> nat" where
  "as_secs d = d div nanos_per_sec"

text \<open>\<open>Instant::checked_duration_since\<close>: nothing when the earlier instant lies in the future.\<close>

definition checked_duration_since :: "instant \<Rightarrow> instant \<Rightarrow> duration option" where
  "checked_duration_since now earlier = (if earlier \<le> now then Some (now - earlier) else None)"

lemma as_secs_from_secs [simp]: "as_secs (from_secs s) = s"
  by (simp add: as_secs_def from_secs_def nanos_per_sec_def)

lemma from_secs_mono: "a \<le> b \<Longrightarrow> from_secs a \<le> from_secs b"
  by (simp add: from_secs_def)

text \<open>\<open>std::cmp::Ordering\<close>.\<close>

datatype ordering = Less | Equal | Greater

section \<open>Iterators\<close>

text \<open>\<open>Iterator::min_by_key\<close> gives the first least element, \<open>max_by_key\<close> the last greatest one.\<close>

fun min_by_key :: "('a \<Rightarrow> 'b::linorder) \<Rightarrow> 'a list \<Rightarrow> 'a option" where
  "min_by_key f [] = None"
| "min_by_key f (x # xs) =
     (case min_by_key f xs of None \<Rightarrow> Some x | Some y \<Rightarrow> if f x \<le> f y then Some x else Some y)"

fun max_by_key :: "('a \<Rightarrow> 'b::linorder) \<Rightarrow> 'a list \<Rightarrow> 'a option" where
  "max_by_key f [] = None"
| "max_by_key f (x # xs) =
     (case max_by_key f xs of None \<Rightarrow> Some x | Some y \<Rightarrow> if f x \<le> f y then Some y else Some x)"

lemma min_by_key_None [simp]: "min_by_key f xs = None \<longleftrightarrow> xs = []"
  by (cases xs) (auto split: option.split if_splits)

lemma min_by_key_Some:
  "min_by_key f xs = Some x \<Longrightarrow> x \<in> set xs \<and> (\<forall>y \<in> set xs. f x \<le> f y)"
  by (induction xs arbitrary: x) (fastforce split: option.splits if_splits)+

lemma max_by_key_None [simp]: "max_by_key f xs = None \<longleftrightarrow> xs = []"
  by (cases xs) (auto split: option.split if_splits)

lemma max_by_key_Some:
  "max_by_key f xs = Some x \<Longrightarrow> x \<in> set xs \<and> (\<forall>y \<in> set xs. f y \<le> f x)"
  by (induction xs arbitrary: x) (fastforce split: option.splits if_splits)+

lemma find_Some_sat: "List.find P xs = Some x \<Longrightarrow> x \<in> set xs \<and> P x"
  by (induction xs) (auto split: if_splits)

section \<open>Hash maps\<close>

text \<open>A \<open>HashMap\<close> is an association list with distinct keys.  The order of the list is the (arbitrary)
  order in which the map is iterated; no theorem of the development fixes it.\<close>

type_synonym ('k, 'v) hmap = "('k \<times> 'v) list"

fun hm_get :: "('k, 'v) hmap \<Rightarrow> 'k \<Rightarrow> 'v option" where
  "hm_get [] k = None"
| "hm_get ((k', v) # m) k = (if k' = k then Some v else hm_get m k)"

fun hm_insert :: "'k \<Rightarrow> 'v \<Rightarrow> ('k, 'v) hmap \<Rightarrow> ('k, 'v) hmap" where
  "hm_insert k v [] = [(k, v)]"
| "hm_insert k v ((k', w) # m) = (if k' = k then (k, v) # m else (k', w) # hm_insert k v m)"

fun hm_remove :: "'k \<Rightarrow> ('k, 'v) hmap \<Rightarrow> ('k, 'v) hmap" where
  "hm_remove k [] = []"
| "hm_remove k ((k', w) # m) = (if k' = k then m else (k', w) # hm_remove k m)"

definition hm_ok :: "('k, 'v) hmap \<Rightarrow> bool" where
  "hm_ok m = distinct (map fst m)"

definition hm_contains :: "('k, 'v) hmap \<Rightarrow> 'k \<Rightarrow> bool" where
  "hm_contains m k = (hm_get m k \<noteq> None)"

text \<open>\<open>entry(k).or_insert(d)\<close> followed by a mutation, \<open>get_mut(k).map(f)\<close>, \<open>values_mut\<close> and \<open>retain\<close>.\<close>

definition hm_upsert :: "'k \<Rightarrow> 'v \<Rightarrow> ('v \<Rightarrow> 'v) \<Rightarrow> ('k, 'v) hmap \<Rightarrow> ('k, 'v) hmap" where
  "hm_upsert k d f m = hm_insert k (f (case hm_get m k of Some v \<Rightarrow> v | None \<Rightarrow> d)) m"

definition hm_adjust :: "'k \<Rightarrow> ('v \<Rightarrow> 'v) \<Rightarrow> ('k, 'v) hmap \<Rightarrow> ('k, 'v) hmap" where
  "hm_adjust k f m = (case hm_get m k of Some v \<Rightarrow> hm_insert k (f v) m | None \<Rightarrow> m)"

definition hm_map :: "('v \<Rightarrow> 'w) \<Rightarrow> ('k, 'v) hmap \<Rightarrow> ('k, 'w) hmap" where
  "hm_map f m = map (\<lambda>(k, v). (k, f v)) m"

definition hm_retain :: "('k \<Rightarrow> 'v \<Rightarrow> bool) \<Rightarrow> ('k, 'v) hmap \<Rightarrow> ('k, 'v) hmap" where
  "hm_retain P m = filter (\<lambda>(k, v). P k v) m"

lemma hm_get_insert [hm_simps, simp]:
  "hm_get (hm_insert k v m) k' = (if k' = k then Some v else hm_get m k')"
  by (induction k v m rule: hm_insert.induct) auto

lemma fst_set_insert: "fst ` set (hm_insert k v m) = insert k (fst ` set m)"
  by (induction k v m rule: hm_insert.induct) auto

lemma set_hm_insert: "set (hm_insert k v m) \<subseteq> insert (k, v) (set m)"
  by (induction k v m rule: hm_insert.induct) auto

lemma hm_ok_Nil [simp]: "hm_ok []"
  by (simp add: hm_ok_def)

lemma hm_ok_insert [simp]: "hm_ok m \<Longrightarrow> hm_ok (hm_insert k v m)"
  unfolding hm_ok_def
proof (induction k v m rule: hm_insert.induct)
  case (2 k v k' w m)
  then show ?case using fst_set_insert [of k v m] by auto
qed simp

lemma hm_get_None_iff: "hm_get m k = None \<longleftrightarrow> k \<notin> fst ` set m"
  by (induction m k rule: hm_get.induct) auto

lemma hm_get_Some_in: "hm_get m k = Some v \<Longrightarrow> (k, v) \<in> set m"
  by (induction m k rule: hm_get.induct) (auto split: if_splits)

lemma hm_in_get: "hm_ok m \<Longrightarrow> (k, v) \<in> set m \<Longrightarrow> hm_get m k = Some v"
  unfolding hm_ok_def by (induction m k rule: hm_get.induct) (auto simp: rev_image_eqI)

lemma set_remove_subset: "set (hm_remove k m) \<subseteq> set m"
  by (induction k m rule: hm_remove.induct) auto

lemma hm_ok_remove [simp]: "hm_ok m \<Longrightarrow> hm_ok (hm_remove k m)"
  unfolding hm_ok_def
proof (induction k m rule: hm_remove.induct)
  case (2 k k' w m)
  then show ?case using set_remove_subset [of k m] by auto
qed simp

lemma hm_get_remove [hm_simps, simp]:
  "hm_ok m \<Longrightarrow> hm_get (hm_remove k m) k' = (if k' = k then None else hm_get m k')"
  unfolding hm_ok_def
proof (induction k m rule: hm_remove.induct)
  case (2 k l w m)
  then have "l \<notin> fst ` set m" by simp
  then have "hm_get m l = None" by (simp only: hm_get_None_iff not_False_eq_True)
  with 2 show ?case by auto
qed simp

lemma hm_get_map [hm_simps, simp]: "hm_get (hm_map f m) k = map_option f (hm_get m k)"
  unfolding hm_map_def by (induction m k rule: hm_get.induct) auto

lemma hm_map_keys: "map fst (hm_map f m) = map fst m"
  unfolding hm_map_def by (induction m) auto

lemma hm_ok_map [simp]: "hm_ok (hm_map f m) = hm_ok m"
  by (simp add: hm_ok_def hm_map_keys)

lemma hm_ok_retain [simp]: "hm_ok m \<Longrightarrow> hm_ok (hm_retain P m)"
  unfolding hm_ok_def hm_retain_def by (induction m) auto

lemma hm_get_retain [hm_simps]:
  "hm_ok m \<Longrightarrow> hm_get (hm_retain P m) k
     = (case hm_get m k of Some v \<Rightarrow> if P k v then Some v else None | None \<Rightarrow> None)"
proof (induction m)
  case (Cons e m)
  obtain k' v where e: "e = (k', v)" by force
  with Cons.prems have ok: "hm_ok m" and fresh: "k' \<notin> fst ` set m"
    by (auto simp: hm_ok_def)
  show ?case
  proof (cases "k' = k")
    case True
    with fresh have "hm_get (hm_retain P m) k = None"
      by (auto simp: hm_get_None_iff hm_retain_def)
    with True e show ?thesis by (auto simp: hm_retain_def)
  next
    case False
    with Cons.IH [OF ok] e show ?thesis by (auto simp: hm_retain_def)
  qed
qed (simp add: hm_retain_def)

lemma hm_get_upsert [hm_simps]:
  "hm_get (hm_upsert k d f m) k'
     = (if k' = k then Some (f (case hm_get m k of Some v \<Rightarrow> v | None \<Rightarrow> d)) else hm_get m k')"
  by (simp add: hm_upsert_def)

lemma hm_get_adjust [hm_simps]:
  "hm_get (hm_adjust k f m) k' = (if k' = k then map_option f (hm_get m k) else hm_get m k')"
  by (simp add: hm_adjust_def split: option.split)

lemma hm_ok_upsert [simp]: "hm_ok m \<Longrightarrow> hm_ok (hm_upsert k d f m)"
  by (simp add: hm_upsert_def)

lemma hm_ok_adjust [simp]: "hm_ok m \<Longrightarrow> hm_ok (hm_adjust k f m)"
  by (simp add: hm_adjust_def split: option.split)

lemma hm_insert_same: "hm_get m k = Some v \<Longrightarrow> hm_insert k v m = m"
  by (induction m k rule: hm_get.induct) (auto split: if_splits)

lemma hm_ok_in_inj: "hm_ok m \<Longrightarrow> (k, v) \<in> set m \<Longrightarrow> (k, w) \<in> set m \<Longrightarrow> v = w"
  by (metis hm_in_get option.inject)

section \<open>Weighing entries\<close>

text \<open>The sum of a weight over the values of a map, and how an operation moves it.  The number of entries
  with a property is the case of the weight 1; the value of a missing key weighs nothing.\<close>

definition hm_sum :: "('v \<Rightarrow> nat) \<Rightarrow> ('k, 'v) hmap \<Rightarrow> nat" where
  "hm_sum w m = sum_list (map (\<lambda>(k, v). w v) m)"

definition hm_count :: "('v \<Rightarrow> bool) \<Rightarrow> ('k, 'v) hmap \<Rightarrow> nat" where
  "hm_count P m = length (filter (\<lambda>(k, v). P v) m)"

fun weight_at :: "('v \<Rightarrow> nat) \<Rightarrow> 'v option \<Rightarrow> nat" where
  "weight_at w None = 0"
| "weight_at w (Some v) = w v"

definition one_if :: "('v \<Rightarrow> bool) \<Rightarrow> 'v \<Rightarrow> nat" where
  "one_if P v = (if P v then 1 else 0)"

lemma hm_count_sum: "hm_count P m = hm_sum (one_if P) m"
  unfolding hm_count_def hm_sum_def one_if_def by (induction m) auto

lemma hm_sum_Nil [simp]: "hm_sum w [] = 0"
  by (simp add: hm_sum_def)

lemma sum_insert [count_simps]:
  "hm_sum w (hm_insert k v m) + weight_at w (hm_get m k) = hm_sum w m + w v"
  unfolding hm_sum_def by (induction k v m rule: hm_insert.induct) auto

lemma sum_insert_eq:
  "hm_sum w (hm_insert k v m) = hm_sum w m + w v - weight_at w (hm_get m k)"
  using sum_insert [of w k v m] by linarith

lemma sum_remove [count_simps]:
  "hm_sum w (hm_remove k m) + weight_at w (hm_get m k) = hm_sum w m"
  unfolding hm_sum_def by (induction k m rule: hm_remove.induct) auto

lemma sum_remove_eq: "hm_sum w (hm_remove k m) = hm_sum w m - weight_at w (hm_get m k)"
  using sum_remove [of w k m] by linarith

lemma sum_ge: "weight_at w (hm_get m k) \<le> hm_sum w m"
  using sum_remove [of w k m] by linarith

lemma sum_map: "hm_sum w (hm_map f m) = hm_sum (w \<circ> f) m"
  unfolding hm_sum_def hm_map_def by (induction m) auto

lemma sum_cong: "(\<And>k v. (k, v) \<in> set m \<Longrightarrow> w v = w' v) \<Longrightarrow> hm_sum w m = hm_sum w' m"
  unfolding hm_sum_def by (rule arg_cong [where f = sum_list]) auto

lemma sum_adjust:
  "(\<And>v. hm_get m k = Some v \<Longrightarrow> w (f v) = w v) \<Longrightarrow> hm_sum w (hm_adjust k f m) = hm_sum w m"
  by (auto simp: hm_adjust_def sum_insert_eq split: option.split)

lemma count_pos_in: "0 < hm_count P m \<longleftrightarrow> (\<exists>k v. (k, v) \<in> set m \<and> P v)"
  by (auto simp: hm_count_def filter_empty_conv)

section \<open>The map interface\<close>

text \<open>What the peer database and the request limiter need of their tables: a lookup sees the last
  insertion, an insertion or a removal leaves the other keys alone, and both keep the table
  well-formed.\<close>

locale key_table =
  fixes get :: "'t \<Rightarrow> 'k \<Rightarrow> 'v option"
    and put :: "'k \<Rightarrow> 'v \<Rightarrow> 't \<Rightarrow> 't"
    and del :: "'k \<Rightarrow> 't \<Rightarrow> 't"
    and ok :: "'t \<Rightarrow> bool"
  assumes get_put: "get (put k v t) k' = (if k' = k then Some v else get t k')"
    and get_del: "ok t \<Longrightarrow> get (del k t) k' = (if k' = k then None else get t k')"
    and ok_put: "ok t \<Longrightarrow> ok (put k v t)"
    and ok_del: "ok t \<Longrightarrow> ok (del k t)"
begin

lemma put_put_get: "get (put k v (put k w t)) k' = get (put k v t) k'"
  by (simp add: get_put)

lemma put_swap_get: "k \<noteq> l \<Longrightarrow> get (put k v (put l w t)) j = get (put l w (put k v t)) j"
  by (simp add: get_put)

lemma del_put_get: "ok t \<Longrightarrow> get (del k (put k v t)) j = get (del k t) j"
  by (simp add: get_put get_del ok_put)

lemma fold_put_other:
  "k \<notin> set ks \<Longrightarrow> get (fold (\<lambda>k'. put k' (f k')) ks t) k = get t k"
  by (induction ks arbitrary: t) (auto simp: get_put)

lemma fold_del_get:
  "ok t \<Longrightarrow> get (fold del ks t) k = (if k \<in> set ks then None else get t k)"
  by (induction ks arbitrary: t) (auto simp: get_del ok_del)

lemma fold_del_ok: "ok t \<Longrightarrow> ok (fold del ks t)"
  by (induction ks arbitrary: t) (auto simp: ok_del)

end

interpretation hm: key_table hm_get hm_insert hm_remove hm_ok
  by unfold_locales simp_all

end
