(* ===== verification/Scoring_Params.thy ===== *)
theory Scoring_Params
  imports Complex_Main Prelude
begin

text \<open>
  \<open>network/gossipsub_scoring_parameters.rs\<close>: the thresholds and the parameters of the gossipsub peer
  score.  A double is idealised as a real number.
\<close>

type_synonym f64 = real

definition GREYLIST_THRESHOLD :: f64 where
  "GREYLIST_THRESHOLD = -16000"

end
