(* ===== verification/Score.thy ===== *)
theory Score
  imports Scoring_Params
begin

text \<open>
  \<open>peer_manager/peerdb/score.rs\<close>: the score of a peer, the penalties that lower it, its decay with
  time, and the state (healthy, disconnected, banned) the peer database derives from it.
\<close>

section \<open>Constants\<close>

definition DEFAULT_SCORE :: f64 where "DEFAULT_SCORE = 0"
definition MIN_SCORE_BEFORE_DISCONNECT :: f64 where "MIN_SCORE_BEFORE_DISCONNECT = -20"
definition MIN_SCORE_BEFORE_BAN :: f64 where "MIN_SCORE_BEFORE_BAN = -50"
definition MIN_LIGHTHOUSE_SCORE_BEFORE_BAN :: f64 where "MIN_LIGHTHOUSE_SCORE_BEFORE_BAN = -60"
definition MAX_SCORE :: f64 where "MAX_SCORE = 100"
definition MIN_SCORE :: f64 where "MIN_SCORE = -100"
definition SCORE_HALFLIFE :: f64 where "SCORE_HALFLIFE = 600"
definition HALFLIFE_DECAY :: f64 where "HALFLIFE_DECAY = - ln 2 / SCORE_HALFLIFE"
definition BANNED_BEFORE_DECAY :: duration where "BANNED_BEFORE_DECAY = from_secs (12 * 3600)"
definition GOSSIPSUB_NEGATIVE_SCORE_WEIGHT :: f64 where
  "GOSSIPSUB_NEGATIVE_SCORE_WEIGHT = (MIN_SCORE_BEFORE_DISCONNECT + 1) / GREYLIST_THRESHOLD"
definition GOSSIPSUB_POSITIVE_SCORE_WEIGHT :: f64 where
  "GOSSIPSUB_POSITIVE_SCORE_WEIGHT = GOSSIPSUB_NEGATIVE_SCORE_WEIGHT"

lemmas score_consts =
  DEFAULT_SCORE_def MIN_SCORE_BEFORE_DISCONNECT_def MIN_SCORE_BEFORE_BAN_def
  MIN_LIGHTHOUSE_SCORE_BEFORE_BAN_def MAX_SCORE_def MIN_SCORE_def
  GOSSIPSUB_NEGATIVE_SCORE_WEIGHT_def GOSSIPSUB_POSITIVE_SCORE_WEIGHT_def GREYLIST_THRESHOLD_def

section \<open>Actions and states\<close>

datatype peer_action = Fatal | LowToleranceError | MidToleranceError | HighToleranceError

datatype report_source = Gossipsub | RPC | Processor | SyncService | PeerManager

fun report_source_str :: "report_source \<Rightarrow> string" where
  "report_source_str Gossipsub = ''gossipsub''"
| "report_source_str RPC = ''rpc_error''"
| "report_source_str Processor = ''processor''"
| "report_source_str SyncService = ''sync''"
| "report_source_str PeerManager = ''peer_manager''"

fun peer_action_display :: "peer_action \<Rightarrow> string" where
  "peer_action_display Fatal = ''Fatal''"
| "peer_action_display LowToleranceError = ''Low Tolerance Error''"
| "peer_action_display MidToleranceError = ''Mid Tolerance Error''"
| "peer_action_display HighToleranceError = ''High Tolerance Error''"

datatype score_state = Healthy | Disconnected | Banned

fun score_state_display :: "score_state \<Rightarrow> string" where
  "score_state_display Healthy = ''Healthy''"
| "score_state_display Banned = ''Banned''"
| "score_state_display Disconnected = ''Disconnected''"

text \<open>How bad a state is; a larger state is a worse one.\<close>

fun badness :: "score_state \<Rightarrow> nat" where
  "badness Healthy = 0"
| "badness Disconnected = 1"
| "badness Banned = 2"

instantiation score_state :: linorder
begin

definition less_eq_score_state :: "score_state \<Rightarrow> score_state \<Rightarrow> bool" where
  "s \<le> t = (badness s \<le> badness t)"

definition less_score_state :: "score_state \<Rightarrow> score_state \<Rightarrow> bool" where
  "s < t = (badness s < badness t)"

instance
proof
  fix s t u :: score_state
  show "s < t \<longleftrightarrow> s \<le> t \<and> \<not> t \<le> s"
    by (auto simp: less_eq_score_state_def less_score_state_def)
  show "s \<le> s" by (simp add: less_eq_score_state_def)
  show "s \<le> t \<Longrightarrow> t \<le> u \<Longrightarrow> s \<le> u" by (simp add: less_eq_score_state_def)
  show "s \<le> t \<Longrightarrow> t \<le> s \<Longrightarrow> s = t"
    by (cases s; cases t) (auto simp: less_eq_score_state_def)
  show "s \<le> t \<or> t \<le> s" by (auto simp: less_eq_score_state_def)
qed

end

section \<open>Real scores\<close>

record real_score =
  lighthouse_score :: f64
  gossipsub_score :: f64
  ignore_negative_gossipsub_score :: bool
  score_field :: f64
  last_updated :: instant

definition default_real_score :: "instant \<Rightarrow> real_score" where
  "default_real_score now = \<lparr> lighthouse_score = DEFAULT_SCORE, gossipsub_score = DEFAULT_SCORE,
     ignore_negative_gossipsub_score = False, score_field = DEFAULT_SCORE, last_updated = now \<rparr>"

definition recompute_score :: "real_score \<Rightarrow> real_score" where
  "recompute_score s =
     (let s = s\<lparr>score_field := lighthouse_score s\<rparr> in
      if lighthouse_score s \<le> MIN_LIGHTHOUSE_SCORE_BEFORE_BAN then s
      else if gossipsub_score s \<ge> 0
      then s\<lparr>score_field := score_field s + gossipsub_score s * GOSSIPSUB_POSITIVE_SCORE_WEIGHT\<rparr>
      else if \<not> ignore_negative_gossipsub_score s
      then s\<lparr>score_field := score_field s + gossipsub_score s * GOSSIPSUB_NEGATIVE_SCORE_WEIGHT\<rparr>
      else s)"

definition update_state :: "real_score \<Rightarrow> real_score" where
  "update_state s =
     (let was_not_banned = score_field s > MIN_SCORE_BEFORE_BAN; s = recompute_score s in
      if was_not_banned \<and> score_field s \<le> MIN_SCORE_BEFORE_BAN
      then s\<lparr>last_updated := last_updated s + BANNED_BEFORE_DECAY\<rparr> else s)"

definition set_lighthouse_score :: "f64 \<Rightarrow> real_score \<Rightarrow> real_score" where
  "set_lighthouse_score x s = update_state (s\<lparr>lighthouse_score := x\<rparr>)"

definition add_score :: "f64 \<Rightarrow> real_score \<Rightarrow> real_score" where
  "add_score x s =
     (let n = lighthouse_score s + x;
          n = (if n > MAX_SCORE then MAX_SCORE else n);
          n = (if n < MIN_SCORE then MIN_SCORE else n)
      in set_lighthouse_score n s)"

fun real_apply_peer_action :: "peer_action \<Rightarrow> real_score \<Rightarrow> real_score" where
  "real_apply_peer_action Fatal s = set_lighthouse_score MIN_SCORE s"
| "real_apply_peer_action LowToleranceError s = add_score (-10) s"
| "real_apply_peer_action MidToleranceError s = add_score (-5) s"
| "real_apply_peer_action HighToleranceError s = add_score (-1) s"

definition decay_factor :: "nat \<Rightarrow> f64" where
  "decay_factor secs = exp (HALFLIFE_DECAY * real secs)"

definition update_at :: "instant \<Rightarrow> real_score \<Rightarrow> real_score" where
  "update_at now s = (case checked_duration_since now (last_updated s) of
       None \<Rightarrow> s
     | Some d \<Rightarrow> update_state (s\<lparr>lighthouse_score := lighthouse_score s * decay_factor (as_secs d),
                                last_updated := now\<rparr>))"

definition real_update_gossipsub_score :: "instant \<Rightarrow> f64 \<Rightarrow> bool \<Rightarrow> real_score \<Rightarrow> real_score" where
  "real_update_gossipsub_score now x ignore s =
     (if last_updated s \<le> now
      then update_state (s\<lparr>gossipsub_score := x, ignore_negative_gossipsub_score := ignore\<rparr>)
      else s)"

definition real_is_good_gossipsub_peer :: "real_score \<Rightarrow> bool" where
  "real_is_good_gossipsub_peer s = (gossipsub_score s \<ge> 0)"

section \<open>Scores\<close>

text \<open>\<open>Score::score\<close> is a double that may be infinite.\<close>

datatype score_value = Finite f64 | Infinity

fun score_value_le :: "score_value \<Rightarrow> score_value \<Rightarrow> bool" where
  "score_value_le _ Infinity = True"
| "score_value_le Infinity (Finite _) = False"
| "score_value_le (Finite x) (Finite y) = (x \<le> y)"

instantiation score_value :: linorder
begin

definition less_eq_score_value :: "score_value \<Rightarrow> score_value \<Rightarrow> bool" where
  "x \<le> y = score_value_le x y"

definition less_score_value :: "score_value \<Rightarrow> score_value \<Rightarrow> bool" where
  "x < y = (\<not> score_value_le y x)"

instance
proof
  fix x y z :: score_value
  show "x < y \<longleftrightarrow> x \<le> y \<and> \<not> y \<le> x"
    by (cases x; cases y) (auto simp: less_eq_score_value_def less_score_value_def)
  show "x \<le> x" by (cases x) (auto simp: less_eq_score_value_def)
  show "x \<le> y \<Longrightarrow> y \<le> z \<Longrightarrow> x \<le> z"
    by (cases x; cases y; cases z) (auto simp: less_eq_score_value_def)
  show "x \<le> y \<Longrightarrow> y \<le> x \<Longrightarrow> x = y"
    by (cases x; cases y) (auto simp: less_eq_score_value_def)
  show "x \<le> y \<or> y \<le> x" by (cases x; cases y) (auto simp: less_eq_score_value_def)
qed

end

lemma score_value_order [simp]:
  "Finite x \<le> Finite y \<longleftrightarrow> x \<le> y" "v \<le> Infinity" "\<not> Infinity \<le> Finite x"
  "Finite x < Finite y \<longleftrightarrow> x < y" "Finite x < Infinity" "\<not> Infinity < v"
  by (cases v; auto simp: less_eq_score_value_def less_score_value_def)+

datatype score = Max | Real real_score

definition default_score :: "instant \<Rightarrow> score" where
  "default_score now = Real (default_real_score now)"

definition max_score :: score where
  "max_score = Max"

fun apply_peer_action :: "peer_action \<Rightarrow> score \<Rightarrow> score" where
  "apply_peer_action a Max = Max"
| "apply_peer_action a (Real s) = Real (real_apply_peer_action a s)"

fun update_score :: "instant \<Rightarrow> score \<Rightarrow> score" where
  "update_score now Max = Max"
| "update_score now (Real s) = Real (update_at now s)"

fun update_gossipsub_score :: "instant \<Rightarrow> f64 \<Rightarrow> bool \<Rightarrow> score \<Rightarrow> score" where
  "update_gossipsub_score now x ignore Max = Max"
| "update_gossipsub_score now x ignore (Real s) = Real (real_update_gossipsub_score now x ignore s)"

fun score_of :: "score \<Rightarrow> score_value" where
  "score_of Max = Infinity"
| "score_of (Real s) = Finite (score_field s)"

definition state_of_value :: "score_value \<Rightarrow> score_state" where
  "state_of_value x = (if x \<le> Finite MIN_SCORE_BEFORE_BAN then Banned
     else if x \<le> Finite MIN_SCORE_BEFORE_DISCONNECT then Disconnected else Healthy)"

definition state_of_score :: "score \<Rightarrow> score_state" where
  "state_of_score s = state_of_value (score_of s)"

fun is_good_gossipsub_peer :: "score \<Rightarrow> bool" where
  "is_good_gossipsub_peer Max = True"
| "is_good_gossipsub_peer (Real s) = real_is_good_gossipsub_peer s"

text \<open>The comparison the peer manager sorts peers by.\<close>

definition score_cmp :: "score \<Rightarrow> score \<Rightarrow> ordering" where
  "score_cmp s t = (if score_of s < score_of t then Less
     else if score_of s = score_of t then Equal else Greater)"

section \<open>The cached score\<close>

text \<open>The score a peer ought to have, as a function of its parts, and the invariant of the record: the
  cached score is that function, and since the penalties only lower the lighthouse score and decay
  moves it towards zero, it lies between -100 and 0.\<close>

definition gossip_part :: "f64 \<Rightarrow> bool \<Rightarrow> f64" where
  "gossip_part g ignore = (if g \<ge> 0 \<or> \<not> ignore then g * (19 / 16000) else 0)"

definition effective_score :: "f64 \<Rightarrow> f64 \<Rightarrow> bool \<Rightarrow> f64" where
  "effective_score l g ignore = (if l \<le> -60 then l else l + gossip_part g ignore)"

definition real_score_ok :: "real_score \<Rightarrow> bool" where
  "real_score_ok s = (-100 \<le> lighthouse_score s \<and> lighthouse_score s \<le> 0 \<and>
     score_field s = effective_score (lighthouse_score s) (gossipsub_score s)
                       (ignore_negative_gossipsub_score s))"

fun score_ok :: "score \<Rightarrow> bool" where
  "score_ok Max = True"
| "score_ok (Real s) = real_score_ok s"

lemma recompute_score_eq:
  "recompute_score s = s\<lparr>score_field := effective_score (lighthouse_score s) (gossipsub_score s)
                                          (ignore_negative_gossipsub_score s)\<rparr>"
  by (auto simp: recompute_score_def Let_def score_consts effective_score_def gossip_part_def)

lemma update_state_fields [simp]:
  "lighthouse_score (update_state s) = lighthouse_score s"
  "gossipsub_score (update_state s) = gossipsub_score s"
  "ignore_negative_gossipsub_score (update_state s) = ignore_negative_gossipsub_score s"
  "score_field (update_state s) = effective_score (lighthouse_score s) (gossipsub_score s)
                                    (ignore_negative_gossipsub_score s)"
  by (auto simp: update_state_def Let_def recompute_score_eq)

lemma last_updated_update_state:
  "last_updated (update_state s) =
     (if score_field s > -50 \<and> effective_score (lighthouse_score s) (gossipsub_score s)
           (ignore_negative_gossipsub_score s) \<le> -50
      then last_updated s + BANNED_BEFORE_DECAY else last_updated s)"
  by (auto simp: update_state_def Let_def recompute_score_eq score_consts)

text \<open>What a penalty subtracts from the lighthouse score; \<open>Fatal\<close> subtracts enough to reach the minimum
  from anywhere.\<close>

fun penalty :: "peer_action \<Rightarrow> f64" where
  "penalty Fatal = 200"
| "penalty LowToleranceError = 10"
| "penalty MidToleranceError = 5"
| "penalty HighToleranceError = 1"

lemma lighthouse_add_score:
  "lighthouse_score (add_score x s) = max (-100) (min 100 (lighthouse_score s + x))"
  by (auto simp: add_score_def set_lighthouse_score_def Let_def score_consts)

lemma lighthouse_apply_peer_action:
  assumes "-100 \<le> lighthouse_score s" and "lighthouse_score s \<le> 0"
  shows "lighthouse_score (real_apply_peer_action a s) = max (-100) (lighthouse_score s - penalty a)"
  using assms by (cases a) (auto simp: lighthouse_add_score set_lighthouse_score_def score_consts)

lemma penalty_pos [simp]: "0 < penalty a"
  by (cases a) auto

lemma apply_peer_action_fields:
  "gossipsub_score (real_apply_peer_action a s) = gossipsub_score s"
  "ignore_negative_gossipsub_score (real_apply_peer_action a s) = ignore_negative_gossipsub_score s"
  by (cases a; simp add: add_score_def set_lighthouse_score_def Let_def)+

lemma cached_apply_peer_action:
  "score_field (real_apply_peer_action a s) =
     effective_score (lighthouse_score (real_apply_peer_action a s)) (gossipsub_score s)
       (ignore_negative_gossipsub_score s)"
  by (cases a) (simp_all add: add_score_def set_lighthouse_score_def Let_def)

lemma decay_factor_bounds: "0 < decay_factor n" "decay_factor n \<le> 1"
  by (simp_all add: decay_factor_def HALFLIFE_DECAY_def SCORE_HALFLIFE_def)

lemma decay_factor_halves: "decay_factor (600 * n) = (1 / 2) ^ n"
proof -
  have "HALFLIFE_DECAY * real (600 * n) = real n * (- ln 2)"
    by (simp add: HALFLIFE_DECAY_def SCORE_HALFLIFE_def)
  then have "decay_factor (600 * n) = exp (- ln 2) ^ n"
    by (simp only: decay_factor_def exp_of_nat_mult)
  also have "exp (- ln (2::real)) = 1 / 2"
    by (simp add: exp_minus inverse_eq_divide)
  finally show ?thesis .
qed

lemma real_score_ok_default [simp]: "real_score_ok (default_real_score now)"
  by (simp add: real_score_ok_def default_real_score_def DEFAULT_SCORE_def effective_score_def
      gossip_part_def)

lemma real_score_ok_apply:
  "real_score_ok s \<Longrightarrow> real_score_ok (real_apply_peer_action a s)"
  using penalty_pos [of a]
  by (auto simp: real_score_ok_def lighthouse_apply_peer_action apply_peer_action_fields
      cached_apply_peer_action simp del: penalty_pos)

lemma shrink_towards_zero:
  fixes l d :: real
  assumes "l \<le> 0" and "0 < d" and "d \<le> 1"
  shows "l \<le> l * d" and "l * d \<le> 0"
  using assms mult_left_mono_neg [of d 1 l] by (auto simp: mult_nonpos_nonneg)

lemma real_score_ok_update_at:
  assumes "real_score_ok s"
  shows "real_score_ok (update_at now s)"
proof (cases "checked_duration_since now (last_updated s)")
  case (Some d)
  have "lighthouse_score s \<le> lighthouse_score s * decay_factor (as_secs d)"
    "lighthouse_score s * decay_factor (as_secs d) \<le> 0"
    using assms shrink_towards_zero [OF _ decay_factor_bounds] by (auto simp: real_score_ok_def)
  with assms Some show ?thesis by (simp add: real_score_ok_def update_at_def)
qed (simp add: assms update_at_def)

lemma real_score_ok_gossipsub:
  "real_score_ok s \<Longrightarrow> real_score_ok (real_update_gossipsub_score now x ignore s)"
  by (auto simp: real_score_ok_def real_update_gossipsub_score_def)

section \<open>How the state moves\<close>

lemma state_of_Real:
  "state_of_score (Real s) = (if score_field s \<le> -50 then Banned
     else if score_field s \<le> -20 then Disconnected else Healthy)"
  by (simp add: state_of_score_def state_of_value_def score_consts)

lemma state_of_Max [simp]: "state_of_score Max = Healthy"
  by (simp add: state_of_score_def state_of_value_def)

lemma state_Real_antimono:
  "score_field s \<le> score_field t \<Longrightarrow> state_of_score (Real t) \<le> state_of_score (Real s)"
  by (auto simp: state_of_Real less_eq_score_state_def)

lemma state_Real_Banned: "score_field s \<le> -50 \<Longrightarrow> state_of_score (Real s) = Banned"
  by (simp add: state_of_Real)

lemma score_state_le_Banned [simp]: "(x::score_state) \<le> Banned"
  by (cases x) (auto simp: less_eq_score_state_def)

lemma effective_score_mono:
  assumes "l \<le> l'" and "-50 < effective_score l g i"
  shows "effective_score l g i \<le> effective_score l' g i"
  using assms by (auto simp: effective_score_def split: if_splits)

text \<open>A higher lighthouse score never has a worse state.\<close>

lemma state_lighthouse_mono:
  assumes "score_field s = effective_score l g i" and "score_field t = effective_score l' g i"
    and "l \<le> l'"
  shows "state_of_score (Real t) \<le> state_of_score (Real s)"
proof (cases "effective_score l g i \<le> -50")
  case True
  with assms(1) show ?thesis by (simp add: state_Real_Banned)
next
  case False
  with assms effective_score_mono [of l l' g i] show ?thesis
    by (intro state_Real_antimono) simp
qed

lemma real_apply_worse:
  assumes "real_score_ok s"
  shows "state_of_score (Real s) \<le> state_of_score (Real (real_apply_peer_action a s))"
proof (rule state_lighthouse_mono)
  show "score_field s = effective_score (lighthouse_score s) (gossipsub_score s)
          (ignore_negative_gossipsub_score s)"
    using assms by (simp add: real_score_ok_def)
  show "lighthouse_score (real_apply_peer_action a s) \<le> lighthouse_score s"
    using assms penalty_pos [of a]
    by (auto simp: real_score_ok_def lighthouse_apply_peer_action simp del: penalty_pos)
qed (rule cached_apply_peer_action)

lemma real_update_better:
  assumes "real_score_ok s"
  shows "state_of_score (Real (update_at now s)) \<le> state_of_score (Real s)"
proof (cases "checked_duration_since now (last_updated s)")
  case (Some d)
  let ?t = "update_at now s"
  have l: "lighthouse_score s \<le> lighthouse_score ?t"
    using assms shrink_towards_zero(1) [OF _ decay_factor_bounds, of "lighthouse_score s"] Some
    by (simp add: real_score_ok_def update_at_def)
  have "score_field s = effective_score (lighthouse_score s) (gossipsub_score s)
          (ignore_negative_gossipsub_score s)"
    using assms by (simp add: real_score_ok_def)
  moreover have "score_field ?t = effective_score (lighthouse_score ?t) (gossipsub_score s)
          (ignore_negative_gossipsub_score s)"
    using Some by (simp add: update_at_def)
  ultimately show ?thesis using l by (rule state_lighthouse_mono)
qed (simp add: update_at_def)

section \<open>The contract of a score\<close>

text \<open>What the peer information and the peer database rely on: penalties only worsen the state, the
  passage of time only improves it, and a fatal action bans a peer that is not exempt.\<close>

locale scored_peer =
  fixes ok :: "'s \<Rightarrow> bool"
    and st :: "'s \<Rightarrow> score_state"
    and exempt :: "'s \<Rightarrow> bool"
    and act :: "peer_action \<Rightarrow> 's \<Rightarrow> 's"
    and tick :: "instant \<Rightarrow> 's \<Rightarrow> 's"
    and gossip :: "instant \<Rightarrow> f64 \<Rightarrow> bool \<Rightarrow> 's \<Rightarrow> 's"
  assumes ok_act: "ok s \<Longrightarrow> ok (act a s)"
    and ok_tick: "ok s \<Longrightarrow> ok (tick now s)"
    and ok_gossip: "ok s \<Longrightarrow> ok (gossip now x i s)"
    and act_worse: "ok s \<Longrightarrow> st s \<le> st (act a s)"
    and tick_better: "ok s \<Longrightarrow> st (tick now s) \<le> st s"
    and fatal_bans: "ok s \<Longrightarrow> \<not> exempt s \<Longrightarrow> st (act Fatal s) = score_state.Banned"
    and exempt_act: "exempt (act a s) = exempt s"
begin

lemma ok_acts: "ok s \<Longrightarrow> ok (fold act as s)"
  by (induction as arbitrary: s) (auto intro: ok_act)

lemma exempt_acts: "exempt (fold act as s) = exempt s"
  by (induction as arbitrary: s) (auto simp: exempt_act)

lemma acts_worse: "ok s \<Longrightarrow> st s \<le> st (fold act as s)"
  by (induction as arbitrary: s) (auto intro: order_trans [OF act_worse] ok_act)

lemma ok_ticks: "ok s \<Longrightarrow> ok (fold tick ts s)"
  by (induction ts arbitrary: s) (auto intro: ok_tick)

lemma ticks_better: "ok s \<Longrightarrow> st (fold tick ts s) \<le> st s"
  by (induction ts arbitrary: s) (auto intro: order_trans [OF _ tick_better] ok_tick)

text \<open>Once a fatal action is among the reports the peer is banned, whatever else is reported.\<close>

lemma fatal_among:
  assumes "ok s" and "\<not> exempt s" and "Fatal \<in> set as"
  shows "st (fold act as s) = score_state.Banned"
proof -
  obtain bs cs where as: "as = bs @ Fatal # cs"
    using assms(3) by (auto simp: in_set_conv_decomp)
  have "st (act Fatal (fold act bs s)) = score_state.Banned"
    using assms by (intro fatal_bans ok_acts) (auto simp: exempt_acts)
  then have "score_state.Banned \<le> st (fold act cs (act Fatal (fold act bs s)))"
    using assms(1) acts_worse ok_act ok_acts by metis
  then show ?thesis
    using as by (cases "st (fold act as s)") (auto simp: less_eq_score_state_def)
qed

end

definition is_max :: "score \<Rightarrow> bool" where
  "is_max s = (s = Max)"

lemma fatal_state:
  assumes "real_score_ok s"
  shows "state_of_score (Real (real_apply_peer_action Fatal s)) = Banned"
proof (rule state_Real_Banned)
  show "score_field (real_apply_peer_action Fatal s) \<le> -50"
    unfolding cached_apply_peer_action using assms lighthouse_apply_peer_action [of s Fatal]
    by (simp add: real_score_ok_def effective_score_def del: real_apply_peer_action.simps)
qed

lemma score_ok_ops:
  "score_ok s \<Longrightarrow> score_ok (apply_peer_action a s)"
  "score_ok s \<Longrightarrow> score_ok (update_score now s)"
  "score_ok s \<Longrightarrow> score_ok (update_gossipsub_score now x i s)"
  by (cases s; simp add: real_score_ok_apply real_score_ok_update_at real_score_ok_gossipsub)+

interpretation sc: scored_peer score_ok state_of_score is_max apply_peer_action update_score
  update_gossipsub_score
proof
  fix s a now
  assume s: "score_ok s"
  show "state_of_score s \<le> state_of_score (apply_peer_action a s)"
    using s by (cases s) (auto simp: real_apply_worse)
  show "state_of_score (update_score now s) \<le> state_of_score s"
    using s by (cases s) (auto simp: real_update_better)
  show "\<not> is_max s \<Longrightarrow> state_of_score (apply_peer_action Fatal s) = score_state.Banned"
    using s by (cases s) (auto simp: is_max_def fatal_state simp del: real_apply_peer_action.simps)
next
  show "is_max (apply_peer_action a s) = is_max s" for a s
    by (cases s) (simp_all add: is_max_def)
qed (simp_all add: score_ok_ops)

section \<open>Repeated penalties\<close>

lemma lighthouse_repeat:
  assumes "lighthouse_score s = 0"
  shows "lighthouse_score ((real_apply_peer_action a ^^ n) s) = max (-100) (- penalty a * real n)"
proof (induction n)
  case 0
  then show ?case using assms by simp
next
  case (Suc n)
  have pos: "0 < penalty a" "0 \<le> penalty a * real n"
    using penalty_pos [of a] less_imp_le [OF penalty_pos [of a]]
    by (simp_all only: mult_nonneg_nonneg of_nat_0_le_iff)
  have "lighthouse_score ((real_apply_peer_action a ^^ Suc n) s)
      = max (-100) (lighthouse_score ((real_apply_peer_action a ^^ n) s) - penalty a)"
    unfolding funpow.simps comp_apply
    by (rule lighthouse_apply_peer_action) (use Suc pos in linarith)+
  with pos Suc show ?case by (simp add: max_def algebra_simps del: penalty_pos)
qed

lemma gossip_repeat:
  "gossipsub_score ((real_apply_peer_action a ^^ n) s) = gossipsub_score s"
  "ignore_negative_gossipsub_score ((real_apply_peer_action a ^^ n) s)
     = ignore_negative_gossipsub_score s"
  by (induction n) (simp_all add: apply_peer_action_fields)

lemma score_repeat_default:
  "score_field ((real_apply_peer_action a ^^ n) (default_real_score now))
     = max (-100) (- penalty a * real n)"
proof (cases n)
  case 0
  then show ?thesis by (simp add: default_real_score_def DEFAULT_SCORE_def)
next
  case (Suc m)
  then have "score_field ((real_apply_peer_action a ^^ n) (default_real_score now))
      = effective_score (lighthouse_score ((real_apply_peer_action a ^^ n) (default_real_score now)))
          0 False"
    by (simp add: cached_apply_peer_action gossip_repeat default_real_score_def DEFAULT_SCORE_def)
  then show ?thesis
    by (simp add: lighthouse_repeat default_real_score_def DEFAULT_SCORE_def effective_score_def
        gossip_part_def)
qed

lemma apply_peer_action_repeat:
  "(apply_peer_action a ^^ n) (Real s) = Real ((real_apply_peer_action a ^^ n) s)"
  by (induction n) simp_all

section \<open>Properties\<close>

text \<open>A new peer that is reported \<open>n\<close> times with the same action and nothing else is banned exactly
  when the penalties add up to 50 and disconnected exactly when they add up to 20: one fatal action, 5
  low-, 10 mid- or 50 high-tolerance errors ban it, as the comments on the actions announce.\<close>
theorem repeated_actions_state:
  "state_of_score ((apply_peer_action a ^^ n) (default_score now)) =
     (if penalty a * real n \<ge> 50 then score_state.Banned
      else if penalty a * real n \<ge> 20 then score_state.Disconnected else Healthy)"
  by (simp add: default_score_def apply_peer_action_repeat state_of_Real score_repeat_default)


text \<open>C12. A report that bans a peer freezes its score: until twelve hours after its last update
  neither the periodic decay nor a gossipsub score changes anything about it.\<close>
theorem ban_freezes_score:
  assumes "score_field s > -50"
    and "state_of_score (apply_peer_action a (Real s)) = score_state.Banned"
    and "now < last_updated s + BANNED_BEFORE_DECAY"
  shows "update_score now (apply_peer_action a (Real s)) = apply_peer_action a (Real s)
     \<and> update_gossipsub_score now x ignore (apply_peer_action a (Real s))
           = apply_peer_action a (Real s)"
proof -
  let ?t = "real_apply_peer_action a s"
  have "\<exists>s'. ?t = update_state s' \<and> last_updated s' = last_updated s \<and> score_field s' = score_field s"
    by (cases a) (auto simp: add_score_def set_lighthouse_score_def Let_def intro!: exI)
  then have "last_updated ?t = last_updated s + BANNED_BEFORE_DECAY"
    using assms(1,2) by (auto simp: last_updated_update_state state_of_Real split: if_splits)
  with assms(3) show ?thesis
    by (simp_all add: update_at_def checked_duration_since_def real_update_gossipsub_score_def)
qed

lemma ban_freezes_score_witness:
  "update_score 5 (apply_peer_action Fatal (Real (default_real_score 0)))
     = apply_peer_action Fatal (Real (default_real_score 0))"
  by (rule ban_freezes_score [THEN conjunct1])
     (simp_all add: default_real_score_def DEFAULT_SCORE_def state_of_Real set_lighthouse_score_def
       effective_score_def MIN_SCORE_def BANNED_BEFORE_DECAY_def from_secs_def nanos_per_sec_def)

text \<open>A gossipsub score below the threshold at which gossipsub ignores the peer does disconnect it by itself.\<close>

lemma gossip_score_disconnects:
  "state_of_score (update_gossipsub_score now (-17000) False (default_score now)) = score_state.Disconnected"
  by (simp add: default_score_def default_real_score_def real_update_gossipsub_score_def update_state_def
      recompute_score_def effective_score_def state_of_Real score_consts Let_def)

text \<open>Between two updates \<open>n\<close> half-lives apart the lighthouse score is divided by \<open>2 ^ n\<close>.\<close>
theorem score_halflife:
  "lighthouse_score (update_at (last_updated s + from_secs (600 * n)) s) = lighthouse_score s / 2 ^ n"
  by (simp add: update_at_def checked_duration_since_def decay_factor_halves power_one_over)

text \<open>The periodic update never moves a peer to a worse state (from healthy to disconnected or
  banned): its doc comment, which says that the numeric score can only increase, holds of the state.\<close>
theorem update_never_worsens:
  assumes "score_ok s"
  shows "state_of_score (update_score now s) \<le> state_of_score s"
  using assms by (rule sc.tick_better)

lemma update_never_worsens_witness:
  "state_of_score (update_score 7 (default_score 3)) \<le> state_of_score (default_score 3)"
  by (rule update_never_worsens) (simp add: default_score_def)

text \<open>The same update can lower the numeric score: when the lighthouse score of a banned peer decays
  past -60 its negative gossipsub score counts again.\<close>
theorem update_can_lower_score:
  "let s = \<lparr>lighthouse_score = -60, gossipsub_score = -16000,
             ignore_negative_gossipsub_score = False, score_field = -60, last_updated = 0\<rparr>
   in score_ok (Real s) \<and> score_field (update_at (from_secs 1) s) < score_field s"
proof -
  have d: "decay_factor 1 < 1" "0 < decay_factor 1"
    using decay_factor_bounds by (simp_all add: decay_factor_def HALFLIFE_DECAY_def SCORE_HALFLIFE_def)
  have "ln (2::real) \<le> 1" using ln_le_minus_one [of 2] by simp
  then have "1 - 1 / 600 \<le> 1 + HALFLIFE_DECAY"
    by (simp add: HALFLIFE_DECAY_def SCORE_HALFLIFE_def)
  also have "\<dots> \<le> decay_factor 1"
    using exp_ge_add_one_self [of HALFLIFE_DECAY] by (simp add: decay_factor_def)
  finally have "19 * 60 / 19 - 1 / 10 \<le> 60 * decay_factor 1" by simp
  with d show ?thesis
    by (simp add: Let_def real_score_ok_def effective_score_def gossip_part_def update_at_def
        checked_duration_since_def)
qed

end
