(* ===== verification/Client.thy ===== *)
theory Client
  imports Rust_Strings
begin

text \<open>
  \<open>peer_manager/peerdb/client.rs\<close>: the client a peer runs, guessed from its identify agent string, and
  its display.
\<close>

datatype client_kind = Lighthouse | Nimbus | Teku | Prysm | Lodestar | UnknownClient

record client =
  kind :: client_kind
  version :: string
  os_version :: string
  protocol_version :: string
  agent_string :: "string option"

definition default_client :: client where
  "default_client = \<lparr> kind = UnknownClient, version = ''unknown'', os_version = ''unknown'',
     protocol_version = ''unknown'', agent_string = None \<rparr>"

text \<open>The two ways the pieces after the client's name are read: the version and the operating system
  follow the name directly, or one piece (the commit or codename) is skipped first.\<close>

fun version_os :: "string list \<Rightarrow> string \<times> string" where
  "version_os [] = (''unknown'', ''unknown'')"
| "version_os [v] = (v, ''unknown'')"
| "version_os (v # os # _) = (v, os)"

fun skip_version_os :: "string list \<Rightarrow> string \<times> string" where
  "skip_version_os [] = (''unknown'', ''unknown'')"
| "skip_version_os (_ # ps) = version_os ps"

definition client_from_agent_version :: "string \<Rightarrow> client_kind \<times> string \<times> string" where
  "client_from_agent_version agent_version =
     (case str_split CHR ''/'' agent_version of
        [] \<Rightarrow> (UnknownClient, ''unknown'', ''unknown'')
      | name # ps \<Rightarrow>
          if name = ''Lighthouse'' then (Lighthouse, version_os ps)
          else if name = ''teku'' then (Teku, skip_version_os ps)
          else if name = ''github.com'' then (Prysm, ''unknown'', ''unknown'')
          else if name = ''Prysm'' then (Prysm, skip_version_os ps)
          else if name = ''nimbus'' then (Nimbus, skip_version_os ps)
          else if name = ''nim-libp2p'' then (Nimbus, version_os ps)
          else if name = ''js-libp2p'' \<or> name = ''lodestar'' then (Lodestar, version_os ps)
          else (UnknownClient, ''unknown'', ''unknown''))"

record identify_info =
  agent_version :: string
  identify_protocol_version :: string

definition client_from_identify_info :: "identify_info \<Rightarrow> client" where
  "client_from_identify_info info =
     (let (k, v, os) = client_from_agent_version (agent_version info) in
      \<lparr> kind = k, version = v, os_version = os,
        protocol_version = identify_protocol_version info,
        agent_string = Some (agent_version info) \<rparr>)"

fun client_kind_str :: "client_kind \<Rightarrow> string" where
  "client_kind_str Lighthouse = ''Lighthouse''"
| "client_kind_str Nimbus = ''Nimbus''"
| "client_kind_str Teku = ''Teku''"
| "client_kind_str Prysm = ''Prysm''"
| "client_kind_str Lodestar = ''Lodestar''"
| "client_kind_str UnknownClient = ''Unknown''"

definition client_display :: "client \<Rightarrow> string" where
  "client_display c = (case kind c of
       Lodestar \<Rightarrow> ''Lodestar: version: '' @ version c
     | UnknownClient \<Rightarrow>
         (case agent_string c of Some a \<Rightarrow> ''Unknown: '' @ a | None \<Rightarrow> ''Unknown'')
     | k \<Rightarrow> client_kind_str k @ '': version: '' @ version c @ '', os_version: '' @ os_version c)"

text \<open>An agent string assembled from pieces without a slash is read back piece by piece.\<close>

lemma client_from_agent_join:
  assumes "\<And>p. p \<in> set (name # ps) \<Longrightarrow> CHR ''/'' \<notin> set p"
  shows "str_split CHR ''/'' (str_join CHR ''/'' (name # ps)) = name # ps"
  using assms by (intro str_split_join) auto

text \<open>A client that announces itself in its documented form is recognised with the version and
  operating system it names: Lighthouse and nim-libp2p put them right after the name, Teku, Prysm and
  Nimbus after one further piece.\<close>
theorem client_recognised:
  assumes "CHR ''/'' \<notin> set v" and "CHR ''/'' \<notin> set os" and "CHR ''/'' \<notin> set extra"
  shows "client_from_agent_version (str_join CHR ''/'' [''Lighthouse'', v, os]) = (Lighthouse, v, os)
    \<and> client_from_agent_version (str_join CHR ''/'' [''nim-libp2p'', v, os]) = (Nimbus, v, os)
    \<and> client_from_agent_version (str_join CHR ''/'' [''teku'', extra, v, os]) = (Teku, v, os)
    \<and> client_from_agent_version (str_join CHR ''/'' [''Prysm'', extra, v, os]) = (Prysm, v, os)
    \<and> client_from_agent_version (str_join CHR ''/'' [''nimbus'', extra, v, os]) = (Nimbus, v, os)"
  unfolding client_from_agent_version_def
  by (intro conjI; subst client_from_agent_join; use assms in force)

lemma client_recognised_witness:
  "client_from_agent_version ''teku/teku/v21.8/linux'' = (Teku, ''v21.8'', ''linux'')"
  using client_recognised [of "''v21.8''" "''linux''" "''teku''"] by simp

end
