(* ===== verification/Net_Types.thy ===== *)
theory Net_Types
  imports Rust_Strings
begin

text \<open>
  Addresses, subnets and synchronisation states: the data of \<open>types/subnet.rs\<close>,
  \<open>types/sync_state.rs\<close> and \<open>peer_manager/peerdb/sync_status.rs\<close>, and the parts of the libp2p address
  that the program takes apart.
\<close>

type_synonym u8 = "8 word"
type_synonym u64 = "64 word"

section \<open>Addresses\<close>

datatype ip_addr = V4 "32 word" | V6 "128 word"

type_synonym port = "16 word"
type_synonym socket_addr = "ip_addr \<times> port"

text \<open>A peer id is an opaque name.  A multiaddress is the list of its protocols; the ones the code does not look at are kept by
  name.\<close>

type_synonym peer_id = nat

datatype protocol = Ip4 "32 word" | Ip6 "128 word" | Tcp port | Udp port | P2p peer_id
  | OtherProtocol string

type_synonym multiaddr = "protocol list"

section \<open>Subnets\<close>

datatype subnet = Attestation nat | SyncCommittee nat

record subnet_discovery =
  sd_subnet :: subnet
  sd_min_ttl :: "instant option"

text \<open>How many peers a subnet should have.\<close>

definition TARGET_SUBNET_PEERS :: nat where "TARGET_SUBNET_PEERS = 6"

text \<open>Two discoveries are equal when their subnets are.\<close>

definition subnet_discovery_eq :: "subnet_discovery \<Rightarrow> subnet_discovery \<Rightarrow> bool" where
  "subnet_discovery_eq a b = (sd_subnet a = sd_subnet b)"

section \<open>The synchronisation status of a peer\<close>

type_synonym slot = nat
type_synonym epoch = nat
type_synonym hash256 = "256 word"

record sync_info =
  si_head_slot :: slot
  si_head_root :: hash256
  si_finalized_epoch :: epoch
  si_finalized_root :: hash256

datatype sync_status = Synced sync_info | Advanced sync_info | Behind sync_info | IrrelevantPeer
  | UnknownStatus

fun sync_status_eq :: "sync_status \<Rightarrow> sync_status \<Rightarrow> bool" where
  "sync_status_eq (Synced _) (Synced _) = True"
| "sync_status_eq (Advanced _) (Advanced _) = True"
| "sync_status_eq (Behind _) (Behind _) = True"
| "sync_status_eq IrrelevantPeer IrrelevantPeer = True"
| "sync_status_eq UnknownStatus UnknownStatus = True"
| "sync_status_eq _ _ = False"

fun status_is_advanced :: "sync_status \<Rightarrow> bool" where
  "status_is_advanced (Advanced _) = True" | "status_is_advanced _ = False"

fun status_is_synced :: "sync_status \<Rightarrow> bool" where
  "status_is_synced (Synced _) = True" | "status_is_synced _ = False"

fun status_is_behind :: "sync_status \<Rightarrow> bool" where
  "status_is_behind (Behind _) = True" | "status_is_behind _ = False"

text \<open>The new status is always stored; the result says whether it is of another kind.\<close>

definition sync_status_update :: "sync_status \<Rightarrow> sync_status \<Rightarrow> sync_status \<times> bool" where
  "sync_status_update old new = (new, \<not> sync_status_eq old new)"

fun sync_status_str :: "sync_status \<Rightarrow> string" where
  "sync_status_str (Advanced _) = ''Advanced''"
| "sync_status_str (Behind _) = ''Behind''"
| "sync_status_str (Synced _) = ''Synced''"
| "sync_status_str UnknownStatus = ''Unknown''"
| "sync_status_str IrrelevantPeer = ''Irrelevant''"

lemma sync_status_eq_str: "sync_status_eq a b \<longleftrightarrow> sync_status_str a = sync_status_str b"
  by (cases a; cases b) auto

section \<open>The synchronisation state of the node\<close>

datatype sync_state =
    SyncingFinalized slot slot
  | SyncingHead slot slot
  | BackFillSyncing nat nat
  | SyncTransition
  | NodeSynced
  | Stalled

datatype back_fill_state = Paused | Syncing | Completed | NotRequired | Failed

fun sync_state_eq :: "sync_state \<Rightarrow> sync_state \<Rightarrow> bool" where
  "sync_state_eq (SyncingFinalized _ _) (SyncingFinalized _ _) = True"
| "sync_state_eq (SyncingHead _ _) (SyncingHead _ _) = True"
| "sync_state_eq NodeSynced NodeSynced = True"
| "sync_state_eq Stalled Stalled = True"
| "sync_state_eq SyncTransition SyncTransition = True"
| "sync_state_eq (BackFillSyncing _ _) (BackFillSyncing _ _) = True"
| "sync_state_eq _ _ = False"

fun node_is_syncing :: "sync_state \<Rightarrow> bool" where
  "node_is_syncing (SyncingFinalized _ _) = True"
| "node_is_syncing (SyncingHead _ _) = True"
| "node_is_syncing SyncTransition = True"
| "node_is_syncing (BackFillSyncing _ _) = False"
| "node_is_syncing NodeSynced = False"
| "node_is_syncing Stalled = False"

fun node_is_synced :: "sync_state \<Rightarrow> bool" where
  "node_is_synced NodeSynced = True"
| "node_is_synced (BackFillSyncing _ _) = True"
| "node_is_synced _ = False"

fun sync_state_display :: "sync_state \<Rightarrow> string" where
  "sync_state_display (SyncingFinalized _ _) = ''Syncing Finalized Chain''"
| "sync_state_display (SyncingHead _ _) = ''Syncing Head Chain''"
| "sync_state_display NodeSynced = ''Synced''"
| "sync_state_display Stalled = ''Stalled''"
| "sync_state_display SyncTransition = ''Evaluating known peers''"
| "sync_state_display (BackFillSyncing _ _) = ''Syncing Historical Blocks''"

lemma syncing_not_synced: "node_is_syncing s \<Longrightarrow> \<not> node_is_synced s"
  by (cases s) auto

end
