(* ===== verification/Enr.thy ===== *)
theory Enr
  imports Net_Types
begin

text \<open>
  \<open>discovery/enr.rs\<close> and \<open>discovery/subnet_predicate.rs\<close>: what the program reads from a node record,
  when it takes the record stored on disk instead of the one it has built, and which records serve a
  subnet.  The bit vectors of the SSZ library and their decoder are a parameter.
\<close>

section \<open>Bit vectors\<close>

text \<open>A bit vector is the sequence of its bits.  The operations of the SSZ library on it, and the
  decoders of the two subnet fields, are kept together as one argument of the definitions that use
  them; \<open>ssz_laws\<close> is their documented behaviour.\<close>

type_synonym bitfield = "bool list"
type_synonym bytes = "8 word list"

text \<open>The \<open>Debug\<close> format of an array of bytes.\<close>

fun show_items :: "u8 list \<Rightarrow> string" where
  "show_items [] = []"
| "show_items [b] = show_nat (unat b)"
| "show_items (b # bs) = show_nat (unat b) @ '', '' @ show_items bs"

definition show_bytes :: "bytes \<Rightarrow> string" where
  "show_bytes bs = ''['' @ show_items bs @ '']''"

definition as_bytes :: "string \<Rightarrow> bytes" where "as_bytes s = map of_char s"

record ssz_api =
  bv_get :: "bitfield \<Rightarrow> nat \<Rightarrow> bool option"
  bv_num_set_bits :: "bitfield \<Rightarrow> nat"
  bv_highest_set_bit :: "bitfield \<Rightarrow> nat option"
  bv_is_zero :: "bitfield \<Rightarrow> bool"
  decode_attnets :: "bytes \<Rightarrow> bitfield option"
  decode_syncnets :: "bytes \<Rightarrow> bitfield option"

definition ssz_laws :: "ssz_api \<Rightarrow> bool" where
  "ssz_laws api \<longleftrightarrow>
     (\<forall>b i. bv_get api b i = (if i < length b then Some (b ! i) else None)) \<and>
     (\<forall>b. bv_num_set_bits api b = card {i. i < length b \<and> b ! i}) \<and>
     (\<forall>b. bv_highest_set_bit api b = None \<longleftrightarrow> (\<forall>i < length b. \<not> b ! i)) \<and>
     (\<forall>b h. bv_highest_set_bit api b = Some h \<longrightarrow>
        h < length b \<and> b ! h \<and> (\<forall>i < length b. b ! i \<longrightarrow> i \<le> h)) \<and>
     (\<forall>b. bv_is_zero api b \<longleftrightarrow> (\<forall>i < length b. \<not> b ! i))"

text \<open>An instance of the operations, used where a hypothesis about them has to be shown to hold.\<close>

definition bit_indices :: "bitfield \<Rightarrow> nat list" where
  "bit_indices b = filter (\<lambda>i. b ! i) [0..<length b]"

definition list_ssz :: ssz_api where
  "list_ssz = \<lparr> bv_get = (\<lambda>b i. if i < length b then Some (b ! i) else None),
     bv_num_set_bits = (\<lambda>b. length (bit_indices b)),
     bv_highest_set_bit = (\<lambda>b. if bit_indices b = [] then None else Some (last (bit_indices b))),
     bv_is_zero = (\<lambda>b. bit_indices b = []),
     decode_attnets = (\<lambda>bs. Some (map (\<lambda>w. w \<noteq> 0) bs)),
     decode_syncnets = (\<lambda>bs. Some (map (\<lambda>w. w \<noteq> 0) bs)) \<rparr>"

lemma set_bit_indices: "set (bit_indices b) = {i. i < length b \<and> b ! i}"
  by (auto simp: bit_indices_def)

lemma distinct_bit_indices: "distinct (bit_indices b)"
  by (simp add: bit_indices_def)

lemma sorted_bit_indices: "sorted (bit_indices b)"
  by (simp add: bit_indices_def sorted_wrt_filter)

lemma bit_indices_Nil: "bit_indices b = [] \<longleftrightarrow> (\<forall>i < length b. \<not> b ! i)"
  by (auto simp: bit_indices_def filter_empty_conv)

lemma last_sorted_ge: "sorted (xs::nat list) \<Longrightarrow> x \<in> set xs \<Longrightarrow> x \<le> last xs"
  by (induction xs) (auto split: if_splits)

lemma list_ssz_laws: "ssz_laws list_ssz"
proof -
  have card: "length (bit_indices b) = card {i. i < length b \<and> b ! i}" for b
    using distinct_card [OF distinct_bit_indices, of b] by (simp add: set_bit_indices)
  have top: "last (bit_indices b) < length b \<and> b ! last (bit_indices b)
     \<and> (\<forall>i < length b. b ! i \<longrightarrow> i \<le> last (bit_indices b))" if "bit_indices b \<noteq> []" for b
    using last_in_set [OF that] last_sorted_ge [OF sorted_bit_indices] set_bit_indices [of b] by blast
  show ?thesis
    unfolding ssz_laws_def list_ssz_def using card top by (simp add: bit_indices_Nil)
qed

section \<open>Records\<close>

text \<open>The parts of a node record the program reads: its identity, sequence number, sockets and the
  other keys as raw bytes.\<close>

record enr =
  enr_node_id :: nat
  enr_seq :: "64 word"
  enr_ip4 :: "32 word option"
  enr_tcp4 :: "port option"
  enr_udp4 :: "port option"
  enr_ip6 :: "128 word option"
  enr_tcp6 :: "port option"
  enr_udp6 :: "port option"
  enr_kv :: "(string, bytes) hmap"

definition ETH2_ENR_KEY :: string where "ETH2_ENR_KEY = ''eth2''"
definition ATTESTATION_BITFIELD_ENR_KEY :: string where
  "ATTESTATION_BITFIELD_ENR_KEY = ''attnets''"
definition SYNC_COMMITTEE_BITFIELD_ENR_KEY :: string where
  "SYNC_COMMITTEE_BITFIELD_ENR_KEY = ''syncnets''"

definition attestation_bitfield :: "ssz_api \<Rightarrow> enr \<Rightarrow> string + bitfield" where
  "attestation_bitfield api e = (case hm_get (enr_kv e) ATTESTATION_BITFIELD_ENR_KEY of
       None \<Rightarrow> Inl ''ENR attestation bitfield non-existent''
     | Some bs \<Rightarrow> (case decode_attnets api bs of
           None \<Rightarrow> Inl ''Could not decode the ENR attnets bitfield''
         | Some b \<Rightarrow> Inr b))"

definition sync_committee_bitfield :: "ssz_api \<Rightarrow> enr \<Rightarrow> string + bitfield" where
  "sync_committee_bitfield api e = (case hm_get (enr_kv e) SYNC_COMMITTEE_BITFIELD_ENR_KEY of
       None \<Rightarrow> Inl ''ENR sync committee bitfield non-existent''
     | Some bs \<Rightarrow> (case decode_syncnets api bs of
           None \<Rightarrow> Inl ''Could not decode the ENR syncnets bitfield''
         | Some b \<Rightarrow> Inr b))"

text \<open>\<open>BitVector::get(i).unwrap_or(false)\<close>.\<close>

definition bit_set :: "ssz_api \<Rightarrow> bitfield \<Rightarrow> nat \<Rightarrow> bool" where
  "bit_set api b i = (case bv_get api b i of Some x \<Rightarrow> x | None \<Rightarrow> False)"

lemma bit_set_laws: "ssz_laws api \<Longrightarrow> bit_set api b i \<longleftrightarrow> i < length b \<and> b ! i"
  by (simp add: ssz_laws_def bit_set_def)

definition subnet_predicate :: "ssz_api \<Rightarrow> subnet list \<Rightarrow> enr \<Rightarrow> bool" where
  "subnet_predicate api subnets e = (case attestation_bitfield api e of
       Inl _ \<Rightarrow> False
     | Inr att \<Rightarrow> list_ex (\<lambda>s. case s of
           Attestation i \<Rightarrow> bit_set api att i
         | SyncCommittee i \<Rightarrow> (case sync_committee_bitfield api e of
               Inl _ \<Rightarrow> False | Inr b \<Rightarrow> bit_set api b i)) subnets)"

section \<open>The record on disk\<close>

definition compare_enr :: "enr \<Rightarrow> enr \<Rightarrow> bool" where
  "compare_enr local disk =
     ((enr_ip4 local = None \<or> enr_ip4 local = enr_ip4 disk)
      \<and> enr_tcp4 local = enr_tcp4 disk
      \<and> hm_get (enr_kv local) ETH2_ENR_KEY = hm_get (enr_kv disk) ETH2_ENR_KEY
      \<and> (enr_udp4 local = None \<or> enr_udp4 local = enr_udp4 disk)
      \<and> hm_get (enr_kv local) ATTESTATION_BITFIELD_ENR_KEY
          = hm_get (enr_kv disk) ATTESTATION_BITFIELD_ENR_KEY
      \<and> hm_get (enr_kv local) SYNC_COMMITTEE_BITFIELD_ENR_KEY
          = hm_get (enr_kv disk) SYNC_COMMITTEE_BITFIELD_ENR_KEY)"

text \<open>The file, if any, is what decoding it gives; setting the sequence number signs the record anew and
  may fail, which is the parameter \<open>set_seq\<close>.  The result is the record to use, and whether it is
  written back to disk.\<close>

definition use_or_load_enr ::
  "(enr \<Rightarrow> 64 word \<Rightarrow> enr option) \<Rightarrow> enr \<Rightarrow> enr option \<Rightarrow> string + (enr \<times> bool)" where
  "use_or_load_enr set_seq local disk = (case disk of
       None \<Rightarrow> Inr (local, True)
     | Some d \<Rightarrow>
         if enr_node_id local \<noteq> enr_node_id d then Inr (local, True)
         else if compare_enr local d then Inr (d, False)
         else if enr_seq d = - 1
         then Inl ''ENR sequence number on file is too large. Remove it to generate a new NodeId''
         else (case set_seq local (enr_seq d + 1) of
                 None \<Rightarrow> Inl ''Could not update ENR sequence number''
               | Some e \<Rightarrow> Inr (e, True)))"

text \<open>When the record on disk belongs to this node, the record the node goes on with never has a
  lower sequence number than the one it published before: the disk record is kept as it is, or the new
  record is numbered one above it.\<close>
theorem enr_sequence_grows:
  assumes set_seq: "\<And>e n e'. set_seq e n = Some e' \<Longrightarrow> enr_seq e' = n"
    and "enr_node_id local = enr_node_id d"
    and "use_or_load_enr set_seq local (Some d) = Inr (e, saved)"
  shows "e = d \<and> \<not> saved \<and> compare_enr local d
     \<or> enr_seq d < enr_seq e \<and> unat (enr_seq e) = unat (enr_seq d) + 1 \<and> saved"
proof (cases "compare_enr local d")
  case True
  with assms show ?thesis by (simp add: use_or_load_enr_def)
next
  case False
  with assms(2,3) have top: "enr_seq d \<noteq> - 1" and e: "set_seq local (enr_seq d + 1) = Some e" "saved"
    by (auto simp: use_or_load_enr_def split: if_splits option.splits)
  have "1 + enr_seq d \<noteq> 0" using top by (metis add.commute eq_neg_iff_add_eq_0)
  then have "unat (enr_seq d + 1) = unat (enr_seq d) + 1"
    using unatSuc [of "enr_seq d"] by (simp add: add.commute)
  with set_seq [OF e(1)] e(2) show ?thesis by (simp add: word_less_nat_alt)
qed

lemma enr_sequence_grows_witness:
  "\<exists>e. use_or_load_enr (\<lambda>e n. Some (e\<lparr>enr_seq := n\<rparr>))
          \<lparr>enr_node_id = 1, enr_seq = 1, enr_ip4 = None, enr_tcp4 = Some 9000, enr_udp4 = None,
           enr_ip6 = None, enr_tcp6 = None, enr_udp6 = None,
           enr_kv = []\<rparr>
          (Some \<lparr>enr_node_id = 1, enr_seq = 7, enr_ip4 = None, enr_tcp4 = Some 9001, enr_udp4 = None,
           enr_ip6 = None, enr_tcp6 = None, enr_udp6 = None,
           enr_kv = []\<rparr>) = Inr (e, True) \<and> unat (enr_seq e) = 8"
proof -
  let ?l = "\<lparr>enr_node_id = 1, enr_seq = 1, enr_ip4 = None, enr_tcp4 = Some 9000, enr_udp4 = None,
           enr_ip6 = None, enr_tcp6 = None, enr_udp6 = None,
             enr_kv = []\<rparr>"
  let ?d = "\<lparr>enr_node_id = 1, enr_seq = 7, enr_ip4 = None, enr_tcp4 = Some 9001, enr_udp4 = None,
           enr_ip6 = None, enr_tcp6 = None, enr_udp6 = None,
             enr_kv = []\<rparr>"
  let ?f = "\<lambda>e n. Some (e\<lparr>enr_seq := n\<rparr>)"
  have "use_or_load_enr ?f ?l (Some ?d) = Inr (?l\<lparr>enr_seq := 8\<rparr>, True)"
    by (simp add: use_or_load_enr_def compare_enr_def)
  moreover from this have "unat (enr_seq (?l\<lparr>enr_seq := 8\<rparr>)) = unat (enr_seq ?d) + 1"
    using enr_sequence_grows [of ?f ?l ?d "?l\<lparr>enr_seq := 8\<rparr>" True] by auto
  ultimately show ?thesis by auto
qed

section \<open>Addresses\<close>

text \<open>\<open>discovery/enr_ext.rs\<close>: the addresses a record gives, the IPv4 ones first and UDP before TCP.  The peer
  id derived from the public key is an argument.\<close>

definition enr_addr :: "protocol option \<Rightarrow> protocol option \<Rightarrow> protocol list \<Rightarrow> multiaddr list" where
  "enr_addr ip port suffix = (case (ip, port) of
       (Some i, Some q) \<Rightarrow> [[i, q] @ suffix]
     | _ \<Rightarrow> [])"

abbreviation "ip4_of e \<equiv> map_option Ip4 (enr_ip4 e)"
abbreviation "ip6_of e \<equiv> map_option Ip6 (enr_ip6 e)"

definition enr_multiaddr :: "enr \<Rightarrow> multiaddr list" where
  "enr_multiaddr e =
     enr_addr (ip4_of e) (map_option Udp (enr_udp4 e)) [] @ enr_addr (ip4_of e) (map_option Tcp (enr_tcp4 e)) []
     @ enr_addr (ip6_of e) (map_option Udp (enr_udp6 e)) [] @ enr_addr (ip6_of e) (map_option Tcp (enr_tcp6 e)) []"

definition enr_multiaddr_p2p :: "peer_id \<Rightarrow> enr \<Rightarrow> multiaddr list" where
  "enr_multiaddr_p2p p e =
     enr_addr (ip4_of e) (map_option Udp (enr_udp4 e)) [P2p p]
     @ enr_addr (ip4_of e) (map_option Tcp (enr_tcp4 e)) [P2p p]
     @ enr_addr (ip6_of e) (map_option Udp (enr_udp6 e)) [P2p p]
     @ enr_addr (ip6_of e) (map_option Tcp (enr_tcp6 e)) [P2p p]"

definition enr_multiaddr_p2p_tcp :: "peer_id \<Rightarrow> enr \<Rightarrow> multiaddr list" where
  "enr_multiaddr_p2p_tcp p e = enr_addr (ip4_of e) (map_option Tcp (enr_tcp4 e)) [P2p p]
     @ enr_addr (ip6_of e) (map_option Tcp (enr_tcp6 e)) [P2p p]"

definition enr_multiaddr_p2p_udp :: "peer_id \<Rightarrow> enr \<Rightarrow> multiaddr list" where
  "enr_multiaddr_p2p_udp p e = enr_addr (ip4_of e) (map_option Udp (enr_udp4 e)) [P2p p]
     @ enr_addr (ip6_of e) (map_option Udp (enr_udp6 e)) [P2p p]"

definition enr_multiaddr_tcp :: "enr \<Rightarrow> multiaddr list" where
  "enr_multiaddr_tcp e = enr_addr (ip4_of e) (map_option Tcp (enr_tcp4 e)) []
     @ enr_addr (ip6_of e) (map_option Tcp (enr_tcp6 e)) []"

definition has_tcp :: "multiaddr \<Rightarrow> bool" where
  "has_tcp ma = list_ex (\<lambda>q. case q of Tcp _ \<Rightarrow> True | _ \<Rightarrow> False) ma"

definition has_udp :: "multiaddr \<Rightarrow> bool" where
  "has_udp ma = list_ex (\<lambda>q. case q of Udp _ \<Rightarrow> True | _ \<Rightarrow> False) ma"

lemma enr_multiaddrs_agree:
  "enr_multiaddr_p2p p e = map (\<lambda>ma. ma @ [P2p p]) (enr_multiaddr e)
   \<and> enr_multiaddr_p2p_tcp p e = filter has_tcp (enr_multiaddr_p2p p e)
   \<and> enr_multiaddr_p2p_udp p e = filter has_udp (enr_multiaddr_p2p p e)
   \<and> enr_multiaddr_tcp e = filter has_tcp (enr_multiaddr e)"
  by (simp add: enr_multiaddr_p2p_def enr_multiaddr_def enr_multiaddr_p2p_tcp_def enr_multiaddr_p2p_udp_def
      enr_multiaddr_tcp_def enr_addr_def has_tcp_def has_udp_def split: option.split)

end
