(* ===== verification/Rpc_Methods.thy ===== *)
theory Rpc_Methods
  imports Enr
begin

text \<open>
  \<open>rpc/methods.rs\<close>: the messages of the request/response protocols, the reasons for saying goodbye, and
  the codes of the responses.  Blocks are of an arbitrary type.
\<close>

section \<open>Error texts\<close>

text \<open>An error travels as a list of at most 256 bytes; a longer text is cut.  Read as a text it loses all characters
  of the class of control characters, which a regular expression finds, and its invalid UTF-8.\<close>

type_synonym error_type = bytes

definition MAX_ERROR_LEN :: nat where "MAX_ERROR_LEN = 256"

definition error_type_from :: "string \<Rightarrow> error_type" where
  "error_type_from s = take MAX_ERROR_LEN (as_bytes s)"

record text_api =
  remove_control :: "bytes \<Rightarrow> bytes"
  utf8_lossy :: "bytes \<Rightarrow> string"

definition error_type_to_string :: "text_api \<Rightarrow> error_type \<Rightarrow> string" where
  "error_type_to_string T e = utf8_lossy T (remove_control T e)"

text \<open>A printable text within the limit arrives as it was written.\<close>

definition text_laws :: "text_api \<Rightarrow> bool" where
  "text_laws T \<longleftrightarrow> (\<forall>s. list_all (\<lambda>c. 32 \<le> (of_char c :: nat) \<and> (of_char c :: nat) < 127) s \<longrightarrow>
     remove_control T (as_bytes s) = as_bytes s \<and> utf8_lossy T (as_bytes s) = s)"

lemma error_text_exact:
  assumes "text_laws T" and "list_all (\<lambda>c. 32 \<le> (of_char c :: nat) \<and> (of_char c :: nat) < 127) s"
    and "length s \<le> MAX_ERROR_LEN"
  shows "error_type_to_string T (error_type_from s) = s"
  using assms by (simp add: text_laws_def error_type_to_string_def error_type_from_def as_bytes_def)

definition ascii_texts :: text_api where
  "ascii_texts = \<lparr> remove_control = filter (\<lambda>b. 32 \<le> b \<and> b \<noteq> 127), utf8_lossy = map (\<lambda>b. char_of (unat b)) \<rparr>"

lemma printable_char:
  assumes "32 \<le> (of_char c :: nat)" and "(of_char c :: nat) < 127"
  shows "32 \<le> (of_char c :: u8) \<and> (of_char c :: u8) \<noteq> 127 \<and> char_of (unat (of_char c :: u8)) = c"
proof -
  have "unat (of_char c :: u8) = of_char c"
    using assms of_nat_of_char [of c, where ?'a = "8 word", symmetric] by (simp add: unsigned_of_nat take_bit_nat_eq_self)
  then show ?thesis using assms by (auto simp: word_le_nat_alt dest: arg_cong [where f = unat])
qed

lemma ascii_text_laws: "text_laws ascii_texts"
  unfolding text_laws_def
proof (intro allI impI)
  fix s assume "list_all (\<lambda>c. 32 \<le> (of_char c :: nat) \<and> (of_char c :: nat) < 127) s"
  then show "remove_control ascii_texts (as_bytes s) = as_bytes s \<and> utf8_lossy ascii_texts (as_bytes s) = s"
    by (induction s) (simp_all add: ascii_texts_def as_bytes_def printable_char)
qed

section \<open>Messages\<close>

record status_message =
  sm_fork_digest :: "8 word list"
  sm_finalized_root :: hash256
  sm_finalized_epoch :: epoch
  sm_head_root :: hash256
  sm_head_slot :: slot

record ping =
  ping_data :: u64

text \<open>The first version of the metadata has no synchronisation committee field.\<close>

record meta_data =
  seq_number :: u64
  attnets :: bitfield
  syncnets :: "bitfield option"

record blocks_by_range_request =
  range_start_slot :: u64
  range_count :: u64

record old_blocks_by_range_request =
  old_start_slot :: u64
  old_count :: u64
  old_step :: u64

record blocks_by_root_request =
  block_roots :: "hash256 list"

section \<open>Goodbye reasons\<close>

datatype goodbye_reason =
    ClientShutdown | IrrelevantNetwork | Fault | UnableToVerifyNetwork | TooManyPeers
  | GoodbyeBadScore | GoodbyeBanned | GoodbyeBannedIP | GoodbyeUnknown

definition goodbye_from_u64 :: "u64 \<Rightarrow> goodbye_reason" where
  "goodbye_from_u64 n =
     (if n = 1 then ClientShutdown
      else if n = 2 then IrrelevantNetwork
      else if n = 3 then Fault
      else if n = 128 then UnableToVerifyNetwork
      else if n = 129 then TooManyPeers
      else if n = 250 then GoodbyeBadScore
      else if n = 251 then GoodbyeBanned
      else if n = 252 then GoodbyeBannedIP
      else GoodbyeUnknown)"

fun goodbye_to_u64 :: "goodbye_reason \<Rightarrow> u64" where
  "goodbye_to_u64 ClientShutdown = 1"
| "goodbye_to_u64 IrrelevantNetwork = 2"
| "goodbye_to_u64 Fault = 3"
| "goodbye_to_u64 UnableToVerifyNetwork = 128"
| "goodbye_to_u64 TooManyPeers = 129"
| "goodbye_to_u64 GoodbyeBadScore = 250"
| "goodbye_to_u64 GoodbyeBanned = 251"
| "goodbye_to_u64 GoodbyeBannedIP = 252"
| "goodbye_to_u64 GoodbyeUnknown = 0"

fun goodbye_display :: "goodbye_reason \<Rightarrow> string" where
  "goodbye_display ClientShutdown = ''Client Shutdown''"
| "goodbye_display IrrelevantNetwork = ''Irrelevant Network''"
| "goodbye_display Fault = ''Fault''"
| "goodbye_display UnableToVerifyNetwork = ''Unable to verify network''"
| "goodbye_display TooManyPeers = ''Too many peers''"
| "goodbye_display GoodbyeBadScore = ''Bad Score''"
| "goodbye_display GoodbyeBanned = ''Banned''"
| "goodbye_display GoodbyeBannedIP = ''BannedIP''"
| "goodbye_display GoodbyeUnknown = ''Unknown Reason''"

text \<open>On the wire a reason is the SSZ encoding of its number, a parameter of the model.\<close>

definition goodbye_ssz_encode :: "(u64 \<Rightarrow> bytes) \<Rightarrow> goodbye_reason \<Rightarrow> bytes" where
  "goodbye_ssz_encode enc r = enc (goodbye_to_u64 r)"

definition goodbye_ssz_decode :: "(bytes \<Rightarrow> 'e + u64) \<Rightarrow> bytes \<Rightarrow> 'e + goodbye_reason" where
  "goodbye_ssz_decode dec bs = map_sum id goodbye_from_u64 (dec bs)"

section \<open>Responses\<close>

datatype 'b rpc_response =
    RespStatus status_message
  | RespBlocksByRange 'b
  | RespBlocksByRoot 'b
  | RespPong ping
  | RespMetaData meta_data

datatype response_termination = TermBlocksByRange | TermBlocksByRoot

datatype rpc_response_error_code =
    RateLimited | InvalidRequest | ServerError | ResourceUnavailable | UnknownCode

datatype 'b rpc_coded_response =
    Success "'b rpc_response"
  | ErrorResp rpc_response_error_code error_type
  | StreamTermination response_termination

fun error_code_as_u8 :: "rpc_response_error_code \<Rightarrow> u8" where
  "error_code_as_u8 InvalidRequest = 1"
| "error_code_as_u8 ServerError = 2"
| "error_code_as_u8 ResourceUnavailable = 3"
| "error_code_as_u8 UnknownCode = 255"
| "error_code_as_u8 RateLimited = 139"

fun as_u8 :: "'b rpc_coded_response \<Rightarrow> u8 option" where
  "as_u8 (Success _) = Some 0"
| "as_u8 (ErrorResp code _) = Some (error_code_as_u8 code)"
| "as_u8 (StreamTermination _) = None"

definition is_response :: "u8 \<Rightarrow> bool" where
  "is_response code = (code = 0)"

definition from_error :: "u8 \<Rightarrow> error_type \<Rightarrow> 'b rpc_coded_response" where
  "from_error code err = ErrorResp
     (if code = 1 then InvalidRequest
      else if code = 2 then ServerError
      else if code = 3 then ResourceUnavailable
      else if code = 139 then RateLimited
      else UnknownCode) err"

fun multiple_responses :: "'b rpc_coded_response \<Rightarrow> bool" where
  "multiple_responses (Success resp) = (case resp of
       RespStatus _ \<Rightarrow> False
     | RespBlocksByRange _ \<Rightarrow> True
     | RespBlocksByRoot _ \<Rightarrow> True
     | RespPong _ \<Rightarrow> False
     | RespMetaData _ \<Rightarrow> False)"
| "multiple_responses (ErrorResp _ _) = True"
| "multiple_responses (StreamTermination _) = True"

fun close_after :: "'b rpc_coded_response \<Rightarrow> bool" where
  "close_after (Success _) = False"
| "close_after _ = True"

fun error_code_display :: "rpc_response_error_code \<Rightarrow> string" where
  "error_code_display InvalidRequest = ''The request was invalid''"
| "error_code_display ResourceUnavailable = ''Resource unavailable''"
| "error_code_display ServerError = ''Server error occurred''"
| "error_code_display UnknownCode = ''Unknown error occurred''"
| "error_code_display RateLimited = ''Rate limited''"

section \<open>Properties\<close>

lemma goodbye_to_from: "goodbye_from_u64 (goodbye_to_u64 r) = r"
  by (cases r) (simp_all add: goodbye_from_u64_def)

text \<open>Every goodbye reason survives the wire, whatever encoding of the number is used, as long as the
  decoder inverts it; a number that is none of the eight codes is read as unknown, so only then
  re-encoding gives another number.\<close>
theorem goodbye_roundtrip:
  assumes "\<And>n. dec (enc n) = Inr n"
  shows "goodbye_ssz_decode dec (goodbye_ssz_encode enc r) = Inr r
    \<and> (goodbye_to_u64 (goodbye_from_u64 n) = n \<longleftrightarrow> n \<in> {0, 1, 2, 3, 128, 129, 250, 251, 252})
    \<and> (goodbye_to_u64 (goodbye_from_u64 n) \<noteq> n \<longrightarrow> goodbye_from_u64 n = GoodbyeUnknown)"
  using assms
  by (auto simp: goodbye_ssz_decode_def goodbye_ssz_encode_def goodbye_to_from)
     (auto simp: goodbye_from_u64_def split: if_splits)

lemma goodbye_roundtrip_witness:
  "goodbye_ssz_decode (\<lambda>bs. Inr (of_nat (length bs)))
      (goodbye_ssz_encode (\<lambda>n. replicate (unat n) 0) GoodbyeBanned)
     = (Inr GoodbyeBanned :: unit + goodbye_reason)"
  by (rule goodbye_roundtrip [THEN conjunct1]) simp

text \<open>An error response is rebuilt from its code and message exactly, no error has the code of a
  success, and a response closes the stream precisely when it is an error or a termination.\<close>
theorem error_code_roundtrip:
  "from_error (the (as_u8 (ErrorResp c msg))) msg = ErrorResp c msg
   \<and> \<not> is_response (the (as_u8 (ErrorResp c msg)))
   \<and> (close_after r \<longleftrightarrow> (\<forall>x. r \<noteq> Success x)) \<and> (close_after r \<longrightarrow> multiple_responses r)"
  by (cases c; cases r) (simp_all add: from_error_def is_response_def)

lemma error_code_roundtrip_witness:
  "close_after (ErrorResp RateLimited [1, 2]) \<and> multiple_responses (ErrorResp RateLimited [1, 2])"
  using error_code_roundtrip [where r = "ErrorResp RateLimited [1, 2]"] by simp

end
