(* ===== verification/Peer_Info.thy ===== *)
theory Peer_Info
  imports Score Client Rpc_Methods
begin

text \<open>
  \<open>peer_manager/peerdb/peer_info.rs\<close>: what the node knows about one peer, the questions it asks of it
  and the changes it makes to it.  The identify data, addresses and metadata are kept as the code has
  them; bit vectors go through the SSZ operations given as an argument.
\<close>

section \<open>The record\<close>

datatype connection_direction = Incoming | Outgoing

text \<open>The number of connections is a byte that wraps around, as in a release build.\<close>

datatype peer_connection_status =
    Connected "8 word" "8 word"
  | Disconnecting bool
  | Disconnected instant
  | Banned instant
  | Dialing instant
  | Unknown

record peer_info =
  info_score :: score
  info_client :: client
  connection_status :: peer_connection_status
  listening_addresses :: "multiaddr list"
  seen_addresses :: "socket_addr list"
  info_sync_status :: sync_status
  info_meta_data :: "meta_data option"
  info_subnets :: "subnet list"
  min_ttl :: "instant option"
  is_trusted :: bool
  info_direction :: "connection_direction option"
  info_enr :: "enr option"

definition default_peer_info :: "instant \<Rightarrow> peer_info" where
  "default_peer_info now = \<lparr> info_score = default_score now, info_client = default_client,
     connection_status = Unknown, listening_addresses = [], seen_addresses = [],
     info_sync_status = UnknownStatus, info_meta_data = None, info_subnets = [], min_ttl = None,
     is_trusted = False, info_direction = None, info_enr = None \<rparr>"

definition trusted_peer_info :: "instant \<Rightarrow> peer_info" where
  "trusted_peer_info now = (default_peer_info now)\<lparr>info_score := max_score, is_trusted := True\<rparr>"

section \<open>Subnets\<close>

definition on_subnet_metadata :: "ssz_api \<Rightarrow> subnet \<Rightarrow> peer_info \<Rightarrow> bool" where
  "on_subnet_metadata api s info = (case info_meta_data info of
       None \<Rightarrow> False
     | Some md \<Rightarrow> (case s of
           Attestation i \<Rightarrow> bit_set api (attnets md) i
         | SyncCommittee i \<Rightarrow> (case syncnets md of None \<Rightarrow> False | Some b \<Rightarrow> bit_set api b i)))"

definition long_lived_subnet_count :: "ssz_api \<Rightarrow> peer_info \<Rightarrow> nat" where
  "long_lived_subnet_count api info = (case info_meta_data info of
       Some md \<Rightarrow> bv_num_set_bits api (attnets md)
     | None \<Rightarrow> (case info_enr info of
           Some e \<Rightarrow> (case attestation_bitfield api e of
               Inr b \<Rightarrow> bv_num_set_bits api b | Inl _ \<Rightarrow> 0)
         | None \<Rightarrow> 0))"

text \<open>The loop over \<open>0..=highest_set_bit().unwrap_or(0)\<close>.\<close>

definition set_bits_upto_highest :: "ssz_api \<Rightarrow> bitfield \<Rightarrow> nat list" where
  "set_bits_upto_highest api b =
     filter (bit_set api b) [0..<Suc (case bv_highest_set_bit api b of Some h \<Rightarrow> h | None \<Rightarrow> 0)]"

definition long_lived_subnets :: "ssz_api \<Rightarrow> peer_info \<Rightarrow> subnet list" where
  "long_lived_subnets api info = (case info_meta_data info of
       Some md \<Rightarrow> map Attestation (set_bits_upto_highest api (attnets md)) @
         (case syncnets md of
            Some b \<Rightarrow> map SyncCommittee (set_bits_upto_highest api b) | None \<Rightarrow> [])
     | None \<Rightarrow> (case info_enr info of
           Some e \<Rightarrow>
             (case attestation_bitfield api e of
                Inr b \<Rightarrow> map Attestation (set_bits_upto_highest api b) | Inl _ \<Rightarrow> []) @
             (case sync_committee_bitfield api e of
                Inr b \<Rightarrow> map SyncCommittee (set_bits_upto_highest api b) | Inl _ \<Rightarrow> [])
         | None \<Rightarrow> []))"

definition on_subnet_gossipsub :: "subnet \<Rightarrow> peer_info \<Rightarrow> bool" where
  "on_subnet_gossipsub s info = (s \<in> set (info_subnets info))"

definition has_long_lived_subnet :: "ssz_api \<Rightarrow> peer_info \<Rightarrow> bool" where
  "has_long_lived_subnet api info =
     ((case info_meta_data info of
         None \<Rightarrow> False
       | Some md \<Rightarrow> \<not> bv_is_zero api (attnets md) \<and> info_subnets info \<noteq> []
           \<or> (case syncnets md of Some b \<Rightarrow> \<not> bv_is_zero api b | None \<Rightarrow> False))
      \<or> (case info_enr info of
           None \<Rightarrow> False
         | Some e \<Rightarrow> (case attestation_bitfield api e of
               Inr b \<Rightarrow> \<not> bv_is_zero api b \<and> info_subnets info \<noteq> [] | Inl _ \<Rightarrow> False)))"

section \<open>Questions\<close>

definition seen_ip_addresses :: "peer_info \<Rightarrow> ip_addr list" where
  "seen_ip_addresses info = map fst (seen_addresses info)"

definition has_future_duty :: "instant \<Rightarrow> peer_info \<Rightarrow> bool" where
  "has_future_duty now info = (case min_ttl info of Some i \<Rightarrow> i \<ge> now | None \<Rightarrow> False)"

definition score_state_of :: "peer_info \<Rightarrow> score_state" where
  "score_state_of info = state_of_score (info_score info)"

definition info_is_good_gossipsub_peer :: "peer_info \<Rightarrow> bool" where
  "info_is_good_gossipsub_peer info = is_good_gossipsub_peer (info_score info)"

definition info_is_connected :: "peer_info \<Rightarrow> bool" where
  "info_is_connected info = (case connection_status info of Connected _ _ \<Rightarrow> True | _ \<Rightarrow> False)"

definition info_is_dialing :: "peer_info \<Rightarrow> bool" where
  "info_is_dialing info = (case connection_status info of Dialing _ \<Rightarrow> True | _ \<Rightarrow> False)"

definition info_is_connected_or_dialing :: "peer_info \<Rightarrow> bool" where
  "info_is_connected_or_dialing info = (info_is_connected info \<or> info_is_dialing info)"

definition info_is_banned :: "peer_info \<Rightarrow> bool" where
  "info_is_banned info = (case connection_status info of Banned _ \<Rightarrow> True | _ \<Rightarrow> False)"

definition score_is_banned :: "peer_info \<Rightarrow> bool" where
  "score_is_banned info = (score_state_of info = score_state.Banned)"

definition info_is_disconnected :: "peer_info \<Rightarrow> bool" where
  "info_is_disconnected info = (case connection_status info of Disconnected _ \<Rightarrow> True | _ \<Rightarrow> False)"

definition is_outbound_only :: "peer_info \<Rightarrow> bool" where
  "is_outbound_only info =
     (case connection_status info of Connected n_in n_out \<Rightarrow> n_in = 0 \<and> n_out > 0 | _ \<Rightarrow> False)"

definition connections :: "peer_info \<Rightarrow> 8 word \<times> 8 word" where
  "connections info =
     (case connection_status info of Connected n_in n_out \<Rightarrow> (n_in, n_out) | _ \<Rightarrow> (0, 0))"

section \<open>Changes\<close>

definition info_update_sync_status :: "sync_status \<Rightarrow> peer_info \<Rightarrow> peer_info \<times> bool" where
  "info_update_sync_status st info =
     (let (new, changed) = sync_status_update (info_sync_status info) st
      in (info\<lparr>info_sync_status := new\<rparr>, changed))"

definition set_listening_addresses ::
  "multiaddr list \<Rightarrow> peer_info \<Rightarrow> peer_info \<times> multiaddr list" where
  "set_listening_addresses as info = (info\<lparr>listening_addresses := as\<rparr>, listening_addresses info)"

definition set_client :: "client \<Rightarrow> peer_info \<Rightarrow> peer_info" where
  "set_client c info = info\<lparr>info_client := c\<rparr>"

definition set_meta_data :: "meta_data \<Rightarrow> peer_info \<Rightarrow> peer_info" where
  "set_meta_data md info = info\<lparr>info_meta_data := Some md\<rparr>"

definition set_connection_status :: "peer_connection_status \<Rightarrow> peer_info \<Rightarrow> peer_info" where
  "set_connection_status st info = info\<lparr>connection_status := st\<rparr>"

definition set_enr :: "enr \<Rightarrow> peer_info \<Rightarrow> peer_info" where
  "set_enr e info = info\<lparr>info_enr := Some e\<rparr>"

definition set_trusted :: "peer_info \<Rightarrow> peer_info" where
  "set_trusted info = info\<lparr>is_trusted := True\<rparr>"

definition set_untrusted :: "peer_info \<Rightarrow> peer_info" where
  "set_untrusted info = info\<lparr>is_trusted := False\<rparr>"

definition set_min_ttl :: "instant \<Rightarrow> peer_info \<Rightarrow> peer_info" where
  "set_min_ttl t info = info\<lparr>min_ttl := Some t\<rparr>"

definition insert_subnet :: "subnet \<Rightarrow> peer_info \<Rightarrow> peer_info" where
  "insert_subnet s info = info\<lparr>info_subnets := List.insert s (info_subnets info)\<rparr>"

definition remove_subnet :: "subnet \<Rightarrow> peer_info \<Rightarrow> peer_info" where
  "remove_subnet s info = info\<lparr>info_subnets := removeAll s (info_subnets info)\<rparr>"

definition clear_subnets :: "peer_info \<Rightarrow> peer_info" where
  "clear_subnets info = info\<lparr>info_subnets := []\<rparr>"

definition info_update_score :: "instant \<Rightarrow> peer_info \<Rightarrow> peer_info" where
  "info_update_score now info =
     (if \<not> is_trusted info then info\<lparr>info_score := update_score now (info_score info)\<rparr> else info)"

definition apply_peer_action_to_score :: "peer_action \<Rightarrow> peer_info \<Rightarrow> peer_info" where
  "apply_peer_action_to_score a info =
     (if \<not> is_trusted info then info\<lparr>info_score := apply_peer_action a (info_score info)\<rparr> else info)"

definition info_update_gossipsub_score :: "instant \<Rightarrow> f64 \<Rightarrow> bool \<Rightarrow> peer_info \<Rightarrow> peer_info" where
  "info_update_gossipsub_score now x ignore info =
     info\<lparr>info_score := update_gossipsub_score now x ignore (info_score info)\<rparr>"

definition set_dialing_peer :: "instant \<Rightarrow> peer_info \<Rightarrow> string + peer_info" where
  "set_dialing_peer now info = (case connection_status info of
       Connected _ _ \<Rightarrow> Inl ''Dialing connected peer''
     | Dialing _ \<Rightarrow> Inl ''Dialing an already dialing peer''
     | Disconnecting _ \<Rightarrow> Inl ''Dialing a disconnecting peer''
     | _ \<Rightarrow> Inr (info\<lparr>connection_status := Dialing now\<rparr>))"

definition see_address :: "socket_addr option \<Rightarrow> peer_info \<Rightarrow> peer_info" where
  "see_address a info = (case a of
       Some sa \<Rightarrow> info\<lparr>seen_addresses := List.insert sa (seen_addresses info)\<rparr> | None \<Rightarrow> info)"

definition info_connect_ingoing :: "socket_addr option \<Rightarrow> peer_info \<Rightarrow> peer_info" where
  "info_connect_ingoing seen info = see_address seen
     (case connection_status info of
        Connected n_in n_out \<Rightarrow> info\<lparr>connection_status := Connected (n_in + 1) n_out\<rparr>
      | _ \<Rightarrow> info\<lparr>connection_status := Connected 1 0, info_direction := Some Incoming\<rparr>)"

definition info_connect_outgoing :: "socket_addr option \<Rightarrow> peer_info \<Rightarrow> peer_info" where
  "info_connect_outgoing seen info = see_address seen
     (case connection_status info of
        Connected n_in n_out \<Rightarrow> info\<lparr>connection_status := Connected n_in (n_out + 1)\<rparr>
      | _ \<Rightarrow> info\<lparr>connection_status := Connected 0 1, info_direction := Some Outgoing\<rparr>)"

text \<open>The fields the status is serialised to; the time is the seconds elapsed since the recorded
  moment.\<close>

record serialized_status =
  ser_status :: string
  ser_connections_in :: "8 word"
  ser_connections_out :: "8 word"
  ser_last_seen :: nat
  ser_banned_ips :: "ip_addr list option"

definition serialize_status :: "instant \<Rightarrow> peer_connection_status \<Rightarrow> serialized_status" where
  "serialize_status now st =
     (let mk = (\<lambda>n i j t ips. \<lparr> ser_status = n, ser_connections_in = i, ser_connections_out = j,
                  ser_last_seen = t, ser_banned_ips = ips \<rparr>) in
      case st of
        Connected n_in n_out \<Rightarrow> mk ''connected'' n_in n_out 0 None
      | Disconnecting _ \<Rightarrow> mk ''disconnecting'' 0 0 0 None
      | Disconnected since \<Rightarrow> mk ''disconnected'' 0 0 (as_secs (now - since)) (Some [])
      | Banned since \<Rightarrow> mk ''banned'' 0 0 (as_secs (now - since)) None
      | Dialing since \<Rightarrow> mk ''dialing'' 0 0 (as_secs (now - since)) None
      | Unknown \<Rightarrow> mk ''unknown'' 0 0 0 None)"

section \<open>The score of a peer\<close>

lemmas info_setters = set_listening_addresses_def set_client_def set_meta_data_def
  set_connection_status_def set_enr_def set_trusted_def set_untrusted_def set_min_ttl_def
  insert_subnet_def remove_subnet_def clear_subnets_def

lemmas status_defs = info_is_connected_def info_is_dialing_def info_is_banned_def
  info_is_disconnected_def info_is_connected_or_dialing_def is_outbound_only_def

definition info_ok :: "peer_info \<Rightarrow> bool" where
  "info_ok info = score_ok (info_score info)"

definition info_exempt :: "peer_info \<Rightarrow> bool" where
  "info_exempt info = (is_trusted info \<or> is_max (info_score info))"

interpretation pinfo: scored_peer info_ok score_state_of info_exempt apply_peer_action_to_score
  info_update_score info_update_gossipsub_score
proof
  fix i :: peer_info and a now x ig
  assume i: "info_ok i"
  show "info_ok (apply_peer_action_to_score a i)" "info_ok (info_update_score now i)"
    "info_ok (info_update_gossipsub_score now x ig i)"
    using i by (simp_all add: info_ok_def apply_peer_action_to_score_def info_update_score_def
        info_update_gossipsub_score_def score_ok_ops)
  show "score_state_of i \<le> score_state_of (apply_peer_action_to_score a i)"
    using i sc.act_worse [of "info_score i" a]
    by (simp add: score_state_of_def apply_peer_action_to_score_def info_ok_def)
  show "score_state_of (info_update_score now i) \<le> score_state_of i"
    using i sc.tick_better [of "info_score i" now]
    by (simp add: score_state_of_def info_update_score_def info_ok_def)
  show "\<not> info_exempt i \<Longrightarrow> score_state_of (apply_peer_action_to_score Fatal i) = score_state.Banned"
    using i sc.fatal_bans [of "info_score i"]
    by (simp add: score_state_of_def apply_peer_action_to_score_def info_ok_def info_exempt_def)
next
  show "info_exempt (apply_peer_action_to_score a i) = info_exempt i" for a i
    using sc.exempt_act [of a "info_score i"]
    by (simp add: info_exempt_def apply_peer_action_to_score_def)
qed

lemma info_ok_default [simp]: "info_ok (default_peer_info now)" "info_ok (trusted_peer_info now)"
  by (simp_all add: info_ok_def default_peer_info_def trusted_peer_info_def default_score_def
      max_score_def)

lemma connection_status_frame [simp]:
  "connection_status (apply_peer_action_to_score a i) = connection_status i"
  "connection_status (info_update_score now i) = connection_status i"
  "connection_status (info_update_gossipsub_score now x ig i) = connection_status i"
  "seen_addresses (apply_peer_action_to_score a i) = seen_addresses i"
  "seen_addresses (info_update_score now i) = seen_addresses i"
  "seen_addresses (info_update_gossipsub_score now x ig i) = seen_addresses i"
  "connection_status (see_address sa i) = connection_status i"
  "info_score (see_address sa i) = info_score i"
  by (simp_all add: apply_peer_action_to_score_def info_update_score_def see_address_def
      info_update_gossipsub_score_def split: option.split)

section \<open>Properties\<close>

lemma set_bits_upto_highest_laws:
  assumes "ssz_laws api"
  shows "set (set_bits_upto_highest api b) = {i. i < length b \<and> b ! i}"
    and "length (set_bits_upto_highest api b) = bv_num_set_bits api b"
proof -
  have top: "\<And>i. i < length b \<Longrightarrow> b ! i \<Longrightarrow>
      i < Suc (case bv_highest_set_bit api b of Some h \<Rightarrow> h | None \<Rightarrow> 0)"
    using assms unfolding ssz_laws_def by (fastforce split: option.split)
  show s: "set (set_bits_upto_highest api b) = {i. i < length b \<and> b ! i}"
    using top assms by (auto simp: set_bits_upto_highest_def bit_set_laws simp del: upt_Suc)
  have "distinct (set_bits_upto_highest api b)" by (simp add: set_bits_upto_highest_def)
  then have "length (set_bits_upto_highest api b) = card {i. i < length b \<and> b ! i}"
    using distinct_card s by metis
  then show "length (set_bits_upto_highest api b) = bv_num_set_bits api b"
    using assms by (simp add: ssz_laws_def)
qed

text \<open>The long-lived subnets of a peer whose metadata is known are exactly the subnets whose bit its
  metadata sets, and \<open>long_lived_subnet_count\<close> is the number of attestation subnets among them.\<close>
theorem long_lived_subnets_correct:
  assumes "ssz_laws api" and "info_meta_data info = Some md"
  shows "(\<forall>s. s \<in> set (long_lived_subnets api info) \<longleftrightarrow> on_subnet_metadata api s info) \<and>
    long_lived_subnet_count api info
      = length (filter (\<lambda>s. case s of Attestation _ \<Rightarrow> True | _ \<Rightarrow> False) (long_lived_subnets api info))"
proof -
  note bits = set_bits_upto_highest_laws [OF assms(1)]
  have "s \<in> set (long_lived_subnets api info) \<longleftrightarrow> on_subnet_metadata api s info" for s
    using assms by (cases s)
      (auto simp: long_lived_subnets_def on_subnet_metadata_def bits bit_set_laws split: option.split)
  moreover have "filter (\<lambda>s. case s of Attestation _ \<Rightarrow> True | _ \<Rightarrow> False) (long_lived_subnets api info)
      = map Attestation (set_bits_upto_highest api (attnets md))"
    using assms(2) by (auto simp: long_lived_subnets_def filter_map comp_def split: option.split)
  ultimately show ?thesis using assms(2) by (simp add: long_lived_subnet_count_def bits)
qed

lemma long_lived_subnets_correct_witness:
  "long_lived_subnet_count list_ssz ((default_peer_info 0)\<lparr>info_meta_data :=
     Some \<lparr>seq_number = 1, attnets = [True, False, True], syncnets = Some [False, True]\<rparr>\<rparr>) = 2
   \<and> long_lived_subnets list_ssz ((default_peer_info 0)\<lparr>info_meta_data :=
     Some \<lparr>seq_number = 1, attnets = [True, False, True], syncnets = Some [False, True]\<rparr>\<rparr>)
     = [Attestation 0, Attestation 2, SyncCommittee 1]"
proof -
  let ?i = "(default_peer_info 0)\<lparr>info_meta_data :=
     Some \<lparr>seq_number = 1, attnets = [True, False, True], syncnets = Some [False, True]\<rparr>\<rparr>"
  have l: "long_lived_subnets list_ssz ?i = [Attestation 0, Attestation 2, SyncCommittee 1]"
    by (simp add: long_lived_subnets_def set_bits_upto_highest_def bit_set_def list_ssz_def
        bit_indices_def upt_conv_Cons)
  with long_lived_subnets_correct [OF list_ssz_laws, of ?i] show ?thesis by simp
qed

text \<open>A peer that was trusted when it was first stored is never penalised by a report again, even after
  it has been made untrusted: making it untrusted clears the flag but leaves the maximum score, which no
  sequence of reports lowers.\<close>
theorem max_score_outlives_trust:
  "apply_peer_action_to_score a (set_untrusted (trusted_peer_info now))
     = set_untrusted (trusted_peer_info now)
   \<and> score_state_of (fold apply_peer_action_to_score as (set_untrusted (trusted_peer_info now)))
     = Healthy"
proof -
  let ?u = "set_untrusted (trusted_peer_info now)"
  have one: "apply_peer_action_to_score a ?u = ?u" for a
    by (simp add: apply_peer_action_to_score_def set_untrusted_def trusted_peer_info_def max_score_def)
  have "fold apply_peer_action_to_score as ?u = ?u" by (induction as) (simp_all add: one)
  moreover have "score_state_of ?u = Healthy"
    by (simp add: score_state_of_def set_untrusted_def trusted_peer_info_def max_score_def)
  ultimately show ?thesis by (simp only: one)
qed

end
