(* ===== verification/Banned_Count.thy ===== *)
theory Banned_Count
  imports Net_Types
begin

text \<open>
  \<open>BannedPeersCount\<close> of \<open>peer_manager/peerdb.rs\<close>: how many peers are banned in all and from every address,
  and the ban of an address that follows from it.
\<close>

definition BANNED_PEERS_PER_IP_THRESHOLD :: nat where
  "BANNED_PEERS_PER_IP_THRESHOLD = 5"

record banned_peers_count =
  bp_total :: nat
  bp_per_ip :: "(ip_addr, nat) hmap"

definition default_banned_count :: banned_peers_count where
  "default_banned_count = \<lparr> bp_total = 0, bp_per_ip = [] \<rparr>"

definition remove_banned_peer :: "ip_addr list \<Rightarrow> banned_peers_count \<Rightarrow> banned_peers_count" where
  "remove_banned_peer ips c = c\<lparr> bp_total := bp_total c - 1,
     bp_per_ip := fold (\<lambda>a. hm_adjust a (\<lambda>n. n - 1)) ips (bp_per_ip c) \<rparr>"

definition add_banned_peer :: "ip_addr list \<Rightarrow> banned_peers_count \<Rightarrow> banned_peers_count" where
  "add_banned_peer ips c = c\<lparr> bp_total := bp_total c + 1,
     bp_per_ip := fold (\<lambda>a. hm_upsert a 0 (\<lambda>n. n + 1)) ips (bp_per_ip c) \<rparr>"

definition banned_ips :: "banned_peers_count \<Rightarrow> ip_addr list" where
  "banned_ips c = map fst (filter (\<lambda>(ip, n). n > BANNED_PEERS_PER_IP_THRESHOLD) (bp_per_ip c))"

definition ip_is_banned :: "banned_peers_count \<Rightarrow> ip_addr \<Rightarrow> bool" where
  "ip_is_banned c ip = (case hm_get (bp_per_ip c) ip of
       Some n \<Rightarrow> n > BANNED_PEERS_PER_IP_THRESHOLD | None \<Rightarrow> False)"

text \<open>The number the table holds for an address; a missing entry counts as zero.\<close>

definition ip_count :: "banned_peers_count \<Rightarrow> ip_addr \<Rightarrow> nat" where
  "ip_count c ip = (case hm_get (bp_per_ip c) ip of Some n \<Rightarrow> n | None \<Rightarrow> 0)"

definition banned_count_ok :: "banned_peers_count \<Rightarrow> bool" where
  "banned_count_ok c = hm_ok (bp_per_ip c)"

lemma ip_is_banned_count: "ip_is_banned c ip \<longleftrightarrow> ip_count c ip > BANNED_PEERS_PER_IP_THRESHOLD"
  by (simp add: ip_is_banned_def ip_count_def split: option.split)

lemma fold_upsert_count:
  "(case hm_get (fold (\<lambda>a. hm_upsert a 0 (\<lambda>n. n + 1)) ips m) ip of Some n \<Rightarrow> n | None \<Rightarrow> 0)
     = (case hm_get m ip of Some n \<Rightarrow> n | None \<Rightarrow> (0::nat)) + count_list ips ip"
  by (induction ips arbitrary: m) (auto simp: hm_get_upsert split: option.split)

lemma fold_adjust_count:
  "(case hm_get (fold (\<lambda>a. hm_adjust a (\<lambda>n. n - 1)) ips m) ip of Some n \<Rightarrow> n | None \<Rightarrow> 0)
     = (case hm_get m ip of Some n \<Rightarrow> n | None \<Rightarrow> (0::nat)) - count_list ips ip"
  by (induction ips arbitrary: m) (auto simp: hm_get_adjust split: option.split)

lemma ip_count_add [count_simps]:
  "ip_count (add_banned_peer ips c) ip = ip_count c ip + count_list ips ip"
  by (simp add: ip_count_def add_banned_peer_def fold_upsert_count [simplified])

lemma ip_count_remove [count_simps]:
  "ip_count (remove_banned_peer ips c) ip = ip_count c ip - count_list ips ip"
  by (simp add: ip_count_def remove_banned_peer_def fold_adjust_count [simplified])

lemma bp_total_ops [count_simps]:
  "bp_total (add_banned_peer ips c) = bp_total c + 1"
  "bp_total (remove_banned_peer ips c) = bp_total c - 1"
  by (simp_all add: add_banned_peer_def remove_banned_peer_def)

lemma ip_count_default [simp]: "ip_count default_banned_count ip = 0" "bp_total default_banned_count = 0"
  by (simp_all add: ip_count_def default_banned_count_def)

lemma fold_hm_ok:
  "hm_ok m \<Longrightarrow> hm_ok (fold (\<lambda>a. hm_upsert a d f) ips m)"
  "hm_ok m \<Longrightarrow> hm_ok (fold (\<lambda>a. hm_adjust a f) ips m)"
  by (induction ips arbitrary: m) auto

lemma banned_count_ok_ops [simp]:
  "banned_count_ok c \<Longrightarrow> banned_count_ok (add_banned_peer ips c)"
  "banned_count_ok c \<Longrightarrow> banned_count_ok (remove_banned_peer ips c)"
  "banned_count_ok default_banned_count"
  by (simp_all add: banned_count_ok_def add_banned_peer_def remove_banned_peer_def fold_hm_ok
      default_banned_count_def)

lemma set_banned_ips: "banned_count_ok c \<Longrightarrow> ip \<in> set (banned_ips c) \<longleftrightarrow> ip_is_banned c ip"
  unfolding banned_count_ok_def banned_ips_def ip_is_banned_def
  by (force dest: hm_in_get hm_get_Some_in split: option.splits)

text \<open>Removing what was added gives back every count, so a ban and its lifting cancel out.\<close>

lemma remove_add_banned:
  "ip_count (remove_banned_peer ips (add_banned_peer ips c)) ip = ip_count c ip"
  "bp_total (remove_banned_peer ips (add_banned_peer ips c)) = bp_total c"
  by (simp_all add: count_simps)

end
