(* ===== verification/F32.thy ===== *)
theory F32
  imports Prelude
begin

text \<open>
  The single precision numbers of the code: the factors of the peer limits and their products with a
  number of peers.  Such a number is kept in units of \<open>2 ^ - 27\<close>, in which all of them are whole; rounding
  keeps 24 significant bits, to the nearest and on a tie to the even one.  None of the values is so small
  (below \<open>2 ^ - 4\<close>, but for 0) or so large that its unit or its exponent would not do.
\<close>

section \<open>Rounding\<close>

type_synonym f32 = nat

fun bit_length :: "nat \<Rightarrow> nat" where
  "bit_length n = (if n = 0 then 0 else Suc (bit_length (n div 2)))"

declare bit_length.simps [simp del]

lemma bit_length_0 [simp]: "bit_length n = 0 \<longleftrightarrow> n = 0"
  by (simp add: bit_length.simps [of n])

lemma bit_length_zero [simp]: "bit_length 0 = 0"
  by simp

lemma bit_length_half: "n > 0 \<Longrightarrow> bit_length n = Suc (bit_length (n div 2))"
  by (simp add: bit_length.simps [of n])

definition round_half_even :: "nat \<Rightarrow> nat \<Rightarrow> nat" where
  "round_half_even n k = (let q = n div 2 ^ k; r = n mod 2 ^ k
     in if 2 * r > 2 ^ k \<or> (2 * r = 2 ^ k \<and> odd q) then q + 1 else q)"

definition f32_round :: "nat \<Rightarrow> nat" where
  "f32_round n = round_half_even n (bit_length n - 24) * 2 ^ (bit_length n - 24)"

definition F32_UNIT :: nat where "F32_UNIT = 134217728"

definition f32_of_nat :: "nat \<Rightarrow> f32" where "f32_of_nat n = f32_round (n * F32_UNIT)"
definition f32_add :: "f32 \<Rightarrow> f32 \<Rightarrow> f32" where "f32_add a b = f32_round (a + b)"
definition f32_mult :: "f32 \<Rightarrow> f32 \<Rightarrow> f32" where "f32_mult a b = f32_round (a * b) div F32_UNIT"

text \<open>\<open>f.ceil() as usize\<close> saturates.\<close>

definition ceil_as_usize :: "f32 \<Rightarrow> nat" where
  "ceil_as_usize a = min (2 ^ 64 - 1) ((a + F32_UNIT - 1) div F32_UNIT)"

text \<open>The literals 1.0, 0.1, 0.2 and 0.3: the numbers of 24 bits nearest to them.\<close>

definition F32_1 :: f32 where "F32_1 = 134217728"
definition F32_01 :: f32 where "F32_01 = 13421773"
definition F32_02 :: f32 where "F32_02 = 2 * 13421773"
definition F32_03 :: f32 where "F32_03 = 4 * 10066330"

section \<open>Rounding is monotonic and keeps small whole numbers\<close>

lemma bit_length_bounds: "n < 2 ^ bit_length n" "n > 0 \<Longrightarrow> 2 ^ (bit_length n - 1) \<le> n"
proof (induction n rule: bit_length.induct)
  case (1 n)
  {
    case 1
    show ?case
    proof (cases "n = 0")
      case False
      then have "n div 2 < 2 ^ bit_length (n div 2)" using "1.IH"(1) by simp
      then have "n < 2 ^ Suc (bit_length (n div 2))" unfolding power_Suc by linarith
      with False show ?thesis by (simp add: bit_length_half [of n])
    qed simp
  next
    case 2
    then have "bit_length n = Suc (bit_length (n div 2))" by (rule bit_length_half)
    moreover have "2 ^ bit_length (n div 2) \<le> n"
    proof (cases "n div 2 = 0")
      case True
      then have "bit_length (n div 2) = 0" by (simp only: bit_length_0)
      with 2 show ?thesis by simp
    next
      case False
      then have "2 * 2 ^ (bit_length (n div 2) - 1) \<le> 2 * (n div 2)" using "1.IH"(2) 2 by simp
      moreover have "bit_length (n div 2) > 0" using False by (metis bit_length_0 gr0I)
      then have "2 * 2 ^ (bit_length (n div 2) - 1) = (2 :: nat) ^ bit_length (n div 2)"
        by (cases "bit_length (n div 2)") auto
      ultimately show ?thesis by simp
    qed
    ultimately show ?case by simp
  }
qed

lemma bit_length_le: "n < 2 ^ k \<Longrightarrow> bit_length n \<le> k"
proof (rule ccontr)
  assume "n < 2 ^ k" and "\<not> bit_length n \<le> k"
  then have "(2 :: nat) ^ k \<le> 2 ^ (bit_length n - 1)" by (intro power_increasing) auto
  moreover have "n > 0" using \<open>\<not> bit_length n \<le> k\<close> by (cases "n = 0") auto
  ultimately have "2 ^ k \<le> n" using bit_length_bounds(2) [of n] by (metis order_trans)
  with \<open>n < 2 ^ k\<close> show False by simp
qed

lemma bit_length_mono: "m \<le> n \<Longrightarrow> bit_length m \<le> bit_length n"
  by (rule bit_length_le) (use bit_length_bounds(1) [of n] in simp)

lemma round_half_even_bounds:
  "n div 2 ^ k \<le> round_half_even n k" "round_half_even n k \<le> n div 2 ^ k + 1"
  by (simp_all add: round_half_even_def Let_def)

lemma round_half_even_mono:
  assumes "m \<le> n"
  shows "round_half_even m k \<le> round_half_even n k"
proof (cases "m div 2 ^ k = n div 2 ^ k")
  case True
  then have "m mod 2 ^ k \<le> n mod 2 ^ k"
    using assms by (metis add_le_cancel_left mult_div_mod_eq)
  with True show ?thesis by (auto simp: round_half_even_def Let_def)
next
  case False
  then have "m div 2 ^ k + 1 \<le> n div 2 ^ k"
    using div_le_mono [OF assms, of "2 ^ k"] by simp
  then show ?thesis
    using round_half_even_bounds [of m k] round_half_even_bounds [of n k] by linarith
qed

lemma round_half_even_exact: "2 ^ k dvd n \<Longrightarrow> round_half_even n k * 2 ^ k = n"
  by (auto simp: round_half_even_def Let_def dvd_eq_mod_eq_0)

lemma f32_round_exact: "2 ^ (bit_length n - 24) dvd n \<Longrightarrow> f32_round n = n"
  by (simp add: f32_round_def round_half_even_exact)

lemma f32_round_upper: "f32_round n \<le> 2 ^ bit_length n"
proof -
  let ?k = "bit_length n - 24"
  have "2 ^ ?k * 2 ^ (bit_length n - ?k) = (2 :: nat) ^ bit_length n"
    by (simp flip: power_add)
  then have "n div 2 ^ ?k < 2 ^ (bit_length n - ?k)"
    using bit_length_bounds(1) [of n] by (metis less_mult_imp_div_less mult.commute)
  then have "round_half_even n ?k \<le> 2 ^ (bit_length n - ?k)"
    using round_half_even_bounds(2) [of n ?k] by linarith
  then have "round_half_even n ?k * 2 ^ ?k \<le> 2 ^ (bit_length n - ?k) * 2 ^ ?k" by simp
  also have "\<dots> = 2 ^ bit_length n" by (simp flip: power_add)
  finally show ?thesis by (simp add: f32_round_def)
qed

lemma f32_round_lower: "n > 0 \<Longrightarrow> 2 ^ (bit_length n - 1) \<le> f32_round n"
proof -
  assume "n > 0"
  then have pos: "bit_length n > 0" by (metis bit_length_0 gr0I neq0_conv)
  let ?k = "bit_length n - 24" and ?m = "2 ^ (bit_length n - 1) :: nat"
  have k: "?k \<le> bit_length n - 1" using pos by simp
  then have "2 ^ ?k dvd ?m" by (intro le_imp_power_dvd)
  then have "?m = round_half_even ?m ?k * 2 ^ ?k" by (simp add: round_half_even_exact)
  also have "\<dots> \<le> round_half_even n ?k * 2 ^ ?k"
    using bit_length_bounds(2) [OF \<open>n > 0\<close>] by (intro mult_le_mono1 round_half_even_mono)
  finally show ?thesis by (simp add: f32_round_def)
qed

lemma f32_round_mono:
  assumes "m \<le> n"
  shows "f32_round m \<le> f32_round n"
proof (cases "bit_length m = bit_length n")
  case True
  then show ?thesis using round_half_even_mono [OF assms] by (simp add: f32_round_def)
next
  case False
  then have lt: "bit_length m < bit_length n" using bit_length_mono [OF assms] by simp
  then have "n > 0" by (metis bit_length_0 gr0I not_less0)
  have "f32_round m \<le> 2 ^ bit_length m" by (rule f32_round_upper)
  also have "\<dots> \<le> 2 ^ (bit_length n - 1)" using lt by (intro power_increasing) auto
  also have "\<dots> \<le> f32_round n" using f32_round_lower [OF \<open>n > 0\<close>] .
  finally show ?thesis .
qed

text \<open>A whole number of at most 24 bits, in any power of two as unit, is kept.\<close>

lemma f32_round_small:
  assumes "n < 2 ^ 24"
  shows "f32_round (n * 2 ^ j) = n * 2 ^ j"
proof -
  have "n * 2 ^ j < 2 ^ (24 + j)" using assms by (simp add: power_add)
  then have "bit_length (n * 2 ^ j) \<le> 24 + j" by (rule bit_length_le)
  then have "2 ^ (bit_length (n * 2 ^ j) - 24) dvd (2 :: nat) ^ j" by (intro le_imp_power_dvd) simp
  then show ?thesis by (intro f32_round_exact) simp
qed

lemma F32_UNIT_power: "F32_UNIT = 2 ^ 27"
  by (simp add: F32_UNIT_def)

lemma f32_of_nat_small: "n < 2 ^ 24 \<Longrightarrow> f32_of_nat n = n * F32_UNIT"
  using f32_round_small [of n 27] by (simp add: f32_of_nat_def F32_UNIT_power)

lemma f32_mult_mono: "a \<le> b \<Longrightarrow> f32_mult c a \<le> f32_mult c b"
  unfolding f32_mult_def by (intro div_le_mono f32_round_mono mult_le_mono2)

lemma f32_mult_1: "n < 2 ^ 24 \<Longrightarrow> f32_mult (n * F32_UNIT) F32_1 = n * F32_UNIT"
  using f32_round_small [of n 54] by (simp add: f32_mult_def F32_UNIT_def F32_1_def mult.commute)

lemma ceil_as_usize_mono: "a \<le> b \<Longrightarrow> ceil_as_usize a \<le> ceil_as_usize b"
  unfolding ceil_as_usize_def by (intro min.mono div_le_mono) auto

lemma ceil_as_usize_whole: "n < 2 ^ 64 \<Longrightarrow> ceil_as_usize (n * F32_UNIT) = n"
  by (simp add: ceil_as_usize_def F32_UNIT_def)

end
