(* ===== verification/Peer_DB.thy ===== *)
theory Peer_DB
  imports Peer_Info Banned_Count F32
begin

text \<open>
  \<open>peer_manager/peerdb.rs\<close>, first part: the database of peers, the questions asked of it, and
  \<open>update_connection_state\<close>, through which every change of a connection goes.
\<close>

section \<open>Constants, the database, the results\<close>

definition MAX_DC_PEERS :: nat where "MAX_DC_PEERS = 500"
definition MAX_BANNED_PEERS :: nat where "MAX_BANNED_PEERS = 1000"
definition ALLOWED_NEGATIVE_GOSSIPSUB_FACTOR :: f32 where
  "ALLOWED_NEGATIVE_GOSSIPSUB_FACTOR = F32_01"
definition DIAL_TIMEOUT :: nat where "DIAL_TIMEOUT = 15"

record peer_db =
  peers :: "(peer_id, peer_info) hmap"
  db_disconnected :: nat
  db_banned_count :: banned_peers_count

datatype new_connection_state =
    NewConnected "enr option" multiaddr connection_direction
  | NewDisconnecting bool
  | NewDialing bool "enr option"
  | NewDisconnected
  | NewBanned
  | NewUnbanned

datatype score_transition_result = TransDisconnected | TransBanned | TransUnbanned | TransNoAction

datatype ban_operation = DisconnectThePeer | ReadyToBan "ip_addr list" | PeerDisconnecting

datatype score_update_result = Ban ban_operation | Disconnect | Unbanned "ip_addr list" | NoAction

datatype ban_result = BadScore | BannedIp ip_addr | NotBanned

definition of_ban_operation :: "ban_operation option \<Rightarrow> score_update_result" where
  "of_ban_operation op = (case op of None \<Rightarrow> NoAction | Some bo \<Rightarrow> Ban bo)"

text \<open>The trusted peers are put into a map, where a repeated id stays a single entry.\<close>

definition new_db :: "instant \<Rightarrow> peer_id list \<Rightarrow> peer_db" where
  "new_db now trusted = \<lparr> peers = fold (\<lambda>p. hm_insert p (trusted_peer_info now)) trusted [],
     db_disconnected = 0, db_banned_count = default_banned_count \<rparr>"

section \<open>Questions\<close>

definition peer_info_get :: "peer_db \<Rightarrow> peer_id \<Rightarrow> peer_info option" where
  "peer_info_get db p = hm_get (peers db) p"

definition db_score :: "instant \<Rightarrow> peer_db \<Rightarrow> peer_id \<Rightarrow> score_value" where
  "db_score now db p = score_of (case hm_get (peers db) p of
       Some info \<Rightarrow> info_score info | None \<Rightarrow> default_score now)"

definition db_connection_status :: "peer_db \<Rightarrow> peer_id \<Rightarrow> peer_connection_status option" where
  "db_connection_status db p = map_option connection_status (hm_get (peers db) p)"

definition is_connected :: "peer_db \<Rightarrow> peer_id \<Rightarrow> bool" where
  "is_connected db p = (case db_connection_status db p of Some (Connected _ _) \<Rightarrow> True | _ \<Rightarrow> False)"

definition is_connected_or_dialing :: "peer_db \<Rightarrow> peer_id \<Rightarrow> bool" where
  "is_connected_or_dialing db p = (case db_connection_status db p of
       Some (Connected _ _) \<Rightarrow> True | Some (Dialing _) \<Rightarrow> True | _ \<Rightarrow> False)"

definition is_connected_or_disconnecting :: "peer_db \<Rightarrow> peer_id \<Rightarrow> bool" where
  "is_connected_or_disconnecting db p = (case db_connection_status db p of
       Some (Connected _ _) \<Rightarrow> True | Some (Disconnecting _) \<Rightarrow> True | _ \<Rightarrow> False)"

definition is_ip_banned :: "peer_db \<Rightarrow> ip_addr \<Rightarrow> bool" where
  "is_ip_banned db ip = ip_is_banned (db_banned_count db) ip"

definition db_ip_is_banned :: "peer_db \<Rightarrow> peer_info \<Rightarrow> ip_addr option" where
  "db_ip_is_banned db info = List.find (ip_is_banned (db_banned_count db)) (seen_ip_addresses info)"

definition score_state_banned_or_disconnected :: "peer_db \<Rightarrow> peer_id \<Rightarrow> bool" where
  "score_state_banned_or_disconnected db p = (case hm_get (peers db) p of
       None \<Rightarrow> False
     | Some info \<Rightarrow> (case score_state_of info of
           Healthy \<Rightarrow> db_ip_is_banned db info \<noteq> None
         | _ \<Rightarrow> True))"

definition should_dial :: "peer_db \<Rightarrow> peer_id \<Rightarrow> bool" where
  "should_dial db p =
     ((case db_connection_status db p of
         Some (Disconnected _) \<Rightarrow> True | Some Unknown \<Rightarrow> True | None \<Rightarrow> True | _ \<Rightarrow> False)
      \<and> \<not> score_state_banned_or_disconnected db p)"

definition is_synced :: "peer_db \<Rightarrow> peer_id \<Rightarrow> bool" where
  "is_synced db p = (case map_option info_sync_status (hm_get (peers db) p) of
       Some (Synced _) \<Rightarrow> True | Some _ \<Rightarrow> False | None \<Rightarrow> False)"

definition ban_status :: "peer_db \<Rightarrow> peer_id \<Rightarrow> ban_result" where
  "ban_status db p = (case hm_get (peers db) p of
       None \<Rightarrow> NotBanned
     | Some info \<Rightarrow> (case score_state_of info of
           score_state.Banned \<Rightarrow> BadScore
         | _ \<Rightarrow> (case db_ip_is_banned db info of Some ip \<Rightarrow> BannedIp ip | None \<Rightarrow> NotBanned)))"

text \<open>The iterators over the peers with a property.\<close>

definition ids_where :: "(peer_info \<Rightarrow> bool) \<Rightarrow> peer_db \<Rightarrow> peer_id list" where
  "ids_where P db = map fst (filter (\<lambda>(_, info). P info) (peers db))"

definition connected_peers :: "peer_db \<Rightarrow> (peer_id \<times> peer_info) list" where
  "connected_peers db = filter (\<lambda>(_, info). info_is_connected info) (peers db)"

definition connected_peer_ids :: "peer_db \<Rightarrow> peer_id list" where
  "connected_peer_ids db = ids_where info_is_connected db"

definition connected_or_dialing_peers :: "peer_db \<Rightarrow> peer_id list" where
  "connected_or_dialing_peers db = ids_where (\<lambda>i. info_is_connected i \<or> info_is_dialing i) db"

definition connected_outbound_only_peers :: "peer_db \<Rightarrow> peer_id list" where
  "connected_outbound_only_peers db = ids_where is_outbound_only db"

definition synced_peers :: "peer_db \<Rightarrow> peer_id list" where
  "synced_peers db = ids_where (\<lambda>i.
     if status_is_synced (info_sync_status i) \<or> status_is_advanced (info_sync_status i)
     then info_is_connected i else False) db"

definition advanced_peers :: "peer_db \<Rightarrow> peer_id list" where
  "advanced_peers db = ids_where (\<lambda>i.
     if status_is_advanced (info_sync_status i) then info_is_connected i else False) db"

definition good_peers_on_subnet :: "ssz_api \<Rightarrow> subnet \<Rightarrow> peer_db \<Rightarrow> peer_id list" where
  "good_peers_on_subnet api s db = ids_where (\<lambda>i. info_is_connected i \<and> on_subnet_metadata api s i
     \<and> on_subnet_gossipsub s i \<and> info_is_good_gossipsub_peer i) db"

definition disconnected_peer_ids :: "peer_db \<Rightarrow> peer_id list" where
  "disconnected_peer_ids db = ids_where info_is_disconnected db"

definition banned_peer_ids :: "peer_db \<Rightarrow> peer_id list" where
  "banned_peer_ids db = ids_where info_is_banned db"

definition banned_peers_by_score :: "peer_db \<Rightarrow> peer_id list" where
  "banned_peers_by_score db = ids_where score_is_banned db"

text \<open>The shuffle before sorting is the parameter \<open>shuffle\<close>; the sort is stable.\<close>

definition worst_connected_peers ::
  "((peer_id \<times> peer_info) list \<Rightarrow> (peer_id \<times> peer_info) list) \<Rightarrow> peer_db \<Rightarrow>
     (peer_id \<times> peer_info) list" where
  "worst_connected_peers shuffle db =
     sort_key (\<lambda>(_, info). score_of (info_score info)) (shuffle (connected_peers db))"

definition best_peers_by_status :: "(peer_info \<Rightarrow> bool) \<Rightarrow> peer_db \<Rightarrow> (peer_id \<times> peer_info) list" where
  "best_peers_by_status P db =
     rev (sort_key (\<lambda>(_, info). score_of (info_score info)) (filter (\<lambda>(_, info). P info) (peers db)))"

definition best_by_status :: "(peer_info \<Rightarrow> bool) \<Rightarrow> peer_db \<Rightarrow> peer_id option" where
  "best_by_status P db = map_option fst
     (max_by_key (\<lambda>(_, info). score_of (info_score info)) (filter (\<lambda>(_, info). P info) (peers db)))"

section \<open>The state of a connection\<close>

text \<open>The socket address in the address a peer was seen at: the last IP and the last TCP port.\<close>

definition socket_addr_of :: "multiaddr \<Rightarrow> socket_addr option" where
  "socket_addr_of ma =
     (case fold (\<lambda>pr (ip, port). case pr of
          Ip4 w \<Rightarrow> (Some (V4 w), port)
        | Ip6 w \<Rightarrow> (Some (V6 w), port)
        | Tcp q \<Rightarrow> (ip, Some q)
        | _ \<Rightarrow> (ip, port)) ma (None, None) of
        (Some ip, Some port) \<Rightarrow> Some (ip, port)
      | _ \<Rightarrow> None)"

definition forget_disconnected :: "peer_db \<Rightarrow> peer_db" where
  "forget_disconnected db = db\<lparr>db_disconnected := db_disconnected db - 1\<rparr>"

definition count_disconnected :: "peer_db \<Rightarrow> peer_db" where
  "count_disconnected db = db\<lparr>db_disconnected := db_disconnected db + 1\<rparr>"

definition forget_banned :: "peer_info \<Rightarrow> peer_db \<Rightarrow> peer_db" where
  "forget_banned info db =
     db\<lparr>db_banned_count := remove_banned_peer (seen_ip_addresses info) (db_banned_count db)\<rparr>"

definition count_banned :: "peer_info \<Rightarrow> peer_db \<Rightarrow> peer_db" where
  "count_banned info db =
     db\<lparr>db_banned_count := add_banned_peer (seen_ip_addresses info) (db_banned_count db)\<rparr>"

definition ready_to_ban :: "peer_info \<Rightarrow> peer_db \<Rightarrow> ban_operation" where
  "ready_to_ban info db = (let known = banned_ips (db_banned_count db) in
     ReadyToBan (filter (\<lambda>ip. ip \<in> set known) (seen_ip_addresses info)))"

type_synonym step_result = "peer_info \<times> peer_db \<times> ban_operation option"

definition to_connected ::
  "enr option \<Rightarrow> multiaddr \<Rightarrow> connection_direction \<Rightarrow> peer_info \<Rightarrow> peer_db \<Rightarrow> step_result" where
  "to_connected e seen dir info db =
     (let current = connection_status info;
          info = (case e of Some e \<Rightarrow> set_enr e info | None \<Rightarrow> info);
          db = (case current of
                  Disconnected _ \<Rightarrow> forget_disconnected db
                | Banned _ \<Rightarrow> forget_banned info db
                | _ \<Rightarrow> db);
          sa = socket_addr_of seen;
          info = (case dir of Incoming \<Rightarrow> info_connect_ingoing sa info
                            | Outgoing \<Rightarrow> info_connect_outgoing sa info)
      in (info, db, None))"

definition to_dialing ::
  "instant \<Rightarrow> bool \<Rightarrow> enr option \<Rightarrow> peer_info \<Rightarrow> peer_db \<Rightarrow> step_result" where
  "to_dialing now trusted e info db =
     (let db = (case connection_status info of
                  Banned _ \<Rightarrow> forget_banned info db
                | Disconnected _ \<Rightarrow> forget_disconnected db
                | _ \<Rightarrow> db);
          info = (case e of Some e \<Rightarrow> set_enr e info | None \<Rightarrow> info);
          info = (if trusted then set_trusted info else info);
          info = (case set_dialing_peer now info of Inr i \<Rightarrow> i | Inl _ \<Rightarrow> info)
      in (info, db, None))"

definition to_disconnected :: "instant \<Rightarrow> peer_info \<Rightarrow> peer_db \<Rightarrow> step_result" where
  "to_disconnected now info db =
     (let old = connection_status info; info = clear_subnets info in
      case old of
        Banned _ \<Rightarrow> (info, db, None)
      | Disconnected _ \<Rightarrow> (info, db, None)
      | Disconnecting True \<Rightarrow>
          (let info = set_connection_status (Banned now) info; db = count_banned info db
           in (info, db, Some (ready_to_ban info db)))
      | _ \<Rightarrow> (set_connection_status (Disconnected now) info, count_disconnected db, None))"

definition to_disconnecting :: "bool \<Rightarrow> peer_info \<Rightarrow> peer_db \<Rightarrow> step_result" where
  "to_disconnecting to_ban info db = (case connection_status info of
       Banned _ \<Rightarrow> (set_connection_status (Disconnecting to_ban) info, db, None)
     | Disconnected _ \<Rightarrow>
         (set_connection_status (Disconnecting to_ban) info, forget_disconnected db, None)
     | _ \<Rightarrow> (set_connection_status (Disconnecting to_ban) info, db, None))"

definition to_banned :: "instant \<Rightarrow> peer_info \<Rightarrow> peer_db \<Rightarrow> step_result" where
  "to_banned now info db = (case connection_status info of
       Disconnected _ \<Rightarrow>
         (let info = set_connection_status (Banned now) info;
              db = forget_disconnected (count_banned info db)
          in (info, db, Some (ready_to_ban info db)))
     | Disconnecting _ \<Rightarrow>
         (set_connection_status (Disconnecting True) info, db, Some PeerDisconnecting)
     | Banned _ \<Rightarrow> (info, db, Some (ready_to_ban info db))
     | Connected _ _ \<Rightarrow>
         (set_connection_status (Disconnecting True) info, db, Some DisconnectThePeer)
     | Dialing _ \<Rightarrow>
         (set_connection_status (Disconnecting True) info, db, Some DisconnectThePeer)
     | Unknown \<Rightarrow>
         (let db = count_banned info db; info = set_connection_status (Banned now) info
          in (info, db, Some (ready_to_ban info db))))"

definition to_unbanned :: "peer_info \<Rightarrow> peer_db \<Rightarrow> step_result" where
  "to_unbanned info db = (case connection_status info of
       Banned since \<Rightarrow>
         (let info = set_connection_status (Disconnected since) info
          in (info, count_disconnected (forget_banned info db), None))
     | _ \<Rightarrow> (info, db, None))"

definition transition ::
  "instant \<Rightarrow> new_connection_state \<Rightarrow> peer_info \<Rightarrow> peer_db \<Rightarrow> step_result" where
  "transition now new info db = (case new of
       NewConnected e seen dir \<Rightarrow> to_connected e seen dir info db
     | NewDialing trusted e \<Rightarrow> to_dialing now trusted e info db
     | NewDisconnected \<Rightarrow> to_disconnected now info db
     | NewDisconnecting to_ban \<Rightarrow> to_disconnecting to_ban info db
     | NewBanned \<Rightarrow> to_banned now info db
     | NewUnbanned \<Rightarrow> to_unbanned info db)"

definition entry_for :: "instant \<Rightarrow> new_connection_state \<Rightarrow> peer_db \<Rightarrow> peer_id \<Rightarrow> peer_info" where
  "entry_for now new db p = (case hm_get (peers db) p of
       Some info \<Rightarrow> info
     | None \<Rightarrow> (case new of NewDialing True _ \<Rightarrow> trusted_peer_info now | _ \<Rightarrow> default_peer_info now))"

definition ban_score :: "new_connection_state \<Rightarrow> peer_info \<Rightarrow> peer_info" where
  "ban_score new info =
     (if new = NewBanned \<and> score_state_of info \<noteq> score_state.Banned
      then apply_peer_action_to_score Fatal info else info)"

definition update_connection_state ::
  "instant \<Rightarrow> peer_id \<Rightarrow> new_connection_state \<Rightarrow> peer_db \<Rightarrow> peer_db \<times> ban_operation option" where
  "update_connection_state now p new db =
     (let (info, db, op) = transition now new (ban_score new (entry_for now new db p)) db
      in (db\<lparr>peers := hm_insert p info (peers db)\<rparr>, op))"

end
