(* ===== verification/Peer_DB_Inv.thy ===== *)
theory Peer_DB_Inv
  imports Peer_DB
begin

text \<open>
  The counters of the peer database.  \<open>disconnected_peers\<close> and \<open>banned_peers_count\<close> are kept beside the map
  they summarise; this theory states that they agree with it and shows which transitions keep them so.
\<close>

section \<open>The invariant\<close>

abbreviation disc_weight :: "peer_info \<Rightarrow> nat" where
  "disc_weight \<equiv> one_if info_is_disconnected"

abbreviation ban_weight :: "peer_info \<Rightarrow> nat" where
  "ban_weight \<equiv> one_if info_is_banned"

definition ip_weight :: "ip_addr \<Rightarrow> peer_info \<Rightarrow> nat" where
  "ip_weight ip info = (if info_is_banned info then count_list (seen_ip_addresses info) ip else 0)"

definition counts_ok :: "peer_db \<Rightarrow> bool" where
  "counts_ok db \<longleftrightarrow> db_disconnected db = hm_sum disc_weight (peers db)
     \<and> bp_total (db_banned_count db) = hm_sum ban_weight (peers db)
     \<and> (\<forall>ip. ip_count (db_banned_count db) ip = hm_sum (ip_weight ip) (peers db))"

definition infos_ok :: "peer_db \<Rightarrow> bool" where
  "infos_ok db = (\<forall>(p, info) \<in> set (peers db). info_ok info)"

definition db_ok :: "peer_db \<Rightarrow> bool" where
  "db_ok db \<longleftrightarrow> hm_ok (peers db) \<and> banned_count_ok (db_banned_count db) \<and> infos_ok db \<and> counts_ok db"

text \<open>The one transition that breaks the counters.\<close>

definition loses_ban :: "new_connection_state \<Rightarrow> peer_info \<Rightarrow> bool" where
  "loses_ban new info = (info_is_banned info \<and> (\<exists>b. new = NewDisconnecting b))"

lemma weights_status:
  "connection_status i = connection_status j \<Longrightarrow> disc_weight i = disc_weight j"
  "connection_status i = connection_status j \<Longrightarrow> ban_weight i = ban_weight j"
  "connection_status i = connection_status j \<Longrightarrow> seen_addresses i = seen_addresses j
     \<Longrightarrow> ip_weight ip i = ip_weight ip j"
  by (simp_all add: one_if_def ip_weight_def status_defs seen_ip_addresses_def)

lemma info_ok_score: "info_score i = info_score j \<Longrightarrow> info_ok i = info_ok j"
  by (simp add: info_ok_def)

section \<open>What a transition does to the counters\<close>

text \<open>A transition from \<open>info, db\<close> to \<open>info', db'\<close> is balanced when every counter moves by the difference
  of the two weights.\<close>

definition balanced :: "peer_info \<Rightarrow> peer_db \<Rightarrow> peer_info \<Rightarrow> peer_db \<Rightarrow> bool" where
  "balanced info db info' db' \<longleftrightarrow> peers db' = peers db
     \<and> (disc_weight info \<le> db_disconnected db \<longrightarrow>
         db_disconnected db' + disc_weight info = db_disconnected db + disc_weight info')
     \<and> (ban_weight info \<le> bp_total (db_banned_count db) \<longrightarrow>
         bp_total (db_banned_count db') + ban_weight info
           = bp_total (db_banned_count db) + ban_weight info')
     \<and> (\<forall>ip. ip_weight ip info \<le> ip_count (db_banned_count db) ip \<longrightarrow>
         ip_count (db_banned_count db') ip + ip_weight ip info
           = ip_count (db_banned_count db) ip + ip_weight ip info')
     \<and> (banned_count_ok (db_banned_count db) \<longrightarrow> banned_count_ok (db_banned_count db'))
     \<and> (info_ok info \<longrightarrow> info_ok info')"

lemmas balance_defs = balanced_def forget_disconnected_def count_disconnected_def forget_banned_def
  count_banned_def one_if_def ip_weight_def status_defs info_setters seen_ip_addresses_def

lemma status_connect_ingoing:
  "info_is_disconnected (info_connect_ingoing sa i) = False"
  "info_is_banned (info_connect_ingoing sa i) = False"
  "info_score (info_connect_ingoing sa i) = info_score i"
  by (simp_all add: info_connect_ingoing_def status_defs split: peer_connection_status.split)

lemma status_connect_outgoing:
  "info_is_disconnected (info_connect_outgoing sa i) = False"
  "info_is_banned (info_connect_outgoing sa i) = False"
  "info_score (info_connect_outgoing sa i) = info_score i"
  by (simp_all add: info_connect_outgoing_def status_defs split: peer_connection_status.split)

lemma balanced_connected:
  assumes "to_connected e seen dir info db = (info', db', op)"
  shows "balanced info db info' db'"
proof -
  have st: "info_is_disconnected info' = False" "info_is_banned info' = False"
    "info_score info' = info_score info"
    using assms by (auto simp: to_connected_def Let_def status_connect_ingoing
        status_connect_outgoing set_enr_def split: connection_direction.splits option.splits)
  have db: "db' = (case connection_status info of Disconnected _ \<Rightarrow> forget_disconnected db
       | Banned _ \<Rightarrow> forget_banned info db | _ \<Rightarrow> db)"
    using assms by (cases e) (auto simp: to_connected_def Let_def forget_banned_def set_enr_def
        seen_ip_addresses_def split: peer_connection_status.split)
  show ?thesis
    unfolding balanced_def ip_weight_def one_if_def st db info_ok_score [OF st(3)]
    by (cases "connection_status info")
       (simp_all add: status_defs forget_disconnected_def forget_banned_def count_simps)
qed

lemma set_dialing_status:
  "connection_status (case set_dialing_peer now i of Inr j \<Rightarrow> j | Inl _ \<Rightarrow> i)
     = (case connection_status i of Disconnected _ \<Rightarrow> Dialing now | Banned _ \<Rightarrow> Dialing now
        | Unknown \<Rightarrow> Dialing now | s \<Rightarrow> s)"
  "info_score (case set_dialing_peer now i of Inr j \<Rightarrow> j | Inl _ \<Rightarrow> i) = info_score i"
  by (simp_all add: set_dialing_peer_def split: peer_connection_status.split)

lemma balanced_dialing:
  assumes "to_dialing now trusted e info db = (info', db', op)"
  shows "balanced info db info' db'"
proof -
  have st: "connection_status info' = (case connection_status info of Disconnected _ \<Rightarrow> Dialing now
      | Banned _ \<Rightarrow> Dialing now | Unknown \<Rightarrow> Dialing now | s \<Rightarrow> s)"
    "info_score info' = info_score info"
    using assms by (auto simp: to_dialing_def Let_def set_dialing_status set_enr_def set_trusted_def
        split: option.splits)
  have db: "db' = (case connection_status info of Banned _ \<Rightarrow> forget_banned info db
       | Disconnected _ \<Rightarrow> forget_disconnected db | _ \<Rightarrow> db)"
    using assms by (auto simp: to_dialing_def Let_def)
  show ?thesis
    unfolding balanced_def ip_weight_def one_if_def db info_ok_score [OF st(2)]
    by (cases "connection_status info")
       (simp_all add: st status_defs forget_disconnected_def forget_banned_def count_simps)
qed

lemma balanced_disconnected:
  assumes "to_disconnected now info db = (info', db', op)"
  shows "balanced info db info' db'"
  using assms
  by (cases "connection_status info")
     (auto simp: to_disconnected_def Let_def balance_defs count_simps info_ok_def split: bool.splits)

lemma balanced_disconnecting:
  assumes "to_disconnecting to_ban info db = (info', db', op)" and "\<not> info_is_banned info"
  shows "balanced info db info' db'"
  using assms
  by (cases "connection_status info")
     (auto simp: to_disconnecting_def balance_defs count_simps info_ok_def)

lemma balanced_banned:
  assumes "to_banned now info db = (info', db', op)"
  shows "balanced info db info' db'"
  using assms
  by (cases "connection_status info")
     (auto simp: to_banned_def Let_def balance_defs count_simps info_ok_def)

lemma balanced_unbanned:
  assumes "to_unbanned info db = (info', db', op)"
  shows "balanced info db info' db'"
  using assms
  by (cases "connection_status info")
     (auto simp: to_unbanned_def Let_def balance_defs count_simps info_ok_def)

lemma balanced_transition:
  assumes "transition now new info db = (info', db', op)" and "\<not> loses_ban new info"
  shows "balanced info db info' db'"
  using assms unfolding transition_def loses_ban_def
  by (cases new)
     (auto intro: balanced_connected balanced_dialing balanced_disconnected balanced_disconnecting
       balanced_banned balanced_unbanned)

section \<open>The invariant is kept\<close>

lemma weights_default [simp]:
  "disc_weight (default_peer_info now) = 0" "ban_weight (default_peer_info now) = 0"
  "ip_weight ip (default_peer_info now) = 0"
  "disc_weight (trusted_peer_info now) = 0" "ban_weight (trusted_peer_info now) = 0"
  "ip_weight ip (trusted_peer_info now) = 0"
  by (simp_all add: one_if_def ip_weight_def status_defs default_peer_info_def trusted_peer_info_def)

lemma entry_weight:
  "disc_weight (entry_for now new db p) = weight_at disc_weight (hm_get (peers db) p)"
  "ban_weight (entry_for now new db p) = weight_at ban_weight (hm_get (peers db) p)"
  "ip_weight ip (entry_for now new db p) = weight_at (ip_weight ip) (hm_get (peers db) p)"
  by (auto simp: entry_for_def split: option.split new_connection_state.split bool.split)

lemma ban_score_weight:
  "disc_weight (ban_score new i) = disc_weight i" "ban_weight (ban_score new i) = ban_weight i"
  "ip_weight ip (ban_score new i) = ip_weight ip i"
  by (auto simp: ban_score_def intro: weights_status)

lemma infos_ok_get: "infos_ok db \<Longrightarrow> hm_get (peers db) p = Some i \<Longrightarrow> info_ok i"
  by (auto simp: infos_ok_def dest: hm_get_Some_in)

lemma info_ok_entry: "infos_ok db \<Longrightarrow> info_ok (entry_for now new db p)"
  by (auto simp: entry_for_def intro: infos_ok_get
      split: option.split new_connection_state.split bool.split)

lemma info_ok_ban_score: "info_ok i \<Longrightarrow> info_ok (ban_score new i)"
  by (auto simp: ban_score_def intro: pinfo.ok_act)

lemma infos_ok_insert:
  "infos_ok db \<Longrightarrow> info_ok i \<Longrightarrow> infos_ok (db\<lparr>peers := hm_insert p i (peers db)\<rparr>)"
  using set_hm_insert [of p i "peers db"] by (auto simp: infos_ok_def)

lemma weight_at_le_counts:
  assumes "counts_ok db"
  shows "weight_at disc_weight (hm_get (peers db) p) \<le> db_disconnected db"
    and "weight_at ban_weight (hm_get (peers db) p) \<le> bp_total (db_banned_count db)"
    and "weight_at (ip_weight ip) (hm_get (peers db) p) \<le> ip_count (db_banned_count db) ip"
  using assms sum_ge [of disc_weight "peers db" p] sum_ge [of ban_weight "peers db" p]
    sum_ge [of "ip_weight ip" "peers db" p]
  by (simp_all add: counts_ok_def)

text \<open>Storing the result of a balanced step under its key keeps the whole database in order.\<close>

lemma balanced_store:
  assumes "db_ok db" and bal: "balanced info db info' db'"
    and w: "disc_weight info = weight_at disc_weight (hm_get (peers db) p)"
      "ban_weight info = weight_at ban_weight (hm_get (peers db) p)"
      "\<And>ip. ip_weight ip info = weight_at (ip_weight ip) (hm_get (peers db) p)"
    and "info_ok info"
  shows "db_ok (db'\<lparr>peers := hm_insert p info' (peers db')\<rparr>)"
proof -
  have cnt: "counts_ok db" and [simp]: "peers db' = peers db"
    using assms(1) bal by (simp_all add: db_ok_def balanced_def)
  note le = weight_at_le_counts [OF cnt]
  have "counts_ok (db'\<lparr>peers := hm_insert p info' (peers db')\<rparr>)"
    unfolding counts_ok_def
  proof (intro conjI allI)
    show "db_disconnected (db'\<lparr>peers := hm_insert p info' (peers db')\<rparr>)
        = hm_sum disc_weight (peers (db'\<lparr>peers := hm_insert p info' (peers db')\<rparr>))"
      using bal w(1) le(1) [of p] sum_insert [of disc_weight p info' "peers db"] cnt
      by (simp add: balanced_def counts_ok_def)
    show "bp_total (db_banned_count (db'\<lparr>peers := hm_insert p info' (peers db')\<rparr>))
        = hm_sum ban_weight (peers (db'\<lparr>peers := hm_insert p info' (peers db')\<rparr>))"
      using bal w(2) le(2) [of p] sum_insert [of ban_weight p info' "peers db"] cnt
      by (simp add: balanced_def counts_ok_def)
  next
    fix ip
    have "ip_count (db_banned_count db') ip + ip_weight ip info
        = ip_count (db_banned_count db) ip + ip_weight ip info'"
      using bal w(3) [of ip] le(3) [of ip p] unfolding balanced_def by metis
    then show "ip_count (db_banned_count (db'\<lparr>peers := hm_insert p info' (peers db')\<rparr>)) ip
        = hm_sum (ip_weight ip) (peers (db'\<lparr>peers := hm_insert p info' (peers db')\<rparr>))"
      using w(3) [of ip] sum_insert [of "ip_weight ip" p info' "peers db"] cnt
      by (simp add: counts_ok_def)
  qed
  moreover have "infos_ok (db'\<lparr>peers := hm_insert p info' (peers db')\<rparr>)"
    using assms(1,6) bal infos_ok_insert [of db info' p]
    by (simp add: db_ok_def balanced_def infos_ok_def)
  ultimately show ?thesis
    using assms(1) bal by (simp add: db_ok_def balanced_def)
qed

lemma db_ok_update_connection_state:
  assumes "db_ok db"
    and "\<not> (\<exists>b. new = NewDisconnecting b \<and> (\<exists>i. hm_get (peers db) p = Some i \<and> info_is_banned i))"
  shows "db_ok (fst (update_connection_state now p new db))"
proof -
  let ?e = "ban_score new (entry_for now new db p)"
  obtain info' db' op where t: "transition now new ?e db = (info', db', op)"
    by (metis prod_cases3)
  have "\<not> loses_ban new ?e"
    using assms(2) by (auto simp: loses_ban_def ban_score_def entry_for_def default_peer_info_def
        info_is_banned_def split: option.splits)
  with t have "balanced ?e db info' db'" by (rule balanced_transition)
  with assms(1) have "db_ok (db'\<lparr>peers := hm_insert p info' (peers db')\<rparr>)"
    by (rule balanced_store)
       (use assms(1) in \<open>auto simp: ban_score_weight entry_weight db_ok_def
          intro: info_ok_ban_score info_ok_entry\<close>)
  then show ?thesis by (simp add: update_connection_state_def t)
qed

lemma db_ok_new: "db_ok (new_db now trusted)"
proof -
  have "hm_ok m \<and> (\<forall>(p, i) \<in> set m. i = trusted_peer_info now) \<Longrightarrow>
      hm_ok (fold (\<lambda>p. hm_insert p (trusted_peer_info now)) trusted m)
      \<and> (\<forall>(p, i) \<in> set (fold (\<lambda>p. hm_insert p (trusted_peer_info now)) trusted m).
           i = trusted_peer_info now)" for m :: "(peer_id, peer_info) hmap"
  proof (induction trusted arbitrary: m)
    case (Cons t trusted)
    show ?case
      using Cons.IH [of "hm_insert t (trusted_peer_info now) m"] Cons.prems
        set_hm_insert [of t "trusted_peer_info now" m] by fastforce
  qed simp
  from this [of "[]"] have m: "hm_ok (peers (new_db now trusted))"
    "\<forall>(p, i) \<in> set (peers (new_db now trusted)). i = trusted_peer_info now"
    by (simp_all add: new_db_def)
  have "hm_sum w (peers (new_db now trusted)) = 0" if "w (trusted_peer_info now) = 0" for w
    using sum_cong [of "peers (new_db now trusted)" w "\<lambda>_. 0"] m(2) that
    by (auto simp: hm_sum_def)
  with m show ?thesis
    by (auto simp: db_ok_def infos_ok_def counts_ok_def new_db_def [of now trusted])
qed

end
