(* ===== verification/Peer_DB_Ops.thy ===== *)
theory Peer_DB_Ops
  imports Peer_DB_Inv
begin

text \<open>
  \<open>peer_manager/peerdb.rs\<close>, second part: reports, the periodic update of the scores, the gossipsub
  scores, the clean-up of peers that are being dialed, and the bound on the number of peers
  remembered.
\<close>

section \<open>Score transitions\<close>

definition handle_score_transition :: "score_state \<Rightarrow> peer_info \<Rightarrow> score_transition_result" where
  "handle_score_transition previous info = (case (score_state_of info, previous) of
       (score_state.Banned, score_state.Banned) \<Rightarrow> TransNoAction
     | (score_state.Banned, _) \<Rightarrow> TransBanned
     | (score_state.Disconnected, score_state.Disconnected) \<Rightarrow> TransNoAction
     | (score_state.Disconnected, _) \<Rightarrow>
         if info_is_connected_or_dialing info then TransDisconnected
         else if previous = score_state.Banned then TransUnbanned
         else TransNoAction
     | (Healthy, score_state.Disconnected) \<Rightarrow> TransNoAction
     | (Healthy, score_state.Banned) \<Rightarrow> TransUnbanned
     | (Healthy, Healthy) \<Rightarrow> TransNoAction)"

text \<open>The addresses of a peer that are not banned, reported with an unbanned peer.\<close>

definition free_ips :: "peer_db \<Rightarrow> peer_id \<Rightarrow> ip_addr list" where
  "free_ips db p = (case hm_get (peers db) p of
       Some info \<Rightarrow> filter (\<lambda>ip. \<not> is_ip_banned db ip) (seen_ip_addresses info)
     | None \<Rightarrow> [])"

section \<open>Reports\<close>

definition db_report_peer ::
  "instant \<Rightarrow> peer_id \<Rightarrow> peer_action \<Rightarrow> peer_db \<Rightarrow> peer_db \<times> score_update_result" where
  "db_report_peer now p a db = (case hm_get (peers db) p of
       None \<Rightarrow> (db, NoAction)
     | Some info \<Rightarrow>
         (let previous = score_state_of info;
              info = apply_peer_action_to_score a info;
              db = db\<lparr>peers := hm_insert p info (peers db)\<rparr>
          in case handle_score_transition previous info of
               TransBanned \<Rightarrow> (let (db, op) = update_connection_state now p NewBanned db
                               in (db, of_ban_operation op))
             | TransDisconnected \<Rightarrow>
                 (fst (update_connection_state now p (NewDisconnecting False) db), Disconnect)
             | TransNoAction \<Rightarrow> (db, NoAction)
             | TransUnbanned \<Rightarrow> (db, NoAction)))"

section \<open>Periodic updates\<close>

definition unban_step ::
  "instant \<Rightarrow> peer_id \<Rightarrow> peer_db \<times> (peer_id \<times> score_update_result) list \<Rightarrow>
     peer_db \<times> (peer_id \<times> score_update_result) list" where
  "unban_step now p acc = (let (db, result) = acc;
       db = fst (update_connection_state now p NewUnbanned db)
     in (db, result @ [(p, Unbanned (free_ips db p))]))"

definition update_scores ::
  "instant \<Rightarrow> peer_db \<Rightarrow> peer_db \<times> (peer_id \<times> score_update_result) list" where
  "update_scores now db =
     (let to_unban = map fst (filter (\<lambda>(p, info). handle_score_transition (score_state_of info)
            (info_update_score now info) = TransUnbanned) (peers db));
          db = db\<lparr>peers := hm_map (info_update_score now) (peers db)\<rparr>
      in fold (unban_step now) to_unban (db, []))"

text \<open>The gossipsub scores: every connected peer gossipsub knows, best score first; the best of the
  negative ones are ignored up to a tenth of the target.  \<open>peer_score\<close> is gossipsub's answer.\<close>

definition gossip_targets ::
  "(peer_id \<Rightarrow> f64 option) \<Rightarrow> peer_db \<Rightarrow> (peer_id \<times> f64) list" where
  "gossip_targets peer_score db = sort_key (\<lambda>(_, s). - s)
     (List.map_filter (\<lambda>(p, info). if info_is_connected info
        then map_option (\<lambda>s. (p, s)) (peer_score p) else None) (peers db))"

definition to_ignore_negative_peers :: "nat \<Rightarrow> nat" where
  "to_ignore_negative_peers target =
     ceil_as_usize (f32_mult (f32_of_nat target) ALLOWED_NEGATIVE_GOSSIPSUB_FACTOR)"

definition gossip_score_step ::
  "instant \<Rightarrow> peer_id \<times> f64 \<Rightarrow> peer_db \<times> nat \<times> (peer_id \<times> score_transition_result) list \<Rightarrow>
     peer_db \<times> nat \<times> (peer_id \<times> score_transition_result) list" where
  "gossip_score_step now ps acc = (let (p, s) = ps; (db, left, actions) = acc in
     case hm_get (peers db) p of
       None \<Rightarrow> acc
     | Some info \<Rightarrow>
         (let previous = score_state_of info;
              ignore = (s < 0 \<and> left > 0);
              info = info_update_gossipsub_score now s ignore info
          in (db\<lparr>peers := hm_insert p info (peers db)\<rparr>, if ignore then left - 1 else left,
              actions @ [(p, handle_score_transition previous info)])))"

definition gossip_action_step ::
  "instant \<Rightarrow> peer_id \<times> score_transition_result \<Rightarrow> peer_db \<times> (peer_id \<times> score_update_result) list \<Rightarrow>
     peer_db \<times> (peer_id \<times> score_update_result) list" where
  "gossip_action_step now pa acc = (let (p, a) = pa; (db, results) = acc;
       (db, result) = (case a of
           TransBanned \<Rightarrow> (let (db, op) = update_connection_state now p NewBanned db
                           in (db, of_ban_operation op))
         | TransDisconnected \<Rightarrow>
             (fst (update_connection_state now p (NewDisconnecting False) db), Disconnect)
         | TransNoAction \<Rightarrow> (db, NoAction)
         | TransUnbanned \<Rightarrow>
             (let db = fst (update_connection_state now p NewUnbanned db)
              in (db, Unbanned (free_ips db p))))
     in (db, if result = NoAction then results else results @ [(p, result)]))"

definition update_gossipsub_scores ::
  "instant \<Rightarrow> nat \<Rightarrow> (peer_id \<Rightarrow> f64 option) \<Rightarrow> peer_db \<Rightarrow>
     peer_db \<times> (peer_id \<times> score_update_result) list" where
  "update_gossipsub_scores now target peer_score db =
     (let (db, _, actions) = fold (gossip_score_step now) (gossip_targets peer_score db)
            (db, to_ignore_negative_peers target, [])
      in fold (gossip_action_step now) actions (db, []))"

section \<open>Dialing peers\<close>

definition dialing_timed_out :: "instant \<Rightarrow> peer_info \<Rightarrow> bool" where
  "dialing_timed_out now info = (case connection_status info of
       Dialing since \<Rightarrow> since + from_secs DIAL_TIMEOUT < now | _ \<Rightarrow> False)"

definition cleanup_dialing_peers :: "instant \<Rightarrow> peer_db \<Rightarrow> peer_db" where
  "cleanup_dialing_peers now db =
     fold (\<lambda>p db. fst (update_connection_state now p NewDisconnected db))
       (ids_where (dialing_timed_out now) db) db"

section \<open>Small changes\<close>

definition db_update_sync_status ::
  "peer_id \<Rightarrow> sync_status \<Rightarrow> peer_db \<Rightarrow> peer_db \<times> bool option" where
  "db_update_sync_status p st db = (case hm_get (peers db) p of
       None \<Rightarrow> (db, None)
     | Some info \<Rightarrow> (let (info, changed) = info_update_sync_status st info
                     in (db\<lparr>peers := hm_insert p info (peers db)\<rparr>, Some changed)))"

definition longer_ttl :: "instant \<Rightarrow> peer_info \<Rightarrow> bool" where
  "longer_ttl t info = (case min_ttl info of None \<Rightarrow> True | Some m \<Rightarrow> t > m)"

definition update_min_ttl :: "instant \<Rightarrow> peer_id \<Rightarrow> instant \<Rightarrow> peer_db \<Rightarrow> peer_db" where
  "update_min_ttl now p t db = db\<lparr>peers := hm_upsert p (default_peer_info now)
     (\<lambda>info. if longer_ttl t info then set_min_ttl t info else info) (peers db)\<rparr>"

definition add_subscription :: "peer_id \<Rightarrow> subnet \<Rightarrow> peer_db \<Rightarrow> peer_db" where
  "add_subscription p s db = db\<lparr>peers := hm_adjust p (insert_subnet s) (peers db)\<rparr>"

definition remove_subscription :: "peer_id \<Rightarrow> subnet \<Rightarrow> peer_db \<Rightarrow> peer_db" where
  "remove_subscription p s db = db\<lparr>peers := hm_adjust p (remove_subnet s) (peers db)\<rparr>"

definition extend_peers_on_subnet :: "ssz_api \<Rightarrow> subnet \<Rightarrow> instant \<Rightarrow> peer_db \<Rightarrow> peer_db" where
  "extend_peers_on_subnet api s t db = db\<lparr>peers := hm_map (\<lambda>info.
     if info_is_connected info \<and> on_subnet_metadata api s info \<and> on_subnet_gossipsub s info
     then (if longer_ttl t info then set_min_ttl t info else info) else info) (peers db)\<rparr>"

definition dialing_peer :: "instant \<Rightarrow> peer_id \<Rightarrow> enr option \<Rightarrow> bool \<Rightarrow> peer_db \<Rightarrow> peer_db" where
  "dialing_peer now p e trusted db = fst (update_connection_state now p (NewDialing trusted e) db)"

definition db_connect_ingoing ::
  "instant \<Rightarrow> peer_id \<Rightarrow> multiaddr \<Rightarrow> enr option \<Rightarrow> peer_db \<Rightarrow> peer_db" where
  "db_connect_ingoing now p seen e db =
     fst (update_connection_state now p (NewConnected e seen Incoming) db)"

definition db_connect_outgoing ::
  "instant \<Rightarrow> peer_id \<Rightarrow> multiaddr \<Rightarrow> enr option \<Rightarrow> peer_db \<Rightarrow> peer_db" where
  "db_connect_outgoing now p seen e db =
     fst (update_connection_state now p (NewConnected e seen Outgoing) db)"

definition notify_disconnecting :: "instant \<Rightarrow> peer_id \<Rightarrow> bool \<Rightarrow> peer_db \<Rightarrow> peer_db" where
  "notify_disconnecting now p to_ban db =
     fst (update_connection_state now p (NewDisconnecting to_ban) db)"

section \<open>The bound on remembered peers\<close>

definition banned_since :: "peer_info \<Rightarrow> instant option" where
  "banned_since info = (case connection_status info of Banned t \<Rightarrow> Some t | _ \<Rightarrow> None)"

definition disconnected_since :: "peer_info \<Rightarrow> instant option" where
  "disconnected_since info = (case connection_status info of Disconnected t \<Rightarrow> Some t | _ \<Rightarrow> None)"

text \<open>The peers with a time, and the one with the earliest.\<close>

definition with_since ::
  "(peer_info \<Rightarrow> instant option) \<Rightarrow> peer_db \<Rightarrow> (peer_id \<times> peer_info \<times> instant) list" where
  "with_since f db = List.map_filter (\<lambda>(p, info). map_option (\<lambda>t. (p, info, t)) (f info)) (peers db)"

definition oldest ::
  "(peer_info \<Rightarrow> instant option) \<Rightarrow> peer_db \<Rightarrow> (peer_id \<times> peer_info) option" where
  "oldest f db = map_option (\<lambda>(p, info, _). (p, info)) (min_by_key (\<lambda>(_, _, t). t) (with_since f db))"

definition drop_oldest_banned :: "peer_db \<Rightarrow> peer_db \<times> (peer_id \<times> ip_addr list) list" where
  "drop_oldest_banned db = (case oldest banned_since db of
       Some (p, info) \<Rightarrow>
         (let db = forget_banned info db;
              ips = filter (\<lambda>ip. \<not> is_ip_banned db ip) (seen_ip_addresses info)
          in (db\<lparr>peers := hm_remove p (peers db)\<rparr>, [(p, ips)]))
     | None \<Rightarrow> (db\<lparr>db_banned_count := default_banned_count\<rparr>, []))"

lemma bp_total_drop_oldest_banned:
  "bp_total (db_banned_count (fst (drop_oldest_banned db))) \<le> bp_total (db_banned_count db) - 1"
  by (simp add: drop_oldest_banned_def forget_banned_def Let_def count_simps split: option.split)

function shrink_banned ::
  "peer_db \<Rightarrow> (peer_id \<times> ip_addr list) list \<Rightarrow> peer_db \<times> (peer_id \<times> ip_addr list) list" where
  "shrink_banned db unbanned =
     (if bp_total (db_banned_count db) > MAX_BANNED_PEERS
      then (let (db, dropped) = drop_oldest_banned db in shrink_banned db (unbanned @ dropped))
      else (db, unbanned))"
  by auto
termination
proof (relation "measure (\<lambda>(db, _). bp_total (db_banned_count db))")
  fix db :: peer_db and unbanned x db' dropped
  assume "MAX_BANNED_PEERS < bp_total (db_banned_count db)" "x = drop_oldest_banned db"
    "(db', dropped) = x"
  with bp_total_drop_oldest_banned [of db]
  show "((db', unbanned @ dropped), db, unbanned) \<in> measure (\<lambda>(db, _). bp_total (db_banned_count db))"
    by (auto dest: arg_cong [where f = fst])
qed simp

declare shrink_banned.simps [simp del]

definition drop_oldest_disconnected :: "peer_db \<Rightarrow> peer_db" where
  "drop_oldest_disconnected db = forget_disconnected (case oldest disconnected_since db of
       Some (p, _) \<Rightarrow> db\<lparr>peers := hm_remove p (peers db)\<rparr> | None \<Rightarrow> db)"

function shrink_disconnected :: "peer_db \<Rightarrow> peer_db" where
  "shrink_disconnected db = (if db_disconnected db > MAX_DC_PEERS
     then shrink_disconnected (drop_oldest_disconnected db) else db)"
  by auto
termination
  by (relation "measure db_disconnected")
     (auto simp: drop_oldest_disconnected_def forget_disconnected_def split: option.split)

declare shrink_disconnected.simps [simp del]

definition shrink_to_fit :: "peer_db \<Rightarrow> peer_db \<times> (peer_id \<times> ip_addr list) list" where
  "shrink_to_fit db = (let (db, unbanned) = shrink_banned db [] in (shrink_disconnected db, unbanned))"

definition db_inject_disconnect ::
  "instant \<Rightarrow> peer_id \<Rightarrow> peer_db \<Rightarrow>
     peer_db \<times> ban_operation option \<times> (peer_id \<times> ip_addr list) list" where
  "db_inject_disconnect now p db =
     (let (db, op) = update_connection_state now p NewDisconnected db;
          (db, purged) = shrink_to_fit db
      in (db, op, purged))"

end
