(* ===== verification/Topics.thy ===== *)
theory Topics
  imports Enr
begin

text \<open>
  \<open>types/topics.rs\<close>: the gossipsub topics, their text and its parser, and the filter of
  \<open>network/utils.rs\<close> that lists all topics the node accepts.  Hexadecimal encoding is a parameter whose
  documented laws are \<open>hex_laws\<close>.
\<close>

section \<open>Topics\<close>

definition TOPIC_PREFIX :: string where "TOPIC_PREFIX = ''eth2''"
definition SSZ_SNAPPY_ENCODING_POSTFIX :: string where
  "SSZ_SNAPPY_ENCODING_POSTFIX = ''ssz_snappy''"
definition BEACON_BLOCK_TOPIC :: string where "BEACON_BLOCK_TOPIC = ''beacon_block''"
definition BEACON_AGGREGATE_AND_PROOF_TOPIC :: string where
  "BEACON_AGGREGATE_AND_PROOF_TOPIC = ''beacon_aggregate_and_proof''"
definition BEACON_ATTESTATION_PREFIX :: string where
  "BEACON_ATTESTATION_PREFIX = ''beacon_attestation_''"
definition VOLUNTARY_EXIT_TOPIC :: string where "VOLUNTARY_EXIT_TOPIC = ''voluntary_exit''"
definition PROPOSER_SLASHING_TOPIC :: string where
  "PROPOSER_SLASHING_TOPIC = ''proposer_slashing''"
definition ATTESTER_SLASHING_TOPIC :: string where
  "ATTESTER_SLASHING_TOPIC = ''attester_slashing''"
definition SIGNED_CONTRIBUTION_AND_PROOF_TOPIC :: string where
  "SIGNED_CONTRIBUTION_AND_PROOF_TOPIC = ''sync_committee_contribution_and_proof''"
definition SYNC_COMMITTEE_PREFIX_TOPIC :: string where
  "SYNC_COMMITTEE_PREFIX_TOPIC = ''sync_committee_''"

lemmas topic_consts = TOPIC_PREFIX_def SSZ_SNAPPY_ENCODING_POSTFIX_def BEACON_BLOCK_TOPIC_def
  BEACON_AGGREGATE_AND_PROOF_TOPIC_def BEACON_ATTESTATION_PREFIX_def VOLUNTARY_EXIT_TOPIC_def
  PROPOSER_SLASHING_TOPIC_def ATTESTER_SLASHING_TOPIC_def SIGNED_CONTRIBUTION_AND_PROOF_TOPIC_def
  SYNC_COMMITTEE_PREFIX_TOPIC_def

datatype gossip_kind =
    BeaconBlock | BeaconAggregateAndProof | KindAttestation nat | VoluntaryExit | ProposerSlashing
  | AttesterSlashing | SignedContributionAndProof | SyncCommitteeMessage nat

datatype gossip_encoding = GossipSSZSnappy

record gossip_topic =
  gt_encoding :: gossip_encoding
  gt_fork_digest :: bytes
  gt_kind :: gossip_kind

definition gossip_topic_new :: "gossip_kind \<Rightarrow> gossip_encoding \<Rightarrow> bytes \<Rightarrow> gossip_topic" where
  "gossip_topic_new k e d = \<lparr> gt_encoding = e, gt_fork_digest = d, gt_kind = k \<rparr>"

fun gossip_kind_display :: "gossip_kind \<Rightarrow> string" where
  "gossip_kind_display (KindAttestation i) = ''beacon_attestation_'' @ show_nat i"
| "gossip_kind_display (SyncCommitteeMessage i) = ''sync_committee_'' @ show_nat i"
| "gossip_kind_display BeaconBlock = ''beacon_block''"
| "gossip_kind_display BeaconAggregateAndProof = ''beacon_aggregate_and_proof''"
| "gossip_kind_display VoluntaryExit = ''voluntary_exit''"
| "gossip_kind_display ProposerSlashing = ''proposer_slashing''"
| "gossip_kind_display AttesterSlashing = ''attester_slashing''"
| "gossip_kind_display SignedContributionAndProof = ''signed_contribution_and_proof''"

fun kind_of_subnet :: "subnet \<Rightarrow> gossip_kind" where
  "kind_of_subnet (Attestation s) = KindAttestation s"
| "kind_of_subnet (SyncCommittee s) = SyncCommitteeMessage s"

definition topic_subnet_id :: "gossip_topic \<Rightarrow> subnet option" where
  "topic_subnet_id t = (case gt_kind t of
       KindAttestation i \<Rightarrow> Some (Attestation i)
     | SyncCommitteeMessage i \<Rightarrow> Some (SyncCommittee i)
     | _ \<Rightarrow> None)"

section \<open>Text\<close>

record hex_api =
  hex_encode :: "bytes \<Rightarrow> string"
  hex_decode :: "string \<Rightarrow> string + bytes"

definition hex_laws :: "hex_api \<Rightarrow> bool" where
  "hex_laws H \<longleftrightarrow> (\<forall>bs. hex_decode H (hex_encode H bs) = Inr bs \<and> CHR ''/'' \<notin> set (hex_encode H bs))"

fun topic_kind_text :: "gossip_kind \<Rightarrow> string" where
  "topic_kind_text BeaconBlock = BEACON_BLOCK_TOPIC"
| "topic_kind_text BeaconAggregateAndProof = BEACON_AGGREGATE_AND_PROOF_TOPIC"
| "topic_kind_text VoluntaryExit = VOLUNTARY_EXIT_TOPIC"
| "topic_kind_text ProposerSlashing = PROPOSER_SLASHING_TOPIC"
| "topic_kind_text AttesterSlashing = ATTESTER_SLASHING_TOPIC"
| "topic_kind_text (KindAttestation i) = BEACON_ATTESTATION_PREFIX @ show_nat i"
| "topic_kind_text SignedContributionAndProof = SIGNED_CONTRIBUTION_AND_PROOF_TOPIC"
| "topic_kind_text (SyncCommitteeMessage i) = SYNC_COMMITTEE_PREFIX_TOPIC @ show_nat i"

definition gossip_topic_display :: "hex_api \<Rightarrow> gossip_topic \<Rightarrow> string" where
  "gossip_topic_display H t = ''/'' @ TOPIC_PREFIX @ ''/'' @ hex_encode H (gt_fork_digest t) @ ''/''
     @ topic_kind_text (gt_kind t) @ ''/''
     @ (case gt_encoding t of GossipSSZSnappy \<Rightarrow> SSZ_SNAPPY_ENCODING_POSTFIX)"

definition committee_topic_index :: "string \<Rightarrow> subnet option" where
  "committee_topic_index topic =
     (if starts_with BEACON_ATTESTATION_PREFIX topic
      then map_option Attestation
             (parse_unsigned u64_max (trim_start_matches BEACON_ATTESTATION_PREFIX topic))
      else if starts_with SYNC_COMMITTEE_PREFIX_TOPIC topic
      then map_option SyncCommittee
             (parse_unsigned u64_max (trim_start_matches SYNC_COMMITTEE_PREFIX_TOPIC topic))
      else None)"

definition decode_kind :: "string \<Rightarrow> gossip_kind option" where
  "decode_kind s =
     (if s = BEACON_BLOCK_TOPIC then Some BeaconBlock
      else if s = BEACON_AGGREGATE_AND_PROOF_TOPIC then Some BeaconAggregateAndProof
      else if s = SIGNED_CONTRIBUTION_AND_PROOF_TOPIC then Some SignedContributionAndProof
      else if s = VOLUNTARY_EXIT_TOPIC then Some VoluntaryExit
      else if s = PROPOSER_SLASHING_TOPIC then Some ProposerSlashing
      else if s = ATTESTER_SLASHING_TOPIC then Some AttesterSlashing
      else map_option kind_of_subnet (committee_topic_index s))"

definition topic_decode :: "hex_api \<Rightarrow> string \<Rightarrow> string + gossip_topic" where
  "topic_decode H topic =
     (let parts = str_split CHR ''/'' topic in
      if length parts = 5 \<and> parts ! 1 = TOPIC_PREFIX
      then (case hex_decode H (parts ! 2) of
              Inl e \<Rightarrow> Inl (''Could not decode fork_digest hex: '' @ e)
            | Inr digest \<Rightarrow>
                if length digest \<noteq> 4
                then Inl (''Invalid gossipsub fork digest size: '' @ show_nat (length digest))
                else if parts ! 4 \<noteq> SSZ_SNAPPY_ENCODING_POSTFIX
                then Inl (''Unknown encoding: '' @ topic)
                else (case decode_kind (parts ! 3) of
                        None \<Rightarrow> Inl (''Unknown topic: '' @ parts ! 3)
                      | Some k \<Rightarrow> Inr \<lparr> gt_encoding = GossipSSZSnappy, gt_fork_digest = digest,
                                        gt_kind = k \<rparr>))
      else Inl (''Unknown topic: '' @ topic))"

definition subnet_from_topic_hash :: "hex_api \<Rightarrow> string \<Rightarrow> subnet option" where
  "subnet_from_topic_hash H h = (case topic_decode H h of Inr t \<Rightarrow> topic_subnet_id t | Inl _ \<Rightarrow> None)"

section \<open>The whitelist\<close>

definition all_kinds :: "nat \<Rightarrow> nat \<Rightarrow> gossip_kind list" where
  "all_kinds attestation_subnets sync_subnets =
     [BeaconBlock, BeaconAggregateAndProof, VoluntaryExit, ProposerSlashing, AttesterSlashing,
      SignedContributionAndProof]
     @ map KindAttestation [0..<attestation_subnets]
     @ map SyncCommitteeMessage [0..<sync_subnets]"

text \<open>The hash of a topic's text is gossipsub's; the filter is the set of the hashes.\<close>

definition create_whitelist_filter ::
  "(string \<Rightarrow> string) \<Rightarrow> hex_api \<Rightarrow> bytes list \<Rightarrow> nat \<Rightarrow> nat \<Rightarrow> string list" where
  "create_whitelist_filter topic_hash H digests attestation_subnets sync_subnets =
     remdups (concat (map (\<lambda>d. map (\<lambda>k.
         topic_hash (gossip_topic_display H (gossip_topic_new k GossipSSZSnappy d)))
       (all_kinds attestation_subnets sync_subnets)) digests))"

section \<open>The parser inverts the text\<close>

text \<open>The decimal text of a number starts with a digit, so neither prefix occurs in it again.\<close>

lemma show_nat_no_prefix:
  "\<not> starts_with BEACON_ATTESTATION_PREFIX (show_nat n)"
  "\<not> starts_with SYNC_COMMITTEE_PREFIX_TOPIC (show_nat n)"
proof -
  have "CHR ''b'' \<notin> set (show_nat n)" "CHR ''s'' \<notin> set (show_nat n)"
    by (rule not_digit_char, simp)+
  then show "\<not> starts_with BEACON_ATTESTATION_PREFIX (show_nat n)"
    "\<not> starts_with SYNC_COMMITTEE_PREFIX_TOPIC (show_nat n)"
    by (auto simp: starts_with_iff topic_consts)
qed

lemma committee_topic_index_text:
  assumes "n \<le> u64_max"
  shows "committee_topic_index (BEACON_ATTESTATION_PREFIX @ show_nat n) = Some (Attestation n)"
    and "committee_topic_index (SYNC_COMMITTEE_PREFIX_TOPIC @ show_nat n) = Some (SyncCommittee n)"
proof -
  have ne: "BEACON_ATTESTATION_PREFIX \<noteq> []" "SYNC_COMMITTEE_PREFIX_TOPIC \<noteq> []"
    by (simp_all add: topic_consts)
  show "committee_topic_index (BEACON_ATTESTATION_PREFIX @ show_nat n) = Some (Attestation n)"
    using trim_start_matches_once [OF ne(1) show_nat_no_prefix(1)] assms
    by (simp add: committee_topic_index_def parse_unsigned_show)
  have "\<not> starts_with BEACON_ATTESTATION_PREFIX (SYNC_COMMITTEE_PREFIX_TOPIC @ show_nat n)"
    by (simp add: topic_consts)
  then show "committee_topic_index (SYNC_COMMITTEE_PREFIX_TOPIC @ show_nat n) = Some (SyncCommittee n)"
    using trim_start_matches_once [OF ne(2) show_nat_no_prefix(2)] assms
    by (simp add: committee_topic_index_def parse_unsigned_show)
qed

definition kind_in_range :: "gossip_kind \<Rightarrow> bool" where
  "kind_in_range k = (case k of KindAttestation i \<Rightarrow> i \<le> u64_max
     | SyncCommitteeMessage i \<Rightarrow> i \<le> u64_max | _ \<Rightarrow> True)"

lemma show_nat_Cons: "\<exists>d ds. d < 10 \<and> show_nat n = digit_char d # ds"
proof -
  obtain c cs where "show_nat n = c # cs" by (cases "show_nat n") auto
  with show_nat_chars [of c n] show ?thesis by auto
qed

lemma decode_kind_text: "kind_in_range k \<Longrightarrow> decode_kind (topic_kind_text k) = Some k"
proof -
  assume k: "kind_in_range k"
  have d: "CHR ''c'' \<notin> set (show_nat n)" for n by (rule not_digit_char) simp
  have a: "BEACON_ATTESTATION_PREFIX @ show_nat n
       \<notin> {BEACON_BLOCK_TOPIC, BEACON_AGGREGATE_AND_PROOF_TOPIC, SIGNED_CONTRIBUTION_AND_PROOF_TOPIC,
          VOLUNTARY_EXIT_TOPIC, PROPOSER_SLASHING_TOPIC, ATTESTER_SLASHING_TOPIC}" for n
    by (simp add: topic_consts)
  have s: "SYNC_COMMITTEE_PREFIX_TOPIC @ show_nat n
       \<notin> {BEACON_BLOCK_TOPIC, BEACON_AGGREGATE_AND_PROOF_TOPIC, SIGNED_CONTRIBUTION_AND_PROOF_TOPIC,
          VOLUNTARY_EXIT_TOPIC, PROPOSER_SLASHING_TOPIC, ATTESTER_SLASHING_TOPIC}" for n
    using d [of n] by (auto simp: topic_consts)
  show ?thesis
  proof (cases k)
    case (KindAttestation n)
    with k a [of n] show ?thesis
      by (simp add: decode_kind_def kind_in_range_def committee_topic_index_text)
  next
    case (SyncCommitteeMessage n)
    with k s [of n] show ?thesis
      by (simp add: decode_kind_def kind_in_range_def committee_topic_index_text)
  qed (simp_all add: decode_kind_def topic_consts)
qed

lemma topic_kind_text_plain: "CHR ''/'' \<notin> set (topic_kind_text k)"
proof -
  have "CHR ''/'' \<notin> set (show_nat n)" for n by (rule not_digit_char) simp
  then show ?thesis by (cases k) (auto simp: topic_consts)
qed

lemma split_topic:
  assumes "hex_laws H"
  shows "str_split CHR ''/'' (gossip_topic_display H t)
    = [[], TOPIC_PREFIX, hex_encode H (gt_fork_digest t), topic_kind_text (gt_kind t),
       SSZ_SNAPPY_ENCODING_POSTFIX]"
proof -
  have "CHR ''/'' \<notin> set (hex_encode H (gt_fork_digest t))" using assms by (simp add: hex_laws_def)
  moreover have "CHR ''/'' \<notin> set TOPIC_PREFIX" "CHR ''/'' \<notin> set SSZ_SNAPPY_ENCODING_POSTFIX"
    by (simp_all add: topic_consts)
  ultimately show ?thesis
    by (cases "gt_encoding t")
       (simp add: gossip_topic_display_def str_split_app str_split_plain topic_kind_text_plain)
qed

lemma topic_decode_display:
  assumes "hex_laws H" and "length (gt_fork_digest t) = 4" and "kind_in_range (gt_kind t)"
  shows "topic_decode H (gossip_topic_display H t) = Inr t"
  using assms
  by (cases "gt_encoding t")
     (simp add: topic_decode_def split_topic hex_laws_def decode_kind_text Let_def)

section \<open>An instance of the hexadecimal encoding\<close>

definition nibble_char :: "nat \<Rightarrow> char" where
  "nibble_char n = char_of (if n < 10 then 48 + n else 87 + n)"

definition nibble_val :: "char \<Rightarrow> nat" where
  "nibble_val c = (let n = of_char c :: nat in if n < 58 then n - 48 else n - 87)"

fun pairs_decode :: "string \<Rightarrow> bytes" where
  "pairs_decode (a # b # cs) = of_nat (16 * nibble_val a + nibble_val b) # pairs_decode cs"
| "pairs_decode _ = []"

definition list_hex :: hex_api where
  "list_hex = \<lparr> hex_encode = (\<lambda>bs. concat (map (\<lambda>b. [nibble_char (unat b div 16), nibble_char (unat b mod 16)]) bs)),
     hex_decode = (\<lambda>s. if even (length s) then Inr (pairs_decode s) else Inl ''Odd number of digits'') \<rparr>"

lemma nibble_inverse: "n < 16 \<Longrightarrow> nibble_val (nibble_char n) = n"
  by (auto simp: nibble_val_def nibble_char_def Let_def)

lemma nibble_not_slash: "n < 16 \<Longrightarrow> nibble_char n \<noteq> CHR ''/''"
proof
  assume "n < 16" "nibble_char n = CHR ''/''"
  then have "of_char (nibble_char n) = (of_char (CHR ''/'') :: nat)" by simp
  with \<open>n < 16\<close> show False by (auto simp: nibble_char_def split: if_splits)
qed

lemma unat_byte_div: "unat (b :: 8 word) div 16 < 16"
proof -
  have "unat b < 2 ^ 8" by (rule order_less_le_trans [OF unsigned_less]) simp
  then show ?thesis by simp
qed

lemma list_hex_laws: "hex_laws list_hex"
proof -
  have even: "even (length (hex_encode list_hex bs))" for bs
    by (induction bs) (simp_all add: list_hex_def)
  have "pairs_decode (hex_encode list_hex bs) = bs" for bs
  proof (induction bs)
    case (Cons b bs)
    have "16 * (unat b div 16) + unat b mod 16 = unat b" by simp
    with Cons show ?case
      using unat_byte_div [of b] by (simp add: list_hex_def nibble_inverse)
  qed (simp add: list_hex_def)
  moreover have "CHR ''/'' \<notin> set (hex_encode list_hex bs)" for bs
    using nibble_not_slash [OF unat_byte_div] nibble_not_slash [of "_ mod 16"]
    by (auto simp: list_hex_def) (metis mod_less_divisor zero_less_numeral nibble_not_slash)+
  ultimately show ?thesis using even by (simp add: hex_laws_def list_hex_def)
qed

section \<open>Properties\<close>

text \<open>C6. The parser reads back the text of every topic with a four-byte fork digest and a 64-bit subnet,
  and so two topics with the same text are the same topic.\<close>
theorem topic_roundtrip:
  assumes "hex_laws H"
    and "length (gt_fork_digest t) = 4" and "kind_in_range (gt_kind t)"
    and "length (gt_fork_digest u) = 4" and "kind_in_range (gt_kind u)"
  shows "topic_decode H (gossip_topic_display H t) = Inr t
    \<and> (gossip_topic_display H t = gossip_topic_display H u \<longleftrightarrow> t = u)"
  using topic_decode_display [OF assms(1,2,3)] topic_decode_display [OF assms(1,4,5)]
  by (metis sum.inject(2))

lemma topic_roundtrip_witness:
  "topic_decode list_hex (gossip_topic_display list_hex
      (gossip_topic_new (KindAttestation 42) GossipSSZSnappy [225, 146, 95, 59]))
     = Inr (gossip_topic_new (KindAttestation 42) GossipSSZSnappy [225, 146, 95, 59])"
  by (rule topic_roundtrip [where u = "gossip_topic_new BeaconBlock GossipSSZSnappy [0, 0, 0, 0]",
        OF list_hex_laws, THEN conjunct1])
     (simp_all add: gossip_topic_new_def kind_in_range_def u64_max_def)

text \<open>The parser accepts texts that no topic is written as: anything may stand before the first slash,
  the prefix of a subnet topic may be repeated and its number may have a plus sign, and all of these are
  read as the same topic.\<close>
theorem topic_decode_not_canonical:
  assumes "hex_laws H" and "length d = 4"
  shows "topic_decode H (''x/eth2/'' @ hex_encode H d
           @ ''/beacon_attestation_beacon_attestation_+7/ssz_snappy'')
         = Inr (gossip_topic_new (KindAttestation 7) GossipSSZSnappy d)
    \<and> ''x/eth2/'' @ hex_encode H d @ ''/beacon_attestation_beacon_attestation_+7/ssz_snappy''
         \<noteq> gossip_topic_display H (gossip_topic_new (KindAttestation 7) GossipSSZSnappy d)"
proof
  have "trim_start_matches BEACON_ATTESTATION_PREFIX
      (BEACON_ATTESTATION_PREFIX @ BEACON_ATTESTATION_PREFIX @ ''+7'') = ''+7''"
    by (subst trim_start_matches_twice, simp add: topic_consts,
        subst trim_start_matches_once) (simp_all add: topic_consts)
  then have "committee_topic_index ''beacon_attestation_beacon_attestation_+7'' = Some (Attestation 7)"
    by (simp add: committee_topic_index_def topic_consts parse_unsigned_def digit_val_def u64_max_def
        Let_def)
  then have k: "decode_kind ''beacon_attestation_beacon_attestation_+7'' = Some (KindAttestation 7)"
    by (simp add: decode_kind_def topic_consts)
  have "CHR ''/'' \<notin> set (hex_encode H d)" using assms(1) by (simp add: hex_laws_def)
  then have "str_split CHR ''/'' (''x/eth2/'' @ hex_encode H d
           @ ''/beacon_attestation_beacon_attestation_+7/ssz_snappy'')
      = [''x'', ''eth2'', hex_encode H d, ''beacon_attestation_beacon_attestation_+7'', ''ssz_snappy'']"
    by (simp add: str_split_app)
  with assms k show "topic_decode H (''x/eth2/'' @ hex_encode H d
           @ ''/beacon_attestation_beacon_attestation_+7/ssz_snappy'')
         = Inr (gossip_topic_new (KindAttestation 7) GossipSSZSnappy d)"
    by (simp add: topic_decode_def hex_laws_def gossip_topic_new_def Let_def TOPIC_PREFIX_def
        SSZ_SNAPPY_ENCODING_POSTFIX_def)
qed (simp add: gossip_topic_display_def)

lemma topic_decode_not_canonical_witness:
  "topic_decode list_hex (''x/eth2/'' @ hex_encode list_hex [0, 1, 2, 3]
      @ ''/beacon_attestation_beacon_attestation_+7/ssz_snappy'')
     = Inr (gossip_topic_new (KindAttestation 7) GossipSSZSnappy [0, 1, 2, 3])"
  by (rule topic_decode_not_canonical [OF list_hex_laws, THEN conjunct1]) simp

text \<open>As long as gossipsub hashes different texts differently, the whitelist accepts the hash of a
  topic exactly when its fork digest is one of the possible ones and its kind is a fixed topic or a
  subnet below the configured counts.\<close>
theorem whitelist_exact:
  assumes "hex_laws H" and "inj topic_hash"
    and "\<forall>d \<in> set digests. length d = 4" and "n \<le> u64_max" and "m \<le> u64_max"
    and "length (gt_fork_digest t) = 4" and "kind_in_range (gt_kind t)"
  shows "topic_hash (gossip_topic_display H t) \<in> set (create_whitelist_filter topic_hash H digests n m)
    \<longleftrightarrow> gt_fork_digest t \<in> set digests \<and> (case gt_kind t of
          KindAttestation i \<Rightarrow> i < n | SyncCommitteeMessage i \<Rightarrow> i < m | _ \<Rightarrow> True)"
proof -
  have kinds: "k \<in> set (all_kinds n m) \<longleftrightarrow> (case k of
          KindAttestation i \<Rightarrow> i < n | SyncCommitteeMessage i \<Rightarrow> i < m | _ \<Rightarrow> True)" for k
    by (cases k) (auto simp: all_kinds_def)
  have inrange: "kind_in_range k" if "k \<in> set (all_kinds n m)" for k
    using that [unfolded kinds] assms(4,5) by (auto simp: kind_in_range_def split: gossip_kind.splits)
  have inj: "gossip_topic_display H t = gossip_topic_display H u \<longleftrightarrow> t = u"
    if "length (gt_fork_digest u) = 4" "kind_in_range (gt_kind u)" for u
    using topic_decode_display [OF assms(1,6,7)] topic_decode_display [OF assms(1) that]
    by (metis sum.inject(2))
  have "topic_hash (gossip_topic_display H t) \<in> set (create_whitelist_filter topic_hash H digests n m)
    \<longleftrightarrow> (\<exists>d \<in> set digests. \<exists>k \<in> set (all_kinds n m).
          gossip_topic_display H t = gossip_topic_display H (gossip_topic_new k GossipSSZSnappy d))"
    by (simp add: create_whitelist_filter_def image_iff inj_eq [OF assms(2)])
  also have "\<dots> \<longleftrightarrow> (\<exists>d \<in> set digests. \<exists>k \<in> set (all_kinds n m). t = gossip_topic_new k GossipSSZSnappy d)"
    using inj assms(3) inrange by (simp add: gossip_topic_new_def)
  also have "\<dots> \<longleftrightarrow> gt_fork_digest t \<in> set digests \<and> gt_kind t \<in> set (all_kinds n m)"
    by (cases t; cases "gt_encoding t") (auto simp: gossip_topic_new_def)
  finally show ?thesis by (simp only: kinds)
qed

lemma whitelist_exact_witness:
  "gossip_topic_display list_hex (gossip_topic_new (KindAttestation 3) GossipSSZSnappy [1, 2, 3, 4])
     \<in> set (create_whitelist_filter id list_hex [[1, 2, 3, 4]] 64 4)"
  using whitelist_exact [OF list_hex_laws inj_on_id, of "[[1, 2, 3, 4]]" 64 4
      "gossip_topic_new (KindAttestation 3) GossipSSZSnappy [1, 2, 3, 4]"]
  by (simp add: gossip_topic_new_def kind_in_range_def u64_max_def)

end
