(* ===== verification/Globals.thy ===== *)
theory Globals
  imports Peer_DB_Ops Topics
begin

text \<open>
  \<open>types/globals.rs\<close>: what the parts of the network share.  The locks around the fields only serialise
  the accesses, so the state is the record of their contents.
\<close>

record network_globals =
  g_local_enr :: enr
  g_peer_id :: peer_id
  g_listen_multiaddrs :: "multiaddr list"
  g_listen_port_tcp :: port
  g_listen_port_udp :: port
  g_peers :: peer_db
  g_local_metadata :: meta_data
  gossipsub_subscriptions :: "gossip_topic list"
  g_sync_state :: sync_state
  g_backfill_state :: back_fill_state

text \<open>The peer id of a record is derived from its key by the library: \<open>id_of\<close>.\<close>

definition network_globals_new ::
  "(enr \<Rightarrow> peer_id) \<Rightarrow> instant \<Rightarrow> enr \<Rightarrow> port \<Rightarrow> port \<Rightarrow> meta_data \<Rightarrow> peer_id list \<Rightarrow> network_globals" where
  "network_globals_new id_of now e tcp udp md trusted = \<lparr> g_local_enr = e, g_peer_id = id_of e,
     g_listen_multiaddrs = [], g_listen_port_tcp = tcp, g_listen_port_udp = udp,
     g_peers = new_db now trusted, g_local_metadata = md, gossipsub_subscriptions = [],
     g_sync_state = Stalled, g_backfill_state = NotRequired \<rparr>"

definition local_enr :: "network_globals \<Rightarrow> enr" where "local_enr g = g_local_enr g"
definition local_peer_id :: "network_globals \<Rightarrow> peer_id" where "local_peer_id g = g_peer_id g"
definition listen_multiaddrs :: "network_globals \<Rightarrow> multiaddr list" where
  "listen_multiaddrs g = g_listen_multiaddrs g"
definition listen_port_tcp :: "network_globals \<Rightarrow> port" where "listen_port_tcp g = g_listen_port_tcp g"
definition listen_port_udp :: "network_globals \<Rightarrow> port" where "listen_port_udp g = g_listen_port_udp g"
definition globals_sync_state :: "network_globals \<Rightarrow> sync_state" where "globals_sync_state g = g_sync_state g"
definition globals_backfill_state :: "network_globals \<Rightarrow> back_fill_state" where "globals_backfill_state g = g_backfill_state g"

definition connected_count :: "network_globals \<Rightarrow> nat" where
  "connected_count g = length (connected_peer_ids (g_peers g))"

definition outbound_only_count :: "network_globals \<Rightarrow> nat" where
  "outbound_only_count g = length (connected_outbound_only_peers (g_peers g))"

definition connected_or_dialing_count :: "network_globals \<Rightarrow> nat" where
  "connected_or_dialing_count g = length (connected_or_dialing_peers (g_peers g))"

definition globals_is_syncing :: "network_globals \<Rightarrow> bool" where
  "globals_is_syncing g = node_is_syncing (g_sync_state g)"

definition globals_client :: "network_globals \<Rightarrow> peer_id \<Rightarrow> client" where
  "globals_client g p = (case peer_info_get (g_peers g) p of
       Some info \<Rightarrow> info_client info | None \<Rightarrow> default_client)"

definition set_sync_state :: "sync_state \<Rightarrow> network_globals \<Rightarrow> network_globals \<times> sync_state" where
  "set_sync_state new g = (g\<lparr>g_sync_state := new\<rparr>, g_sync_state g)"

end
