(* ===== verification/Rpc_Protocol.thy ===== *)
theory Rpc_Protocol
  imports Rpc_Methods
begin

text \<open>
  \<open>rpc/protocol.rs\<close> and \<open>rpc/outbound.rs\<close>: the protocols, their ids and versions, the length limits of
  their messages, the requests and the errors.  The SSZ lengths of the message types and the current fork
  come from other crates and are arguments.
\<close>

section \<open>Protocols\<close>

datatype protocol_name = ProtoStatus | ProtoGoodbye | ProtoBlocksByRange | ProtoBlocksByRoot
  | ProtoPing | ProtoMetaData

datatype version = V1 | V2

datatype encoding = SSZSnappy

fun protocol_display :: "protocol_name \<Rightarrow> string" where
  "protocol_display ProtoStatus = ''status''"
| "protocol_display ProtoGoodbye = ''goodbye''"
| "protocol_display ProtoBlocksByRange = ''beacon_blocks_by_range''"
| "protocol_display ProtoBlocksByRoot = ''beacon_blocks_by_root''"
| "protocol_display ProtoPing = ''ping''"
| "protocol_display ProtoMetaData = ''metadata''"

fun encoding_display :: "encoding \<Rightarrow> string" where
  "encoding_display SSZSnappy = ''ssz_snappy''"

fun version_display :: "version \<Rightarrow> string" where
  "version_display V1 = ''1''"
| "version_display V2 = ''2''"

definition PROTOCOL_PREFIX :: string where
  "PROTOCOL_PREFIX = ''/eth2/beacon_chain/req''"

record protocol_id =
  message_name :: protocol_name
  pid_version :: version
  pid_encoding :: encoding
  pid_string :: string

definition protocol_id_new :: "protocol_name \<Rightarrow> version \<Rightarrow> encoding \<Rightarrow> protocol_id" where
  "protocol_id_new name v e = \<lparr> message_name = name, pid_version = v, pid_encoding = e,
     pid_string = PROTOCOL_PREFIX @ ''/'' @ protocol_display name @ ''/'' @ version_display v
                  @ ''/'' @ encoding_display e \<rparr>"

definition protocol_info :: "protocol_id list" where
  "protocol_info =
     [protocol_id_new ProtoStatus V1 SSZSnappy,
      protocol_id_new ProtoGoodbye V1 SSZSnappy,
      protocol_id_new ProtoBlocksByRange V2 SSZSnappy,
      protocol_id_new ProtoBlocksByRange V1 SSZSnappy,
      protocol_id_new ProtoBlocksByRoot V2 SSZSnappy,
      protocol_id_new ProtoBlocksByRoot V1 SSZSnappy,
      protocol_id_new ProtoPing V1 SSZSnappy,
      protocol_id_new ProtoMetaData V2 SSZSnappy,
      protocol_id_new ProtoMetaData V1 SSZSnappy]"

definition has_context_bytes :: "protocol_id \<Rightarrow> bool" where
  "has_context_bytes p = (if pid_version p = V2
     then (case message_name p of ProtoBlocksByRange \<Rightarrow> True | ProtoBlocksByRoot \<Rightarrow> True | _ \<Rightarrow> False)
     else False)"

section \<open>Limits\<close>

datatype fork_name = Base | Altair | Merge | Capella

definition MAX_RPC_SIZE :: nat where "MAX_RPC_SIZE = 1048576"
definition MAX_RPC_SIZE_POST_MERGE :: nat where "MAX_RPC_SIZE_POST_MERGE = 10 * 1048576"
definition MAX_RPC_SIZE_POST_CAPELLA :: nat where "MAX_RPC_SIZE_POST_CAPELLA = 10 * 1048576"

fun max_rpc_size :: "fork_name \<Rightarrow> nat" where
  "max_rpc_size Altair = MAX_RPC_SIZE"
| "max_rpc_size Base = MAX_RPC_SIZE"
| "max_rpc_size Merge = MAX_RPC_SIZE_POST_MERGE"
| "max_rpc_size Capella = MAX_RPC_SIZE_POST_CAPELLA"

record rpc_limits =
  limit_min :: nat
  limit_max :: nat

definition rpc_limits_new :: "nat \<Rightarrow> nat \<Rightarrow> rpc_limits" where
  "rpc_limits_new a b = \<lparr> limit_min = a, limit_max = b \<rparr>"

definition is_out_of_bounds :: "rpc_limits \<Rightarrow> nat \<Rightarrow> nat \<Rightarrow> bool" where
  "is_out_of_bounds l len max_size = (len > min (limit_max l) max_size \<or> len < limit_min l)"

text \<open>The SSZ lengths the limits are made of.\<close>

record ssz_lengths =
  len_status :: nat
  len_goodbye :: nat
  len_old_range :: nat
  len_ping :: nat
  len_metadata_v1 :: nat
  len_metadata_v2 :: nat
  len_root_min :: nat
  len_root_max :: nat
  len_base_min :: nat
  len_base_max :: nat
  len_altair_max :: nat
  len_merge_max :: nat
  len_capella_max :: nat

fun rpc_block_limits_by_fork :: "ssz_lengths \<Rightarrow> fork_name \<Rightarrow> rpc_limits" where
  "rpc_block_limits_by_fork L Base = rpc_limits_new (len_base_min L) (len_base_max L)"
| "rpc_block_limits_by_fork L Altair = rpc_limits_new (len_base_min L) (len_altair_max L)"
| "rpc_block_limits_by_fork L Merge = rpc_limits_new (len_base_min L) (len_merge_max L)"
| "rpc_block_limits_by_fork L Capella = rpc_limits_new (len_base_min L) (len_capella_max L)"

definition rpc_request_limits :: "ssz_lengths \<Rightarrow> protocol_id \<Rightarrow> rpc_limits" where
  "rpc_request_limits L p = (case message_name p of
       ProtoStatus \<Rightarrow> rpc_limits_new (len_status L) (len_status L)
     | ProtoGoodbye \<Rightarrow> rpc_limits_new (len_goodbye L) (len_goodbye L)
     | ProtoBlocksByRange \<Rightarrow> rpc_limits_new (len_old_range L) (len_old_range L)
     | ProtoBlocksByRoot \<Rightarrow> rpc_limits_new (len_root_min L) (len_root_max L)
     | ProtoPing \<Rightarrow> rpc_limits_new (len_ping L) (len_ping L)
     | ProtoMetaData \<Rightarrow> rpc_limits_new 0 0)"

definition rpc_response_limits :: "ssz_lengths \<Rightarrow> fork_name \<Rightarrow> protocol_id \<Rightarrow> rpc_limits" where
  "rpc_response_limits L fork p = (case message_name p of
       ProtoStatus \<Rightarrow> rpc_limits_new (len_status L) (len_status L)
     | ProtoGoodbye \<Rightarrow> rpc_limits_new 0 0
     | ProtoBlocksByRange \<Rightarrow> rpc_block_limits_by_fork L fork
     | ProtoBlocksByRoot \<Rightarrow> rpc_block_limits_by_fork L fork
     | ProtoPing \<Rightarrow> rpc_limits_new (len_ping L) (len_ping L)
     | ProtoMetaData \<Rightarrow> rpc_limits_new (len_metadata_v1 L) (len_metadata_v2 L))"

section \<open>Requests\<close>

text \<open>Inbound and outbound requests have the same constructors.\<close>

datatype rpc_request =
    ReqStatus status_message
  | ReqGoodbye goodbye_reason
  | ReqBlocksByRange old_blocks_by_range_request
  | ReqBlocksByRoot blocks_by_root_request
  | ReqPing ping
  | ReqMetaData

fun supported_protocols :: "rpc_request \<Rightarrow> protocol_id list" where
  "supported_protocols (ReqStatus _) = [protocol_id_new ProtoStatus V1 SSZSnappy]"
| "supported_protocols (ReqGoodbye _) = [protocol_id_new ProtoGoodbye V1 SSZSnappy]"
| "supported_protocols (ReqBlocksByRange _) =
     [protocol_id_new ProtoBlocksByRange V2 SSZSnappy, protocol_id_new ProtoBlocksByRange V1 SSZSnappy]"
| "supported_protocols (ReqBlocksByRoot _) =
     [protocol_id_new ProtoBlocksByRoot V2 SSZSnappy, protocol_id_new ProtoBlocksByRoot V1 SSZSnappy]"
| "supported_protocols (ReqPing _) = [protocol_id_new ProtoPing V1 SSZSnappy]"
| "supported_protocols ReqMetaData =
     [protocol_id_new ProtoMetaData V2 SSZSnappy, protocol_id_new ProtoMetaData V1 SSZSnappy]"

fun expected_responses :: "rpc_request \<Rightarrow> u64" where
  "expected_responses (ReqStatus _) = 1"
| "expected_responses (ReqGoodbye _) = 0"
| "expected_responses (ReqBlocksByRange req) = old_count req"
| "expected_responses (ReqBlocksByRoot req) = of_nat (length (block_roots req))"
| "expected_responses (ReqPing _) = 1"
| "expected_responses ReqMetaData = 1"

fun request_protocol :: "rpc_request \<Rightarrow> protocol_name" where
  "request_protocol (ReqStatus _) = ProtoStatus"
| "request_protocol (ReqGoodbye _) = ProtoGoodbye"
| "request_protocol (ReqBlocksByRange _) = ProtoBlocksByRange"
| "request_protocol (ReqBlocksByRoot _) = ProtoBlocksByRoot"
| "request_protocol (ReqPing _) = ProtoPing"
| "request_protocol ReqMetaData = ProtoMetaData"

text \<open>\<open>stream_termination\<close> panics for a request with a single response.\<close>

fun stream_termination :: "rpc_request \<Rightarrow> response_termination option" where
  "stream_termination (ReqBlocksByRange _) = Some TermBlocksByRange"
| "stream_termination (ReqBlocksByRoot _) = Some TermBlocksByRoot"
| "stream_termination _ = None"

fun response_protocol :: "'b rpc_response \<Rightarrow> protocol_name" where
  "response_protocol (RespStatus _) = ProtoStatus"
| "response_protocol (RespBlocksByRange _) = ProtoBlocksByRange"
| "response_protocol (RespBlocksByRoot _) = ProtoBlocksByRoot"
| "response_protocol (RespPong _) = ProtoPing"
| "response_protocol (RespMetaData _) = ProtoMetaData"

section \<open>Errors\<close>

datatype rpc_error =
    SSZDecodeError string
  | IoError string
  | ErrorResponse rpc_response_error_code string
  | StreamTimeout
  | UnsupportedProtocol
  | IncompleteStream
  | InvalidData string
  | InternalError string
  | NegotiationTimeout
  | HandlerRejected
  | RpcDisconnected

text \<open>Reading the first request of an inbound stream: a metadata request is empty, any other must arrive
  in time and decode.\<close>

datatype read_result = ReadTimeout | ReadRequest rpc_request | ReadError rpc_error | ReadEof

fun upgrade_inbound :: "protocol_id \<Rightarrow> read_result \<Rightarrow> rpc_error + rpc_request" where
  "upgrade_inbound p read = (if message_name p = ProtoMetaData then Inr ReqMetaData
     else (case read of
         ReadTimeout \<Rightarrow> Inl StreamTimeout
       | ReadRequest r \<Rightarrow> Inr r
       | ReadError e \<Rightarrow> Inl e
       | ReadEof \<Rightarrow> Inl IncompleteStream))"

section \<open>Properties\<close>

lemma protocol_display_plain: "CHR ''/'' \<notin> set (protocol_display p)"
  by (cases p) simp_all

lemma version_display_plain: "CHR ''/'' \<notin> set (version_display v)"
  by (cases v) simp_all

lemma encoding_display_plain: "CHR ''/'' \<notin> set (encoding_display e)"
  by (cases e) simp_all

lemma protocol_display_inj: "protocol_display p = protocol_display q \<Longrightarrow> p = q"
  by (cases p; cases q; simp)

lemma version_display_inj: "version_display v = version_display w \<Longrightarrow> v = w"
  by (cases v; cases w; simp)

text \<open>The string of a protocol id determines its name, version and encoding, so no two of the
  protocols the node offers share an id; the node offers exactly the protocols it can itself request, in
  the same order of preference.\<close>
theorem protocol_ids_distinct:
  "(pid_string (protocol_id_new p v e) = pid_string (protocol_id_new q w f) \<longrightarrow> p = q \<and> v = w \<and> e = f)
   \<and> distinct (map pid_string protocol_info)
   \<and> filter (\<lambda>i. message_name i = request_protocol r) protocol_info = supported_protocols r"
proof (intro conjI impI)
  assume eq: "pid_string (protocol_id_new p v e) = pid_string (protocol_id_new q w f)"
  have s: "str_split CHR ''/'' (protocol_display n @ ''/'' @ version_display u @ ''/'' @ encoding_display g)
      = [protocol_display n, version_display u, encoding_display g]" for n u g
    by (simp add: str_split_app str_split_plain protocol_display_plain version_display_plain
        encoding_display_plain)
  from eq have "protocol_display p @ ''/'' @ version_display v @ ''/'' @ encoding_display e
      = protocol_display q @ ''/'' @ version_display w @ ''/'' @ encoding_display f"
    by (simp add: protocol_id_new_def)
  from arg_cong [OF this, of "str_split CHR ''/''"]
  have "protocol_display p = protocol_display q" "version_display v = version_display w"
    unfolding s by (simp_all only: list.inject)
  then show "p = q" and "v = w"
    by (auto intro: protocol_display_inj version_display_inj)
  show "e = f" by (cases e; cases f; simp)
next
  show "distinct (map pid_string protocol_info)"
    by (simp add: protocol_info_def protocol_id_new_def)
  show "filter (\<lambda>i. message_name i = request_protocol r) protocol_info = supported_protocols r"
    by (cases r) (simp_all add: protocol_info_def protocol_id_new_def)
qed

lemma protocol_ids_distinct_witness:
  "pid_string (protocol_id_new ProtoPing V1 SSZSnappy) = pid_string (protocol_id_new ProtoPing V1 SSZSnappy)
   \<and> ProtoPing = ProtoPing"
  using protocol_ids_distinct [of ProtoPing V1 SSZSnappy ProtoPing V1 SSZSnappy] by simp

end
