(* ===== verification/Delay_Set.thy ===== *)
theory Delay_Set
  imports Net_Types
begin

text \<open>
  The set of peers with a timer each, of the library hashset_delay, which the peer manager uses to ping its
  peers and to ask for their status.  It is a parameter; \<open>ds_laws\<close> is its documented behaviour.
\<close>

section \<open>Operations and laws\<close>

text \<open>\<open>HashSetDelay\<close>: each of its peers elapses an interval after it was last inserted.\<close>

datatype delay_event = Elapsed peer_id | DelayError string | NotElapsed

record 'h delay_set =
  ds_new :: "duration \<Rightarrow> 'h"
  ds_insert :: "instant \<Rightarrow> peer_id \<Rightarrow> 'h \<Rightarrow> 'h"
  ds_remove :: "peer_id \<Rightarrow> 'h \<Rightarrow> 'h"
  ds_poll :: "instant \<Rightarrow> 'h \<Rightarrow> 'h \<times> delay_event"
  ds_at :: "'h \<Rightarrow> peer_id \<Rightarrow> instant option"
  ds_interval :: "'h \<Rightarrow> duration"

definition ds_laws :: "'h delay_set \<Rightarrow> bool" where
  "ds_laws D \<longleftrightarrow>
     (\<forall>i p. ds_at D (ds_new D i) p = None \<and> ds_interval D (ds_new D i) = i)
   \<and> (\<forall>now p h. ds_at D (ds_insert D now p h) = (ds_at D h)(p := Some (now + ds_interval D h))
        \<and> ds_interval D (ds_insert D now p h) = ds_interval D h)
   \<and> (\<forall>p h. ds_at D (ds_remove D p h) = (ds_at D h)(p := None) \<and> ds_interval D (ds_remove D p h) = ds_interval D h)
   \<and> (\<forall>now h h' e. ds_poll D now h = (h', e) \<longrightarrow> ds_interval D h' = ds_interval D h \<and>
        (case e of
           Elapsed p \<Rightarrow> (\<exists>t \<le> now. ds_at D h p = Some t) \<and> ds_at D h' = (ds_at D h)(p := None)
         | DelayError _ \<Rightarrow> False
         | NotElapsed \<Rightarrow> ds_at D h' = ds_at D h \<and> (\<forall>p t. ds_at D h p = Some t \<longrightarrow> now < t)))
   \<and> (\<forall>h. finite (dom (ds_at D h)))"

definition due :: "'h delay_set \<Rightarrow> instant \<Rightarrow> 'h \<Rightarrow> peer_id set" where
  "due D now h = {p. \<exists>t \<le> now. ds_at D h p = Some t}"

lemma ds_lawsD:
  assumes "ds_laws D"
  shows "ds_at D (ds_insert D now p h) = (ds_at D h)(p := Some (now + ds_interval D h))"
    and "ds_interval D (ds_insert D now p h) = ds_interval D h"
    and "ds_at D (ds_remove D p h) = (ds_at D h)(p := None)"
    and "ds_interval D (ds_remove D p h) = ds_interval D h"
    and "ds_interval D (fst (ds_poll D now h)) = ds_interval D h"
    and "finite (due D now h)"
proof -
  show "ds_at D (ds_insert D now p h) = (ds_at D h)(p := Some (now + ds_interval D h))"
    "ds_interval D (ds_insert D now p h) = ds_interval D h"
    "ds_at D (ds_remove D p h) = (ds_at D h)(p := None)"
    "ds_interval D (ds_remove D p h) = ds_interval D h"
    using assms by (simp_all add: ds_laws_def)
  show "ds_interval D (fst (ds_poll D now h)) = ds_interval D h"
    using assms by (cases "ds_poll D now h") (auto simp: ds_laws_def)
  have "due D now h \<subseteq> dom (ds_at D h)" by (auto simp: due_def)
  then show "finite (due D now h)" using assms by (auto simp: ds_laws_def intro: finite_subset)
qed

lemma ds_poll_cases:
  assumes "ds_laws D"
  obtains (elapsed) h' p where "ds_poll D now h = (h', Elapsed p)" "p \<in> due D now h"
      "ds_at D h' = (ds_at D h)(p := None)" "ds_interval D h' = ds_interval D h"
    | (none) h' where "ds_poll D now h = (h', NotElapsed)" "due D now h = {}" "ds_at D h' = ds_at D h"
      "ds_interval D h' = ds_interval D h"
proof -
  obtain h' e where r: "ds_poll D now h = (h', e)" by force
  with assms have l: "ds_interval D h' = ds_interval D h" "case e of
           Elapsed p \<Rightarrow> (\<exists>t \<le> now. ds_at D h p = Some t) \<and> ds_at D h' = (ds_at D h)(p := None)
         | DelayError _ \<Rightarrow> False
         | NotElapsed \<Rightarrow> ds_at D h' = ds_at D h \<and> (\<forall>p t. ds_at D h p = Some t \<longrightarrow> now < t)"
    unfolding ds_laws_def by blast+
  show thesis
  proof (cases e)
    case (Elapsed p)
    with l r elapsed show ?thesis by (auto simp: due_def)
  next
    case NotElapsed
    with l have "due D now h = {}" by (fastforce simp: due_def)
    with NotElapsed l r none show ?thesis by auto
  qed (use l in simp)
qed

section \<open>An instance\<close>

text \<open>A delay set as an association list.\<close>

definition list_delays :: "((peer_id, instant) hmap \<times> duration) delay_set" where
  "list_delays = \<lparr> ds_new = (\<lambda>i. ([], i)), ds_insert = (\<lambda>now p (m, i). (hm_insert p (now + i) m, i)),
     ds_remove = (\<lambda>p (m, i). (filter (\<lambda>(q, _). q \<noteq> p) m, i)),
     ds_poll = (\<lambda>now (m, i). case List.find (\<lambda>(p, t). hm_get m p = Some t \<and> t \<le> now) m of
         Some (p, _) \<Rightarrow> ((filter (\<lambda>(q, _). q \<noteq> p) m, i), Elapsed p) | None \<Rightarrow> ((m, i), NotElapsed)),
     ds_at = (\<lambda>(m, i). hm_get m), ds_interval = snd \<rparr>"

lemma hm_get_drop: "hm_get (filter (\<lambda>(q, _). q \<noteq> p) m) k = (if k = p then None else hm_get m k)"
  by (induction m) auto

lemma list_delays_laws: "ds_laws list_delays"
proof -
  have fin: "finite (dom (hm_get m))" for m :: "(peer_id, instant) hmap"
  proof (rule finite_subset)
    show "dom (hm_get m) \<subseteq> fst ` set m"
      by (auto dest: hm_get_Some_in intro: rev_image_eqI)
  qed simp
  have poll: "ds_interval list_delays h' = ds_interval list_delays h \<and> (case e of
           Elapsed p \<Rightarrow> (\<exists>t \<le> now. ds_at list_delays h p = Some t)
             \<and> ds_at list_delays h' = (ds_at list_delays h)(p := None)
         | DelayError _ \<Rightarrow> False
         | NotElapsed \<Rightarrow> ds_at list_delays h' = ds_at list_delays h
             \<and> (\<forall>p t. ds_at list_delays h p = Some t \<longrightarrow> now < t))"
    if "ds_poll list_delays now h = (h', e)" for now h h' e
  proof -
    obtain m i where h: "h = (m, i)" by force
    let ?P = "\<lambda>(p, t). hm_get m p = Some t \<and> t \<le> now"
    show ?thesis
    proof (cases "List.find ?P m")
      case None
      then have "now < t" if "hm_get m p = Some t" for p t
        using hm_get_Some_in [OF that] that by (auto simp: find_None_iff not_le)
      with None \<open>ds_poll list_delays now h = (h', e)\<close> show ?thesis
        by (auto simp: list_delays_def h)
    next
      case (Some pt)
      obtain p t where pt: "pt = (p, t)" by force
      from Some have "hm_get m p = Some t" "t \<le> now" using find_Some_sat [OF Some] by (simp_all add: pt)
      with Some pt \<open>ds_poll list_delays now h = (h', e)\<close> show ?thesis
        by (auto simp: list_delays_def h hm_get_drop fun_eq_iff)
    qed
  qed
  show ?thesis
    unfolding ds_laws_def using poll fin
    by (auto simp: list_delays_def hm_get_drop fun_eq_iff split: if_splits)
qed

end
