(* ===== verification/Peer_Manager.thy ===== *)
theory Peer_Manager
  imports Globals Rpc_Protocol Delay_Set
begin

text \<open>
  \<open>peer_manager/mod.rs\<close> and \<open>peer_manager/config.rs\<close>: the reactions of the peer manager to reports, messages
  and connections, and the limits on the number of peers.  The sets of peers whose timer runs belong to a
  library and are a parameter; the clock is read once for every operation.
\<close>

section \<open>Constants, configuration and state\<close>

text \<open>What the manager uses of libraries: the sets, the SSZ library and the shuffles, one for each call.\<close>

record 'h pm_env =
  delays :: "'h delay_set"
  pm_ssz :: ssz_api
  shuffles :: "nat \<Rightarrow> (peer_id \<times> peer_info) list \<Rightarrow> (peer_id \<times> peer_info) list"

definition HEARTBEAT_INTERVAL :: nat where "HEARTBEAT_INTERVAL = 30"
definition MIN_SYNC_COMMITTEE_PEERS :: nat where "MIN_SYNC_COMMITTEE_PEERS = 2"
definition PEER_EXCESS_FACTOR :: f32 where "PEER_EXCESS_FACTOR = F32_01"
definition TARGET_OUTBOUND_ONLY_FACTOR :: f32 where "TARGET_OUTBOUND_ONLY_FACTOR = F32_03"
definition MIN_OUTBOUND_ONLY_FACTOR :: f32 where "MIN_OUTBOUND_ONLY_FACTOR = F32_02"
definition PRIORITY_PEER_EXCESS :: f32 where "PRIORITY_PEER_EXCESS = F32_02"

definition DEFAULT_STATUS_INTERVAL :: nat where "DEFAULT_STATUS_INTERVAL = 300"
definition DEFAULT_PING_INTERVAL_OUTBOUND :: nat where "DEFAULT_PING_INTERVAL_OUTBOUND = 15"
definition DEFAULT_PING_INTERVAL_INBOUND :: nat where "DEFAULT_PING_INTERVAL_INBOUND = 20"
definition DEFAULT_TARGET_PEERS :: nat where "DEFAULT_TARGET_PEERS = 50"

record pm_config =
  cfg_discovery_enabled :: bool
  cfg_metrics_enabled :: bool
  cfg_target_peer_count :: nat
  cfg_status_interval :: nat
  cfg_ping_interval_inbound :: nat
  cfg_ping_interval_outbound :: nat

definition default_pm_config :: pm_config where
  "default_pm_config = \<lparr> cfg_discovery_enabled = True, cfg_metrics_enabled = False,
     cfg_target_peer_count = DEFAULT_TARGET_PEERS, cfg_status_interval = DEFAULT_STATUS_INTERVAL,
     cfg_ping_interval_inbound = DEFAULT_PING_INTERVAL_INBOUND,
     cfg_ping_interval_outbound = DEFAULT_PING_INTERVAL_OUTBOUND \<rparr>"

datatype pm_event =
    PeerConnectedIncoming peer_id
  | PeerConnectedOutgoing peer_id
  | PeerDisconnected peer_id
  | SendStatus peer_id
  | SendPing peer_id
  | AskMetaData peer_id
  | DisconnectPeer peer_id goodbye_reason
  | PeerBanned peer_id "ip_addr list"
  | PeerUnBanned peer_id "ip_addr list"
  | DiscoverPeers nat
  | DiscoverSubnetPeers "subnet_discovery list"

text \<open>The heartbeat timer is not part of the state: a poll is told how many of its ticks have come.\<close>

record 'h peer_manager =
  globals :: network_globals
  pm_events :: "pm_event list"
  inbound_ping_peers :: 'h
  outbound_ping_peers :: 'h
  status_peers :: 'h
  target_peers :: nat
  peers_to_dial :: "(peer_id \<times> enr option \<times> bool) list"
  sync_committee_subnets :: "(nat, instant) hmap"
  discovery_enabled :: bool
  metrics_enabled :: bool

definition peer_manager_new :: "'h pm_env \<Rightarrow> pm_config \<Rightarrow> network_globals \<Rightarrow> 'h peer_manager" where
  "peer_manager_new E c g = \<lparr> globals = g, pm_events = [],
     inbound_ping_peers = ds_new (delays E) (from_secs (cfg_ping_interval_inbound c)),
     outbound_ping_peers = ds_new (delays E) (from_secs (cfg_ping_interval_outbound c)),
     status_peers = ds_new (delays E) (from_secs (cfg_status_interval c)),
     target_peers = cfg_target_peer_count c, peers_to_dial = [], sync_committee_subnets = [],
     discovery_enabled = cfg_discovery_enabled c, metrics_enabled = cfg_metrics_enabled c \<rparr>"

text \<open>The peer database inside the globals, and the queue of events.\<close>

definition pm_db :: "'h peer_manager \<Rightarrow> peer_db" where
  "pm_db pm = g_peers (globals pm)"

definition set_db :: "peer_db \<Rightarrow> 'h peer_manager \<Rightarrow> 'h peer_manager" where
  "set_db db pm = pm\<lparr>globals := (globals pm)\<lparr>g_peers := db\<rparr>\<rparr>"

definition push_event :: "pm_event \<Rightarrow> 'h peer_manager \<Rightarrow> 'h peer_manager" where
  "push_event e pm = pm\<lparr>pm_events := pm_events pm @ [e]\<rparr>"

section \<open>Reports and bans\<close>

fun handle_ban_operation ::
  "peer_id \<Rightarrow> ban_operation \<Rightarrow> goodbye_reason option \<Rightarrow> 'h peer_manager \<Rightarrow> 'h peer_manager" where
  "handle_ban_operation p DisconnectThePeer reason pm =
     push_event (DisconnectPeer p (case reason of Some r \<Rightarrow> r | None \<Rightarrow> GoodbyeBadScore)) pm"
| "handle_ban_operation p PeerDisconnecting reason pm = pm"
| "handle_ban_operation p (ReadyToBan ips) reason pm = push_event (PeerBanned p ips) pm"

fun handle_score_action ::
  "'h pm_env \<Rightarrow> peer_id \<Rightarrow> score_update_result \<Rightarrow> goodbye_reason option \<Rightarrow>
     'h peer_manager \<Rightarrow> 'h peer_manager" where
  "handle_score_action E p (Ban op) reason pm = handle_ban_operation p op reason pm"
| "handle_score_action E p Disconnect reason pm = push_event (DisconnectPeer p GoodbyeBadScore)
     (pm\<lparr>inbound_ping_peers := ds_remove (delays E) p (inbound_ping_peers pm),
         outbound_ping_peers := ds_remove (delays E) p (outbound_ping_peers pm)\<rparr>)"
| "handle_score_action E p NoAction reason pm = pm"
| "handle_score_action E p (Unbanned ips) reason pm = push_event (PeerUnBanned p ips) pm"

definition report_peer ::
  "'h pm_env \<Rightarrow> instant \<Rightarrow> peer_id \<Rightarrow> peer_action \<Rightarrow> goodbye_reason option \<Rightarrow>
     'h peer_manager \<Rightarrow> 'h peer_manager" where
  "report_peer E now p a reason pm =
     (let (db, result) = db_report_peer now p a (pm_db pm)
      in handle_score_action E p result reason (set_db db pm))"

definition goodbye_peer ::
  "'h pm_env \<Rightarrow> instant \<Rightarrow> peer_id \<Rightarrow> goodbye_reason \<Rightarrow> 'h peer_manager \<Rightarrow> 'h peer_manager" where
  "goodbye_peer E now p reason pm = report_peer E now p Fatal (Some reason)
     (if reason = IrrelevantNetwork
      then set_db ((pm_db pm)\<lparr>peers := hm_adjust p (\<lambda>info. fst (info_update_sync_status IrrelevantPeer info))
             (peers (pm_db pm))\<rparr>) pm
      else pm)"

text \<open>What an error in the request protocol costs the peer, if anything.\<close>

fun rate_limited_action :: "protocol_name \<Rightarrow> peer_action" where
  "rate_limited_action ProtoPing = MidToleranceError"
| "rate_limited_action ProtoBlocksByRange = MidToleranceError"
| "rate_limited_action ProtoBlocksByRoot = MidToleranceError"
| "rate_limited_action ProtoGoodbye = LowToleranceError"
| "rate_limited_action ProtoMetaData = LowToleranceError"
| "rate_limited_action ProtoStatus = LowToleranceError"

fun unsupported_action :: "protocol_name \<Rightarrow> peer_action option" where
  "unsupported_action ProtoPing = Some Fatal"
| "unsupported_action ProtoBlocksByRange = None"
| "unsupported_action ProtoBlocksByRoot = None"
| "unsupported_action ProtoGoodbye = None"
| "unsupported_action ProtoMetaData = Some LowToleranceError"
| "unsupported_action ProtoStatus = Some LowToleranceError"

fun timeout_action :: "protocol_name \<Rightarrow> peer_action option" where
  "timeout_action ProtoPing = Some LowToleranceError"
| "timeout_action ProtoBlocksByRange = Some MidToleranceError"
| "timeout_action ProtoBlocksByRoot = Some MidToleranceError"
| "timeout_action ProtoGoodbye = None"
| "timeout_action ProtoMetaData = None"
| "timeout_action ProtoStatus = None"

fun rpc_error_action :: "protocol_name \<Rightarrow> rpc_error \<Rightarrow> connection_direction \<Rightarrow> peer_action option" where
  "rpc_error_action pr IncompleteStream dir = Some MidToleranceError"
| "rpc_error_action pr (InternalError _) dir = None"
| "rpc_error_action pr HandlerRejected dir = Some Fatal"
| "rpc_error_action pr (InvalidData _) dir = Some Fatal"
| "rpc_error_action pr (IoError _) dir = Some HighToleranceError"
| "rpc_error_action pr (ErrorResponse code _) dir = (case code of
       UnknownCode \<Rightarrow> Some HighToleranceError
     | ResourceUnavailable \<Rightarrow> (case dir of Outgoing \<Rightarrow> Some Fatal | Incoming \<Rightarrow> None)
     | ServerError \<Rightarrow> Some MidToleranceError
     | InvalidRequest \<Rightarrow> Some LowToleranceError
     | RateLimited \<Rightarrow> Some (rate_limited_action pr))"
| "rpc_error_action pr (SSZDecodeError _) dir = Some Fatal"
| "rpc_error_action pr UnsupportedProtocol dir = unsupported_action pr"
| "rpc_error_action pr StreamTimeout dir =
     (case dir of Incoming \<Rightarrow> None | Outgoing \<Rightarrow> timeout_action pr)"
| "rpc_error_action pr NegotiationTimeout dir = Some LowToleranceError"
| "rpc_error_action pr RpcDisconnected dir = None"

definition handle_rpc_error ::
  "'h pm_env \<Rightarrow> instant \<Rightarrow> peer_id \<Rightarrow> protocol_name \<Rightarrow> rpc_error \<Rightarrow> connection_direction \<Rightarrow>
     'h peer_manager \<Rightarrow> 'h peer_manager" where
  "handle_rpc_error E now p pr err dir pm = (case rpc_error_action pr err dir of
       None \<Rightarrow> pm | Some a \<Rightarrow> report_peer E now p a None pm)"

section \<open>Messages of a peer\<close>

text \<open>Ask for the metadata of a peer that is not known, or older than what the peer announces.\<close>

definition ask_meta_data :: "peer_id \<Rightarrow> u64 \<Rightarrow> peer_info \<Rightarrow> 'h peer_manager \<Rightarrow> 'h peer_manager" where
  "ask_meta_data p sn info pm = (case info_meta_data info of
       Some md \<Rightarrow> if seq_number md < sn then push_event (AskMetaData p) pm else pm
     | None \<Rightarrow> push_event (AskMetaData p) pm)"

definition ping_request :: "'h pm_env \<Rightarrow> instant \<Rightarrow> peer_id \<Rightarrow> u64 \<Rightarrow> 'h peer_manager \<Rightarrow> 'h peer_manager" where
  "ping_request E now p sn pm = (case peer_info_get (pm_db pm) p of
       None \<Rightarrow> pm
     | Some info \<Rightarrow> ask_meta_data p sn info (case info_direction info of
           Some Incoming \<Rightarrow> pm\<lparr>inbound_ping_peers := ds_insert (delays E) now p (inbound_ping_peers pm)\<rparr>
         | Some Outgoing \<Rightarrow> pm\<lparr>outbound_ping_peers := ds_insert (delays E) now p (outbound_ping_peers pm)\<rparr>
         | None \<Rightarrow> pm))"

definition pong_response :: "peer_id \<Rightarrow> u64 \<Rightarrow> 'h peer_manager \<Rightarrow> 'h peer_manager" where
  "pong_response p sn pm = (case peer_info_get (pm_db pm) p of
       None \<Rightarrow> pm | Some info \<Rightarrow> ask_meta_data p sn info pm)"

definition meta_data_response :: "peer_id \<Rightarrow> meta_data \<Rightarrow> 'h peer_manager \<Rightarrow> 'h peer_manager" where
  "meta_data_response p md pm =
     set_db ((pm_db pm)\<lparr>peers := hm_adjust p (set_meta_data md) (peers (pm_db pm))\<rparr>) pm"

definition identify :: "peer_id \<Rightarrow> identify_info \<Rightarrow> multiaddr list \<Rightarrow> 'h peer_manager \<Rightarrow> 'h peer_manager" where
  "identify p ident listen pm = set_db ((pm_db pm)\<lparr>peers := hm_adjust p
     (\<lambda>info. set_client (client_from_identify_info ident) (fst (set_listening_addresses listen info)))
     (peers (pm_db pm))\<rparr>) pm"

definition peer_statusd :: "'h pm_env \<Rightarrow> instant \<Rightarrow> peer_id \<Rightarrow> 'h peer_manager \<Rightarrow> 'h peer_manager" where
  "peer_statusd E now p pm = pm\<lparr>status_peers := ds_insert (delays E) now p (status_peers pm)\<rparr>"

definition add_sync_subnet :: "nat \<Rightarrow> instant \<Rightarrow> 'h peer_manager \<Rightarrow> 'h peer_manager" where
  "add_sync_subnet i t pm = (case hm_get (sync_committee_subnets pm) i of
       None \<Rightarrow> pm\<lparr>sync_committee_subnets := hm_insert i t (sync_committee_subnets pm)\<rparr>
     | Some old \<Rightarrow> if old < t then pm\<lparr>sync_committee_subnets := hm_insert i t (sync_committee_subnets pm)\<rparr>
                   else pm)"

text \<open>The scores of all peers gossipsub knows; \<open>peer_score\<close> is gossipsub's answer.\<close>

definition handle_score_actions ::
  "'h pm_env \<Rightarrow> (peer_id \<times> score_update_result) list \<Rightarrow> 'h peer_manager \<Rightarrow> 'h peer_manager" where
  "handle_score_actions E actions = fold (\<lambda>(p, a). handle_score_action E p a None) actions"

definition pm_update_gossipsub_scores ::
  "'h pm_env \<Rightarrow> instant \<Rightarrow> (peer_id \<Rightarrow> f64 option) \<Rightarrow> 'h peer_manager \<Rightarrow> 'h peer_manager" where
  "pm_update_gossipsub_scores E now peer_score pm =
     (let (db, actions) = update_gossipsub_scores now (target_peers pm) peer_score (pm_db pm)
      in handle_score_actions E actions (set_db db pm))"

section \<open>The limits on the number of peers\<close>

definition max_peers_of :: "nat \<Rightarrow> nat" where
  "max_peers_of target = ceil_as_usize (f32_mult (f32_of_nat target) (f32_add F32_1 PEER_EXCESS_FACTOR))"

definition max_priority_peers_of :: "nat \<Rightarrow> nat" where
  "max_priority_peers_of target = ceil_as_usize (f32_mult (f32_of_nat target)
     (f32_add (f32_add F32_1 PEER_EXCESS_FACTOR) PRIORITY_PEER_EXCESS))"

definition min_outbound_only_peers_of :: "nat \<Rightarrow> nat" where
  "min_outbound_only_peers_of target = ceil_as_usize (f32_mult (f32_of_nat target) MIN_OUTBOUND_ONLY_FACTOR)"

definition target_outbound_peers_of :: "nat \<Rightarrow> nat" where
  "target_outbound_peers_of target = ceil_as_usize (f32_mult (f32_of_nat target) TARGET_OUTBOUND_ONLY_FACTOR)"

text \<open>Halving is exact.\<close>

definition max_outbound_dialing_peers_of :: "nat \<Rightarrow> nat" where
  "max_outbound_dialing_peers_of target = ceil_as_usize (f32_mult (f32_of_nat target)
     (f32_add (f32_add F32_1 PEER_EXCESS_FACTOR) (PRIORITY_PEER_EXCESS div 2)))"

definition peer_limit_reached :: "bool \<Rightarrow> 'h peer_manager \<Rightarrow> bool" where
  "peer_limit_reached count_dialing pm = (if count_dialing
     then connected_or_dialing_count (globals pm) \<ge> max_peers_of (target_peers pm)
     else connected_count (globals pm) \<ge> max_outbound_dialing_peers_of (target_peers pm))"

section \<open>Finding peers\<close>

text \<open>The plain subtraction of the code wraps around in a release build.\<close>

definition usize_minus :: "nat \<Rightarrow> nat \<Rightarrow> nat" where
  "usize_minus a b = (if b \<le> a then a - b else a + 2 ^ 64 - b)"

definition wanted_peers :: "nat \<Rightarrow> nat \<Rightarrow> nat \<Rightarrow> nat \<Rightarrow> nat" where
  "wanted_peers target count outbound dialing =
     (if count < target - dialing then usize_minus (target - dialing) count
      else if outbound < min_outbound_only_peers_of target \<and> count < max_outbound_dialing_peers_of target
      then usize_minus (max_outbound_dialing_peers_of target - dialing) count
      else 0)"

definition maintain_peer_count :: "nat \<Rightarrow> 'h peer_manager \<Rightarrow> 'h peer_manager" where
  "maintain_peer_count dialing pm = (if discovery_enabled pm
     then (let wanted = wanted_peers (target_peers pm) (connected_or_dialing_count (globals pm))
                  (outbound_only_count (globals pm)) dialing
           in if wanted \<noteq> 0 then push_event (DiscoverPeers wanted) pm else pm)
     else pm)"

text \<open>The results are visited in the order of the map; \<open>cod\<close> was counted before.\<close>

definition wants_dial ::
  "nat \<Rightarrow> nat \<Rightarrow> nat \<Rightarrow> instant option \<Rightarrow> bool" where
  "wants_dial target cod queued ttl =
     (ttl \<noteq> None \<and> cod + queued < max_priority_peers_of target \<or> cod + queued < max_peers_of target)"

definition discovered_step ::
  "instant \<Rightarrow> nat \<Rightarrow> nat \<Rightarrow> peer_id \<times> instant option \<Rightarrow> peer_db \<times> peer_id list \<Rightarrow> peer_db \<times> peer_id list" where
  "discovered_step now target cod r acc = (let (p, ttl) = r; (db, to_dial) = acc in
     if wants_dial target cod (length to_dial) ttl \<and> should_dial db p
     then ((case ttl of Some t \<Rightarrow> update_min_ttl now p t db | None \<Rightarrow> db), to_dial @ [p])
     else acc)"

definition peers_discovered ::
  "instant \<Rightarrow> (peer_id, instant option) hmap \<Rightarrow> 'h peer_manager \<Rightarrow> 'h peer_manager \<times> peer_id list" where
  "peers_discovered now results pm =
     (let (db, to_dial) = fold (discovered_step now (target_peers pm) (connected_or_dialing_count (globals pm)))
            results (pm_db pm, [])
      in (maintain_peer_count (length to_dial) (set_db db pm), to_dial))"

definition dial_peer :: "peer_id \<Rightarrow> enr option \<Rightarrow> 'h peer_manager \<Rightarrow> 'h peer_manager" where
  "dial_peer p e pm = pm\<lparr>peers_to_dial := peers_to_dial pm @ [(p, e, False)]\<rparr>"

definition dial_trusted_peer :: "peer_id \<Rightarrow> enr option \<Rightarrow> 'h peer_manager \<Rightarrow> 'h peer_manager" where
  "dial_trusted_peer p e pm = pm\<lparr>peers_to_dial := peers_to_dial pm @ [(p, e, True)]\<rparr>"

definition pm_ban_status :: "'h peer_manager \<Rightarrow> peer_id \<Rightarrow> ban_result" where
  "pm_ban_status pm p = ban_status (pm_db pm) p"

definition pm_is_connected :: "'h peer_manager \<Rightarrow> peer_id \<Rightarrow> bool" where
  "pm_is_connected pm p = is_connected (pm_db pm) p"

definition remove_trusted :: "peer_id \<Rightarrow> 'h peer_manager \<Rightarrow> 'h peer_manager" where
  "remove_trusted p pm = set_db ((pm_db pm)\<lparr>peers := hm_adjust p set_untrusted (peers (pm_db pm))\<rparr>) pm"

text \<open>A subnet of a synchronisation committee is kept until its time, and searched while peers are lacking.\<close>

definition maintain_sync_committee_peers :: "'h pm_env \<Rightarrow> instant \<Rightarrow> 'h peer_manager \<Rightarrow> 'h peer_manager" where
  "maintain_sync_committee_peers E now pm =
     (let kept = hm_retain (\<lambda>_ t. t > now) (sync_committee_subnets pm);
          wanted = List.map_filter (\<lambda>(i, t).
            if length (good_peers_on_subnet (pm_ssz E) (SyncCommittee i) (pm_db pm)) < TARGET_SUBNET_PEERS
            then Some \<lparr>sd_subnet = SyncCommittee i, sd_min_ttl = Some t\<rparr> else None) kept;
          pm = pm\<lparr>sync_committee_subnets := kept\<rparr>
      in if wanted \<noteq> [] then push_event (DiscoverSubnetPeers wanted) pm else pm)"

end
