(* ===== verification/Peer_Prune.thy ===== *)
theory Peer_Prune
  imports Peer_Manager
begin

text \<open>
  \<open>PeerManager::prune_excess_peers\<close>: which peers are dropped when there are more than the target, first
  those with a bad score, then those without a subnet, then those on the most crowded subnets.
\<close>

section \<open>The first two rounds\<close>

text \<open>One round over the peers that pass its filter, worst first, with the peers chosen so far and the
  number of outbound peers among them (the macro \<open>prune_peers\<close>).\<close>

fun prune_round ::
  "nat \<Rightarrow> nat \<Rightarrow> nat \<Rightarrow> (peer_id \<times> peer_info) list \<Rightarrow> peer_id list \<times> nat \<Rightarrow> peer_id list \<times> nat" where
  "prune_round limit target_out conn_out [] acc = acc"
| "prune_round limit target_out conn_out ((p, info) # ps) (chosen, outbound) =
     (if length chosen \<ge> limit then (chosen, outbound)
      else if p \<in> set chosen then prune_round limit target_out conn_out ps (chosen, outbound)
      else if is_outbound_only info
      then (if target_out + outbound < conn_out
            then prune_round limit target_out conn_out ps (p # chosen, outbound + 1)
            else prune_round limit target_out conn_out ps (chosen, outbound))
      else prune_round limit target_out conn_out ps (p # chosen, outbound))"

definition worst_prunable ::
  "'h pm_env \<Rightarrow> nat \<Rightarrow> instant \<Rightarrow> (peer_info \<Rightarrow> bool) \<Rightarrow> peer_db \<Rightarrow> (peer_id \<times> peer_info) list" where
  "worst_prunable E n now P db = filter (\<lambda>(_, info). \<not> has_future_duty now info \<and> P info)
     (worst_connected_peers (shuffles E n) db)"

section \<open>The crowded subnets\<close>

text \<open>The connected peers on each attestation subnet, how many peers each synchronisation committee has, and
  the committees of each peer.\<close>

record prune_state =
  ps_chosen :: "peer_id list"
  ps_outbound :: nat
  ps_subnets :: "(subnet, (peer_id \<times> peer_info) list) hmap"
  ps_sync_counts :: "(nat, nat) hmap"
  ps_peer_syncs :: "(peer_id, nat list) hmap"

definition count_subnet :: "peer_id \<Rightarrow> peer_info \<Rightarrow> subnet \<Rightarrow> prune_state \<Rightarrow> prune_state" where
  "count_subnet p info s st = (case s of
       Attestation _ \<Rightarrow> st\<lparr>ps_subnets := hm_upsert s [] (\<lambda>l. l @ [(p, info)]) (ps_subnets st)\<rparr>
     | SyncCommittee i \<Rightarrow> st\<lparr>ps_sync_counts := hm_upsert i 0 (\<lambda>n. n + 1) (ps_sync_counts st),
                             ps_peer_syncs := hm_upsert p [] (List.insert i) (ps_peer_syncs st)\<rparr>)"

definition count_peer :: "ssz_api \<Rightarrow> peer_id \<times> peer_info \<Rightarrow> prune_state \<Rightarrow> prune_state" where
  "count_peer api c st = (if fst c \<in> set (ps_chosen st) then st
     else fold (count_subnet (fst c) (snd c)) (long_lived_subnets api (snd c)) st)"

definition smallest_committee :: "prune_state \<Rightarrow> peer_id \<Rightarrow> nat option" where
  "smallest_committee st p = (case hm_get (ps_peer_syncs st) p of
       None \<Rightarrow> None
     | Some is \<Rightarrow> min_by_key (\<lambda>n. n) (List.map_filter (hm_get (ps_sync_counts st)) is))"

definition may_prune :: "nat \<Rightarrow> nat \<Rightarrow> prune_state \<Rightarrow> peer_id \<times> peer_info \<Rightarrow> bool" where
  "may_prune target_out conn_out st c =
     (\<not> (is_outbound_only (snd c) \<and> target_out \<ge> conn_out - ps_outbound st)
      \<and> (case smallest_committee st (fst c) of None \<Rightarrow> True | Some n \<Rightarrow> n > MIN_SYNC_COMMITTEE_PEERS))"

text \<open>The candidate leaves every subnet and is taken off the counts of its committees; a subnet on which no peer
  may be dropped is emptied.\<close>

definition drop_candidate :: "peer_id \<times> peer_info \<Rightarrow> prune_state \<Rightarrow> prune_state" where
  "drop_candidate c st = st\<lparr>
     ps_outbound := (if is_outbound_only (snd c) then ps_outbound st + 1 else ps_outbound st),
     ps_subnets := hm_map (filter (\<lambda>(q, _). q \<noteq> fst c)) (ps_subnets st),
     ps_sync_counts := fold (\<lambda>i. hm_adjust i (\<lambda>n. n - 1))
       (case hm_get (ps_peer_syncs st) (fst c) of Some is \<Rightarrow> is | None \<Rightarrow> []) (ps_sync_counts st),
     ps_chosen := List.insert (fst c) (ps_chosen st)\<rparr>"

definition prune_from_subnet ::
  "nat \<Rightarrow> nat \<Rightarrow> subnet \<Rightarrow> (peer_id \<times> peer_info) list \<Rightarrow> prune_state \<Rightarrow> prune_state" where
  "prune_from_subnet target_out conn_out s ps st =
     (case List.find (may_prune target_out conn_out st) ps of
        Some c \<Rightarrow> drop_candidate c (st\<lparr>ps_subnets := hm_insert s ps (ps_subnets st)\<rparr>)
      | None \<Rightarrow> st\<lparr>ps_subnets := hm_insert s [] (ps_subnets st)\<rparr>)"

text \<open>The loop ends when enough peers are chosen or no subnet has a peer left; whether it does rests on the
  shuffle giving the peers it is given.\<close>

partial_function (option) prune_subnets ::
  "'h pm_env \<Rightarrow> nat \<Rightarrow> nat \<Rightarrow> nat \<Rightarrow> nat \<Rightarrow> prune_state \<Rightarrow> prune_state option" where
  "prune_subnets E n limit target_out conn_out st =
     (if length (ps_chosen st) < limit
      then (case max_by_key (\<lambda>(_, ps). length ps) (ps_subnets st) of
              None \<Rightarrow> Some st
            | Some (s, ps) \<Rightarrow> if ps = [] then Some st
                else prune_subnets E (n + 1) limit target_out conn_out
                  (prune_from_subnet target_out conn_out s
                     (sort_key (\<lambda>(_, info). long_lived_subnet_count (pm_ssz E) info) (shuffles E n ps)) st))
      else Some st)"

section \<open>All rounds\<close>

text \<open>Gracefully disconnect a peer.\<close>

definition disconnect_peer ::
  "instant \<Rightarrow> peer_id \<Rightarrow> goodbye_reason \<Rightarrow> 'h peer_manager \<Rightarrow> 'h peer_manager" where
  "disconnect_peer now p reason pm = (let pm = push_event (DisconnectPeer p reason) pm
     in set_db (notify_disconnecting now p False (pm_db pm)) pm)"

text \<open>The peers to drop, of a database with \<open>count\<close> connected peers.\<close>

definition peers_to_prune :: "'h pm_env \<Rightarrow> instant \<Rightarrow> nat \<Rightarrow> network_globals \<Rightarrow> peer_id list option" where
  "peers_to_prune E now target g =
     (let db = g_peers g;
          limit = connected_count g - target;
          target_out = target_outbound_peers_of target;
          conn_out = outbound_only_count g;
          (chosen, outbound) = prune_round limit target_out conn_out
            (worst_prunable E 0 now (\<lambda>i. score_of (info_score i) < Finite 0) db) ([], 0);
          (chosen, outbound) = (if length chosen < limit then prune_round limit target_out conn_out
            (worst_prunable E 1 now (\<lambda>i. \<not> has_long_lived_subnet (pm_ssz E) i) db) (chosen, outbound)
            else (chosen, outbound))
      in if length chosen < limit
         then map_option ps_chosen (prune_subnets E 2 limit target_out conn_out
                (fold (count_peer (pm_ssz E)) (connected_peers db)
                   \<lparr>ps_chosen = chosen, ps_outbound = outbound, ps_subnets = [], ps_sync_counts = [],
                    ps_peer_syncs = []\<rparr>))
         else Some chosen)"

definition prune_excess_peers :: "'h pm_env \<Rightarrow> instant \<Rightarrow> 'h peer_manager \<Rightarrow> 'h peer_manager option" where
  "prune_excess_peers E now pm =
     (if connected_count (globals pm) \<le> target_peers pm then Some pm
      else map_option (\<lambda>ps. fold (\<lambda>p. disconnect_peer now p TooManyPeers) ps pm)
             (peers_to_prune E now (target_peers pm) (globals pm)))"

end
