(* ===== verification/Peer_Behaviour.thy ===== *)
theory Peer_Behaviour
  imports Peer_Prune
begin

text \<open>
  The heartbeat of \<open>peer_manager/mod.rs\<close> and \<open>peer_manager/network_behaviour.rs\<close>: the polling of the peer
  manager and its reactions to connections.
\<close>

section \<open>Connections\<close>

datatype connecting_type =
    ConnDialing bool
  | IngoingConnected multiaddr
  | OutgoingConnected multiaddr

datatype connected_point = Dialer multiaddr | Listener multiaddr

definition inject_peer_connection ::
  "'h pm_env \<Rightarrow> instant \<Rightarrow> peer_id \<Rightarrow> connecting_type \<Rightarrow> enr option \<Rightarrow> 'h peer_manager \<Rightarrow> 'h peer_manager" where
  "inject_peer_connection E now p conn e pm = (case conn of
       ConnDialing trusted \<Rightarrow> set_db (dialing_peer now p e trusted (pm_db pm)) pm
     | IngoingConnected a \<Rightarrow>
         (let pm = set_db (db_connect_ingoing now p a e (pm_db pm)) pm
          in pm\<lparr>inbound_ping_peers := ds_insert (delays E) now p (inbound_ping_peers pm),
                status_peers := ds_insert (delays E) now p (status_peers pm)\<rparr>)
     | OutgoingConnected a \<Rightarrow>
         (let pm = set_db (db_connect_outgoing now p a e (pm_db pm)) pm
          in pm\<lparr>outbound_ping_peers := ds_insert (delays E) now p (outbound_ping_peers pm),
                status_peers := ds_insert (delays E) now p (status_peers pm)\<rparr>))"

definition inject_connect_ingoing ::
  "'h pm_env \<Rightarrow> instant \<Rightarrow> peer_id \<Rightarrow> multiaddr \<Rightarrow> enr option \<Rightarrow> 'h peer_manager \<Rightarrow> 'h peer_manager" where
  "inject_connect_ingoing E now p a e = inject_peer_connection E now p (IngoingConnected a) e"

definition inject_connect_outgoing ::
  "'h pm_env \<Rightarrow> instant \<Rightarrow> peer_id \<Rightarrow> multiaddr \<Rightarrow> enr option \<Rightarrow> 'h peer_manager \<Rightarrow> 'h peer_manager" where
  "inject_connect_outgoing E now p a e = inject_peer_connection E now p (OutgoingConnected a) e"

definition inject_disconnect :: "'h pm_env \<Rightarrow> instant \<Rightarrow> peer_id \<Rightarrow> 'h peer_manager \<Rightarrow> 'h peer_manager" where
  "inject_disconnect E now p pm =
     (let (db, op, purged) = db_inject_disconnect now p (pm_db pm);
          pm = set_db db pm;
          pm = (case op of Some op \<Rightarrow> handle_ban_operation p op None pm | None \<Rightarrow> pm)
      in pm\<lparr>inbound_ping_peers := ds_remove (delays E) p (inbound_ping_peers pm),
            outbound_ping_peers := ds_remove (delays E) p (outbound_ping_peers pm),
            status_peers := ds_remove (delays E) p (status_peers pm),
            pm_events := pm_events pm @ map (\<lambda>(q, ips). PeerUnBanned q ips) purged\<rparr>)"

definition inject_connection_established ::
  "'h pm_env \<Rightarrow> instant \<Rightarrow> peer_id \<Rightarrow> connected_point \<Rightarrow> nat \<Rightarrow> 'h peer_manager \<Rightarrow> 'h peer_manager" where
  "inject_connection_established E now p endpoint other_established pm =
     (let pm = (if other_established = 0 then push_event (AskMetaData p) pm else pm)
      in case pm_ban_status pm p of
           BadScore \<Rightarrow> goodbye_peer E now p GoodbyeBanned pm
         | BannedIp _ \<Rightarrow> goodbye_peer E now p GoodbyeBannedIP pm
         | NotBanned \<Rightarrow>
             if peer_limit_reached (case endpoint of Listener _ \<Rightarrow> True | Dialer _ \<Rightarrow> False) pm
                \<and> (case peer_info_get (pm_db pm) p of
                     None \<Rightarrow> True | Some info \<Rightarrow> \<not> has_future_duty now info)
             then disconnect_peer now p TooManyPeers pm
             else (case endpoint of
                 Listener a \<Rightarrow> push_event (PeerConnectedIncoming p) (inject_connect_ingoing E now p a None pm)
               | Dialer a \<Rightarrow> push_event (PeerConnectedOutgoing p) (inject_connect_outgoing E now p a None pm)))"

definition inject_connection_closed ::
  "'h pm_env \<Rightarrow> instant \<Rightarrow> peer_id \<Rightarrow> nat \<Rightarrow> 'h peer_manager \<Rightarrow> 'h peer_manager" where
  "inject_connection_closed E now p remaining_established pm =
     (if remaining_established > 0 then pm
      else inject_disconnect E now p
        (if is_connected_or_disconnecting (pm_db pm) p then push_event (PeerDisconnected p) pm else pm))"

definition inject_dial_failure :: "'h pm_env \<Rightarrow> instant \<Rightarrow> peer_id option \<Rightarrow> 'h peer_manager \<Rightarrow> 'h peer_manager" where
  "inject_dial_failure E now p pm = (case p of
       None \<Rightarrow> pm
     | Some p \<Rightarrow> if is_connected (pm_db pm) p then pm else inject_disconnect E now p pm)"

section \<open>The heartbeat\<close>

definition heartbeat :: "'h pm_env \<Rightarrow> instant \<Rightarrow> 'h peer_manager \<Rightarrow> 'h peer_manager option" where
  "heartbeat E now pm =
     (let pm = maintain_peer_count 0 pm;
          pm = set_db (cleanup_dialing_peers now (pm_db pm)) pm;
          (db, actions) = update_scores now (pm_db pm);
          pm = handle_score_actions E actions (set_db db pm);
          pm = maintain_sync_committee_peers E now pm
      in prune_excess_peers E now pm)"

primrec heartbeats :: "'h pm_env \<Rightarrow> instant \<Rightarrow> nat \<Rightarrow> 'h peer_manager \<Rightarrow> 'h peer_manager option" where
  "heartbeats E now 0 pm = Some pm"
| "heartbeats E now (Suc ticks) pm = Option.bind (heartbeat E now pm) (heartbeats E now ticks)"

section \<open>Polling\<close>

text \<open>A peer whose timer has elapsed is inserted again, and an event is made for it.\<close>

partial_function (option) drain_delays ::
  "'h delay_set \<Rightarrow> instant \<Rightarrow> (peer_id \<Rightarrow> pm_event) \<Rightarrow> 'h \<Rightarrow> pm_event list \<Rightarrow> ('h \<times> pm_event list) option" where
  "drain_delays D now ev h evs = (case ds_poll D now h of
       (h, Elapsed p) \<Rightarrow> drain_delays D now ev (ds_insert D now p h) (evs @ [ev p])
     | (h, DelayError _) \<Rightarrow> drain_delays D now ev h evs
     | (h, NotElapsed) \<Rightarrow> Some (h, evs))"

datatype pm_poll = GenerateEvent pm_event | DialPeer peer_id | PmPending

definition syncing_main :: "sync_state \<Rightarrow> bool" where
  "syncing_main s = (case s of SyncingFinalized _ _ \<Rightarrow> True | SyncingHead _ _ \<Rightarrow> True | _ \<Rightarrow> False)"

definition poll_timers :: "'h pm_env \<Rightarrow> instant \<Rightarrow> 'h peer_manager \<Rightarrow> 'h peer_manager option" where
  "poll_timers E now pm =
     Option.bind (drain_delays (delays E) now SendPing (inbound_ping_peers pm) (pm_events pm)) (\<lambda>(h, evs).
       let pm = pm\<lparr>inbound_ping_peers := h, pm_events := evs\<rparr> in
     Option.bind (drain_delays (delays E) now SendPing (outbound_ping_peers pm) (pm_events pm)) (\<lambda>(h, evs).
       let pm = pm\<lparr>outbound_ping_peers := h, pm_events := evs\<rparr> in
     if syncing_main (g_sync_state (globals pm)) then Some pm
     else Option.bind (drain_delays (delays E) now SendStatus (status_peers pm) (pm_events pm)) (\<lambda>(h, evs).
       Some (pm\<lparr>status_peers := h, pm_events := evs\<rparr>))))"

definition emit_next :: "'h pm_env \<Rightarrow> instant \<Rightarrow> 'h peer_manager \<Rightarrow> 'h peer_manager \<times> pm_poll" where
  "emit_next E now pm = (case pm_events pm of
       e # es \<Rightarrow> (pm\<lparr>pm_events := es\<rparr>, GenerateEvent e)
     | [] \<Rightarrow> (case peers_to_dial pm of
           (p, e, trusted) # ds \<Rightarrow>
             (inject_peer_connection E now p (ConnDialing trusted) e (pm\<lparr>peers_to_dial := ds\<rparr>), DialPeer p)
         | [] \<Rightarrow> (pm, PmPending)))"

definition pm_poll ::
  "'h pm_env \<Rightarrow> instant \<Rightarrow> nat \<Rightarrow> 'h peer_manager \<Rightarrow> ('h peer_manager \<times> pm_poll) option" where
  "pm_poll E now ticks pm = Option.bind (heartbeats E now ticks pm) (\<lambda>pm.
     map_option (emit_next E now) (poll_timers E now pm))"

end
