(* ===== verification/Peer_DB_Props.thy ===== *)
theory Peer_DB_Props
  imports Peer_DB_Ops
begin

text \<open>
  The peer database keeps its invariant: one preservation lemma per operation, the relation of the
  states the database can reach, and what the invariant gives.
\<close>

section \<open>Operations that leave the connections alone\<close>

text \<open>A change of a peer that touches neither its status nor its addresses.\<close>

definition quiet :: "(peer_info \<Rightarrow> peer_info) \<Rightarrow> bool" where
  "quiet f \<longleftrightarrow> (\<forall>i. connection_status (f i) = connection_status i
     \<and> seen_addresses (f i) = seen_addresses i \<and> (info_ok i \<longrightarrow> info_ok (f i)))"

lemma quiet_weights:
  assumes "quiet f"
  shows "disc_weight (f i) = disc_weight i" "ban_weight (f i) = ban_weight i"
    "ip_weight ip (f i) = ip_weight ip i"
  using assms by (auto simp: quiet_def intro: weights_status)

lemma db_ok_quiet_insert:
  assumes "db_ok db" and "hm_get (peers db) p = Some i" and "quiet f"
  shows "db_ok (db\<lparr>peers := hm_insert p (f i) (peers db)\<rparr>)"
proof (rule balanced_store)
  show "balanced i db (f i) db"
    using assms(3) by (simp add: balanced_def quiet_weights) (simp add: quiet_def)
  show "info_ok i" using assms by (auto simp: db_ok_def intro: infos_ok_get)
qed (use assms in simp_all)

lemma db_ok_quiet_adjust:
  "db_ok db \<Longrightarrow> quiet f \<Longrightarrow> db_ok (db\<lparr>peers := hm_adjust p f (peers db)\<rparr>)"
  by (auto simp: hm_adjust_def intro: db_ok_quiet_insert split: option.split)

lemma db_ok_quiet_map:
  assumes "db_ok db" and "quiet f"
  shows "db_ok (db\<lparr>peers := hm_map f (peers db)\<rparr>)"
proof -
  have "infos_ok (db\<lparr>peers := hm_map f (peers db)\<rparr>)"
    using assms by (auto simp: db_ok_def infos_ok_def hm_map_def quiet_def)
  then show ?thesis
    using assms(1) quiet_weights [OF assms(2)]
    by (simp add: db_ok_def counts_ok_def sum_map comp_def)
qed

lemma quiet_ops:
  "quiet (apply_peer_action_to_score a)" "quiet (info_update_score now)"
  "quiet (info_update_gossipsub_score now x ig)"
  "quiet (insert_subnet s)" "quiet (remove_subnet s)" "quiet (set_min_ttl t)" "quiet (set_client c)"
  "quiet (set_meta_data md)" "quiet set_untrusted" "quiet (\<lambda>i. fst (info_update_sync_status st i))"
  "quiet (\<lambda>i. fst (set_listening_addresses as i))"
  by (auto simp: quiet_def info_setters info_update_sync_status_def info_ok_def
      intro: pinfo.ok_act [unfolded info_ok_def] pinfo.ok_tick [unfolded info_ok_def]
        pinfo.ok_gossip [unfolded info_ok_def] split: prod.splits)

lemma quiet_if: "quiet f \<Longrightarrow> quiet (\<lambda>i. if P i then f i else i)"
  by (auto simp: quiet_def)

lemma quiet_id: "quiet (\<lambda>i. i)"
  by (simp add: quiet_def)

section \<open>One lemma per operation\<close>

lemma get_update_other:
  "q \<noteq> p \<Longrightarrow> hm_get (peers (fst (update_connection_state now p new db))) q = hm_get (peers db) q"
proof -
  assume "q \<noteq> p"
  obtain info' db' op where t: "transition now new (ban_score new (entry_for now new db p)) db
      = (info', db', op)" by (metis prod_cases3)
  then have "peers db' = peers db"
    by (auto simp: transition_def to_connected_def to_dialing_def to_disconnected_def
        to_disconnecting_def to_banned_def to_unbanned_def Let_def forget_disconnected_def
        count_disconnected_def forget_banned_def count_banned_def
        split: new_connection_state.splits peer_connection_status.splits bool.splits)
  with t \<open>q \<noteq> p\<close> show ?thesis by (simp add: update_connection_state_def)
qed

lemma handle_disconnected_connected:
  "handle_score_transition previous info = TransDisconnected \<Longrightarrow> info_is_connected_or_dialing info"
  by (auto simp: handle_score_transition_def split: score_state.splits if_splits)

lemma connected_not_banned: "info_is_connected_or_dialing i \<Longrightarrow> \<not> info_is_banned i"
  by (auto simp: status_defs split: peer_connection_status.splits)

lemma db_ok_report_peer:
  assumes "db_ok db"
  shows "db_ok (fst (db_report_peer now p a db))"
proof (cases "hm_get (peers db) p")
  case (Some info)
  let ?i = "apply_peer_action_to_score a info"
  let ?db = "db\<lparr>peers := hm_insert p ?i (peers db)\<rparr>"
  have ok: "db_ok ?db"
    using assms Some quiet_ops(1) by (rule db_ok_quiet_insert)
  have "db_ok (fst (update_connection_state now p NewBanned ?db))"
    by (rule db_ok_update_connection_state [OF ok]) simp
  moreover have "db_ok (fst (update_connection_state now p (NewDisconnecting False) ?db))"
    if "handle_score_transition (score_state_of info) ?i = TransDisconnected"
    by (rule db_ok_update_connection_state [OF ok])
       (use connected_not_banned [OF handle_disconnected_connected [OF that]] in simp)
  ultimately show ?thesis
    using Some ok by (auto simp: db_report_peer_def Let_def split_beta split: score_transition_result.split)
qed (use assms in \<open>simp add: db_report_peer_def\<close>)

lemma db_ok_unban: "db_ok db \<Longrightarrow> db_ok (fst (update_connection_state now p NewUnbanned db))"
  by (rule db_ok_update_connection_state) simp_all

lemma db_ok_update_scores: "db_ok db \<Longrightarrow> db_ok (fst (update_scores now db))"
proof -
  assume "db_ok db"
  then have ok: "db_ok (db\<lparr>peers := hm_map (info_update_score now) (peers db)\<rparr>)"
    by (rule db_ok_quiet_map) (rule quiet_ops)
  have "db_ok (fst acc) \<Longrightarrow> db_ok (fst (fold (unban_step now) ps acc))" for ps acc
    by (induction ps arbitrary: acc) (auto simp: unban_step_def Let_def db_ok_unban split: prod.split)
  from this [of "(_, [])", simplified, OF ok] show ?thesis by (simp add: update_scores_def Let_def)
qed

lemma db_ok_cleanup: "db_ok db \<Longrightarrow> db_ok (cleanup_dialing_peers now db)"
proof -
  have "db_ok d \<Longrightarrow> db_ok (fold (\<lambda>p d. fst (update_connection_state now p NewDisconnected d)) ps d)"
    for ps d by (induction ps arbitrary: d) (auto intro: db_ok_update_connection_state)
  then show "db_ok db \<Longrightarrow> ?thesis" by (simp add: cleanup_dialing_peers_def)
qed

lemma db_ok_min_ttl: "db_ok db \<Longrightarrow> db_ok (update_min_ttl now p t db)"
proof -
  assume ok: "db_ok db"
  let ?f = "\<lambda>info. if longer_ttl t info then set_min_ttl t info else info"
  let ?e = "case hm_get (peers db) p of Some v \<Rightarrow> v | None \<Rightarrow> default_peer_info now"
  have q: "quiet ?f" by (rule quiet_if) (rule quiet_ops)
  have "db_ok (db\<lparr>peers := hm_insert p (?f ?e) (peers db)\<rparr>)"
  proof (rule balanced_store [OF ok, of ?e])
    show "balanced ?e db (?f ?e) db"
      unfolding balanced_def quiet_weights [OF q] using q by (simp add: quiet_def)
    show "info_ok ?e"
      using ok by (auto simp: db_ok_def intro: infos_ok_get split: option.split)
  qed (auto split: option.split)
  then show ?thesis by (simp add: update_min_ttl_def hm_upsert_def)
qed

section \<open>Gossipsub scores\<close>

text \<open>While the scores are stored and the resulting actions are carried out, a peer still to be
  disconnected is in the database and not banned.\<close>

definition actions_ok :: "peer_db \<Rightarrow> (peer_id \<times> score_transition_result) list \<Rightarrow> bool" where
  "actions_ok db as \<longleftrightarrow> distinct (map fst as) \<and> (\<forall>p. (p, TransDisconnected) \<in> set as \<longrightarrow>
     (\<exists>i. hm_get (peers db) p = Some i \<and> \<not> info_is_banned i))"

lemma distinct_map_filter:
  "distinct (map fst m) \<Longrightarrow>
     distinct (map fst (List.map_filter (\<lambda>(p, info). if P info then map_option (Pair p) (f p) else None) m))
     \<and> fst ` set (List.map_filter (\<lambda>(p, info). if P info then map_option (Pair p) (f p) else None) m)
         \<subseteq> fst ` set m"
proof (induction m)
  case (Cons e m)
  obtain p i where e: "e = (p, i)" by force
  let ?g = "\<lambda>(p, info). if P info then map_option (Pair p) (f p) else None"
  have IH: "distinct (map fst (List.map_filter ?g m))"
    "fst ` set (List.map_filter ?g m) \<subseteq> fst ` set m" "p \<notin> fst ` set m"
    using Cons e by auto
  then have "p \<notin> fst ` set (List.map_filter ?g m)" by blast
  with IH e show ?case
    by (cases "P i"; cases "f p") (auto simp: List.map_filter_simps)
qed (simp add: List.map_filter_simps)

lemma distinct_gossip_targets: "hm_ok (peers db) \<Longrightarrow> distinct (map fst (gossip_targets f db))"
  using distinct_map_filter [of "peers db" info_is_connected f]
  by (simp add: gossip_targets_def hm_ok_def distinct_map)

lemma gossip_score_fold:
  assumes "db_ok db" and "actions_ok db as" and "distinct (map fst as @ map fst ts)"
    and "fold (gossip_score_step now) ts (db, left, as) = (db', left', as')"
  shows "db_ok db' \<and> actions_ok db' as'"
  using assms
proof (induction ts arbitrary: db left as)
  case (Cons t ts)
  obtain p s where t: "t = (p, s)" by force
  show ?case
  proof (cases "hm_get (peers db) p")
    case None
    with Cons t show ?thesis by (auto simp: gossip_score_step_def)
  next
    case (Some i)
    let ?ig = "s < 0 \<and> 0 < left"
    let ?i = "info_update_gossipsub_score now s ?ig i"
    let ?db = "db\<lparr>peers := hm_insert p ?i (peers db)\<rparr>"
    let ?a = "handle_score_transition (score_state_of i) ?i"
    have ok: "db_ok ?db" using Cons.prems(1) Some quiet_ops(3) by (rule db_ok_quiet_insert)
    have "actions_ok ?db (as @ [(p, ?a)])"
      using Cons.prems(2,3) t connected_not_banned [OF handle_disconnected_connected, of "score_state_of i" ?i]
      by (auto simp: actions_ok_def image_iff)
    moreover have "distinct (map fst (as @ [(p, ?a)]) @ map fst ts)" using Cons.prems(3) t by auto
    ultimately show ?thesis
      using Cons.IH [OF ok, of "as @ [(p, ?a)]"] Cons.prems(4) t Some
      by (simp add: gossip_score_step_def Let_def)
  qed
qed auto

lemma gossip_action_keeps:
  assumes "db_ok db" and "actions_ok db ((p, a) # as)"
  shows "db_ok (fst (gossip_action_step now (p, a) (db, rs)))
    \<and> actions_ok (fst (gossip_action_step now (p, a) (db, rs))) as"
proof -
  let ?u = "\<lambda>new. fst (update_connection_state now p new db)"
  let ?d = "fst (gossip_action_step now (p, a) (db, rs))"
  have d: "?d = (case a of TransBanned \<Rightarrow> ?u NewBanned | TransDisconnected \<Rightarrow> ?u (NewDisconnecting False)
      | TransNoAction \<Rightarrow> db | TransUnbanned \<Rightarrow> ?u NewUnbanned)"
    by (auto simp: gossip_action_step_def Let_def split_beta split: score_transition_result.split)
  have "db_ok ?d"
    using assms unfolding d
    by (auto simp: actions_ok_def intro!: db_ok_update_connection_state split: score_transition_result.split)
  moreover have get: "hm_get (peers ?d) q = hm_get (peers db) q" if "q \<noteq> p" for q
    unfolding d using that by (simp add: get_update_other split: score_transition_result.split)
  have "actions_ok ?d as"
    unfolding actions_ok_def
  proof (intro conjI allI impI)
    show "distinct (map fst as)" using assms(2) by (simp add: actions_ok_def)
    fix q assume q: "(q, TransDisconnected) \<in> set as"
    then have "q \<noteq> p" using assms(2) by (auto simp: actions_ok_def image_iff)
    with q assms(2) show "\<exists>i. hm_get (peers ?d) q = Some i \<and> \<not> info_is_banned i"
      unfolding get [OF \<open>q \<noteq> p\<close>] by (simp add: actions_ok_def)
  qed
  ultimately show ?thesis by blast
qed

lemma gossip_action_fold:
  "db_ok db \<Longrightarrow> actions_ok db as \<Longrightarrow> db_ok (fst (fold (gossip_action_step now) as (db, rs)))"
proof (induction as arbitrary: db rs)
  case (Cons pa as)
  obtain p a where pa: "pa = (p, a)" by force
  obtain d rs' where d: "gossip_action_step now (p, a) (db, rs) = (d, rs')" by force
  with gossip_action_keeps [OF Cons.prems [unfolded pa], of now rs] Cons.IH [of d rs'] pa
  show ?case by simp
qed simp

lemma db_ok_gossipsub: "db_ok db \<Longrightarrow> db_ok (fst (update_gossipsub_scores now target f db))"
proof -
  assume ok: "db_ok db"
  obtain d l as where f: "fold (gossip_score_step now) (gossip_targets f db)
      (db, to_ignore_negative_peers target, []) = (d, l, as)" by (metis prod_cases3)
  have "db_ok d \<and> actions_ok d as"
    using ok distinct_gossip_targets [of db f]
    by (intro gossip_score_fold [OF ok _ _ f]) (simp_all add: actions_ok_def db_ok_def)
  with f show ?thesis by (simp add: update_gossipsub_scores_def gossip_action_fold)
qed

section \<open>Forgetting peers\<close>

lemma db_ok_remove:
  assumes "db_ok db" and "hm_get (peers db) p = Some i"
    and "db_disconnected db' = db_disconnected db - disc_weight i"
    and "db_banned_count db' = (if info_is_banned i
           then remove_banned_peer (seen_ip_addresses i) (db_banned_count db) else db_banned_count db)"
    and "peers db' = hm_remove p (peers db)"
  shows "db_ok db'"
proof -
  have "counts_ok db'"
    using assms sum_remove_eq [of disc_weight p "peers db"] sum_remove_eq [of ban_weight p "peers db"]
      sum_remove_eq [of "ip_weight _" p "peers db"]
    by (auto simp: db_ok_def counts_ok_def one_if_def ip_weight_def count_simps)
  moreover have "infos_ok db'"
    using assms(1,5) set_remove_subset [of p "peers db"] by (auto simp: db_ok_def infos_ok_def)
  ultimately show ?thesis using assms by (simp add: db_ok_def)
qed

lemma set_with_since:
  "(p, i, t) \<in> set (with_since f db) \<longleftrightarrow> (p, i) \<in> set (peers db) \<and> f i = Some t"
  by (force simp: with_since_def map_filter_def)

lemma oldest_Some:
  assumes "oldest f db = Some (p, i)"
  shows "\<exists>t. (p, i) \<in> set (peers db) \<and> f i = Some t
    \<and> (\<forall>q j u. (q, j) \<in> set (peers db) \<and> f j = Some u \<longrightarrow> t \<le> u)"
proof -
  from assms obtain t where m: "min_by_key (\<lambda>(_, _, t). t) (with_since f db) = Some (p, i, t)"
    by (auto simp: oldest_def)
  have "(p, i, t) \<in> set (with_since f db)" "\<And>q j u. (q, j, u) \<in> set (with_since f db) \<Longrightarrow> t \<le> u"
    using min_by_key_Some [OF m] by auto
  then show ?thesis unfolding set_with_since by blast
qed

lemma oldest_None: "oldest f db = None \<longleftrightarrow> (\<forall>(q, j) \<in> set (peers db). f j = None)"
proof -
  have "oldest f db = None \<longleftrightarrow> (\<forall>x. x \<notin> set (with_since f db))"
    by (auto simp: oldest_def)
  also have "\<dots> \<longleftrightarrow> (\<forall>(q, j) \<in> set (peers db). f j = None)"
    unfolding split_paired_All set_with_since by auto
  finally show ?thesis .
qed

lemma since_status:
  "banned_since i \<noteq> None \<longleftrightarrow> info_is_banned i" "disconnected_since i \<noteq> None \<longleftrightarrow> info_is_disconnected i"
  by (auto simp: banned_since_def disconnected_since_def status_defs
      split: peer_connection_status.splits)

lemma banned_not_disconnected: "info_is_banned i \<Longrightarrow> \<not> info_is_disconnected i"
  by (auto simp: status_defs split: peer_connection_status.splits)

lemma oldest_exists:
  assumes "0 < hm_sum (one_if P) (peers db)" and "\<And>i. f i \<noteq> None \<longleftrightarrow> P i"
  shows "oldest f db \<noteq> None"
proof -
  from assms(1) obtain k v where "(k, v) \<in> set (peers db)" "P v"
    by (auto simp: hm_count_sum [symmetric] count_pos_in)
  with assms(2) [of v] show ?thesis unfolding oldest_None by fastforce
qed

text \<open>Only peers with a time are forgotten, and none that is younger than one that is kept.\<close>

definition forgets :: "(peer_info \<Rightarrow> instant option) \<Rightarrow> peer_db \<Rightarrow> peer_db \<Rightarrow> bool" where
  "forgets f db db' \<longleftrightarrow> set (peers db') \<subseteq> set (peers db)
     \<and> (\<forall>p i. (p, i) \<in> set (peers db) \<longrightarrow> (p, i) \<in> set (peers db')
          \<or> (\<exists>t. f i = Some t \<and> (\<forall>q j u. (q, j) \<in> set (peers db') \<and> f j = Some u \<longrightarrow> t \<le> u)))"

lemma forgets_refl: "forgets f db db"
  by (simp add: forgets_def)

lemma forgets_trans: "forgets f a b \<Longrightarrow> forgets f b c \<Longrightarrow> forgets f a c"
  unfolding forgets_def by (meson subset_iff)

lemma forgets_cong: "forgets f a b \<Longrightarrow> peers b' = peers b \<Longrightarrow> forgets f a b'"
  by (simp add: forgets_def)

lemma forgets_remove:
  assumes "hm_ok (peers db)" and "oldest f db = Some (p, i)" and "peers db' = hm_remove p (peers db)"
  shows "forgets f db db'"
proof -
  obtain t where t: "(p, i) \<in> set (peers db)" "f i = Some t"
    "\<And>q j u. (q, j) \<in> set (peers db) \<Longrightarrow> f j = Some u \<Longrightarrow> t \<le> u"
    using oldest_Some [OF assms(2)] by blast
  have sub: "set (peers db') \<subseteq> set (peers db)"
    using assms(3) set_remove_subset by metis
  have "(q, j) \<in> set (peers db')" if "(q, j) \<in> set (peers db)" "q \<noteq> p" for q j
    using that hm_in_get [OF assms(1) that(1)] assms(1,3) hm_get_Some_in [of "peers db'" q j] by simp
  moreover have "j = i" if "(p, j) \<in> set (peers db)" for j
    using hm_ok_in_inj [OF assms(1) that t(1)] .
  ultimately show ?thesis
    unfolding forgets_def using sub t by blast
qed

lemma db_ok_drop_oldest_banned:
  assumes "db_ok db" and "0 < bp_total (db_banned_count db)"
  shows "db_ok (fst (drop_oldest_banned db)) \<and> forgets banned_since db (fst (drop_oldest_banned db))
    \<and> bp_total (db_banned_count (fst (drop_oldest_banned db))) = bp_total (db_banned_count db) - 1
    \<and> db_disconnected (fst (drop_oldest_banned db)) = db_disconnected db"
proof -
  have "oldest banned_since db \<noteq> None"
    using assms since_status(1) by (intro oldest_exists) (auto simp: db_ok_def counts_ok_def)
  then obtain p i where old: "oldest banned_since db = Some (p, i)" by auto
  have m: "hm_ok (peers db)" using assms(1) by (simp add: db_ok_def)
  from oldest_Some [OF old] obtain t where "(p, i) \<in> set (peers db)" "banned_since i = Some t" by blast
  then have get: "hm_get (peers db) p = Some i" and b: "info_is_banned i"
    using hm_in_get [OF m] since_status(1) [of i] by auto
  let ?d = "fst (drop_oldest_banned db)"
  have d: "peers ?d = hm_remove p (peers db)" "db_disconnected ?d = db_disconnected db"
    "db_banned_count ?d = remove_banned_peer (seen_ip_addresses i) (db_banned_count db)"
    by (simp_all add: drop_oldest_banned_def old Let_def forget_banned_def)
  have "db_ok ?d"
    using banned_not_disconnected [OF b] b d
    by (intro db_ok_remove [OF assms(1) get]) (simp_all add: one_if_def)
  with forgets_remove [OF m old d(1)] d show ?thesis by (simp add: count_simps)
qed

lemma shrink_banned_spec:
  "db_ok db \<Longrightarrow> db_ok (fst (shrink_banned db un)) \<and> forgets banned_since db (fst (shrink_banned db un))
     \<and> bp_total (db_banned_count (fst (shrink_banned db un)))
         = min MAX_BANNED_PEERS (bp_total (db_banned_count db))
     \<and> db_disconnected (fst (shrink_banned db un)) = db_disconnected db"
proof (induction db un rule: shrink_banned.induct)
  case (1 db un)
  show ?case
  proof (cases "MAX_BANNED_PEERS < bp_total (db_banned_count db)")
    case True
    obtain d dropped where d: "drop_oldest_banned db = (d, dropped)" by force
    from True have "0 < bp_total (db_banned_count db)" by linarith
    note step = db_ok_drop_oldest_banned [OF "1.prems" this, unfolded d fst_conv]
    have eq: "shrink_banned db un = shrink_banned d (un @ dropped)"
      using True d by (simp add: shrink_banned.simps [of db un])
    from "1.IH" [OF True d [symmetric] refl] step True show ?thesis
      unfolding eq by (auto intro: forgets_trans)
  next
    case False
    with "1.prems" show ?thesis by (simp add: shrink_banned.simps [of db un] forgets_refl)
  qed
qed

lemma db_ok_drop_oldest_disconnected:
  assumes "db_ok db" and "0 < db_disconnected db"
  shows "db_ok (drop_oldest_disconnected db)
    \<and> forgets disconnected_since db (drop_oldest_disconnected db)
    \<and> db_disconnected (drop_oldest_disconnected db) = db_disconnected db - 1
    \<and> db_banned_count (drop_oldest_disconnected db) = db_banned_count db"
proof -
  have "oldest disconnected_since db \<noteq> None"
    using assms since_status(2) by (intro oldest_exists) (auto simp: db_ok_def counts_ok_def)
  then obtain p i where old: "oldest disconnected_since db = Some (p, i)" by auto
  have m: "hm_ok (peers db)" using assms(1) by (simp add: db_ok_def)
  from oldest_Some [OF old] obtain t where "(p, i) \<in> set (peers db)" "disconnected_since i = Some t"
    by blast
  then have get: "hm_get (peers db) p = Some i" and b: "info_is_disconnected i"
    using hm_in_get [OF m] since_status(2) [of i] by auto
  let ?d = "drop_oldest_disconnected db"
  have d: "peers ?d = hm_remove p (peers db)" "db_disconnected ?d = db_disconnected db - 1"
    "db_banned_count ?d = db_banned_count db"
    by (simp_all add: drop_oldest_disconnected_def old forget_disconnected_def)
  have "db_ok ?d"
    using banned_not_disconnected [of i] b d
    by (intro db_ok_remove [OF assms(1) get]) (auto simp: one_if_def)
  with forgets_remove [OF m old d(1)] d show ?thesis by simp
qed

lemma shrink_disconnected_spec:
  "db_ok db \<Longrightarrow> db_ok (shrink_disconnected db)
     \<and> forgets disconnected_since db (shrink_disconnected db)
     \<and> db_disconnected (shrink_disconnected db) = min MAX_DC_PEERS (db_disconnected db)
     \<and> db_banned_count (shrink_disconnected db) = db_banned_count db"
proof (induction db rule: shrink_disconnected.induct)
  case (1 db)
  show ?case
  proof (cases "MAX_DC_PEERS < db_disconnected db")
    case True
    then have "0 < db_disconnected db" by linarith
    note step = db_ok_drop_oldest_disconnected [OF "1.prems" this]
    have eq: "shrink_disconnected db = shrink_disconnected (drop_oldest_disconnected db)"
      using True by (simp add: shrink_disconnected.simps [of db])
    from "1.IH" [OF True] step True show ?thesis
      unfolding eq by (auto intro: forgets_trans)
  next
    case False
    with "1.prems" show ?thesis by (simp add: shrink_disconnected.simps [of db] forgets_refl)
  qed
qed

section \<open>The states the database reaches\<close>

text \<open>One step per operation the peer manager, the sync code and the gossip code call; a peer that is
  banned is not asked to disconnect (see the property about the counter below).\<close>

inductive db_step :: "peer_db \<Rightarrow> peer_db \<Rightarrow> bool" where
  report: "db_step db (fst (db_report_peer now p a db))"
| scores: "db_step db (fst (update_scores now db))"
| gossip: "db_step db (fst (update_gossipsub_scores now target f db))"
| cleanup: "db_step db (cleanup_dialing_peers now db)"
| ttl: "db_step db (update_min_ttl now p t db)"
| subscribe: "db_step db (add_subscription p s db)"
| unsubscribe: "db_step db (remove_subscription p s db)"
| extend: "db_step db (extend_peers_on_subnet api s t db)"
| sync: "db_step db (fst (db_update_sync_status p st db))"
| metadata: "db_step db (db\<lparr>peers := hm_adjust p (set_meta_data md) (peers db)\<rparr>)"
| identified: "db_step db (db\<lparr>peers := hm_adjust p
    (\<lambda>i. set_client c (fst (set_listening_addresses as i))) (peers db)\<rparr>)"
| irrelevant: "db_step db (db\<lparr>peers := hm_adjust p (\<lambda>i. fst (info_update_sync_status st i)) (peers db)\<rparr>)"
| untrust: "db_step db (db\<lparr>peers := hm_adjust p set_untrusted (peers db)\<rparr>)"
| dial: "db_step db (dialing_peer now p e trusted db)"
| ingoing: "db_step db (db_connect_ingoing now p seen e db)"
| outgoing: "db_step db (db_connect_outgoing now p seen e db)"
| disconnected: "db_step db (fst (db_inject_disconnect now p db))"
| disconnecting: "\<not> (\<exists>i. hm_get (peers db) p = Some i \<and> info_is_banned i) \<Longrightarrow>
    db_step db (notify_disconnecting now p to_ban db)"

inductive db_reachable :: "peer_db \<Rightarrow> bool" where
  start: "db_reachable (new_db now trusted)"
| step: "db_reachable db \<Longrightarrow> db_step db db' \<Longrightarrow> db_reachable db'"

lemma db_ok_inject_disconnect: "db_ok db \<Longrightarrow> db_ok (fst (db_inject_disconnect now p db))"
proof -
  assume "db_ok db"
  then have "db_ok (fst (update_connection_state now p NewDisconnected db))"
    by (rule db_ok_update_connection_state) simp
  then have "db_ok (fst (shrink_to_fit (fst (update_connection_state now p NewDisconnected db))))"
    by (simp add: shrink_to_fit_def split_beta Let_def shrink_banned_spec shrink_disconnected_spec)
  then show ?thesis by (simp add: db_inject_disconnect_def split_beta Let_def)
qed

lemma db_ok_step: "db_step db db' \<Longrightarrow> db_ok db \<Longrightarrow> db_ok db'"
proof (induction rule: db_step.induct)
  case (extend db api s t)
  have "quiet (\<lambda>i. if P i then (if longer_ttl t i then set_min_ttl t i else i) else i)" for P
    by (intro quiet_if) (rule quiet_ops)
  with extend show ?case unfolding extend_peers_on_subnet_def by (intro db_ok_quiet_map)
next
  case (identified db p c as)
  have "quiet (\<lambda>i. set_client c (fst (set_listening_addresses as i)))"
    using quiet_ops(7) [of c] quiet_ops(11) [of as] by (simp add: quiet_def)
  with identified show ?case by (intro db_ok_quiet_adjust)
next
  case (sync db p st)
  then show ?case
    by (auto simp: db_update_sync_status_def split_beta
        intro: db_ok_quiet_insert [OF _ _ quiet_ops(10)] split: option.split)
qed (auto simp: add_subscription_def remove_subscription_def dialing_peer_def db_connect_ingoing_def
      db_connect_outgoing_def notify_disconnecting_def
      intro!: db_ok_report_peer db_ok_update_scores db_ok_gossipsub db_ok_cleanup db_ok_min_ttl
        db_ok_quiet_adjust quiet_ops db_ok_inject_disconnect db_ok_update_connection_state)

lemma db_ok_lengths:
  assumes "db_ok db"
  shows "length (banned_peer_ids db) = bp_total (db_banned_count db)"
    and "length (disconnected_peer_ids db) = db_disconnected db"
  using assms by (simp_all add: db_ok_def counts_ok_def disconnected_peer_ids_def
      banned_peer_ids_def ids_where_def hm_count_sum [symmetric] hm_count_def)

section \<open>Properties\<close>

text \<open>C3. In every state the database reaches its counters are exact: \<open>disconnected_peers\<close> is the number
  of disconnected peers, \<open>banned_peers\<close> the number of banned peers, and the count of an address the
  number of times it occurs among the addresses of the banned peers.\<close>
theorem reachable_counts_exact:
  assumes "db_reachable db"
  shows "db_disconnected db = length (disconnected_peer_ids db)
    \<and> bp_total (db_banned_count db) = length (banned_peer_ids db)
    \<and> ip_count (db_banned_count db) ip
        = sum_list (map (\<lambda>(p, i). if info_is_banned i then count_list (seen_ip_addresses i) ip else 0)
            (peers db))"
proof -
  from assms have "db_ok db"
    by (induction rule: db_reachable.induct) (auto intro: db_ok_new db_ok_step)
  then show ?thesis
    unfolding db_ok_lengths [OF \<open>db_ok db\<close>]
    by (simp add: db_ok_def counts_ok_def hm_sum_def ip_weight_def)
qed

lemma reachable_counts_exact_witness:
  "db_disconnected (notify_disconnecting 1 7 False (new_db 0 [7])) = 0"
proof -
  have "db_reachable (notify_disconnecting 1 7 False (new_db 0 [7]))"
    by (rule db_reachable.step [OF db_reachable.start db_step.disconnecting])
       (simp add: new_db_def trusted_peer_info_def default_peer_info_def info_is_banned_def)
  from reachable_counts_exact [OF this] show ?thesis
    by (simp add: disconnected_peer_ids_def ids_where_def notify_disconnecting_def new_db_def
        update_connection_state_def transition_def to_disconnecting_def entry_for_def ban_score_def
        trusted_peer_info_def default_peer_info_def set_connection_status_def info_is_disconnected_def)
qed

text \<open>Asking a banned peer to disconnect breaks that: the peer leaves the banned state without being
  taken off the count, so the database counts a banned peer it does not have.\<close>
theorem disconnecting_banned_peer_miscounts:
  "let db = fst (update_connection_state 1 p NewBanned (new_db 0 []));
       db' = notify_disconnecting 2 p False db
   in length (banned_peer_ids db) = 1 \<and> bp_total (db_banned_count db) = 1
     \<and> banned_peer_ids db' = [] \<and> bp_total (db_banned_count db') = 1"
  by (simp add: Let_def notify_disconnecting_def new_db_def update_connection_state_def
      transition_def to_disconnecting_def to_banned_def entry_for_def ban_score_def
      default_peer_info_def set_connection_status_def info_is_banned_def banned_peer_ids_def
      ids_where_def count_banned_def add_banned_peer_def default_banned_count_def
      apply_peer_action_to_score_def)

text \<open>The count of an address is one of address entries, not of peers: one banned peer that was seen at six
  ports of an address gets the whole address banned.\<close>

lemma one_peer_bans_its_address:
  "is_ip_banned (count_banned ((default_peer_info 0)\<lparr>seen_addresses := map (Pair ip) [1, 2, 3, 4, 5, 6]\<rparr>)
      (new_db 0 [])) ip"
  by (simp add: is_ip_banned_def count_banned_def add_banned_peer_def ip_is_banned_count ip_count_def new_db_def
      default_banned_count_def seen_ip_addresses_def BANNED_PEERS_PER_IP_THRESHOLD_def hm_upsert_def)



end
