(* ===== verification/Peer_DB_Reports.thy ===== *)
theory Peer_DB_Reports
  imports Peer_DB_Props
begin

text \<open>
  What the results of the peer database mean: a report answers with the change it made, a periodic
  update only lifts bans, and only peers and addresses that are not banned are dialed.
\<close>

section \<open>Reports\<close>

lemma ban_transition:
  assumes "update_connection_state now p NewBanned db = (db', op)"
  shows "op \<noteq> None"
    and "\<exists>i. hm_get (peers db') p = Some i \<and>
      (case the op of ReadyToBan _ \<Rightarrow> info_is_banned i | _ \<Rightarrow> connection_status i = Disconnecting True)"
    and "op = Some DisconnectThePeer \<longleftrightarrow> is_connected_or_dialing db p"
proof -
  let ?i = "ban_score NewBanned (entry_for now NewBanned db p)"
  have st: "connection_status ?i = connection_status (entry_for now NewBanned db p)"
    by (simp add: ban_score_def)
  have e: "is_connected_or_dialing db p \<longleftrightarrow> info_is_connected_or_dialing ?i"
    unfolding info_is_connected_or_dialing_def info_is_connected_def info_is_dialing_def st
    by (cases "hm_get (peers db) p")
       (auto simp: is_connected_or_dialing_def db_connection_status_def entry_for_def
         default_peer_info_def split: peer_connection_status.split)
  have t: "update_connection_state now p NewBanned db =
      (let (i, d, op) = to_banned now ?i db in (d\<lparr>peers := hm_insert p i (peers d)\<rparr>, op))"
    by (simp add: update_connection_state_def transition_def)
  show "op \<noteq> None"
    "\<exists>i. hm_get (peers db') p = Some i \<and>
      (case the op of ReadyToBan _ \<Rightarrow> info_is_banned i | _ \<Rightarrow> connection_status i = Disconnecting True)"
    "op = Some DisconnectThePeer \<longleftrightarrow> is_connected_or_dialing db p"
    using assms unfolding t e
    by (cases "connection_status ?i";
        auto simp: to_banned_def Let_def info_setters status_defs ready_to_ban_def)+
qed

lemma ban_score_banned:
  assumes "score_state_of (entry_for now new db p) = score_state.Banned"
    and "hm_get (peers (fst (update_connection_state now p NewBanned db))) p = Some i"
    and "new = NewBanned"
  shows "score_state_of i = score_state.Banned"
  using assms
  by (cases "connection_status (entry_for now NewBanned db p)")
     (auto simp: update_connection_state_def transition_def to_banned_def Let_def ban_score_def
        info_setters score_state_of_def)

lemma handle_banned: "handle_score_transition s i = TransBanned \<Longrightarrow> score_state_of i = score_state.Banned"
  by (auto simp: handle_score_transition_def split: score_state.splits if_splits)

lemma handle_not_unbanned:
  "s \<le> score_state_of i \<Longrightarrow> handle_score_transition s i \<noteq> TransUnbanned"
  by (auto simp: handle_score_transition_def less_eq_score_state_def split: score_state.splits if_splits)

lemma handle_unbanned:
  "handle_score_transition s i = TransUnbanned \<Longrightarrow> s = score_state.Banned \<and> score_state_of i \<noteq> score_state.Banned"
  by (auto simp: handle_score_transition_def split: score_state.splits if_splits)

lemma handle_disconnected_states:
  "handle_score_transition s i = TransDisconnected \<Longrightarrow>
     score_state_of i = score_state.Disconnected \<and> s \<noteq> score_state.Disconnected"
  by (auto simp: handle_score_transition_def split: score_state.splits if_splits)

lemma handle_better:
  "score_state_of i \<le> s \<Longrightarrow> handle_score_transition s i \<noteq> TransBanned
     \<and> (handle_score_transition s i = TransDisconnected \<longrightarrow> s = score_state.Banned)"
  by (cases s; cases "score_state_of i")
     (auto simp: handle_score_transition_def less_eq_score_state_def)

lemma db_report_contract:
  assumes "db_ok db" and "db_report_peer now p a db = (db', r)"
  shows "(case r of
      NoAction \<Rightarrow> \<forall>q. db_connection_status db' q = db_connection_status db q
    | Disconnect \<Rightarrow> is_connected_or_dialing db p
        \<and> db_connection_status db' p = Some (Disconnecting False)
    | Ban op \<Rightarrow> (op = DisconnectThePeer \<longleftrightarrow> is_connected_or_dialing db p)
        \<and> (\<exists>i. hm_get (peers db') p = Some i \<and> score_state_of i = score_state.Banned
             \<and> (case op of ReadyToBan _ \<Rightarrow> info_is_banned i
                 | _ \<Rightarrow> connection_status i = Disconnecting True))
    | Unbanned _ \<Rightarrow> False)"
proof (cases "hm_get (peers db) p")
  case None
  with assms(2) show ?thesis by (auto simp: db_report_peer_def)
next
  case (Some info)
  let ?i = "apply_peer_action_to_score a info"
  let ?db = "db\<lparr>peers := hm_insert p ?i (peers db)\<rparr>"
  let ?t = "handle_score_transition (score_state_of info) ?i"
  have same: "db_connection_status ?db q = db_connection_status db q" for q
    using Some by (simp add: db_connection_status_def)
  then have cd: "is_connected_or_dialing ?db p = is_connected_or_dialing db p"
    by (simp add: is_connected_or_dialing_def)
  have "info_ok info" using assms(1) Some by (auto simp: db_ok_def intro: infos_ok_get)
  then have nu: "?t \<noteq> TransUnbanned" by (intro handle_not_unbanned pinfo.act_worse)
  show ?thesis
  proof (cases ?t)
    case TransBanned
    obtain d op where u: "update_connection_state now p NewBanned ?db = (d, op)" by force
    with assms(2) Some TransBanned have r: "db' = d" "r = of_ban_operation op"
      by (auto simp: db_report_peer_def Let_def)
    have e: "score_state_of (entry_for now NewBanned ?db p) = score_state.Banned"
      using handle_banned [OF TransBanned] by (simp add: entry_for_def)
    note bt = ban_transition [OF u]
    from bt(1) obtain bo where bo: "op = Some bo" by blast
    from bt(2) obtain i where i: "hm_get (peers d) p = Some i"
      "case bo of ReadyToBan _ \<Rightarrow> info_is_banned i | _ \<Rightarrow> connection_status i = Disconnecting True"
      using bo by auto
    have "score_state_of i = score_state.Banned"
      using ban_score_banned [OF e _ refl, of i] i(1) u by simp
    with i bt(3) show ?thesis unfolding r bo cd by (simp add: of_ban_operation_def)
  next
    case TransDisconnected
    have "is_connected_or_dialing db p"
      using handle_disconnected_connected [OF TransDisconnected] Some
      by (auto simp: is_connected_or_dialing_def db_connection_status_def status_defs
          split: peer_connection_status.splits)
    with assms(2) Some TransDisconnected show ?thesis
      by (auto simp: db_report_peer_def Let_def update_connection_state_def transition_def
          to_disconnecting_def entry_for_def ban_score_def db_connection_status_def info_setters
          forget_disconnected_def split: peer_connection_status.splits)
  qed (use assms(2) Some nu same in \<open>auto simp: db_report_peer_def Let_def\<close>)
qed



section \<open>Lifting bans\<close>

definition unban :: "instant \<Rightarrow> peer_id \<Rightarrow> peer_db \<Rightarrow> peer_db" where
  "unban now p db = fst (update_connection_state now p NewUnbanned db)"

lemma unban_ip_count: "ip_count (db_banned_count (unban now p db)) ip \<le> ip_count (db_banned_count db) ip"
  by (auto simp: unban_def update_connection_state_def transition_def to_unbanned_def Let_def
      count_disconnected_def forget_banned_def count_simps split: peer_connection_status.split)

lemma unban_get:
  "hm_get (peers (unban now p db)) q = (if q = p then Some (let i = entry_for now NewUnbanned db p in
     case connection_status i of Banned t \<Rightarrow> i\<lparr>connection_status := Disconnected t\<rparr> | _ \<Rightarrow> i)
   else hm_get (peers db) q)"
  by (auto simp: unban_def update_connection_state_def transition_def to_unbanned_def Let_def
      count_disconnected_def forget_banned_def ban_score_def info_setters
      split: peer_connection_status.split)

text \<open>How a database looks after more bans have been lifted: the scores are as they were, nobody is
  newly banned and no address is counted more often.\<close>

definition calmer :: "peer_db \<Rightarrow> peer_db \<Rightarrow> bool" where
  "calmer db db' \<longleftrightarrow> (\<forall>ip. ip_count (db_banned_count db') ip \<le> ip_count (db_banned_count db) ip)
     \<and> (\<forall>p i. hm_get (peers db) p = Some i \<longrightarrow> (\<exists>j. hm_get (peers db') p = Some j
          \<and> info_score j = info_score i \<and> (info_is_banned j \<longrightarrow> info_is_banned i)))"

lemma calmer_refl: "calmer db db"
  by (simp add: calmer_def)

lemma calmer_trans: "calmer a b \<Longrightarrow> calmer b c \<Longrightarrow> calmer a c"
proof -
  assume ab: "calmer a b" and bc: "calmer b c"
  show "calmer a c"
    unfolding calmer_def
  proof (intro conjI allI impI)
    show "ip_count (db_banned_count c) ip \<le> ip_count (db_banned_count a) ip" for ip
      using ab bc unfolding calmer_def by (meson order_trans)
    fix p i assume "hm_get (peers a) p = Some i"
    with ab obtain j where "hm_get (peers b) p = Some j" "info_score j = info_score i"
      "info_is_banned j \<longrightarrow> info_is_banned i" unfolding calmer_def by blast
    with bc show "\<exists>j. hm_get (peers c) p = Some j \<and> info_score j = info_score i
        \<and> (info_is_banned j \<longrightarrow> info_is_banned i)" unfolding calmer_def by metis
  qed
qed

lemma calmer_unban: "calmer db (unban now p db)"
  unfolding calmer_def using unban_ip_count
  by (auto simp: unban_get entry_for_def Let_def info_is_banned_def split: peer_connection_status.split)

lemma calmer_ip: "calmer db db' \<Longrightarrow> \<not> is_ip_banned db ip \<Longrightarrow> \<not> is_ip_banned db' ip"
  unfolding calmer_def is_ip_banned_def ip_is_banned_count by (meson le_less_trans not_less)

lemma unban_fold:
  "calmer db (fst (fold (unban_step now) ps (db, rs)))
   \<and> (\<exists>rs'. snd (fold (unban_step now) ps (db, rs)) = rs @ rs' \<and> map fst rs' = ps
        \<and> (\<forall>(p, r) \<in> set rs'. \<exists>ips. r = Unbanned ips
             \<and> (\<forall>ip \<in> set ips. \<not> is_ip_banned (fst (fold (unban_step now) ps (db, rs))) ip)
             \<and> (\<exists>j. hm_get (peers (fst (fold (unban_step now) ps (db, rs)))) p = Some j
                  \<and> \<not> info_is_banned j)))"
proof (induction ps arbitrary: db rs)
  case Nil
  then show ?case by (simp add: calmer_refl)
next
  case (Cons p ps)
  let ?d = "unban now p db"
  let ?ips = "free_ips ?d p"
  let ?e = "fold (unban_step now) ps (?d, rs @ [(p, Unbanned ?ips)])"
  have e: "fold (unban_step now) (p # ps) (db, rs) = ?e"
    by (simp add: unban_step_def Let_def unban_def)
  note IH = Cons.IH [of ?d "rs @ [(p, Unbanned ?ips)]"]
  then have c: "calmer ?d (fst ?e)" by blast
  obtain j where "hm_get (peers ?d) p = Some j" "\<not> info_is_banned j"
    by (auto simp: unban_get Let_def info_is_banned_def split: peer_connection_status.split)
  then have j: "\<exists>j. hm_get (peers (fst ?e)) p = Some j \<and> \<not> info_is_banned j"
    using c unfolding calmer_def by blast
  have "\<forall>ip \<in> set ?ips. \<not> is_ip_banned (fst ?e) ip"
    using calmer_ip [OF c] by (auto simp: free_ips_def split: option.splits)
  with IH j calmer_trans [OF calmer_unban c] show ?case unfolding e by force
qed

text \<open>The periodic update of the scores never bans a peer, and disconnects none that was not banned.
  Every result it gives is an unbanned peer whose score and connection are no longer banned, with
  addresses none of which is banned in the database it leaves.\<close>
theorem update_scores_only_unbans:
  assumes "db_ok db" and "update_scores now db = (db', results)"
  shows "(\<forall>(p, i) \<in> set (peers db).
        handle_score_transition (score_state_of i) (info_update_score now i) \<noteq> TransBanned
      \<and> (handle_score_transition (score_state_of i) (info_update_score now i) = TransDisconnected
          \<longrightarrow> score_state_of i = score_state.Banned))
    \<and> (\<forall>(p, r) \<in> set results. \<exists>ips j. r = Unbanned ips \<and> (\<forall>ip \<in> set ips. \<not> is_ip_banned db' ip)
          \<and> hm_get (peers db') p = Some j \<and> \<not> info_is_banned j \<and> \<not> score_is_banned j)"
proof
  have better: "score_state_of (info_update_score now i) \<le> score_state_of i"
    if "(p, i) \<in> set (peers db)" for p i
    using assms(1) that by (intro pinfo.tick_better) (auto simp: db_ok_def infos_ok_def)
  then show "\<forall>(p, i) \<in> set (peers db).
        handle_score_transition (score_state_of i) (info_update_score now i) \<noteq> TransBanned
      \<and> (handle_score_transition (score_state_of i) (info_update_score now i) = TransDisconnected
          \<longrightarrow> score_state_of i = score_state.Banned)"
    using handle_better by blast
  let ?un = "map fst (filter (\<lambda>(p, info). handle_score_transition (score_state_of info)
            (info_update_score now info) = TransUnbanned) (peers db))"
  let ?d = "db\<lparr>peers := hm_map (info_update_score now) (peers db)\<rparr>"
  have f: "fold (unban_step now) ?un (?d, []) = (db', results)"
    using assms(2) by (simp add: update_scores_def)
  note uf = unban_fold [of ?d now ?un "[]", unfolded f fst_conv snd_conv]
  then have calm: "calmer ?d db'" and un: "map fst results = ?un"
    and res: "\<forall>(p, r) \<in> set results. \<exists>ips. r = Unbanned ips
       \<and> (\<forall>ip \<in> set ips. \<not> is_ip_banned db' ip)
       \<and> (\<exists>j. hm_get (peers db') p = Some j \<and> \<not> info_is_banned j)"
    by (simp_all only: append_Nil) blast+
  have m: "hm_ok (peers db)" using assms(1) by (simp add: db_ok_def)
  show "\<forall>(p, r) \<in> set results. \<exists>ips j. r = Unbanned ips \<and> (\<forall>ip \<in> set ips. \<not> is_ip_banned db' ip)
          \<and> hm_get (peers db') p = Some j \<and> \<not> info_is_banned j \<and> \<not> score_is_banned j"
  proof clarify
    fix p r assume pr: "(p, r) \<in> set results"
    with bspec [OF res this] obtain ips j where "r = Unbanned ips"
      "\<forall>ip \<in> set ips. \<not> is_ip_banned db' ip"
      and j: "hm_get (peers db') p = Some j" "\<not> info_is_banned j" by auto
    moreover have "\<not> score_is_banned j"
    proof -
      from pr have "p \<in> set (map fst results)" by force
      then have "p \<in> set ?un" by (simp only: un)
      then obtain i where i: "(p, i) \<in> set (peers db)"
        "handle_score_transition (score_state_of i) (info_update_score now i) = TransUnbanned" by auto
      then have "hm_get (peers ?d) p = Some (info_update_score now i)" by (simp add: hm_in_get [OF m])
      then have "info_score j = info_score (info_update_score now i)"
        using calm j(1) unfolding calmer_def by (metis option.inject)
      with handle_unbanned [OF i(2)] show ?thesis by (simp add: score_is_banned_def score_state_of_def)
    qed
    ultimately show "\<exists>ips j. r = Unbanned ips \<and> (\<forall>ip \<in> set ips. \<not> is_ip_banned db' ip)
          \<and> hm_get (peers db') p = Some j \<and> \<not> info_is_banned j \<and> \<not> score_is_banned j" by blast
  qed
qed

lemma update_scores_only_unbans_witness:
  "handle_score_transition (score_state_of (trusted_peer_info 0))
     (info_update_score 4 (trusted_peer_info 0)) \<noteq> TransBanned"
  using update_scores_only_unbans [OF db_ok_new, of 4 0 "[3]"
      "fst (update_scores 4 (new_db 0 [3]))" "snd (update_scores 4 (new_db 0 [3]))"]
  by (simp add: new_db_def)

section \<open>Dialing\<close>

text \<open>A peer is only dialed when it is neither connected, being dialed, being disconnected nor banned,
  its score is healthy and none of its known addresses is banned; a peer the database does not know is
  always dialed.\<close>
theorem should_dial_safe:
  "should_dial db p \<longleftrightarrow> (case hm_get (peers db) p of None \<Rightarrow> True | Some i \<Rightarrow>
     (info_is_disconnected i \<or> connection_status i = Unknown) \<and> score_state_of i = Healthy
     \<and> ban_status db p = NotBanned \<and> (\<forall>ip \<in> set (seen_ip_addresses i). \<not> is_ip_banned db ip))"
  by (cases "hm_get (peers db) p")
     (auto simp: should_dial_def db_connection_status_def score_state_banned_or_disconnected_def
       ban_status_def db_ip_is_banned_def is_ip_banned_def find_None_iff status_defs
       dest: find_Some_sat
       split: peer_connection_status.splits score_state.splits option.splits)

lemma should_dial_safe_witness: "should_dial (new_db 0 [7]) 9"
  using should_dial_safe [of "new_db 0 [7]" 9] by (simp add: new_db_def)

end
