(* ===== verification/Peer_Prune_Props.thy ===== *)
theory Peer_Prune_Props
  imports Peer_Prune Peer_DB_Reports "HOL-Library.Multiset"
begin

text \<open>
  Pruning ends, and drops only peers it may drop: no more than there are in excess, and no outbound peer
  below their target.
\<close>

section \<open>What is chosen\<close>

definition shuffle_laws :: "'h pm_env \<Rightarrow> bool" where
  "shuffle_laws E \<longleftrightarrow> (\<forall>n xs. mset (shuffles E n xs) = mset xs)"

definition entry_ok :: "peer_db \<Rightarrow> peer_id \<times> peer_info \<Rightarrow> bool" where
  "entry_ok db c \<longleftrightarrow> hm_get (peers db) (fst c) = Some (snd c) \<and> info_is_connected (snd c)"

definition outbound_in :: "peer_db \<Rightarrow> peer_id \<Rightarrow> bool" where
  "outbound_in db p = (case hm_get (peers db) p of Some i \<Rightarrow> is_outbound_only i | None \<Rightarrow> False)"

definition selection_ok :: "peer_db \<Rightarrow> nat \<Rightarrow> nat \<Rightarrow> peer_id list \<Rightarrow> nat \<Rightarrow> bool" where
  "selection_ok db limit spare chosen outbound \<longleftrightarrow> distinct chosen \<and> length chosen \<le> limit
     \<and> (\<forall>p \<in> set chosen. is_connected db p) \<and> outbound = length (filter (outbound_in db) chosen)
     \<and> outbound \<le> spare"

lemma entry_ok_simps:
  assumes "entry_ok db c"
  shows "is_connected db (fst c)" and "outbound_in db (fst c) = is_outbound_only (snd c)"
  using assms by (auto simp: entry_ok_def outbound_in_def is_connected_def db_connection_status_def
      info_is_connected_def split: peer_connection_status.splits)

lemma selection_ok_Nil: "selection_ok db limit spare [] 0"
  by (simp add: selection_ok_def)

lemma selection_ok_choose:
  assumes "selection_ok db limit spare chosen outbound" and "entry_ok db c" and "fst c \<notin> set chosen"
    and "length chosen < limit" and "is_outbound_only (snd c) \<Longrightarrow> outbound < spare"
  shows "selection_ok db limit spare (fst c # chosen) (if is_outbound_only (snd c) then outbound + 1 else outbound)"
  using assms(1-4) assms(5) entry_ok_simps [OF assms(2)] by (simp add: selection_ok_def Suc_le_eq)

lemma prune_round_ok:
  "\<forall>c \<in> set ps. entry_ok db c \<Longrightarrow> selection_ok db limit (conn_out - target_out) chosen outbound \<Longrightarrow>
   prune_round limit target_out conn_out ps (chosen, outbound) = (chosen', outbound') \<Longrightarrow>
   selection_ok db limit (conn_out - target_out) chosen' outbound'"
proof (induction limit target_out conn_out ps "(chosen, outbound)" arbitrary: chosen outbound
    rule: prune_round.induct)
  case (2 limit target_out conn_out p info ps chosen outbound)
  have c: "entry_ok db (p, info)" using "2.prems"(1) by simp
  note choose = selection_ok_choose [OF "2.prems"(2) c, unfolded fst_conv snd_conv]
  show ?case
  proof (cases "length chosen \<ge> limit \<or> p \<in> set chosen")
    case True
    with 2 show ?thesis by (auto split: if_splits)
  next
    case False
    show ?thesis
    proof (cases "is_outbound_only info")
      case out: True
      show ?thesis
      proof (cases "target_out + outbound < conn_out")
        case True
        have "selection_ok db limit (conn_out - target_out) (p # chosen) (outbound + 1)"
          using choose False out True by simp
        with 2 False out True show ?thesis by simp
      qed (use 2 False out in simp)
    next
      case inb: False
      have "selection_ok db limit (conn_out - target_out) (p # chosen) outbound"
        using choose False inb by simp
      with 2 False inb show ?thesis by simp
    qed
  qed
qed simp

lemma connected_entries: "hm_ok (peers db) \<Longrightarrow> c \<in> set (connected_peers db) \<Longrightarrow> entry_ok db c"
  by (auto simp: connected_peers_def entry_ok_def hm_in_get)

lemma worst_prunable_entries:
  assumes "shuffle_laws E" and "hm_ok (peers db)" and "c \<in> set (worst_prunable E n now P db)"
  shows "entry_ok db c"
proof -
  have "set (shuffles E n xs) = set xs" for xs
    using assms(1) by (metis shuffle_laws_def set_mset_mset)
  then have "c \<in> set (connected_peers db)"
    using assms(3) by (auto simp: worst_prunable_def worst_connected_peers_def)
  with assms(2) show ?thesis by (rule connected_entries)
qed

section \<open>The crowded subnets\<close>

definition candidate :: "peer_db \<Rightarrow> prune_state \<Rightarrow> peer_id \<times> peer_info \<Rightarrow> bool" where
  "candidate db st c \<longleftrightarrow> entry_ok db c \<and> fst c \<notin> set (ps_chosen st)"

definition subnets_ok :: "peer_db \<Rightarrow> prune_state \<Rightarrow> bool" where
  "subnets_ok db st \<longleftrightarrow> hm_ok (ps_subnets st)
     \<and> (\<forall>s ps. hm_get (ps_subnets st) s = Some ps \<longrightarrow> list_all (candidate db st) ps)"

lemma subnets_okD:
  "subnets_ok db st \<Longrightarrow> hm_get (ps_subnets st) s = Some ps \<Longrightarrow> c \<in> set ps \<Longrightarrow>
     entry_ok db c \<and> fst c \<notin> set (ps_chosen st)"
  unfolding subnets_ok_def list_all_iff candidate_def by blast

lemma count_subnet_frame [simp]:
  "ps_chosen (count_subnet p info s st) = ps_chosen st" "ps_outbound (count_subnet p info s st) = ps_outbound st"
  by (simp_all add: count_subnet_def split: subnet.split)

lemma count_peer_frame [simp]:
  "ps_chosen (count_peer api c st) = ps_chosen st" "ps_outbound (count_peer api c st) = ps_outbound st"
proof -
  have "ps_chosen (fold (count_subnet p i) ss st) = ps_chosen st
      \<and> ps_outbound (fold (count_subnet p i) ss st) = ps_outbound st" for p i ss
    by (induction ss arbitrary: st) simp_all
  then show "ps_chosen (count_peer api c st) = ps_chosen st" "ps_outbound (count_peer api c st) = ps_outbound st"
    by (simp_all add: count_peer_def)
qed

lemma candidate_cong: "ps_chosen st' = ps_chosen st \<Longrightarrow> candidate db st' = candidate db st"
  by (simp add: candidate_def fun_eq_iff)

lemma subnets_ok_count:
  assumes "subnets_ok db st" and "entry_ok db (p, i)" and "p \<notin> set (ps_chosen st)"
  shows "subnets_ok db (count_subnet p i s st)"
proof (cases s)
  case (Attestation n)
  have new: "candidate db st (p, i)" using assms(2,3) by (simp add: candidate_def)
  have "candidate db (count_subnet p i s st) = candidate db st" by (rule candidate_cong) simp
  moreover have "list_all (candidate db st) qs" if "hm_get (ps_subnets (count_subnet p i s st)) t = Some qs" for t qs
  proof (cases "t = s")
    case True
    then have "qs = (case hm_get (ps_subnets st) s of Some l \<Rightarrow> l | None \<Rightarrow> []) @ [(p, i)]"
      using that by (simp add: count_subnet_def Attestation hm_get_upsert)
    with assms(1) new show ?thesis
      by (cases "hm_get (ps_subnets st) s") (auto simp: subnets_ok_def)
  next
    case False
    with that assms(1) show ?thesis
      by (auto simp: count_subnet_def Attestation hm_get_upsert subnets_ok_def)
  qed
  moreover have "hm_ok (ps_subnets (count_subnet p i s st))"
    using assms(1) by (simp add: count_subnet_def Attestation subnets_ok_def)
  ultimately show ?thesis by (simp add: subnets_ok_def)
next
  case (SyncCommittee n)
  have "candidate db (count_subnet p i s st) = candidate db st" by (rule candidate_cong) simp
  with assms(1) SyncCommittee show ?thesis by (simp add: subnets_ok_def count_subnet_def)
qed

lemma subnets_ok_count_peer:
  assumes "subnets_ok db st" and "entry_ok db c"
  shows "subnets_ok db (count_peer api c st)"
proof -
  obtain p i where c: "c = (p, i)" by force
  have "p \<notin> set (ps_chosen st) \<Longrightarrow> subnets_ok db st \<Longrightarrow> subnets_ok db (fold (count_subnet p i) ss st)" for ss st
  proof (induction ss arbitrary: st)
    case (Cons s ss)
    then have "subnets_ok db (count_subnet p i s st)" using assms(2) by (intro subnets_ok_count) (simp_all add: c)
    with Cons show ?case by simp
  qed simp
  with assms(1) show ?thesis by (simp add: count_peer_def c)
qed

lemma subnets_ok_count_peers:
  "\<forall>c \<in> set cs. entry_ok db c \<Longrightarrow> subnets_ok db st \<Longrightarrow> subnets_ok db (fold (count_peer api) cs st)
     \<and> ps_chosen (fold (count_peer api) cs st) = ps_chosen st
     \<and> ps_outbound (fold (count_peer api) cs st) = ps_outbound st"
  by (induction cs arbitrary: st) (simp_all add: subnets_ok_count_peer)

text \<open>The candidate is taken off every list.\<close>

lemma subnets_ok_drop:
  assumes "subnets_ok db st"
  shows "subnets_ok db (drop_candidate c st)"
proof -
  have "list_all (candidate db (drop_candidate c st)) (filter (\<lambda>(q, _). q \<noteq> fst c) ps)"
    if "list_all (candidate db st) ps" for ps
    using that by (auto simp: list_all_iff candidate_def drop_candidate_def)
  with assms show ?thesis by (auto simp: subnets_ok_def drop_candidate_def)
qed

lemma subnets_ok_insert:
  assumes "subnets_ok db st" and "list_all (candidate db st) ps"
  shows "subnets_ok db (st\<lparr>ps_subnets := hm_insert s ps (ps_subnets st)\<rparr>)"
proof -
  have "candidate db (st\<lparr>ps_subnets := hm_insert s ps (ps_subnets st)\<rparr>) = candidate db st"
    by (rule candidate_cong) simp
  with assms show ?thesis by (simp add: subnets_ok_def)
qed

abbreviation listed :: "prune_state \<Rightarrow> nat" where
  "listed st \<equiv> hm_sum length (ps_subnets st)"

lemma listed_insert:
  "hm_get (ps_subnets st) s = Some ps \<Longrightarrow>
     listed (st\<lparr>ps_subnets := hm_insert s qs (ps_subnets st)\<rparr>) + length ps = listed st + length qs"
  using sum_insert [of length s qs "ps_subnets st"] by simp

lemma listed_drop:
  assumes "hm_get (ps_subnets st) s = Some ps" and "c \<in> set ps"
  shows "listed (drop_candidate c st) < listed st"
proof -
  let ?f = "filter (\<lambda>(q, _). q \<noteq> fst c)"
  have "length (?f ps) < length ps" using assms(2) by (intro length_filter_less [of c]) auto
  moreover have "hm_sum (length \<circ> ?f) (hm_remove s (ps_subnets st)) \<le> hm_sum length (hm_remove s (ps_subnets st))"
    unfolding hm_sum_def by (intro sum_list_mono) auto
  moreover have "listed (drop_candidate c st) = hm_sum (length \<circ> ?f) (ps_subnets st)"
    by (simp add: drop_candidate_def sum_map)
  ultimately show ?thesis
    using sum_remove [of "length \<circ> ?f" s "ps_subnets st"] sum_remove [of length s "ps_subnets st"] assms(1)
    by simp
qed

lemma prune_from_subnet_ok:
  assumes sel: "selection_ok db limit (conn_out - target_out) (ps_chosen st) (ps_outbound st)"
    and sub: "subnets_ok db st" and s: "hm_get (ps_subnets st) s = Some ps" "ps \<noteq> []" "mset qs = mset ps"
    and limit: "length (ps_chosen st) < limit"
  defines "st' \<equiv> prune_from_subnet target_out conn_out s qs st"
  shows "selection_ok db limit (conn_out - target_out) (ps_chosen st') (ps_outbound st') \<and> subnets_ok db st'
    \<and> listed st' < listed st"
proof (cases "List.find (may_prune target_out conn_out st) qs")
  case None
  then have "st' = st\<lparr>ps_subnets := hm_insert s [] (ps_subnets st)\<rparr>"
    by (simp add: st'_def prune_from_subnet_def)
  with sel sub s(2) subnets_ok_insert [OF sub, of "[]"] listed_insert [OF s(1), of "[]"] show ?thesis
    by (cases ps) auto
next
  case (Some c)
  let ?st = "st\<lparr>ps_subnets := hm_insert s qs (ps_subnets st)\<rparr>"
  have qs: "set qs = set ps" "length qs = length ps" using s(3) by (metis set_mset_mset, metis size_mset)
  have c: "c \<in> set qs" "may_prune target_out conn_out st c" using find_Some_sat [OF Some] by blast+
  note ok = subnets_okD [OF sub s(1) c(1) [unfolded qs]]
  have st': "st' = drop_candidate c ?st" by (simp add: st'_def prune_from_subnet_def Some)
  have "selection_ok db limit (conn_out - target_out) (fst c # ps_chosen st)
      (if is_outbound_only (snd c) then ps_outbound st + 1 else ps_outbound st)"
    using ok c(2) by (intro selection_ok_choose [OF sel _ _ limit]) (auto simp: may_prune_def)
  moreover have "subnets_ok db ?st"
    using sub s(1) qs(1) by (intro subnets_ok_insert) (auto simp: subnets_ok_def list_all_iff)
  moreover have "listed st' < listed st"
    using listed_drop [of ?st s qs c] c(1) listed_insert [OF s(1), of qs] qs(2) by (simp add: st')
  ultimately show ?thesis
    using ok subnets_ok_drop [of db ?st c]
    by (cases "is_outbound_only (snd c)") (simp_all add: st' drop_candidate_def List.insert_def)
qed

lemma prune_subnets_ok:
  assumes E: "shuffle_laws E"
  shows "selection_ok db limit (conn_out - target_out) (ps_chosen st) (ps_outbound st) \<Longrightarrow> subnets_ok db st \<Longrightarrow>
     \<exists>st'. prune_subnets E n limit target_out conn_out st = Some st'
       \<and> selection_ok db limit (conn_out - target_out) (ps_chosen st') (ps_outbound st')"
proof (induction "listed st" arbitrary: st n rule: less_induct)
  case less
  show ?case
  proof (cases "length (ps_chosen st) < limit")
    case False
    with less.prems(1) show ?thesis by (subst prune_subnets.simps) auto
  next
    case True
    show ?thesis
    proof (cases "max_by_key (\<lambda>(_, ps). length ps) (ps_subnets st)")
      case None
      with True less.prems(1) show ?thesis by (subst prune_subnets.simps) auto
    next
      case (Some sp)
      obtain s ps where sp: "sp = (s, ps)" by force
      let ?qs = "sort_key (\<lambda>(_, info). long_lived_subnet_count (pm_ssz E) info) (shuffles E n ps)"
      let ?st = "prune_from_subnet target_out conn_out s ?qs st"
      show ?thesis
      proof (cases "ps = []")
        case True
        with Some sp \<open>length (ps_chosen st) < limit\<close> less.prems(1) show ?thesis
          by (subst prune_subnets.simps) auto
      next
        case False
        have "(s, ps) \<in> set (ps_subnets st)" using max_by_key_Some [OF Some] sp by blast
        then have "hm_get (ps_subnets st) s = Some ps" using less.prems(2) by (simp add: hm_in_get subnets_ok_def)
        have "mset ?qs = mset ps" using E by (simp add: shuffle_laws_def)
        note ok = prune_from_subnet_ok [OF less.prems(1,2) \<open>hm_get (ps_subnets st) s = Some ps\<close> False this True]
        then obtain st' where "prune_subnets E (n + 1) limit target_out conn_out ?st = Some st'"
          "selection_ok db limit (conn_out - target_out) (ps_chosen st') (ps_outbound st')"
          using less.hyps [of ?st "n + 1"] by blast
        with Some sp False True show ?thesis by (subst prune_subnets.simps) simp
      qed
    qed
  qed
qed

section \<open>Pruning\<close>

lemma peers_to_prune_ok:
  assumes E: "shuffle_laws E" and m: "hm_ok (peers (g_peers g))"
  shows "\<exists>chosen outbound. peers_to_prune E now target g = Some chosen
    \<and> selection_ok (g_peers g) (connected_count g - target) (outbound_only_count g - target_outbound_peers_of target)
        chosen outbound"
proof -
  let ?db = "g_peers g" and ?limit = "connected_count g - target"
  let ?out = "target_outbound_peers_of target" and ?conn = "outbound_only_count g"
  let ?ok = "selection_ok ?db ?limit (?conn - ?out)"
  let ?w0 = "worst_prunable E 0 now (\<lambda>i. score_of (info_score i) < Finite 0) ?db"
  let ?w1 = "worst_prunable E 1 now (\<lambda>i. \<not> has_long_lived_subnet (pm_ssz E) i) ?db"
  obtain c0 o0 where r0: "prune_round ?limit ?out ?conn ?w0 ([], 0) = (c0, o0)" by force
  then have ok0: "?ok c0 o0"
    using worst_prunable_entries [OF E m] by (intro prune_round_ok [OF _ selection_ok_Nil]) auto
  obtain c1 o1 where r1: "(if length c0 < ?limit then prune_round ?limit ?out ?conn ?w1 (c0, o0) else (c0, o0)) = (c1, o1)"
    by force
  have ok1: "?ok c1 o1"
  proof (cases "length c0 < ?limit")
    case True
    with r1 have "prune_round ?limit ?out ?conn ?w1 (c0, o0) = (c1, o1)" by simp
    then show ?thesis using worst_prunable_entries [OF E m] by (intro prune_round_ok [OF _ ok0]) auto
  qed (use r1 ok0 in simp)
  let ?init = "\<lparr>ps_chosen = c1, ps_outbound = o1, ps_subnets = [], ps_sync_counts = [], ps_peer_syncs = []\<rparr>"
  let ?st = "fold (count_peer (pm_ssz E)) (connected_peers ?db) ?init"
  have st: "subnets_ok ?db ?st \<and> ps_chosen ?st = c1 \<and> ps_outbound ?st = o1"
  proof -
    have "subnets_ok ?db ?init" by (simp add: subnets_ok_def)
    from subnets_ok_count_peers [OF _ this, of "connected_peers ?db" "pm_ssz E"] show ?thesis
      using connected_entries [OF m] by simp
  qed
  then obtain st' where st': "prune_subnets E 2 ?limit ?out ?conn ?st = Some st'"
    "?ok (ps_chosen st') (ps_outbound st')"
    using prune_subnets_ok [OF E, of ?db ?limit ?conn ?out ?st 2] ok1 by auto
  show ?thesis
  proof (cases "length c1 < ?limit")
    case True
    then have "peers_to_prune E now target g = Some (ps_chosen st')"
      using r0 r1 st'(1) by (simp add: peers_to_prune_def Let_def)
    with st'(2) show ?thesis by blast
  next
    case False
    then have "peers_to_prune E now target g = Some c1"
      using r0 r1 by (simp add: peers_to_prune_def Let_def)
    with ok1 show ?thesis by blast
  qed
qed

lemma pm_db_simps [simp]:
  "pm_db (set_db db pm) = db" "pm_events (set_db db pm) = pm_events pm" "pm_db (push_event e pm) = pm_db pm"
  "pm_events (push_event e pm) = pm_events pm @ [e]"
  by (simp_all add: pm_db_def set_db_def push_event_def)

lemma is_connected_disconnecting:
  "is_connected (notify_disconnecting now p b db) q = (is_connected db q \<and> q \<noteq> p)"
proof (cases "q = p")
  case True
  then show ?thesis
    by (auto simp: notify_disconnecting_def update_connection_state_def transition_def to_disconnecting_def Let_def
        is_connected_def db_connection_status_def info_setters split: prod.split peer_connection_status.split)
next
  case False
  then have "hm_get (peers (notify_disconnecting now p b db)) q = hm_get (peers db) q"
    unfolding notify_disconnecting_def by (rule get_update_other)
  with False show ?thesis by (simp add: is_connected_def db_connection_status_def)
qed

lemma disconnect_peers:
  "pm_events (fold (\<lambda>p. disconnect_peer now p r) ps pm) = pm_events pm @ map (\<lambda>p. DisconnectPeer p r) ps"
  "is_connected (pm_db (fold (\<lambda>p. disconnect_peer now p r) ps pm)) q = (is_connected (pm_db pm) q \<and> q \<notin> set ps)"
  by (induction ps arbitrary: pm) (auto simp: disconnect_peer_def Let_def is_connected_disconnecting)

text \<open>C16. Pruning ends.  It drops only connected peers, each once, by a graceful disconnection; never more than
  there are above the target, so that at least the target stays connected, and no outbound-only peer
  when that would leave fewer of them than their target.\<close>

theorem prune_excess_peers_safe:
  assumes "shuffle_laws E" and "hm_ok (peers (pm_db pm))"
  shows "\<exists>pm' chosen. prune_excess_peers E now pm = Some pm' \<and> distinct chosen
    \<and> (\<forall>p \<in> set chosen. is_connected (pm_db pm) p)
    \<and> length chosen \<le> connected_count (globals pm) - target_peers pm
    \<and> length (filter (outbound_in (pm_db pm)) chosen)
        \<le> outbound_only_count (globals pm) - target_outbound_peers_of (target_peers pm)
    \<and> pm_events pm' = pm_events pm @ map (\<lambda>p. DisconnectPeer p TooManyPeers) chosen
    \<and> (\<forall>q. is_connected (pm_db pm') q \<longleftrightarrow> is_connected (pm_db pm) q \<and> q \<notin> set chosen)"
proof (cases "connected_count (globals pm) \<le> target_peers pm")
  case True
  then have "prune_excess_peers E now pm = Some pm" by (simp add: prune_excess_peers_def)
  then show ?thesis by (intro exI [of _ pm] exI [of _ "[]"]) simp
next
  case False
  obtain chosen outbound where c: "peers_to_prune E now (target_peers pm) (globals pm) = Some chosen"
    "selection_ok (pm_db pm) (connected_count (globals pm) - target_peers pm)
       (outbound_only_count (globals pm) - target_outbound_peers_of (target_peers pm)) chosen outbound"
    using peers_to_prune_ok [OF assms(1) assms(2) [unfolded pm_db_def]] unfolding pm_db_def by blast
  let ?pm = "fold (\<lambda>p. disconnect_peer now p TooManyPeers) chosen pm"
  have "prune_excess_peers E now pm = Some ?pm" using False c(1) by (simp add: prune_excess_peers_def)
  then show ?thesis
    using c(2) disconnect_peers [where now = now and r = TooManyPeers and ps = chosen and pm = pm]
    by (intro exI [of _ ?pm] exI [of _ chosen]) (simp add: selection_ok_def)
qed

section \<open>Examples\<close>

definition simple_env :: "((peer_id, instant) hmap \<times> duration) pm_env" where
  "simple_env = \<lparr>delays = list_delays, pm_ssz = list_ssz, shuffles = (\<lambda>n xs. xs)\<rparr>"

lemma simple_env_laws: "shuffle_laws simple_env" "ds_laws (delays simple_env)"
  by (simp_all add: shuffle_laws_def simple_env_def list_delays_laws)

definition blank_enr :: enr where
  "blank_enr = \<lparr>enr_node_id = 0, enr_seq = 1, enr_ip4 = None, enr_tcp4 = None, enr_udp4 = None,
     enr_ip6 = None, enr_tcp6 = None, enr_udp6 = None, enr_kv = []\<rparr>"

text \<open>A manager with a target of one peer, and two connected peers given.\<close>

definition two_peers :: "peer_info \<Rightarrow> ((peer_id, instant) hmap \<times> duration) peer_manager" where
  "two_peers i = set_db \<lparr>peers = [(1, i), (2, i)], db_disconnected = 0, db_banned_count = default_banned_count\<rparr>
     (peer_manager_new simple_env (default_pm_config\<lparr>cfg_target_peer_count := 1\<rparr>)
        (network_globals_new enr_node_id 0 blank_enr 9000 9000
           \<lparr>seq_number = 0, attnets = [], syncnets = None\<rparr> []))"

lemma prune_excess_peers_safe_witness:
  "\<exists>pm' chosen. prune_excess_peers simple_env 5 (two_peers (default_peer_info 0)) = Some pm' \<and> distinct chosen"
proof -
  have "hm_ok (peers (pm_db (two_peers (default_peer_info 0))))" by (simp add: two_peers_def hm_ok_def)
  from prune_excess_peers_safe [OF simple_env_laws(1) this, of 5] show ?thesis by blast
qed

text \<open>The rounds over the crowded subnets do not ask whether a peer is needed for a duty: of two peers that
  both are, one is dropped.\<close>

definition duty_peer :: peer_info where
  "duty_peer = (default_peer_info 0)\<lparr>connection_status := Connected 1 0, min_ttl := Some 100,
     info_meta_data := Some \<lparr>seq_number = 1, attnets = [True], syncnets = None\<rparr>\<rparr>"

lemma duty_peer_pruned:
  "has_future_duty 5 duty_peer
   \<and> map_option pm_events (prune_excess_peers simple_env 5 (two_peers duty_peer)) = Some [DisconnectPeer 1 TooManyPeers]"
proof -
  have duty: "has_future_duty 5 duty_peer" by (simp add: has_future_duty_def duty_peer_def)
  have conn: "info_is_connected duty_peer" "\<not> is_outbound_only duty_peer"
    by (simp_all add: duty_peer_def info_is_connected_def is_outbound_only_def)
  have subnets: "long_lived_subnets list_ssz duty_peer = [Attestation 0]"
    by (simp add: long_lived_subnets_def duty_peer_def set_bits_upto_highest_def list_ssz_def bit_indices_def
        bit_set_def)
  let ?g = "globals (two_peers duty_peer)"
  have db: "peers (g_peers ?g) = [(1, duty_peer), (2, duty_peer)]" by (simp add: two_peers_def set_db_def)
  have cp: "connected_peers (g_peers ?g) = [(1, duty_peer), (2, duty_peer)]"
    by (simp add: connected_peers_def db conn)
  have none: "worst_prunable simple_env n 5 P (g_peers ?g) = []" for n P
    using duty by (auto simp: worst_prunable_def worst_connected_peers_def cp simple_env_def filter_empty_conv)
  have counts: "connected_count ?g = 2" "outbound_only_count ?g = 0"
    by (simp_all add: connected_count_def connected_peer_ids_def outbound_only_count_def
        connected_outbound_only_peers_def ids_where_def db conn)
  have target: "target_peers (two_peers duty_peer) = 1" and env: "pm_ssz simple_env = list_ssz"
    "shuffles simple_env n xs = xs" for n xs
    by (simp_all add: two_peers_def set_db_def peer_manager_new_def simple_env_def)
  have "peers_to_prune simple_env 5 1 ?g = Some [1]"
    unfolding peers_to_prune_def Let_def counts none cp
    by (simp add: env count_peer_def count_subnet_def subnets hm_upsert_def prune_subnets.simps
        prune_from_subnet_def may_prune_def smallest_committee_def conn drop_candidate_def)
  then have "prune_excess_peers simple_env 5 (two_peers duty_peer)
      = Some (disconnect_peer 5 1 TooManyPeers (two_peers duty_peer))"
    by (simp add: prune_excess_peers_def counts target)
  moreover have "pm_events (two_peers duty_peer) = []" by (simp add: two_peers_def peer_manager_new_def)
  ultimately show ?thesis using duty by (simp add: disconnect_peer_def Let_def)
qed

lemma two_peers_ok: "db_ok (pm_db (two_peers duty_peer))" "db_ok (pm_db (two_peers (default_peer_info 0)))"
proof -
  have "info_ok duty_peer" "disc_weight duty_peer = 0" "ban_weight duty_peer = 0" "ip_weight ip duty_peer = 0" for ip
    using info_ok_default(1) [of 0]
    by (simp_all add: duty_peer_def info_ok_def one_if_def ip_weight_def status_defs)
  then show "db_ok (pm_db (two_peers duty_peer))" "db_ok (pm_db (two_peers (default_peer_info 0)))"
    by (simp_all add: two_peers_def db_ok_def hm_ok_def infos_ok_def counts_ok_def hm_sum_def)
qed

end
