(* ===== verification/Peer_Manager_Props.thy ===== *)
theory Peer_Manager_Props
  imports Peer_Behaviour Peer_Prune_Props
begin

text \<open>
  What the peer manager promises: the order of its limits, the timers of its peers, which peers it prunes,
  and that all its operations on the peer database are ones that keep the counters of the database exact.
\<close>

section \<open>The limits\<close>

lemma limit_factors:
  "f32_add F32_1 PEER_EXCESS_FACTOR = 147639504"
  "f32_add 147639504 PRIORITY_PEER_EXCESS = 174483056"
  "f32_add 147639504 (PRIORITY_PEER_EXCESS div 2) = 161061280"
  by (simp_all add: f32_add_def F32_1_def PEER_EXCESS_FACTOR_def PRIORITY_PEER_EXCESS_def F32_01_def F32_02_def
      f32_round_def round_half_even_def bit_length.simps Let_def)

lemma f32_round_eval:
  "2 ^ (k - 1) \<le> n \<Longrightarrow> n < 2 ^ k \<Longrightarrow> 0 < k \<Longrightarrow> f32_round n = round_half_even n (k - 24) * 2 ^ (k - 24)"
proof -
  assume n: "2 ^ (k - 1) \<le> n" "n < 2 ^ k" "0 < k"
  have "bit_length n \<le> k" using n(2) by (rule bit_length_le)
  moreover have "k - 1 < bit_length n"
    using bit_length_bounds(1) [of n] n(1) by (metis le_less_trans nat_power_less_imp_less pos2)
  ultimately have "bit_length n = k" using n(3) by linarith
  then show ?thesis by (simp add: f32_round_def)
qed

lemma limit_mono:
  "a \<le> b \<Longrightarrow> ceil_as_usize (f32_mult (f32_of_nat n) a) \<le> ceil_as_usize (f32_mult (f32_of_nat n) b)"
  by (intro ceil_as_usize_mono f32_mult_mono)

lemma limit_one: "n < 2 ^ 24 \<Longrightarrow> ceil_as_usize (f32_mult (f32_of_nat n) F32_1) = n"
  by (simp add: f32_of_nat_small f32_mult_1 ceil_as_usize_whole)

lemmas limit_defs = max_peers_of_def max_priority_peers_of_def min_outbound_only_peers_of_def
  target_outbound_peers_of_def max_outbound_dialing_peers_of_def

lemma peer_limits:
  assumes "target < 2 ^ 24"
  shows "target \<le> max_peers_of target
    \<and> max_peers_of target \<le> max_outbound_dialing_peers_of target
    \<and> max_outbound_dialing_peers_of target \<le> max_priority_peers_of target
    \<and> min_outbound_only_peers_of target \<le> target_outbound_peers_of target
    \<and> target_outbound_peers_of target \<le> target"
proof -
  have "target \<le> max_peers_of target" and "target_outbound_peers_of target \<le> target"
    using limit_mono [of F32_1 "f32_add F32_1 PEER_EXCESS_FACTOR" target]
      limit_mono [of TARGET_OUTBOUND_ONLY_FACTOR F32_1 target]
    unfolding limit_one [OF assms] limit_defs limit_factors
    by (simp_all add: F32_1_def TARGET_OUTBOUND_ONLY_FACTOR_def F32_03_def)
  moreover have "max_peers_of target \<le> max_outbound_dialing_peers_of target"
    "max_outbound_dialing_peers_of target \<le> max_priority_peers_of target"
    "min_outbound_only_peers_of target \<le> target_outbound_peers_of target"
    unfolding limit_defs limit_factors
    by (simp_all add: limit_mono MIN_OUTBOUND_ONLY_FACTOR_def TARGET_OUTBOUND_ONLY_FACTOR_def F32_02_def F32_03_def)
  ultimately show ?thesis by blast
qed

text \<open>The limits are in order for every target of less than \<open>2 ^ 24\<close> peers, though they are computed
  in single precision: no limit on connections is below the target, a priority peer may be dialed when any
  other may, and the outbound peers wanted are no more than the target.\<close>

theorem peer_limits_ordered:
  assumes "target < 2 ^ 24"
  shows "target \<le> max_peers_of target
    \<and> max_peers_of target \<le> max_outbound_dialing_peers_of target
    \<and> max_outbound_dialing_peers_of target \<le> max_priority_peers_of target
    \<and> min_outbound_only_peers_of target \<le> target_outbound_peers_of target
    \<and> target_outbound_peers_of target \<le> target"
  using assms by (rule peer_limits)

text \<open>The rounding shows: 1.2, 1.3 and 0.3 are rounded up, so that of 50 peers not 60 but 61 may be reached by
  dialing, and not 15 but 16 are to be outbound.\<close>

lemma limit_50:
  "max_peers_of 50 = 55" "max_outbound_dialing_peers_of 50 = 61" "max_priority_peers_of 50 = 65"
  "min_outbound_only_peers_of 50 = 10" "target_outbound_peers_of 50 = 16"
  unfolding limit_defs limit_factors MIN_OUTBOUND_ONLY_FACTOR_def TARGET_OUTBOUND_ONLY_FACTOR_def
    F32_02_def F32_03_def
  by (simp_all add: f32_of_nat_small f32_mult_def F32_UNIT_def ceil_as_usize_def round_half_even_def Let_def
      f32_round_eval [of 61] f32_round_eval [of 60] f32_round_eval [of 59] f32_round_eval [of 58])

lemma peer_limits_ordered_witness: "DEFAULT_TARGET_PEERS \<le> max_peers_of DEFAULT_TARGET_PEERS"
  using peer_limits_ordered [of DEFAULT_TARGET_PEERS] by (simp add: DEFAULT_TARGET_PEERS_def)

text \<open>With 59 of 50 peers connected, none of them outbound, and 6 more just chosen for dialing (which only happens
  to peers with a time), the subtraction of the wanted peers wraps around.\<close>

lemma wanted_peers_wraps: "wanted_peers 50 59 0 6 = 2 ^ 64 - 4"
  by (simp add: wanted_peers_def usize_minus_def limit_50)

section \<open>The timers\<close>

lemma drain_delays_spec:
  assumes D: "ds_laws D"
  shows "0 < ds_interval D h \<Longrightarrow> \<exists>h' ps. drain_delays D now ev h evs = Some (h', evs @ map ev ps)
     \<and> distinct ps \<and> set ps = due D now h
     \<and> ds_at D h' = (\<lambda>p. if p \<in> set ps then Some (now + ds_interval D h) else ds_at D h p)
     \<and> ds_interval D h' = ds_interval D h"
proof (induction "card (due D now h)" arbitrary: h evs rule: less_induct)
  case less
  show ?case
  proof (rule ds_poll_cases [OF D, of now h])
    fix h1 p
    assume p: "ds_poll D now h = (h1, Elapsed p)" "p \<in> due D now h"
      and h1: "ds_at D h1 = (ds_at D h)(p := None)" "ds_interval D h1 = ds_interval D h"
    let ?h = "ds_insert D now p h1"
    have at: "ds_at D ?h = (ds_at D h)(p := Some (now + ds_interval D h))" and iv: "ds_interval D ?h = ds_interval D h"
      using h1 by (simp_all add: ds_lawsD [OF D])
    have d: "due D now ?h = due D now h - {p}" using less.prems by (auto simp: due_def at)
    have "card (due D now ?h) < card (due D now h)"
      unfolding d using ds_lawsD(6) [OF D] p(2) by (rule card_Diff1_less)
    then obtain h' ps where r: "drain_delays D now ev ?h (evs @ [ev p]) = Some (h', (evs @ [ev p]) @ map ev ps)"
      "distinct ps" "set ps = due D now ?h"
      "ds_at D h' = (\<lambda>q. if q \<in> set ps then Some (now + ds_interval D ?h) else ds_at D ?h q)"
      "ds_interval D h' = ds_interval D ?h"
      using less.hyps [of ?h "evs @ [ev p]"] less.prems iv by auto
    have "drain_delays D now ev h evs = Some (h', evs @ map ev (p # ps))"
      using r(1) by (subst drain_delays.simps) (simp add: p)
    moreover have "distinct (p # ps)" "set (p # ps) = due D now h" using r(2,3) d p(2) by auto
    moreover have "ds_at D h' = (\<lambda>q. if q \<in> set (p # ps) then Some (now + ds_interval D h) else ds_at D h q)"
      using r(4) by (auto simp: at iv)
    ultimately show ?thesis using r(5) iv by metis
  next
    fix h1
    assume "ds_poll D now h = (h1, NotElapsed)" "due D now h = {}" "ds_at D h1 = ds_at D h"
      "ds_interval D h1 = ds_interval D h"
    then have "drain_delays D now ev h evs = Some (h1, evs @ map ev []) \<and> distinct ([] :: peer_id list)
        \<and> set [] = due D now h
        \<and> ds_at D h1 = (\<lambda>p. if p \<in> set [] then Some (now + ds_interval D h) else ds_at D h p)
        \<and> ds_interval D h1 = ds_interval D h"
      by (subst drain_delays.simps) simp
    then show ?thesis by blast
  qed
qed

section \<open>The peer database under the manager\<close>

abbreviation db_steps :: "peer_db \<Rightarrow> peer_db \<Rightarrow> bool" where
  "db_steps \<equiv> rtranclp db_step"

lemma db_steps_ok: "db_steps db db' \<Longrightarrow> db_ok db \<Longrightarrow> db_ok db'"
  by (induction rule: rtranclp_induct) (auto intro: db_ok_step)

lemma db_reachable_ok: "db_reachable db \<Longrightarrow> db_ok db"
  by (induction rule: db_reachable.induct) (auto intro: db_ok_new db_ok_step)

lemma db_reachable_steps: "db_steps db db' \<Longrightarrow> db_reachable db \<Longrightarrow> db_reachable db'"
  by (induction rule: rtranclp_induct) (auto intro: db_reachable.step)

lemma is_connected_not_banned: "is_connected db p \<Longrightarrow> \<not> (\<exists>i. hm_get (peers db) p = Some i \<and> info_is_banned i)"
  by (auto simp: is_connected_def db_connection_status_def info_is_banned_def split: peer_connection_status.splits)

lemma pm_db_update [simp]:
  "pm_db (pm\<lparr>inbound_ping_peers := h\<rparr>) = pm_db pm" "pm_db (pm\<lparr>outbound_ping_peers := h\<rparr>) = pm_db pm"
  "pm_db (pm\<lparr>status_peers := h\<rparr>) = pm_db pm" "pm_db (pm\<lparr>pm_events := es\<rparr>) = pm_db pm"
  "pm_db (pm\<lparr>peers_to_dial := ds\<rparr>) = pm_db pm" "pm_db (pm\<lparr>sync_committee_subnets := ss\<rparr>) = pm_db pm"
  by (simp_all add: pm_db_def)

lemma handle_score_action_db [simp]:
  "pm_db (handle_score_action E p r reason pm) = pm_db pm"
  "pm_db (handle_ban_operation p op reason pm) = pm_db pm"
proof -
  show ban: "pm_db (handle_ban_operation p op reason pm) = pm_db pm" for op
    by (cases op) simp_all
  show "pm_db (handle_score_action E p r reason pm) = pm_db pm"
    by (cases r) (simp_all add: ban)
qed

lemma handle_score_actions_db [simp]: "pm_db (handle_score_actions E as pm) = pm_db pm"
  unfolding handle_score_actions_def by (induction as arbitrary: pm) auto

lemma pm_frame [simp]:
  "pm_db (maintain_peer_count n pm) = pm_db pm"
  "pm_db (maintain_sync_committee_peers E now pm) = pm_db pm"
  "pm_db (peer_statusd E now p pm) = pm_db pm" "pm_db (add_sync_subnet i t pm) = pm_db pm"
  "pm_db (ping_request E now p sn pm) = pm_db pm" "pm_db (pong_response p sn pm) = pm_db pm"
  "pm_db (dial_peer p e pm) = pm_db pm" "pm_db (dial_trusted_peer p e pm) = pm_db pm"
  "globals (maintain_peer_count n pm) = globals pm"
  by (simp_all add: maintain_peer_count_def maintain_sync_committee_peers_def Let_def peer_statusd_def
      add_sync_subnet_def ping_request_def pong_response_def ask_meta_data_def dial_peer_def
      dial_trusted_peer_def push_event_def split: option.split connection_direction.split)

lemma report_peer_steps: "db_steps (pm_db pm) (pm_db (report_peer E now p a r pm))"
  by (auto simp: report_peer_def split: prod.split intro!: r_into_rtranclp) (metis db_step.report fst_conv)

lemma goodbye_peer_steps: "db_steps (pm_db pm) (pm_db (goodbye_peer E now p r pm))"
proof -
  let ?pm = "set_db ((pm_db pm)\<lparr>peers := hm_adjust p (\<lambda>info. fst (info_update_sync_status IrrelevantPeer info))
             (peers (pm_db pm))\<rparr>) pm"
  have "db_steps (pm_db pm) (pm_db ?pm)" by (auto intro: r_into_rtranclp db_step.irrelevant)
  with report_peer_steps [of pm E now p Fatal "Some r"] report_peer_steps [of ?pm E now p Fatal "Some r"]
  show ?thesis by (simp add: goodbye_peer_def) (metis rtranclp_trans pm_db_simps(1))
qed

lemma inject_disconnect_steps: "db_steps (pm_db pm) (pm_db (inject_disconnect E now p pm))"
proof -
  obtain db op purged where r: "db_inject_disconnect now p (pm_db pm) = (db, op, purged)"
    by (metis prod_cases3)
  then have "db_step (pm_db pm) db" by (metis db_step.disconnected fst_conv)
  moreover have "pm_db (inject_disconnect E now p pm) = db"
    by (simp add: inject_disconnect_def r Let_def split: option.split)
  ultimately show ?thesis by auto
qed

lemma disconnect_peer_steps:
  "\<not> (\<exists>i. hm_get (peers (pm_db pm)) p = Some i \<and> info_is_banned i) \<Longrightarrow>
     db_steps (pm_db pm) (pm_db (disconnect_peer now p r pm))"
  by (auto simp: disconnect_peer_def Let_def intro: db_step.disconnecting)

lemma disconnect_peers_steps:
  "distinct ps \<Longrightarrow> \<forall>p \<in> set ps. is_connected (pm_db pm) p \<Longrightarrow>
     db_steps (pm_db pm) (pm_db (fold (\<lambda>p. disconnect_peer now p r) ps pm))"
proof (induction ps arbitrary: pm)
  case (Cons p ps)
  let ?pm = "disconnect_peer now p r pm"
  have "db_steps (pm_db pm) (pm_db ?pm)"
    using Cons.prems(2) by (intro disconnect_peer_steps is_connected_not_banned) simp
  moreover have "\<forall>q \<in> set ps. is_connected (pm_db ?pm) q"
    using Cons.prems by (auto simp: disconnect_peer_def Let_def is_connected_disconnecting)
  ultimately show ?case using Cons.IH [of ?pm] Cons.prems(1) by (auto intro: rtranclp_trans)
qed simp

lemma prune_steps:
  assumes "shuffle_laws E" and "db_ok (pm_db pm)" and "prune_excess_peers E now pm = Some pm'"
  shows "db_steps (pm_db pm) (pm_db pm')"
proof (cases "connected_count (globals pm) \<le> target_peers pm")
  case False
  have "hm_ok (peers (g_peers (globals pm)))" using assms(2) by (simp add: db_ok_def pm_db_def)
  then obtain chosen outbound where c: "peers_to_prune E now (target_peers pm) (globals pm) = Some chosen"
    "selection_ok (pm_db pm) (connected_count (globals pm) - target_peers pm)
       (outbound_only_count (globals pm) - target_outbound_peers_of (target_peers pm)) chosen outbound"
    using peers_to_prune_ok [OF assms(1)] unfolding pm_db_def by blast
  then have "pm' = fold (\<lambda>p. disconnect_peer now p TooManyPeers) chosen pm"
    using assms(3) False by (simp add: prune_excess_peers_def)
  then show ?thesis using c(2) by (auto simp: selection_ok_def intro: disconnect_peers_steps)
qed (use assms(3) in \<open>simp add: prune_excess_peers_def\<close>)

lemma fold_steps:
  "(\<And>x d. db_steps (g d) (g (f x d))) \<Longrightarrow> db_steps (g d) (g (fold f xs d))"
  by (induction xs arbitrary: d) (auto intro: rtranclp_trans)

lemma peers_discovered_steps: "db_steps (pm_db pm) (pm_db (fst (peers_discovered now results pm)))"
proof -
  let ?f = "discovered_step now (target_peers pm) (connected_or_dialing_count (globals pm))"
  have "db_steps (fst d) (fst (?f x d))" for x d
    by (cases x; cases d) (auto simp: discovered_step_def Let_def intro: db_step.ttl split: option.split)
  then have "db_steps (fst d) (fst (fold ?f results d))" for d by (rule fold_steps)
  from this [of "(pm_db pm, [])"] show ?thesis by (simp add: peers_discovered_def split_beta)
qed

lemma heartbeat_steps:
  assumes "shuffle_laws E" and "db_ok (pm_db pm)" and "heartbeat E now pm = Some pm'"
  shows "db_steps (pm_db pm) (pm_db pm')"
proof -
  let ?d1 = "cleanup_dialing_peers now (pm_db pm)"
  obtain d2 actions where u: "update_scores now ?d1 = (d2, actions)" by force
  let ?pm = "maintain_sync_committee_peers E now
     (handle_score_actions E actions (set_db d2 (set_db ?d1 (maintain_peer_count 0 pm))))"
  have "db_step ?d1 d2" using u by (metis db_step.scores fst_conv)
  then have st: "db_steps (pm_db pm) (pm_db ?pm)"
    by (auto intro: converse_rtranclp_into_rtranclp db_step.cleanup)
  have "prune_excess_peers E now ?pm = Some pm'"
    using assms(3) u by (simp add: heartbeat_def Let_def)
  with prune_steps [OF assms(1) db_steps_ok [OF st assms(2)]] st show ?thesis by (blast intro: rtranclp_trans)
qed

lemma heartbeats_steps:
  "shuffle_laws E \<Longrightarrow> db_ok (pm_db pm) \<Longrightarrow> heartbeats E now n pm = Some pm' \<Longrightarrow> db_steps (pm_db pm) (pm_db pm')"
proof (induction n arbitrary: pm)
  case (Suc n)
  then obtain pm1 where pm1: "heartbeat E now pm = Some pm1" "heartbeats E now n pm1 = Some pm'"
    by (auto simp: bind_eq_Some_conv)
  note st = heartbeat_steps [OF Suc.prems(1,2) pm1(1)]
  show ?case using st Suc.IH [OF Suc.prems(1) db_steps_ok [OF st Suc.prems(2)] pm1(2)] by (rule rtranclp_trans)
qed simp

lemma poll_timers_db: "poll_timers E now pm = Some pm' \<Longrightarrow> pm_db pm' = pm_db pm"
  by (auto simp: poll_timers_def bind_eq_Some_conv Let_def split: if_splits)

lemma inject_peer_connection_steps: "db_steps (pm_db pm) (pm_db (inject_peer_connection E now p c e pm))"
  by (cases c) (auto simp: inject_peer_connection_def Let_def intro: db_step.intros)

lemma emit_next_steps: "db_steps (pm_db pm) (pm_db (fst (emit_next E now pm)))"
  using inject_peer_connection_steps [of "pm\<lparr>peers_to_dial := ds\<rparr>" E now for ds]
  by (simp add: emit_next_def split: list.split)

lemma pm_poll_steps:
  assumes "shuffle_laws E" and "db_ok (pm_db pm)" and "pm_poll E now ticks pm = Some (pm', r)"
  shows "db_steps (pm_db pm) (pm_db pm')"
proof -
  from assms(3) obtain pm1 pm2 where p: "heartbeats E now ticks pm = Some pm1" "poll_timers E now pm1 = Some pm2"
    "emit_next E now pm2 = (pm', r)" by (auto simp: pm_poll_def bind_eq_Some_conv)
  have "db_steps (pm_db pm1) (pm_db pm')"
    using emit_next_steps [of pm2 E now] poll_timers_db [OF p(2)] p(3) by simp
  with heartbeats_steps [OF assms(1,2) p(1)] show ?thesis by (rule rtranclp_trans)
qed

lemma established_steps:
  assumes "\<And>i. hm_get (peers (pm_db pm)) p = Some i \<Longrightarrow> info_is_banned i \<Longrightarrow> score_is_banned i"
  shows "db_steps (pm_db pm) (pm_db (inject_connection_established E now p endpoint n pm))"
proof -
  obtain q where q: "q = (if n = 0 then push_event (AskMetaData p) pm else pm)" by simp
  then have db: "pm_db q = pm_db pm" by simp
  show ?thesis
  proof (cases "pm_ban_status q p")
    case NotBanned
    then have "\<not> (\<exists>i. hm_get (peers (pm_db q)) p = Some i \<and> info_is_banned i)"
      using assms unfolding pm_ban_status_def db by (auto simp: ban_status_def score_is_banned_def)
    then have "db_steps (pm_db q) (pm_db (disconnect_peer now p TooManyPeers q))"
      by (rule disconnect_peer_steps)
    moreover have "db_steps (pm_db q) (pm_db (inject_peer_connection E now p c e q))" for c e
      by (rule inject_peer_connection_steps)
    ultimately show ?thesis
      unfolding db inject_connection_established_def Let_def q [symmetric] NotBanned ban_result.case
      by (simp add: inject_connect_ingoing_def inject_connect_outgoing_def split: connected_point.split)
  next
    case BadScore
    show ?thesis
      unfolding inject_connection_established_def Let_def q [symmetric] BadScore ban_result.case
      using goodbye_peer_steps [of q E now p GoodbyeBanned] unfolding db .
  next
    case (BannedIp ip)
    show ?thesis
      unfolding inject_connection_established_def Let_def q [symmetric] BannedIp ban_result.case
      using goodbye_peer_steps [of q E now p GoodbyeBannedIP] unfolding db .
  qed
qed

text \<open>Everything the manager does, interleaved with what the other parts do to the database they share.  A
  connection of a peer whose ban is recorded is only reported while its score still bans it.\<close>

inductive pm_step :: "'h pm_env \<Rightarrow> 'h peer_manager \<Rightarrow> 'h peer_manager \<Rightarrow> bool" for E :: "'h pm_env" where
  Report: "pm_step E pm (report_peer E now p a r pm)"
| Goodbye: "pm_step E pm (goodbye_peer E now p reason pm)"
| RpcError: "pm_step E pm (handle_rpc_error E now p pr err dir pm)"
| PingRequest: "pm_step E pm (ping_request E now p sn pm)"
| PongResponse: "pm_step E pm (pong_response p sn pm)"
| MetaDataResponse: "pm_step E pm (meta_data_response p md pm)"
| Identify: "pm_step E pm (identify p ident listen pm)"
| Statusd: "pm_step E pm (peer_statusd E now p pm)"
| SyncSubnet: "pm_step E pm (add_sync_subnet i t pm)"
| GossipScores: "pm_step E pm (pm_update_gossipsub_scores E now f pm)"
| Discovered: "pm_step E pm (fst (peers_discovered now results pm))"
| DialOne: "pm_step E pm (dial_peer p e pm)"
| DialTrusted: "pm_step E pm (dial_trusted_peer p e pm)"
| RemoveTrusted: "pm_step E pm (remove_trusted p pm)"
| Established: "(\<And>i. hm_get (peers (pm_db pm)) p = Some i \<Longrightarrow> info_is_banned i \<Longrightarrow> score_is_banned i) \<Longrightarrow>
    pm_step E pm (inject_connection_established E now p endpoint n pm)"
| Closed: "pm_step E pm (inject_connection_closed E now p n pm)"
| DialFailure: "pm_step E pm (inject_dial_failure E now q pm)"
| Poll: "pm_poll E now ticks pm = Some (pm', r) \<Longrightarrow> pm_step E pm pm'"
| Shared: "db_step (pm_db pm) db \<Longrightarrow> pm_step E pm (set_db db pm)"

inductive pm_run :: "'h pm_env \<Rightarrow> 'h peer_manager \<Rightarrow> bool" for E :: "'h pm_env" where
  Init: "pm_run E (peer_manager_new E c (network_globals_new id_of now e tcp udp md trusted))"
| Step: "pm_run E pm \<Longrightarrow> pm_step E pm pm' \<Longrightarrow> pm_run E pm'"

lemma pm_step_db:
  "pm_step E pm pm' \<Longrightarrow> shuffle_laws E \<Longrightarrow> db_ok (pm_db pm) \<Longrightarrow> db_steps (pm_db pm) (pm_db pm')"
proof (induction rule: pm_step.induct)
  case (RpcError pm now p pr err dir)
  show ?case using report_peer_steps by (auto simp: handle_rpc_error_def split: option.split)
next
  case (GossipScores pm now f)
  obtain db as where u: "update_gossipsub_scores now (target_peers pm) f (pm_db pm) = (db, as)" by force
  then have "db_step (pm_db pm) db" by (metis db_step.gossip fst_conv)
  then show ?case by (auto simp: pm_update_gossipsub_scores_def u)
next
  case (Closed pm now p n)
  show ?case
    using inject_disconnect_steps [of pm E now p] inject_disconnect_steps [of "push_event (PeerDisconnected p) pm" E now p]
    by (simp add: inject_connection_closed_def)
next
  case (DialFailure pm now q)
  show ?case using inject_disconnect_steps by (auto simp: inject_dial_failure_def split: option.split)
next
  case (Poll now ticks pm pm' r)
  then show ?case by (intro pm_poll_steps)
next
  case (Established pm p now endpoint n)
  show ?case by (rule established_steps) (rule Established.hyps)
qed (auto simp: meta_data_response_def identify_def remove_trusted_def
      intro: report_peer_steps goodbye_peer_steps peers_discovered_steps db_step.intros)

text \<open>C17. Whatever happens to the peer manager, it changes the database of peers only by the database's own
  operations, and never disconnects a peer that is banned: every database it holds is one the database
  reaches by itself, so what holds of those, the exactness of the counters above all, holds under the
  manager.\<close>

theorem peer_manager_refines_db:
  assumes "pm_run E pm" and "shuffle_laws E"
  shows "db_reachable (pm_db pm)"
  using assms(1)
proof (induction rule: pm_run.induct)
  case (Init c id_of now e tcp udp md trusted)
  then show ?case by (simp add: pm_db_def peer_manager_new_def network_globals_new_def db_reachable.start)
next
  case (Step pm pm')
  then show ?case using pm_step_db [OF _ assms(2)] db_reachable_ok db_reachable_steps by blast
qed

lemma peer_manager_refines_db_witness:
  "db_reachable (pm_db (goodbye_peer simple_env 3 7 Fault (peer_manager_new simple_env default_pm_config
     (network_globals_new enr_node_id 0 blank_enr 9000 9000
        \<lparr>seq_number = 0, attnets = [], syncnets = None\<rparr> [7]))))"
  by (rule peer_manager_refines_db [OF pm_run.Step [OF pm_run.Init pm_step.Goodbye] simple_env_laws(1)])

section \<open>New connections\<close>

lemma report_banned_peer:
  assumes "hm_get (peers (pm_db pm)) p = Some i" and "score_is_banned i" and "db_ok (pm_db pm)"
  shows "pm_events (report_peer E now p a r pm) = pm_events pm"
    and "is_connected (pm_db (report_peer E now p a r pm)) q = is_connected (pm_db pm) q"
proof -
  let ?i = "apply_peer_action_to_score a i"
  have "info_ok i" using assms(1,3) by (auto simp: db_ok_def intro: infos_ok_get)
  from pinfo.act_worse [OF this, of a] have "score_state_of ?i = score_state.Banned"
    using assms(2) score_state_le_Banned antisym unfolding score_is_banned_def by metis
  then have "handle_score_transition (score_state_of i) ?i = TransNoAction"
    using assms(2) by (simp add: handle_score_transition_def score_is_banned_def)
  then have r: "db_report_peer now p a (pm_db pm)
      = ((pm_db pm)\<lparr>peers := hm_insert p ?i (peers (pm_db pm))\<rparr>, NoAction)"
    using assms(1) by (simp add: db_report_peer_def Let_def)
  show "pm_events (report_peer E now p a r pm) = pm_events pm" by (simp add: report_peer_def r)
  show "is_connected (pm_db (report_peer E now p a r pm)) q = is_connected (pm_db pm) q"
    using assms(1) by (simp add: report_peer_def r is_connected_def db_connection_status_def)
qed

lemma report_events:
  assumes "db_ok (pm_db pm)"
  shows "\<exists>evs. pm_events (report_peer E now p a r pm) = pm_events pm @ evs
    \<and> (\<forall>e \<in> set evs. (\<exists>g. e = DisconnectPeer p g) \<or> (\<exists>ips. e = PeerBanned p ips))"
proof -
  obtain db res where r: "db_report_peer now p a (pm_db pm) = (db, res)" by force
  have "res \<noteq> Unbanned ips" for ips
    using db_report_contract [OF assms r] by auto
  then show ?thesis
  proof (cases res)
    case (Ban op)
    then show ?thesis by (cases op) (auto simp: report_peer_def r)
  qed (auto simp: report_peer_def r)
qed

lemma is_connected_connect:
  "is_connected (pm_db (inject_connect_ingoing E now p a e pm)) p"
  "is_connected (pm_db (inject_connect_outgoing E now p a e pm)) p"
  by (auto simp: inject_connect_ingoing_def inject_connect_outgoing_def inject_peer_connection_def Let_def
      db_connect_ingoing_def db_connect_outgoing_def update_connection_state_def transition_def
      to_connected_def is_connected_def db_connection_status_def info_connect_ingoing_def
      info_connect_outgoing_def see_address_def
      split: prod.split peer_connection_status.split option.split)

lemma connect_events [simp]:
  "pm_events (inject_connect_ingoing E now p a e pm) = pm_events pm"
  "pm_events (inject_connect_outgoing E now p a e pm) = pm_events pm"
  by (simp_all add: inject_connect_ingoing_def inject_connect_outgoing_def inject_peer_connection_def Let_def)

text \<open>The events and the database after a connection of \<open>p\<close> from the manager \<open>pm\<close>.\<close>

definition refused_for_limit :: "instant \<Rightarrow> connected_point \<Rightarrow> peer_id \<Rightarrow> 'h peer_manager \<Rightarrow> bool" where
  "refused_for_limit now endpoint p pm \<longleftrightarrow>
     peer_limit_reached (case endpoint of Listener _ \<Rightarrow> True | Dialer _ \<Rightarrow> False) pm
     \<and> (case peer_info_get (pm_db pm) p of None \<Rightarrow> True | Some info \<Rightarrow> \<not> has_future_duty now info)"



end
