(* ===== verification/Peer_Manager_Life.thy ===== *)
theory Peer_Manager_Life
  imports Peer_Manager_Props
begin

text \<open>
  Courses of events: which discovered peers are dialed, that a poll of the manager returns and leaves no
  timer elapsed, and how a ban comes into force.
\<close>

section \<open>Dialing discovered peers\<close>

lemma should_dial_cong:
  "hm_get (peers db') p = hm_get (peers db) p \<Longrightarrow> db_banned_count db' = db_banned_count db \<Longrightarrow>
     should_dial db' p = should_dial db p"
  by (simp add: should_dial_def db_connection_status_def score_state_banned_or_disconnected_def
      db_ip_is_banned_def split: option.split score_state.split)

lemma discovered_step_simp:
  "discovered_step now target cod (p, ttl) (db, ps) =
     (if wants_dial target cod (length ps) ttl \<and> should_dial db p
      then (case ttl of Some t \<Rightarrow> update_min_ttl now p t db | None \<Rightarrow> db, ps @ [p]) else (db, ps))"
  by (simp add: discovered_step_def)

lemma discovered_fold:
  assumes "distinct (map fst results)"
    and "fold (discovered_step now target cod) results (db, ps) = (db', ps')"
  shows "\<exists>new. ps' = ps @ new \<and> set new \<subseteq> fst ` set results \<and> distinct new
     \<and> (\<forall>p \<in> set new. should_dial db p)
     \<and> (cod + length ps' \<le> max (cod + length ps) (max (max_peers_of target) (max_priority_peers_of target)))
     \<and> ((\<forall>(p, ttl) \<in> set results. ttl = None) \<longrightarrow>
          cod + length ps' \<le> max (cod + length ps) (max_peers_of target))"
  using assms
proof (induction results arbitrary: db ps)
  case (Cons r results)
  obtain p ttl where r: "r = (p, ttl)" by force
  have dist: "p \<notin> fst ` set results" "distinct (map fst results)" using Cons.prems(1) r by auto
  show ?case
  proof (cases "wants_dial target cod (length ps) ttl \<and> should_dial db p")
    case False
    then have "fold (discovered_step now target cod) results (db, ps) = (db', ps')"
      using Cons.prems(2) r unfolding fold.simps comp_apply r discovered_step_simp if_not_P [OF False] by simp
    from Cons.IH [OF dist(2) this] show ?thesis unfolding r by (elim exE) (rule exI, auto)
  next
    case True
    let ?db = "case ttl of Some t \<Rightarrow> update_min_ttl now p t db | None \<Rightarrow> db"
    have "fold (discovered_step now target cod) results (?db, ps @ [p]) = (db', ps')"
      using Cons.prems(2) True r by (simp add: discovered_step_simp)
    from Cons.IH [OF dist(2) this] obtain new where new: "ps' = (ps @ [p]) @ new" "set new \<subseteq> fst ` set results"
      "distinct new" "\<forall>q \<in> set new. should_dial ?db q"
      "cod + length ps' \<le> max (cod + length (ps @ [p])) (max (max_peers_of target) (max_priority_peers_of target))"
      "(\<forall>(p, ttl) \<in> set results. ttl = None) \<longrightarrow>
         cod + length ps' \<le> max (cod + length (ps @ [p])) (max_peers_of target)"
      by blast
    have "should_dial ?db q = should_dial db q" if "q \<noteq> p" for q
      by (rule should_dial_cong) (use that in \<open>simp_all add: update_min_ttl_def hm_get_upsert split: option.split\<close>)
    then have sd: "\<forall>q \<in> set (p # new). should_dial db q"
      using new(2,4) dist(1) True by fastforce
    have le: "cod + length (ps @ [p]) \<le> max (max_peers_of target) (max_priority_peers_of target)"
      "ttl = None \<Longrightarrow> cod + length (ps @ [p]) \<le> max_peers_of target"
      using True by (auto simp: wants_dial_def)
    show ?thesis
    proof (intro exI [of _ "p # new"] conjI)
      show "ps' = ps @ p # new" using new(1) by simp
      show "set (p # new) \<subseteq> fst ` set (r # results)" "distinct (p # new)" using new(2,3) dist(1) r by auto
      show "\<forall>p \<in> set (p # new). should_dial db p" by (rule sd)
      show "cod + length ps' \<le> max (cod + length ps) (max (max_peers_of target) (max_priority_peers_of target))"
        using new(5) le(1) by linarith
      show "(\<forall>(p, ttl) \<in> set (r # results). ttl = None) \<longrightarrow> cod + length ps' \<le> max (cod + length ps) (max_peers_of target)"
        using new(6) le(2) r by auto
    qed
  qed
qed auto

text \<open>C21. Of the peers a discovery query has found the manager dials only ones that may be dialed, none twice,
  and with those connected or being dialed already no more than the limit for priority peers; when no
  peer is wanted for a time, no more than the general limit.\<close>

theorem discovered_dials_bounded:
  assumes "hm_ok results" and "target_peers pm < 2 ^ 24" and "peers_discovered now results pm = (pm', dials)"
  shows "distinct dials \<and> set dials \<subseteq> fst ` set results \<and> (\<forall>p \<in> set dials. should_dial (pm_db pm) p)
    \<and> connected_or_dialing_count (globals pm) + length dials
        \<le> max (connected_or_dialing_count (globals pm)) (max_priority_peers_of (target_peers pm))
    \<and> ((\<forall>(p, ttl) \<in> set results. ttl = None) \<longrightarrow>
        connected_or_dialing_count (globals pm) + length dials
          \<le> max (connected_or_dialing_count (globals pm)) (max_peers_of (target_peers pm)))"
proof -
  let ?cod = "connected_or_dialing_count (globals pm)" and ?t = "target_peers pm"
  obtain db where "fold (discovered_step now ?t ?cod) results (pm_db pm, []) = (db, dials)"
    using assms(3) by (auto simp: peers_discovered_def split: prod.splits)
  with assms(1) obtain new where "dials = [] @ new" "set new \<subseteq> fst ` set results" "distinct new"
    "\<forall>p \<in> set new. should_dial (pm_db pm) p"
    "?cod + length dials \<le> max (?cod + length ([] :: peer_id list)) (max (max_peers_of ?t) (max_priority_peers_of ?t))"
    "(\<forall>(p, ttl) \<in> set results. ttl = None) \<longrightarrow>
      ?cod + length dials \<le> max (?cod + length ([] :: peer_id list)) (max_peers_of ?t)"
    using discovered_fold [of results] unfolding hm_ok_def by blast
  moreover have "max_peers_of ?t \<le> max_priority_peers_of ?t"
    using peer_limits [OF assms(2)] by linarith
  ultimately show ?thesis by (auto simp: max_def)
qed

lemma discovered_dials_bounded_witness:
  "distinct (snd (peers_discovered 3 [(9, Some 7)] (two_peers duty_peer)))"
  using discovered_dials_bounded [of "[(9, Some 7)]" "two_peers duty_peer" 3
      "fst (peers_discovered 3 [(9, Some 7)] (two_peers duty_peer))"
      "snd (peers_discovered 3 [(9, Some 7)] (two_peers duty_peer))"]
  by (simp add: hm_ok_def two_peers_def set_db_def peer_manager_new_def)

section \<open>Polling returns\<close>

definition intervals :: "'h pm_env \<Rightarrow> 'h peer_manager \<Rightarrow> duration \<times> duration \<times> duration" where
  "intervals E pm = (ds_interval (delays E) (inbound_ping_peers pm), ds_interval (delays E) (outbound_ping_peers pm),
     ds_interval (delays E) (status_peers pm))"

lemma intervals_frame [simp]:
  "intervals E (set_db db pm) = intervals E pm" "intervals E (push_event e pm) = intervals E pm"
  "intervals E (maintain_peer_count n pm) = intervals E pm"
  "intervals E (maintain_sync_committee_peers E' now pm) = intervals E pm"
  "intervals E (disconnect_peer now p r pm) = intervals E pm"
  by (simp_all add: intervals_def set_db_def push_event_def maintain_peer_count_def Let_def
      maintain_sync_committee_peers_def disconnect_peer_def)

lemma intervals_score_actions [simp]:
  assumes "ds_laws (delays E)"
  shows "intervals E (handle_score_actions E as pm) = intervals E pm"
proof -
  have "intervals E (handle_ban_operation p op reason pm) = intervals E pm" for p op reason pm
    by (cases op) simp_all
  then have "intervals E (handle_score_action E p r reason pm) = intervals E pm" for p r reason pm
    by (cases r) (simp_all, simp_all add: intervals_def push_event_def ds_lawsD [OF assms])
  then show ?thesis unfolding handle_score_actions_def by (induction as arbitrary: pm) auto
qed

lemma intervals_disconnects [simp]:
  "intervals E (fold (\<lambda>p. disconnect_peer now p r) ps pm) = intervals E pm"
  by (induction ps arbitrary: pm) simp_all

lemma prune_returns:
  assumes "shuffle_laws E" and "db_ok (pm_db pm)"
  shows "\<exists>pm'. prune_excess_peers E now pm = Some pm' \<and> intervals E' pm' = intervals E' pm"
proof (cases "connected_count (globals pm) \<le> target_peers pm")
  case True
  then show ?thesis by (simp add: prune_excess_peers_def)
next
  case False
  have "hm_ok (peers (g_peers (globals pm)))" using assms(2) by (simp add: db_ok_def pm_db_def)
  then obtain chosen where "peers_to_prune E now (target_peers pm) (globals pm) = Some chosen"
    using peers_to_prune_ok [OF assms(1)] by blast
  with False show ?thesis by (simp add: prune_excess_peers_def)
qed

lemma heartbeats_return:
  assumes "ds_laws (delays E)" and "shuffle_laws E"
  shows "db_ok (pm_db pm) \<Longrightarrow> \<exists>pm'. heartbeats E now n pm = Some pm' \<and> intervals E pm' = intervals E pm"
proof (induction n arbitrary: pm)
  case (Suc n)
  let ?d1 = "cleanup_dialing_peers now (pm_db pm)"
  obtain d2 actions where u: "update_scores now ?d1 = (d2, actions)" by force
  let ?pm = "maintain_sync_committee_peers E now
     (handle_score_actions E actions (set_db d2 (set_db ?d1 (maintain_peer_count 0 pm))))"
  have hb: "heartbeat E now pm = prune_excess_peers E now ?pm" by (simp add: heartbeat_def u Let_def)
  have "db_ok d2" using db_ok_update_scores [OF db_ok_cleanup [OF Suc.prems], of now now] u by simp
  then obtain pm1 where pm1: "heartbeat E now pm = Some pm1" "intervals E pm1 = intervals E pm"
    using prune_returns [OF assms(2), of ?pm now E] assms(1) unfolding hb by auto
  have "db_ok (pm_db pm1)"
    using heartbeat_steps [OF assms(2) Suc.prems pm1(1)] Suc.prems by (rule db_steps_ok)
  from Suc.IH [OF this] pm1 show ?case by auto
qed simp

text \<open>The peers whose timers have elapsed are asked in turn, and each gets a new timer.\<close>

definition rearmed :: "'h delay_set \<Rightarrow> instant \<Rightarrow> 'h \<Rightarrow> 'h \<Rightarrow> peer_id list \<Rightarrow> bool" where
  "rearmed D now h h' ps \<longleftrightarrow> distinct ps \<and> set ps = due D now h \<and> due D now h' = {}
     \<and> (\<forall>p \<in> set ps. ds_at D h' p = Some (now + ds_interval D h))
     \<and> (\<forall>p. p \<notin> set ps \<longrightarrow> ds_at D h' p = ds_at D h p)"

lemma drain_rearms:
  assumes "ds_laws D" and "0 < ds_interval D h"
  shows "\<exists>h' ps. drain_delays D now ev h evs = Some (h', evs @ map ev ps) \<and> rearmed D now h h' ps"
proof -
  obtain h' ps where r: "drain_delays D now ev h evs = Some (h', evs @ map ev ps)" "distinct ps"
    "set ps = due D now h" "ds_at D h' = (\<lambda>p. if p \<in> set ps then Some (now + ds_interval D h) else ds_at D h p)"
    using drain_delays_spec [OF assms, of now ev evs] by blast
  then have "due D now h' = {}" using assms(2) by (auto simp: due_def)
  with r show ?thesis by (auto simp: rearmed_def)
qed

lemma poll_timers_returns:
  assumes D: "ds_laws (delays E)" and iv: "intervals E pm = (a, b, c)" "0 < a" "0 < b" "0 < c"
  shows "\<exists>pm' ps qs ss. poll_timers E now pm = Some pm'
     \<and> pm_events pm' = pm_events pm @ map SendPing ps @ map SendPing qs @ map SendStatus ss
     \<and> rearmed (delays E) now (inbound_ping_peers pm) (inbound_ping_peers pm') ps
     \<and> rearmed (delays E) now (outbound_ping_peers pm) (outbound_ping_peers pm') qs
     \<and> (if syncing_main (g_sync_state (globals pm)) then ss = [] \<and> status_peers pm' = status_peers pm
        else rearmed (delays E) now (status_peers pm) (status_peers pm') ss)
     \<and> peers_to_dial pm' = peers_to_dial pm \<and> globals pm' = globals pm"
proof -
  have pos: "0 < ds_interval (delays E) (inbound_ping_peers pm)" "0 < ds_interval (delays E) (outbound_ping_peers pm)"
    "0 < ds_interval (delays E) (status_peers pm)" using iv by (auto simp: intervals_def)
  obtain h1 ps where 1: "drain_delays (delays E) now SendPing (inbound_ping_peers pm) (pm_events pm)
      = Some (h1, pm_events pm @ map SendPing ps)" "rearmed (delays E) now (inbound_ping_peers pm) h1 ps"
    using drain_rearms [OF D pos(1)] by blast
  obtain h2 qs where 2: "drain_delays (delays E) now SendPing (outbound_ping_peers pm) (pm_events pm @ map SendPing ps)
      = Some (h2, (pm_events pm @ map SendPing ps) @ map SendPing qs)"
    "rearmed (delays E) now (outbound_ping_peers pm) h2 qs"
    using drain_rearms [OF D pos(2)] by blast
  obtain h3 ss where 3: "drain_delays (delays E) now SendStatus (status_peers pm)
      ((pm_events pm @ map SendPing ps) @ map SendPing qs)
      = Some (h3, ((pm_events pm @ map SendPing ps) @ map SendPing qs) @ map SendStatus ss)"
    "rearmed (delays E) now (status_peers pm) h3 ss"
    using drain_rearms [OF D pos(3)] by blast
  let ?pm2 = "pm\<lparr>inbound_ping_peers := h1, pm_events := (pm_events pm @ map SendPing ps) @ map SendPing qs,
      outbound_ping_peers := h2\<rparr>"
  show ?thesis
  proof (cases "syncing_main (g_sync_state (globals pm))")
    case True
    then have "poll_timers E now pm = Some ?pm2" using 1(1) 2(1) by (simp add: poll_timers_def)
    with True 1 2 show ?thesis
      by (intro exI [of _ ?pm2] exI [of _ ps] exI [of _ qs] exI [of _ "[]"]) simp
  next
    case False
    let ?pm3 = "?pm2\<lparr>status_peers := h3,
        pm_events := ((pm_events pm @ map SendPing ps) @ map SendPing qs) @ map SendStatus ss\<rparr>"
    have "poll_timers E now pm = Some ?pm3" using False 1(1) 2(1) 3(1) by (simp add: poll_timers_def)
    with False 1 2 3 show ?thesis
      by (intro exI [of _ ?pm3] exI [of _ ps] exI [of _ qs] exI [of _ ss]) simp
  qed
qed



section \<open>A ban comes into force\<close>

lemma shrink_subset:
  assumes "db_ok db" and "shrink_to_fit db = (db', unbanned)"
  shows "set (peers db') \<subseteq> set (peers db)"
proof -
  obtain d un where d: "shrink_banned db [] = (d, un)" by force
  with assms(2) have db': "db' = shrink_disconnected d" by (simp add: shrink_to_fit_def)
  note b = shrink_banned_spec [OF assms(1), of "[]", unfolded d fst_conv]
  then have "db_ok d" by blast
  from shrink_disconnected_spec [OF this] b show ?thesis
    unfolding db' forgets_def by blast
qed

lemma goodbye_connected:
  assumes ok: "db_ok (pm_db pm)" and i: "hm_get (peers (pm_db pm)) p = Some i" "info_is_connected i"
    "\<not> info_exempt i" "\<not> score_is_banned i"
  shows "\<exists>j. pm_events (goodbye_peer E now p reason pm) = pm_events pm @ [DisconnectPeer p reason]
    \<and> hm_get (peers (pm_db (goodbye_peer E now p reason pm))) p = Some j
    \<and> connection_status j = Disconnecting True \<and> score_is_banned j"
proof -
  let ?sync = "\<lambda>i. fst (info_update_sync_status IrrelevantPeer i)"
  define q where "q = (if reason = IrrelevantNetwork
    then set_db ((pm_db pm)\<lparr>peers := hm_adjust p ?sync (peers (pm_db pm))\<rparr>) pm else pm)"
  define k where "k = (if reason = IrrelevantNetwork then ?sync i else i)"
  have same: "info_score (?sync i) = info_score i" "connection_status (?sync i) = connection_status i"
    "is_trusted (?sync i) = is_trusted i"
    by (simp_all add: info_update_sync_status_def split: prod.split)
  have k: "info_score k = info_score i" "connection_status k = connection_status i" "is_trusted k = is_trusted i"
    by (simp_all add: k_def same)
  have get: "hm_get (peers (pm_db q)) p = Some k" and ev: "pm_events q = pm_events pm"
    using i(1) by (simp_all add: q_def k_def hm_get_adjust)
  have "info_ok k"
    using ok i(1) k(1) infos_ok_get [of "pm_db pm" p i] by (simp add: db_ok_def info_ok_def)
  moreover have "\<not> info_exempt k" using i(3) k by (simp add: info_exempt_def)
  ultimately have ban: "score_state_of (apply_peer_action_to_score Fatal k) = score_state.Banned"
    by (rule pinfo.fatal_bans)
  have "score_state_of k \<noteq> score_state.Banned"
    using i(4) k(1) by (simp add: score_is_banned_def score_state_of_def)
  then have t: "handle_score_transition (score_state_of k) (apply_peer_action_to_score Fatal k) = TransBanned"
    using ban by (cases "score_state_of k") (simp_all add: handle_score_transition_def)
  let ?k = "apply_peer_action_to_score Fatal k"
  obtain a b where st: "connection_status ?k = Connected a b"
    using i(2) k(2) by (auto simp: info_is_connected_def split: peer_connection_status.splits)
  have r: "db_report_peer now p Fatal (pm_db q) = ((pm_db q)\<lparr>peers :=
      hm_insert p (?k\<lparr>connection_status := Disconnecting True\<rparr>) (hm_insert p ?k (peers (pm_db q)))\<rparr>, Ban DisconnectThePeer)"
    using get t ban st
    by (simp add: db_report_peer_def Let_def update_connection_state_def transition_def to_banned_def
        entry_for_def ban_score_def set_connection_status_def of_ban_operation_def)
  have "goodbye_peer E now p reason pm = report_peer E now p Fatal (Some reason) q"
    by (simp add: goodbye_peer_def q_def)
  then have "goodbye_peer E now p reason pm = push_event (DisconnectPeer p reason)
      (set_db ((pm_db q)\<lparr>peers := hm_insert p (?k\<lparr>connection_status := Disconnecting True\<rparr>)
         (hm_insert p ?k (peers (pm_db q)))\<rparr>) q)"
    by (simp add: report_peer_def r)
  then show ?thesis
    using ban ev by (simp add: score_is_banned_def score_state_of_def)
qed

lemma closed_banned:
  assumes ok: "db_ok (pm_db pm)" and D: "ds_laws (delays E)"
    and j: "hm_get (peers (pm_db pm)) p = Some j" "connection_status j = Disconnecting True" "score_is_banned j"
    and pm'_def: "pm' = inject_connection_closed E now p 0 pm"
  shows "\<exists>ips purged. pm_events pm' = pm_events pm @ [PeerDisconnected p, PeerBanned p ips]
      @ map (\<lambda>(q, ips). PeerUnBanned q ips) purged"
    and "hm_get (peers (pm_db pm')) p = None \<or> ban_status (pm_db pm') p = BadScore"
    and "ds_at (delays E) (inbound_ping_peers pm') p = None" "ds_at (delays E) (outbound_ping_peers pm') p = None"
      "ds_at (delays E) (status_peers pm') p = None"
proof -
  let ?info = "(clear_subnets j)\<lparr>connection_status := Banned now\<rparr>"
  define db1 where "db1 = fst (update_connection_state now p NewDisconnected (pm_db pm))"
  obtain db2 purged where sh: "shrink_to_fit db1 = (db2, purged)" by force
  have u: "update_connection_state now p NewDisconnected (pm_db pm)
      = (db1, Some (ready_to_ban ?info (count_banned ?info (pm_db pm))))"
    using j by (simp add: db1_def update_connection_state_def transition_def to_disconnected_def entry_for_def ban_score_def
        clear_subnets_def set_connection_status_def Let_def)
  then have di: "db_inject_disconnect now p (pm_db pm)
      = (db2, Some (ready_to_ban ?info (count_banned ?info (pm_db pm))), purged)"
    by (simp add: db_inject_disconnect_def sh)
  have get1: "hm_get (peers db1) p = Some ?info"
    using u by (simp add: db1_def update_connection_state_def split_beta)
      (simp add: transition_def to_disconnected_def entry_for_def ban_score_def j clear_subnets_def
        set_connection_status_def Let_def)
  have ok1: "db_ok db1" unfolding db1_def using ok by (rule db_ok_update_connection_state) simp
  have ok2: "db_ok db2"
    using db_ok_inject_disconnect [OF ok, of now p] di by simp
  have "is_connected_or_disconnecting (pm_db pm) p"
    using j by (simp add: is_connected_or_disconnecting_def db_connection_status_def)
  then have pm': "pm' = inject_disconnect E now p (push_event (PeerDisconnected p) pm)"
    by (simp add: pm'_def inject_connection_closed_def)
  obtain ips where rb: "ready_to_ban ?info (count_banned ?info (pm_db pm)) = ReadyToBan ips"
    by (simp add: ready_to_ban_def Let_def)
  have "pm_events pm' = pm_events pm @ [PeerDisconnected p, PeerBanned p ips]
      @ map (\<lambda>(q, ips). PeerUnBanned q ips) purged" "pm_db pm' = db2"
    by (simp_all add: pm' inject_disconnect_def di rb Let_def)
  then show "\<exists>ips purged. pm_events pm' = pm_events pm @ [PeerDisconnected p, PeerBanned p ips]
      @ map (\<lambda>(q, ips). PeerUnBanned q ips) purged" by blast
  have "k = ?info" if "hm_get (peers db2) p = Some k" for k
  proof -
    have sub: "set (peers db2) \<subseteq> set (peers db1)"
      using shrink_subset [OF ok1 sh] .
    have "(p, k) \<in> set (peers db1)" using hm_get_Some_in [OF that] sub by blast
    then have "hm_get (peers db1) p = Some k" using ok1 by (simp add: db_ok_def hm_in_get)
    with get1 show ?thesis by simp
  qed
  moreover have "score_state_of ?info = score_state.Banned"
    using j(3) by (simp add: score_is_banned_def score_state_of_def clear_subnets_def)
  ultimately show "hm_get (peers (pm_db pm')) p = None \<or> ban_status (pm_db pm') p = BadScore"
    unfolding \<open>pm_db pm' = db2\<close> by (cases "hm_get (peers db2) p") (auto simp: ban_status_def)
  show "ds_at (delays E) (inbound_ping_peers pm') p = None" "ds_at (delays E) (outbound_ping_peers pm') p = None"
      "ds_at (delays E) (status_peers pm') p = None"
    by (simp_all add: pm' inject_disconnect_def di Let_def ds_lawsD [OF D])
qed

text \<open>C20. Saying goodbye to a connected peer that reports can reach and whose score is not banned yet bans it.
  It is asked to leave for the reason given, and marked; when its last connection has closed, the
  application is told so, the swarm is told to ban it, none of its timers is left, and it stays banned by
  its score unless the database has forgotten it for want of space.\<close>

theorem goodbye_bans:
  assumes "db_ok (pm_db pm)" and "ds_laws (delays E)"
    and "hm_get (peers (pm_db pm)) p = Some i" and "info_is_connected i" and "\<not> info_exempt i"
    and "\<not> score_is_banned i"
    and "pm1 = goodbye_peer E now p reason pm" and "pm2 = inject_connection_closed E later p 0 pm1"
  shows "pm_events pm1 = pm_events pm @ [DisconnectPeer p reason] \<and> \<not> is_connected (pm_db pm1) p
    \<and> (\<exists>ips purged. pm_events pm2 = pm_events pm1 @ [PeerDisconnected p, PeerBanned p ips]
         @ map (\<lambda>(q, ips). PeerUnBanned q ips) purged)
    \<and> (hm_get (peers (pm_db pm2)) p = None \<or> ban_status (pm_db pm2) p = BadScore)
    \<and> ds_at (delays E) (inbound_ping_peers pm2) p = None \<and> ds_at (delays E) (outbound_ping_peers pm2) p = None
    \<and> ds_at (delays E) (status_peers pm2) p = None"
proof -
  obtain j where g: "pm_events pm1 = pm_events pm @ [DisconnectPeer p reason]"
    "hm_get (peers (pm_db pm1)) p = Some j" "connection_status j = Disconnecting True" "score_is_banned j"
    using goodbye_connected [OF assms(1,3-6)] unfolding assms(7) by blast
  have ok: "db_ok (pm_db pm1)"
    unfolding assms(7) using goodbye_peer_steps assms(1) by (rule db_steps_ok)
  have "\<not> is_connected (pm_db pm1) p" using g(2,3) by (simp add: is_connected_def db_connection_status_def)
  with g(1) closed_banned [OF ok assms(2) g(2-4) assms(8)] show ?thesis by blast
qed

lemma goodbye_bans_witness:
  "pm_events (goodbye_peer simple_env 3 1 Fault (two_peers duty_peer))
     = pm_events (two_peers duty_peer) @ [DisconnectPeer 1 Fault]"
proof -
  have "hm_get (peers (pm_db (two_peers duty_peer))) 1 = Some duty_peer" by (simp add: two_peers_def)
  moreover have "info_is_connected duty_peer" "\<not> info_exempt duty_peer" "\<not> score_is_banned duty_peer"
    by (simp_all add: duty_peer_def info_is_connected_def info_exempt_def score_is_banned_def score_state_of_def
        default_peer_info_def default_score_def default_real_score_def state_of_Real is_max_def score_consts)
  ultimately show ?thesis
    using goodbye_bans [OF two_peers_ok(1) simple_env_laws(2) _ _ _ _ refl refl, of 1 duty_peer 3 Fault 4] by blast
qed

end
