(* ===== verification/Limiter.thy ===== *)
theory Limiter
  imports Net_Types
begin

text \<open>
  \<open>Limiter\<close> of \<open>rpc/rate_limiter.rs\<close>: a token bucket per key in the form of the generic cell rate
  algorithm, computed on 64-bit nanoseconds.  The table keeps for every key the time at which its bucket
  is full again.  What a limiter promises is stated over unbounded numbers and refined by the words as
  long as they do not overflow.
\<close>

section \<open>Sixty-four bit arithmetic\<close>

definition saturating_sub64 :: "u64 \<Rightarrow> u64 \<Rightarrow> u64" where
  "saturating_sub64 a b = (if b \<le> a then a - b else 0)"

lemma unat_saturating_sub64: "unat (saturating_sub64 a b) = unat a - unat b"
  by (auto simp: saturating_sub64_def unat_sub word_le_nat_alt)

lemma unat_add_fits: "unat a + unat b < 2 ^ 64 \<Longrightarrow> unat (a + b) = unat a + unat (b :: u64)"
  using unat_add_lem [of a b] by simp

lemma unat_mult_fits: "unat a * unat b < 2 ^ 64 \<Longrightarrow> unat (a * b) = unat a * unat (b :: u64)"
  using unat_mult_lem [of a b] by simp

lemma unat_of_nat_fits: "n < 2 ^ 64 \<Longrightarrow> unat (of_nat n :: u64) = n"
  by (simp add: unat_of_nat)

section \<open>The limiter\<close>

record quota =
  replenish_all_every :: duration
  max_tokens :: u64

datatype rate_limited_err = TooLarge | TooSoon duration

record 'k limiter =
  tau :: u64
  replenish_one :: u64
  tat_per_key :: "('k, u64) hmap"

definition from_quota :: "quota \<Rightarrow> string + 'k limiter" where
  "from_quota q =
     (if max_tokens q = 0 then Inl ''Max number of tokens should be positive''
      else let full = replenish_all_every q in
        if full = 0 then Inl ''Replenish time must be positive''
        else if full div unat (max_tokens q) \<ge> 2 ^ 64 then Inl ''total replenish time is too long''
        else if full \<ge> 2 ^ 64 then Inl ''total replenish time is too long''
        else Inr \<lparr> tau = of_nat full, replenish_one = of_nat (full div unat (max_tokens q)),
                   tat_per_key = [] \<rparr>)"

definition limiter_allows ::
  "duration \<Rightarrow> 'k \<Rightarrow> u64 \<Rightarrow> 'k limiter \<Rightarrow> 'k limiter \<times> (rate_limited_err + unit)" where
  "limiter_allows time_since_start key tokens lim =
     (let now = (of_nat time_since_start :: u64);
          additional_time = replenish_one lim * tokens
      in if additional_time > tau lim then (lim, Inl TooLarge)
         else
           let tat = (case hm_get (tat_per_key lim) key of Some x \<Rightarrow> x | None \<Rightarrow> now);
               table = hm_insert key tat (tat_per_key lim);
               earliest_time = saturating_sub64 (tat + additional_time) (tau lim)
           in if now < earliest_time
              then (lim\<lparr>tat_per_key := table\<rparr>, Inl (TooSoon (unat (earliest_time - now))))
              else (lim\<lparr>tat_per_key := hm_insert key (max now tat + additional_time) table\<rparr>, Inr ()))"

definition limiter_prune :: "duration \<Rightarrow> 'k limiter \<Rightarrow> 'k limiter" where
  "limiter_prune time_limit lim =
     lim\<lparr>tat_per_key := hm_retain (\<lambda>_ tat. tat \<ge> of_nat time_limit) (tat_per_key lim)\<rparr>"

section \<open>The algorithm over unbounded numbers\<close>

text \<open>The same decision on natural numbers: from the theoretical arrival time of a key to the answer and
  the new arrival time.\<close>

definition gcra :: "nat \<Rightarrow> nat \<Rightarrow> nat \<Rightarrow> nat \<Rightarrow> nat \<Rightarrow> nat \<times> (rate_limited_err + unit)" where
  "gcra full one now tat tokens =
     (if one * tokens > full then (tat, Inl TooLarge)
      else if now < tat + one * tokens - full
      then (tat, Inl (TooSoon (tat + one * tokens - full - now)))
      else (max now tat + one * tokens, Inr ()))"

text \<open>What the table says of a key: missing keys have a full bucket now.\<close>

definition tat_at :: "'k limiter \<Rightarrow> nat \<Rightarrow> 'k \<Rightarrow> nat" where
  "tat_at lim now k = (case hm_get (tat_per_key lim) k of Some x \<Rightarrow> unat x | None \<Rightarrow> now)"

text \<open>No arrival time lies more than a full bucket ahead, and the clock is far from overflowing.\<close>

definition limiter_ok :: "nat \<Rightarrow> 'k limiter \<Rightarrow> bool" where
  "limiter_ok now lim \<longleftrightarrow> hm_ok (tat_per_key lim)
     \<and> (\<forall>k x. hm_get (tat_per_key lim) k = Some x \<longrightarrow> unat x \<le> now + unat (tau lim))"

definition clock_fits :: "'k limiter \<Rightarrow> nat \<Rightarrow> bool" where
  "clock_fits lim now \<longleftrightarrow> now + 2 * unat (tau lim) < 2 ^ 64"

definition tokens_fit :: "'k limiter \<Rightarrow> u64 \<Rightarrow> bool" where
  "tokens_fit lim tokens \<longleftrightarrow> unat (replenish_one lim) * unat tokens < 2 ^ 64"

lemma limiter_allows_params [simp]:
  "tau (fst (limiter_allows now k n lim)) = tau lim"
  "replenish_one (fst (limiter_allows now k n lim)) = replenish_one lim"
  by (simp_all add: limiter_allows_def Let_def)

lemma limiter_prune_params [simp]:
  "tau (limiter_prune now lim) = tau lim" "replenish_one (limiter_prune now lim) = replenish_one lim"
  by (simp_all add: limiter_prune_def)

text \<open>A request touches only the bucket of its own key.\<close>

lemma limiter_allows_other:
  "l \<noteq> k \<Longrightarrow>
     hm_get (tat_per_key (fst (limiter_allows now k n lim))) l = hm_get (tat_per_key lim) l"
  by (simp add: limiter_allows_def Let_def)

text \<open>The words compute the algorithm.\<close>

lemma limiter_allows_gcra:
  fixes lim :: "'k limiter" and k :: 'k
  assumes ok: "limiter_ok now lim" and clock: "clock_fits lim now" and fit: "tokens_fit lim n"
  defines "g \<equiv> gcra (unat (tau lim)) (unat (replenish_one lim)) now (tat_at lim now k) (unat n)"
  shows "snd (limiter_allows now k n lim) = snd g"
    and "tat_at (fst (limiter_allows now k n lim)) now k = fst g"
proof -
  let ?now = "of_nat now :: u64" and ?add = "replenish_one lim * n"
  let ?tat = "case hm_get (tat_per_key lim) k of Some x \<Rightarrow> x | None \<Rightarrow> ?now"
  have add: "unat ?add = unat (replenish_one lim) * unat n"
    using fit by (simp add: tokens_fit_def unat_mult_fits)
  have now: "unat ?now = now"
    using clock by (intro unat_of_nat_fits) (simp add: clock_fits_def)
  have tat: "unat ?tat = tat_at lim now k"
    using now by (simp add: tat_at_def split: option.split)
  have tat_le: "tat_at lim now k \<le> now + unat (tau lim)"
    using ok by (auto simp: tat_at_def limiter_ok_def split: option.split)
  show "snd (limiter_allows now k n lim) = snd g"
    and "tat_at (fst (limiter_allows now k n lim)) now k = fst g"
  proof (atomize (full), cases "?add > tau lim")
    case True
    then have "unat (tau lim) < unat (replenish_one lim) * unat n"
      using add by (simp add: word_less_nat_alt)
    with True show "snd (limiter_allows now k n lim) = snd g
        \<and> tat_at (fst (limiter_allows now k n lim)) now k = fst g"
      by (simp add: g_def gcra_def limiter_allows_def Let_def)
  next
    case False
    then have le: "unat (replenish_one lim) * unat n \<le> unat (tau lim)"
      using add by (simp add: word_less_nat_alt)
    then have sum: "unat (?tat + ?add) = tat_at lim now k + unat (replenish_one lim) * unat n"
      and sum2: "unat (max ?now ?tat + ?add) = max now (tat_at lim now k) + unat (replenish_one lim) * unat n"
      using tat tat_le add now clock
      by (subst unat_add_fits; simp add: clock_fits_def max_def word_le_nat_alt)+
    let ?e = "saturating_sub64 (?tat + ?add) (tau lim)"
    have e: "unat ?e = tat_at lim now k + unat (replenish_one lim) * unat n - unat (tau lim)"
      by (simp add: unat_saturating_sub64 sum)
    have lt: "?now < ?e \<longleftrightarrow> now < tat_at lim now k + unat (replenish_one lim) * unat n - unat (tau lim)"
      by (simp add: word_less_nat_alt now e)
    then have wait: "?now < ?e \<Longrightarrow> unat (?e - ?now) = unat ?e - now"
      using now by (subst unat_sub) (auto simp: word_le_nat_alt word_less_nat_alt)
    show "snd (limiter_allows now k n lim) = snd g
        \<and> tat_at (fst (limiter_allows now k n lim)) now k = fst g"
    proof (cases "?now < ?e")
      case True
      with False le lt wait e tat show ?thesis
        by (simp add: g_def gcra_def limiter_allows_def Let_def tat_at_def [of "_\<lparr>tat_per_key := _\<rparr>"])
    next
      case later: False
      with False le lt sum2 show ?thesis
        by (simp add: g_def gcra_def limiter_allows_def Let_def tat_at_def [of "_\<lparr>tat_per_key := _\<rparr>"])
    qed
  qed
qed

end
