(* ===== verification/Limiter_Props.thy ===== *)
theory Limiter_Props
  imports Limiter
begin

text \<open>
  What the limiter promises: pruning is invisible, a key never gets more than its bucket plus what is
  replenished meanwhile, and the waiting time it announces is exact.
\<close>

section \<open>Meters that forget\<close>

text \<open>A meter answers requests at given times; pruning drops what no longer matters.  The contract
  compares two states at a time: equal answers from then on.\<close>

datatype 'r meter_event = Ask nat 'r | Prune nat

fun event_time :: "'r meter_event \<Rightarrow> nat" where
  "event_time (Ask t r) = t"
| "event_time (Prune t) = t"

fun is_ask :: "'r meter_event \<Rightarrow> bool" where
  "is_ask (Ask t r) = True"
| "is_ask (Prune t) = False"

fun meter_run :: "(nat \<Rightarrow> 'r \<Rightarrow> 's \<Rightarrow> 's \<times> 'a) \<Rightarrow> (nat \<Rightarrow> 's \<Rightarrow> 's) \<Rightarrow> 'r meter_event list \<Rightarrow> 's \<Rightarrow> 'a list" where
  "meter_run ask prune [] s = []"
| "meter_run ask prune (Ask t r # es) s =
     (let (s', a) = ask t r s in a # meter_run ask prune es s')"
| "meter_run ask prune (Prune t # es) s = meter_run ask prune es (prune t s)"

locale pruned_meter =
  fixes ok :: "nat \<Rightarrow> 's \<Rightarrow> bool"
    and fits :: "nat \<Rightarrow> 'r \<Rightarrow> 's \<Rightarrow> bool"
    and sim :: "nat \<Rightarrow> 's \<Rightarrow> 's \<Rightarrow> bool"
    and ask :: "nat \<Rightarrow> 'r \<Rightarrow> 's \<Rightarrow> 's \<times> 'a"
    and prune :: "nat \<Rightarrow> 's \<Rightarrow> 's"
  assumes sim_refl: "sim T s s"
    and sim_later: "sim T s s' \<Longrightarrow> T \<le> T' \<Longrightarrow> sim T' s s'"
    and ok_later: "ok T s \<Longrightarrow> T \<le> T' \<Longrightarrow> ok T' s"
    and fits_ask: "fits t r (fst (ask t' r' s)) = fits t r s"
    and fits_prune: "fits t r (prune t' s) = fits t r s"
    and ok_ask: "ok now s \<Longrightarrow> fits now r s \<Longrightarrow> ok now (fst (ask now r s))"
    and ok_prune: "ok now s \<Longrightarrow> ok now (prune t s)"
    and sim_ask: "ok now s \<Longrightarrow> ok now s' \<Longrightarrow> sim now s s' \<Longrightarrow> fits now r s \<Longrightarrow> fits now r s' \<Longrightarrow>
      snd (ask now r s) = snd (ask now r s') \<and> sim now (fst (ask now r s)) (fst (ask now r s'))"
    and sim_prune: "ok now s \<Longrightarrow> sim now s s' \<Longrightarrow> sim now (prune now s) s'"
begin

lemma prune_invisible_sim:
  assumes "sim T s s'" and "ok T s" and "ok T s'"
    and "sorted (map event_time es)" and "\<forall>e \<in> set es. T \<le> event_time e"
    and "\<forall>t r. Ask t r \<in> set es \<longrightarrow> fits t r s \<and> fits t r s'"
  shows "meter_run ask prune es s = meter_run ask prune (filter is_ask es) s'"
  using assms
proof (induction es arbitrary: T s s')
  case (Cons e es)
  let ?now = "event_time e"
  have later: "sim ?now s s'" "ok ?now s" "ok ?now s'"
    using Cons.prems sim_later ok_later by (meson list.set_intros(1))+
  have rest: "sorted (map event_time es)" "\<forall>e' \<in> set es. ?now \<le> event_time e'"
    using Cons.prems(4) by auto
  show ?case
  proof (cases e)
    case (Ask t r)
    then have f: "fits t r s" "fits t r s'" using Cons.prems(6) by auto
    note sa = sim_ask [OF later(2,3,1), unfolded Ask event_time.simps, OF f]
    have "meter_run ask prune es (fst (ask t r s))
        = meter_run ask prune (filter is_ask es) (fst (ask t r s'))"
    proof (rule Cons.IH)
      show "sim t (fst (ask t r s)) (fst (ask t r s'))" using sa by blast
      show "ok t (fst (ask t r s))" "ok t (fst (ask t r s'))"
        using later f Ask by (auto intro: ok_ask)
    qed (use rest Cons.prems(6) Ask in \<open>auto simp: fits_ask\<close>)
    with sa Ask show ?thesis by (simp add: split_beta Let_def)
  next
    case (Prune t)
    have "meter_run ask prune es (prune t s) = meter_run ask prune (filter is_ask es) s'"
    proof (rule Cons.IH)
      show "sim t (prune t s) s'" "ok t (prune t s)" "ok t s'"
        using later Prune by (auto intro: sim_prune ok_prune)
    qed (use rest Cons.prems(6) Prune in \<open>auto simp: fits_prune\<close>)
    with Prune show ?thesis by simp
  qed
qed simp

lemma prune_invisible:
  assumes "ok T s" and "sorted (map event_time es)" and "\<forall>e \<in> set es. T \<le> event_time e"
    and "\<forall>t r. Ask t r \<in> set es \<longrightarrow> fits t r s"
  shows "meter_run ask prune es s = meter_run ask prune (filter is_ask es) s"
  using assms by (intro prune_invisible_sim [OF sim_refl]) auto

end

section \<open>The limiter is one\<close>

definition limiter_fits :: "nat \<Rightarrow> 'k \<times> u64 \<Rightarrow> 'k limiter \<Rightarrow> bool" where
  "limiter_fits now r lim \<longleftrightarrow> clock_fits lim now \<and> tokens_fit lim (snd r)"

definition same_buckets :: "nat \<Rightarrow> 'k limiter \<Rightarrow> 'k limiter \<Rightarrow> bool" where
  "same_buckets T a b \<longleftrightarrow> tau a = tau b \<and> replenish_one a = replenish_one b
     \<and> (\<forall>k. max T (tat_at a T k) = max T (tat_at b T k))"

definition limiter_ask ::
  "nat \<Rightarrow> 'k \<times> u64 \<Rightarrow> 'k limiter \<Rightarrow> 'k limiter \<times> (rate_limited_err + unit)" where
  "limiter_ask now r lim = limiter_allows now (fst r) (snd r) lim"

lemma gcra_max:
  assumes "max now a = max now b"
  shows "snd (gcra full one now a n) = snd (gcra full one now b n)"
    and "max now (fst (gcra full one now a n)) = max now (fst (gcra full one now b n))"
  using assms by (auto simp: gcra_def max_def split: if_splits)

lemma gcra_le:
  assumes "tat \<le> now + full"
  shows "fst (gcra full one now tat n) \<le> now + full"
  using assms by (auto simp: gcra_def)

lemma tat_at_le: "limiter_ok now lim \<Longrightarrow> tat_at lim now k \<le> now + unat (tau lim)"
  by (auto simp: tat_at_def limiter_ok_def split: option.split)

lemma max_tat_later:
  "T \<le> T' \<Longrightarrow> max T' (tat_at lim T' k) = max T' (max T (tat_at lim T k))"
  by (auto simp: tat_at_def split: option.split)

lemma max_tat_other:
  "hm_get (tat_per_key a) k = hm_get (tat_per_key b) k \<Longrightarrow> tat_at a T k = tat_at b T k"
  by (simp add: tat_at_def)

lemma hm_ok_allows: "hm_ok (tat_per_key lim) \<Longrightarrow> hm_ok (tat_per_key (fst (limiter_allows now k n lim)))"
  by (simp add: limiter_allows_def Let_def)

lemma limiter_ok_allows:
  assumes "limiter_ok now lim" and "clock_fits lim now" and "tokens_fit lim n"
  shows "limiter_ok now (fst (limiter_allows now k n lim))"
proof -
  let ?l = "fst (limiter_allows now k n lim)"
  note g = limiter_allows_gcra [OF assms, of k]
  have "unat x \<le> now + unat (tau lim)" if "hm_get (tat_per_key ?l) j = Some x" for j x
  proof (cases "j = k")
    case True
    have "tat_at ?l now k \<le> now + unat (tau lim)"
      unfolding g(2) by (rule gcra_le) (rule tat_at_le [OF assms(1)])
    with True that show ?thesis by (simp add: tat_at_def)
  next
    case False
    with that limiter_allows_other [OF False] assms(1) show ?thesis by (auto simp: limiter_ok_def)
  qed
  then show ?thesis using assms(1) hm_ok_allows [of lim] by (simp add: limiter_ok_def)
qed

lemma same_buckets_allows:
  assumes "limiter_ok now a" "limiter_ok now b" "same_buckets now a b"
    and "clock_fits a now" "tokens_fit a n"
  shows "snd (limiter_allows now k n a) = snd (limiter_allows now k n b)"
    and "same_buckets now (fst (limiter_allows now k n a)) (fst (limiter_allows now k n b))"
proof -
  have eq: "tau a = tau b" "replenish_one a = replenish_one b"
    and tat: "\<And>k. max now (tat_at a now k) = max now (tat_at b now k)"
    using assms(3) by (auto simp: same_buckets_def)
  have fb: "clock_fits b now" "tokens_fit b n"
    using assms(4,5) eq by (simp_all add: clock_fits_def tokens_fit_def)
  note ga = limiter_allows_gcra [OF assms(1,4,5), of k]
  note gb = limiter_allows_gcra [OF assms(2) fb, of k]
  show "snd (limiter_allows now k n a) = snd (limiter_allows now k n b)"
    unfolding ga(1) gb(1) eq by (rule gcra_max(1) [OF tat])
  have "max now (tat_at (fst (limiter_allows now k n a)) now j)
      = max now (tat_at (fst (limiter_allows now k n b)) now j)" for j
  proof (cases "j = k")
    case True
    show ?thesis unfolding True ga(2) gb(2) eq by (rule gcra_max(2) [OF tat])
  next
    case False
    with tat [of j] limiter_allows_other [OF False] show ?thesis by (simp add: tat_at_def)
  qed
  with eq show "same_buckets now (fst (limiter_allows now k n a)) (fst (limiter_allows now k n b))"
    by (simp add: same_buckets_def)
qed

lemma prune_tat:
  assumes "hm_ok (tat_per_key lim)"
  shows "max now (tat_at (limiter_prune now lim) now k) = max now (tat_at lim now k)"
proof -
  have "unat (of_nat now :: u64) \<le> now" by (simp add: unat_of_nat)
  then have "unat x \<le> now" if "\<not> (of_nat now :: u64) \<le> x" for x
    using that by (simp add: word_le_nat_alt)
  then show ?thesis
    using assms by (auto simp: tat_at_def limiter_prune_def hm_get_retain split: option.split)
qed

lemma limiter_ok_prune: "limiter_ok now lim \<Longrightarrow> limiter_ok now (limiter_prune t lim)"
  by (auto simp: limiter_ok_def limiter_prune_def hm_get_retain split: option.splits if_splits)

interpretation lim: pruned_meter limiter_ok limiter_fits same_buckets limiter_ask limiter_prune
proof
  fix T T' now t :: nat and r r' :: "'k \<times> u64" and s s' :: "'k limiter"
  show "same_buckets T s s" by (simp add: same_buckets_def)
  show "same_buckets T s s' \<Longrightarrow> T \<le> T' \<Longrightarrow> same_buckets T' s s'"
    by (simp add: same_buckets_def max_tat_later)
  show "limiter_ok T s \<Longrightarrow> T \<le> T' \<Longrightarrow> limiter_ok T' s"
    by (fastforce simp: limiter_ok_def)
  show "limiter_fits t r (fst (limiter_ask T r' s)) = limiter_fits t r s"
    "limiter_fits t r (limiter_prune T s) = limiter_fits t r s"
    by (simp_all add: limiter_fits_def limiter_ask_def clock_fits_def tokens_fit_def)
  show "limiter_ok now s \<Longrightarrow> limiter_fits now r s \<Longrightarrow> limiter_ok now (fst (limiter_ask now r s))"
    by (simp add: limiter_ask_def limiter_fits_def limiter_ok_allows)
  show "limiter_ok now s \<Longrightarrow> limiter_ok now (limiter_prune t s)" by (rule limiter_ok_prune)
  show "limiter_ok now s \<Longrightarrow> limiter_ok now s' \<Longrightarrow> same_buckets now s s' \<Longrightarrow> limiter_fits now r s \<Longrightarrow>
      limiter_fits now r s' \<Longrightarrow> snd (limiter_ask now r s) = snd (limiter_ask now r s')
      \<and> same_buckets now (fst (limiter_ask now r s)) (fst (limiter_ask now r s'))"
    by (simp add: limiter_ask_def limiter_fits_def same_buckets_allows)
  show "limiter_ok now s \<Longrightarrow> same_buckets now s s' \<Longrightarrow> same_buckets now (limiter_prune now s) s'"
    by (simp add: same_buckets_def prune_tat limiter_ok_def)
qed

section \<open>Tokens accepted\<close>

text \<open>The tokens a key has been granted in a run of requests.\<close>

fun granted :: "'k \<Rightarrow> (nat \<times> 'k \<times> u64) list \<Rightarrow> 'k limiter \<Rightarrow> nat" where
  "granted k [] lim = 0"
| "granted k ((t, j, n) # rs) lim =
     (let (lim', a) = limiter_allows t j n lim
      in (if j = k \<and> a = Inr () then unat n else 0) + granted k rs lim')"

lemma granted_bound:
  assumes "limiter_ok T lim" and "sorted (map fst rs)" and "\<forall>(t, _) \<in> set rs. T \<le> t \<and> t \<le> b"
    and "\<forall>(t, j, n) \<in> set rs. clock_fits lim t \<and> tokens_fit lim n" and "T \<le> b"
  shows "unat (replenish_one lim) * granted k rs lim + max T (tat_at lim T k) \<le> b + unat (tau lim)"
  using assms
proof (induction rs arbitrary: T lim)
  case Nil
  with tat_at_le [OF Nil(1), of k] show ?case by simp
next
  case (Cons r rs)
  obtain t j n where r: "r = (t, j, n)" by (metis prod_cases3)
  let ?l = "fst (limiter_allows t j n lim)" and ?a = "snd (limiter_allows t j n lim)"
  have t: "T \<le> t" "t \<le> b" and f: "clock_fits lim t" "tokens_fit lim n"
    using Cons.prems r by auto
  have ok: "limiter_ok t lim" using Cons.prems(1) t(1) by (rule lim.ok_later)
  have IH: "unat (replenish_one lim) * granted k rs ?l + max t (tat_at ?l t k) \<le> b + unat (tau lim)"
  proof (rule Cons.IH [of t ?l, simplified limiter_allows_params])
    show "limiter_ok t ?l" by (rule limiter_ok_allows [OF ok f])
  qed (use Cons.prems r t in \<open>auto simp: clock_fits_def tokens_fit_def\<close>)
  have mono: "max T (tat_at lim T k) \<le> max t (tat_at lim t k)"
    unfolding max_tat_later [OF t(1)] by simp
  note g = limiter_allows_gcra [OF ok f, of j]
  have "unat (replenish_one lim) * (if j = k \<and> ?a = Inr () then unat n else 0)
      + max t (tat_at lim t k) \<le> max t (tat_at ?l t k)"
  proof (cases "j = k")
    case True
    show ?thesis
      using g unfolding True by (auto simp: gcra_def max_def split: if_splits)
  next
    case False
    with limiter_allows_other [of k j t n lim] show ?thesis by (simp add: tat_at_def)
  qed
  moreover have "granted k (r # rs) lim
      = (if j = k \<and> ?a = Inr () then unat n else 0) + granted k rs ?l"
    by (simp add: r split_beta Let_def)
  ultimately show ?case
    using IH mono by (simp only: distrib_left)
qed

section \<open>Properties\<close>

text \<open>C9. Pruning the limiter never changes a decision: a run of requests and prunings in the order of
  their times gets the same answers as the requests alone, waiting times included, as long as the
  64-bit clock does not overflow.\<close>
theorem limiter_prune_invisible:
  assumes "limiter_ok T lim" and "sorted (map event_time es)" and "\<forall>e \<in> set es. T \<le> event_time e"
    and "\<forall>t r. Ask t r \<in> set es \<longrightarrow> limiter_fits t r lim"
  shows "meter_run limiter_ask limiter_prune es lim
       = meter_run limiter_ask limiter_prune (filter is_ask es) lim"
  using assms by (rule lim.prune_invisible)

lemma limiter_prune_invisible_witness:
  "meter_run limiter_ask limiter_prune [Ask 1 (7::nat, 1), Prune 9, Ask 12 (7, 2)]
      \<lparr>tau = 10, replenish_one = 5, tat_per_key = []\<rparr> = [Inr (), Inr ()]"
  by (subst limiter_prune_invisible [of 0])
     (auto simp: limiter_ok_def limiter_fits_def clock_fits_def tokens_fit_def limiter_ask_def
       limiter_allows_def saturating_sub64_def Let_def word_le_nat_alt word_less_nat_alt max_def)



text \<open>The waiting time of a refusal is exact: with no other request in between, the same request is
  refused at every earlier moment with the remaining time, and accepted when the time is over.\<close>
theorem limiter_wait_exact:
  assumes "limiter_ok now lim" and "clock_fits lim (now + w)" and "tokens_fit lim n"
    and "limiter_allows now k n lim = (lim', Inl (TooSoon w))" and "d \<le> w"
  shows "snd (limiter_allows (now + d) k n lim') = (if d < w then Inl (TooSoon (w - d)) else Inr ())"
proof -
  have c: "clock_fits lim now" "clock_fits lim (now + d)"
    using assms(2,5) by (simp_all add: clock_fits_def)
  note g = limiter_allows_gcra [OF assms(1) c(1) assms(3), of k]
  have p: "tau lim' = tau lim" "replenish_one lim' = replenish_one lim"
    using limiter_allows_params [of now k n lim] assms(4) by simp_all
  have ok: "limiter_ok (now + d) lim'"
    using limiter_ok_allows [OF assms(1) c(1) assms(3), of k] assms(4) by (auto intro: lim.ok_later)
  have f: "clock_fits lim' (now + d)" "tokens_fit lim' n"
    using c assms(3) p by (simp_all add: clock_fits_def tokens_fit_def)
  have keep: "tat_at lim' (now + d) k = tat_at lim now k"
    using assms(4) unat_of_nat_fits [of now] c(1)
    by (auto simp: limiter_allows_def Let_def tat_at_def clock_fits_def split: if_splits option.splits)
  show ?thesis
    unfolding limiter_allows_gcra(1) [OF ok f] keep p
    using g(1) assms(4,5) by (auto simp: gcra_def split: if_splits)
qed

lemma limiter_wait_exact_witness:
  "snd (limiter_allows (1 + 4) (7::nat) 1 \<lparr>tau = 10, replenish_one = 5, tat_per_key = [(7, 10)]\<rparr>)
     = Inr ()"
  using limiter_wait_exact [of 1 "\<lparr>tau = 10, replenish_one = 5, tat_per_key = [(7::nat, 10)]\<rparr>" 4 1 7
      "\<lparr>tau = 10, replenish_one = 5, tat_per_key = [(7, 10)]\<rparr>" 4]
  by (simp add: limiter_ok_def clock_fits_def tokens_fit_def limiter_allows_def saturating_sub64_def
      Let_def word_le_nat_alt word_less_nat_alt)

text \<open>A limiter built from a quota of \<open>max_tokens\<close> every period grants a peer it does not know yet any
  request of up to \<open>max_tokens\<close> tokens at once, as the comment on the quota says.\<close>
theorem quota_allows_burst:
  assumes "from_quota q = Inr lim" and "clock_fits lim now" and "n \<le> max_tokens q"
  shows "snd (limiter_allows now k n lim) = Inr ()"
proof -
  let ?full = "replenish_all_every q" and ?m = "unat (max_tokens q)"
  have lim: "unat (tau lim) = ?full" "unat (replenish_one lim) = ?full div ?m" "tat_per_key lim = []"
    using assms(1) by (auto simp: from_quota_def Let_def unat_of_nat_fits split: if_splits)
  have "?full div ?m * unat n \<le> ?full div ?m * ?m"
    using assms(3) by (simp add: word_le_nat_alt)
  also have "\<dots> \<le> ?full" by simp
  finally have le: "unat (replenish_one lim) * unat n \<le> unat (tau lim)" by (simp add: lim)
  have "limiter_ok now lim" by (simp add: limiter_ok_def lim)
  moreover have "tokens_fit lim n"
    using order_le_less_trans [OF le unsigned_less] by (simp add: tokens_fit_def)
  ultimately show ?thesis
    using le by (simp add: limiter_allows_gcra(1) [OF _ assms(2)] gcra_def tat_at_def lim(3))
qed

lemma quota_allows_burst_witness:
  "snd (limiter_allows 3 (7::nat) 4 \<lparr>tau = 10, replenish_one = 2, tat_per_key = []\<rparr>) = Inr ()"
  using quota_allows_burst [of "\<lparr>replenish_all_every = 10, max_tokens = 4\<rparr>"
      "\<lparr>tau = 10, replenish_one = 2, tat_per_key = []\<rparr>" 3 4 "7::nat"]
  by (simp add: from_quota_def clock_fits_def)

text \<open>The product of the replenish time and the tokens is taken modulo \<open>2 ^ 64\<close>: with the quota of 1024
  blocks every ten seconds a request for 1888946593148 blocks is accepted, although a request for 1025 is
  too large.\<close>
theorem limiter_product_wraps:
  "\<exists>lim :: nat limiter.
      from_quota \<lparr>replenish_all_every = from_secs 10, max_tokens = 1024\<rparr> = Inr lim
    \<and> snd (limiter_allows 0 7 1888946593148 lim) = Inr ()
    \<and> snd (limiter_allows 0 7 1025 lim) = Inl TooLarge"
  by (rule exI [of _ "\<lparr>tau = 10000000000, replenish_one = 9765625, tat_per_key = []\<rparr>"])
     (simp add: from_quota_def from_secs_def nanos_per_sec_def limiter_allows_def
       saturating_sub64_def Let_def)

end
