(* ===== verification/Rate_Limiter.thy ===== *)
theory Rate_Limiter
  imports Limiter_Props Rpc_Protocol
begin

text \<open>
  \<open>RPCRateLimiter\<close> of \<open>rpc/rate_limiter.rs\<close> and the behaviour of \<open>rpc/mod.rs\<close> that consults it: one limiter
  per protocol, built from quotas, asked for every inbound request before the request is passed on.
\<close>

section \<open>The builder\<close>

record rate_limiter_builder =
  goodbye_quota :: "quota option"
  ping_quota :: "quota option"
  metadata_quota :: "quota option"
  status_quota :: "quota option"
  bbrange_quota :: "quota option"
  bbroots_quota :: "quota option"

definition builder_new :: rate_limiter_builder where
  "builder_new = \<lparr> goodbye_quota = None, ping_quota = None, metadata_quota = None,
     status_quota = None, bbrange_quota = None, bbroots_quota = None \<rparr>"

definition set_quota :: "protocol_name \<Rightarrow> quota \<Rightarrow> rate_limiter_builder \<Rightarrow> rate_limiter_builder" where
  "set_quota p q b = (case p of
       ProtoPing \<Rightarrow> b\<lparr>ping_quota := Some q\<rparr>
     | ProtoStatus \<Rightarrow> b\<lparr>status_quota := Some q\<rparr>
     | ProtoMetaData \<Rightarrow> b\<lparr>metadata_quota := Some q\<rparr>
     | ProtoGoodbye \<Rightarrow> b\<lparr>goodbye_quota := Some q\<rparr>
     | ProtoBlocksByRange \<Rightarrow> b\<lparr>bbrange_quota := Some q\<rparr>
     | ProtoBlocksByRoot \<Rightarrow> b\<lparr>bbroots_quota := Some q\<rparr>)"

definition one_every :: "protocol_name \<Rightarrow> duration \<Rightarrow> rate_limiter_builder \<Rightarrow> rate_limiter_builder" where
  "one_every p period = set_quota p \<lparr>replenish_all_every = period, max_tokens = 1\<rparr>"

definition n_every ::
  "protocol_name \<Rightarrow> u64 \<Rightarrow> duration \<Rightarrow> rate_limiter_builder \<Rightarrow> rate_limiter_builder" where
  "n_every p n period = set_quota p \<lparr>replenish_all_every = period, max_tokens = n\<rparr>"

record rpc_rate_limiter =
  init_time :: instant
  goodbye_rl :: "peer_id limiter"
  ping_rl :: "peer_id limiter"
  metadata_rl :: "peer_id limiter"
  status_rl :: "peer_id limiter"
  bbrange_rl :: "peer_id limiter"
  bbroots_rl :: "peer_id limiter"

text \<open>\<open>ok_or(msg)?\<close> and \<open>?\<close> on a result.\<close>

definition ok_or :: "'a option \<Rightarrow> string \<Rightarrow> string + 'a" where
  "ok_or x msg = (case x of Some a \<Rightarrow> Inr a | None \<Rightarrow> Inl msg)"

definition and_then :: "'e + 'a \<Rightarrow> ('a \<Rightarrow> 'e + 'b) \<Rightarrow> 'e + 'b" where
  "and_then r f = (case r of Inl e \<Rightarrow> Inl e | Inr a \<Rightarrow> f a)"

lemma and_then_simps [simp]: "and_then (Inl e) f = Inl e" "and_then (Inr a) f = f a"
  by (simp_all add: and_then_def)

definition builder_build :: "instant \<Rightarrow> rate_limiter_builder \<Rightarrow> string + rpc_rate_limiter" where
  "builder_build now b =
     and_then (ok_or (ping_quota b) ''Ping quota not specified'') (\<lambda>ping_q.
     and_then (ok_or (metadata_quota b) ''MetaData quota not specified'') (\<lambda>metadata_q.
     and_then (ok_or (status_quota b) ''Status quota not specified'') (\<lambda>status_q.
     and_then (ok_or (goodbye_quota b) ''Goodbye quota not specified'') (\<lambda>goodbye_q.
     and_then (ok_or (bbroots_quota b) ''BlocksByRoot quota not specified'') (\<lambda>bbroots_q.
     and_then (ok_or (bbrange_quota b) ''BlocksByRange quota not specified'') (\<lambda>bbrange_q.
     and_then (from_quota ping_q) (\<lambda>ping_l.
     and_then (from_quota metadata_q) (\<lambda>metadata_l.
     and_then (from_quota status_q) (\<lambda>status_l.
     and_then (from_quota goodbye_q) (\<lambda>goodbye_l.
     and_then (from_quota bbroots_q) (\<lambda>bbroots_l.
     and_then (from_quota bbrange_q) (\<lambda>bbrange_l.
       Inr \<lparr> init_time = now, goodbye_rl = goodbye_l, ping_rl = ping_l, metadata_rl = metadata_l,
             status_rl = status_l, bbrange_rl = bbrange_l, bbroots_rl = bbroots_l \<rparr>))))))))))))"

section \<open>The limiter of all protocols\<close>

definition rl_of :: "protocol_name \<Rightarrow> rpc_rate_limiter \<Rightarrow> peer_id limiter" where
  "rl_of p rl = (case p of
       ProtoPing \<Rightarrow> ping_rl rl
     | ProtoStatus \<Rightarrow> status_rl rl
     | ProtoMetaData \<Rightarrow> metadata_rl rl
     | ProtoGoodbye \<Rightarrow> goodbye_rl rl
     | ProtoBlocksByRange \<Rightarrow> bbrange_rl rl
     | ProtoBlocksByRoot \<Rightarrow> bbroots_rl rl)"

definition rl_put :: "protocol_name \<Rightarrow> peer_id limiter \<Rightarrow> rpc_rate_limiter \<Rightarrow> rpc_rate_limiter" where
  "rl_put p l rl = (case p of
       ProtoPing \<Rightarrow> rl\<lparr>ping_rl := l\<rparr>
     | ProtoStatus \<Rightarrow> rl\<lparr>status_rl := l\<rparr>
     | ProtoMetaData \<Rightarrow> rl\<lparr>metadata_rl := l\<rparr>
     | ProtoGoodbye \<Rightarrow> rl\<lparr>goodbye_rl := l\<rparr>
     | ProtoBlocksByRange \<Rightarrow> rl\<lparr>bbrange_rl := l\<rparr>
     | ProtoBlocksByRoot \<Rightarrow> rl\<lparr>bbroots_rl := l\<rparr>)"

definition rl_allows ::
  "instant \<Rightarrow> peer_id \<Rightarrow> rpc_request \<Rightarrow> rpc_rate_limiter \<Rightarrow>
     rpc_rate_limiter \<times> (rate_limited_err + unit)" where
  "rl_allows now peer req rl =
     (let time_since_start = now - init_time rl;
          tokens = max (expected_responses req) 1;
          p = request_protocol req;
          (l, r) = limiter_allows time_since_start peer tokens (rl_of p rl)
      in (rl_put p l rl, r))"

definition rl_prune :: "instant \<Rightarrow> rpc_rate_limiter \<Rightarrow> rpc_rate_limiter" where
  "rl_prune now rl = (let t = now - init_time rl in
     rl\<lparr> ping_rl := limiter_prune t (ping_rl rl), status_rl := limiter_prune t (status_rl rl),
         metadata_rl := limiter_prune t (metadata_rl rl), goodbye_rl := limiter_prune t (goodbye_rl rl),
         bbrange_rl := limiter_prune t (bbrange_rl rl), bbroots_rl := limiter_prune t (bbroots_rl rl) \<rparr>)"

text \<open>Polling prunes once for every tick of the thirty-second interval that is due.\<close>

fun rl_poll :: "instant \<Rightarrow> nat \<Rightarrow> rpc_rate_limiter \<Rightarrow> rpc_rate_limiter" where
  "rl_poll now 0 rl = rl"
| "rl_poll now (Suc ticks) rl = rl_poll now ticks (rl_prune now rl)"

section \<open>The RPC behaviour\<close>

definition MAX_REQUEST_BLOCKS :: u64 where "MAX_REQUEST_BLOCKS = 1024"

definition rpc_limits_config :: "instant \<Rightarrow> string + rpc_rate_limiter" where
  "rpc_limits_config now = builder_build now
     (n_every ProtoBlocksByRoot 128 (from_secs 10)
     (n_every ProtoBlocksByRange MAX_REQUEST_BLOCKS (from_secs 10)
     (one_every ProtoGoodbye (from_secs 10)
     (n_every ProtoStatus 5 (from_secs 15)
     (n_every ProtoPing 2 (from_secs 10)
     (n_every ProtoMetaData 2 (from_secs 5) builder_new))))))"

datatype ('i, 'b) rpc_send =
    SendRequest 'i rpc_request
  | SendResponse nat "'b rpc_coded_response"
  | SendShutdown 'i goodbye_reason

datatype ('i, 'b) rpc_received =
    ReceivedRequest nat rpc_request
  | ReceivedResponse 'i "'b rpc_response"
  | ReceivedEndOfStream 'i response_termination

text \<open>What a handler reports: a received message or an error.\<close>

datatype ('i, 'b) handler_err =
    InboundErr nat protocol_name rpc_error
  | OutboundErr 'i protocol_name rpc_error

type_synonym ('i, 'b) handler_event = "('i, 'b) handler_err + ('i, 'b) rpc_received"

datatype notify_handler = NotifyOne nat | NotifyAny

datatype ('i, 'b) rpc_action =
    NotifyHandler peer_id notify_handler "('i, 'b) rpc_send"
  | GenerateEvent peer_id nat "('i, 'b) handler_event"

record ('i, 'b) rpc =
  rpc_limiter :: rpc_rate_limiter
  rpc_events :: "('i, 'b) rpc_action list"

definition rpc_new :: "instant \<Rightarrow> string + ('i, 'b) rpc" where
  "rpc_new now = map_sum id (\<lambda>l. \<lparr> rpc_limiter = l, rpc_events = [] \<rparr>) (rpc_limits_config now)"

definition rpc_push :: "('i, 'b) rpc_action \<Rightarrow> ('i, 'b) rpc \<Rightarrow> ('i, 'b) rpc" where
  "rpc_push a r = r\<lparr>rpc_events := rpc_events r @ [a]\<rparr>"

definition rpc_send_response ::
  "peer_id \<Rightarrow> nat \<times> nat \<Rightarrow> 'b rpc_coded_response \<Rightarrow> ('i, 'b) rpc \<Rightarrow> ('i, 'b) rpc" where
  "rpc_send_response p ids resp = rpc_push (NotifyHandler p (NotifyOne (fst ids)) (SendResponse (snd ids) resp))"

definition rpc_send_request :: "peer_id \<Rightarrow> 'i \<Rightarrow> rpc_request \<Rightarrow> ('i, 'b) rpc \<Rightarrow> ('i, 'b) rpc" where
  "rpc_send_request p i req = rpc_push (NotifyHandler p NotifyAny (SendRequest i req))"

definition rpc_shutdown :: "peer_id \<Rightarrow> 'i \<Rightarrow> goodbye_reason \<Rightarrow> ('i, 'b) rpc \<Rightarrow> ('i, 'b) rpc" where
  "rpc_shutdown p i reason = rpc_push (NotifyHandler p NotifyAny (SendShutdown i reason))"

text \<open>The text of a waiting time is the \<open>Debug\<close> format of a duration, a parameter.\<close>

definition rpc_inject_event ::
  "(duration \<Rightarrow> string) \<Rightarrow> instant \<Rightarrow> peer_id \<Rightarrow> nat \<Rightarrow> ('i, 'b) handler_event \<Rightarrow> ('i, 'b) rpc \<Rightarrow>
     ('i, 'b) rpc" where
  "rpc_inject_event show_duration now p conn event r = (case event of
       Inr (ReceivedRequest i req) \<Rightarrow>
         (let (l, answer) = rl_allows now p req (rpc_limiter r); r = r\<lparr>rpc_limiter := l\<rparr> in
          case answer of
            Inr _ \<Rightarrow> rpc_push (GenerateEvent p conn event) r
          | Inl TooLarge \<Rightarrow> rpc_send_response p (conn, i)
              (ErrorResp RateLimited (error_type_from ''Rate limited. Request too large'')) r
          | Inl (TooSoon wait) \<Rightarrow> rpc_send_response p (conn, i)
              (ErrorResp RateLimited (error_type_from (''Wait '' @ show_duration wait))) r)
     | _ \<Rightarrow> rpc_push (GenerateEvent p conn event) r)"

definition rpc_poll :: "instant \<Rightarrow> nat \<Rightarrow> ('i, 'b) rpc \<Rightarrow> ('i, 'b) rpc \<times> ('i, 'b) rpc_action option" where
  "rpc_poll now ticks r = (let r = r\<lparr>rpc_limiter := rl_poll now ticks (rpc_limiter r)\<rparr> in
     case rpc_events r of e # es \<Rightarrow> (r\<lparr>rpc_events := es\<rparr>, Some e) | [] \<Rightarrow> (r, None))"

section \<open>Properties\<close>

text \<open>The quotas the node is started with are valid, so building the limiter cannot panic, and they
  divide evenly: full bucket and time per token are as configured for every protocol.\<close>
theorem rpc_quotas_valid:
  "\<exists>rl. rpc_limits_config now = Inr rl \<and> (\<forall>p. tat_per_key (rl_of p rl) = [] \<and>
     (unat (tau (rl_of p rl)), unat (replenish_one (rl_of p rl))) = (case p of
         ProtoStatus \<Rightarrow> (15 * nanos_per_sec, 3 * nanos_per_sec)
       | ProtoGoodbye \<Rightarrow> (10 * nanos_per_sec, 10 * nanos_per_sec)
       | ProtoBlocksByRange \<Rightarrow> (10 * nanos_per_sec, 9765625)
       | ProtoBlocksByRoot \<Rightarrow> (10 * nanos_per_sec, 78125000)
       | ProtoPing \<Rightarrow> (10 * nanos_per_sec, 5 * nanos_per_sec)
       | ProtoMetaData \<Rightarrow> (5 * nanos_per_sec, 2500000000)))"
  by (simp add: rpc_limits_config_def builder_build_def n_every_def one_every_def set_quota_def
      builder_new_def ok_or_def from_quota_def from_secs_def nanos_per_sec_def Let_def
      MAX_REQUEST_BLOCKS_def rl_of_def split: protocol_name.split)

lemma rl_of_put: "rl_of q (rl_put p l rl) = (if q = p then l else rl_of q rl)"
  by (cases p; cases q) (simp_all add: rl_of_def rl_put_def)

text \<open>C10. An inbound request is handed to the application exactly when the limiter of its protocol grants
  it to the peer; otherwise the peer gets one rate-limited error on the substream of the request.  The
  request leaves the buckets of every other peer and of every other protocol as they were.\<close>
theorem rpc_request_gate:
  assumes "q \<noteq> p \<or> proto \<noteq> request_protocol req"
  shows "hm_get (tat_per_key (rl_of proto (rpc_limiter
          (rpc_inject_event f now p conn (Inr (ReceivedRequest i req)) r)))) q
        = hm_get (tat_per_key (rl_of proto (rpc_limiter r))) q
    \<and> (\<exists>a. rpc_events (rpc_inject_event f now p conn (Inr (ReceivedRequest i req)) r) = rpc_events r @ [a]
        \<and> (if snd (limiter_allows (now - init_time (rpc_limiter r)) p (max (expected_responses req) 1)
                 (rl_of (request_protocol req) (rpc_limiter r))) = Inr ()
           then a = GenerateEvent p conn (Inr (ReceivedRequest i req))
           else \<exists>msg. a = NotifyHandler p (NotifyOne conn) (SendResponse i (ErrorResp RateLimited msg))))"
proof -
  let ?rl = "rl_of (request_protocol req) (rpc_limiter r)"
  obtain l a where la: "limiter_allows (now - init_time (rpc_limiter r)) p
      (max (expected_responses req) 1) ?rl = (l, a)" by force
  have other: "hm_get (tat_per_key l) q = hm_get (tat_per_key ?rl) q" if "q \<noteq> p"
    using limiter_allows_other [OF that, of _ _ ?rl] la by (metis fst_conv)
  show ?thesis
    using assms other la
    by (auto simp: rpc_inject_event_def rl_allows_def Let_def rpc_push_def rpc_send_response_def
        rl_of_put split: sum.split rate_limited_err.split)
qed

lemma rpc_request_gate_witness:
  "\<exists>a. rpc_events (rpc_inject_event (\<lambda>_. []) 0 1 2 (Inr (ReceivedRequest 3 ReqMetaData))
      (\<lparr>rpc_limiter = projr (rpc_limits_config 0), rpc_events = []\<rparr> :: (nat, nat) rpc)) = [] @ [a]"
  using rpc_request_gate [of 2 1 ProtoPing ReqMetaData "\<lambda>_. []" 0 2 3
      "\<lparr>rpc_limiter = projr (rpc_limits_config 0), rpc_events = []\<rparr> :: (nat, nat) rpc"] by auto

end
