(* ===== verification/Delay_Queue.thy ===== *)
theory Delay_Queue
  imports Prelude
begin

text \<open>
  The delay queue of the tokio library, which the gossip cache and the RPC handler use: items with a
  deadline, kept under a key.  It is a parameter of the definitions that use it; \<open>dq_laws\<close> is its
  documented effect on the items it holds under their keys.
\<close>

section \<open>Operations and laws\<close>

datatype 'x poll_expired = Expired nat 'x | TimerError string | QueueEmpty | QueuePending

record ('q, 'x) delay_queue =
  dq_default :: 'q
  dq_insert :: "'x \<Rightarrow> instant \<Rightarrow> 'q \<Rightarrow> 'q \<times> nat"
  dq_reset :: "nat \<Rightarrow> instant \<Rightarrow> 'q \<Rightarrow> 'q"
  dq_remove :: "nat \<Rightarrow> 'q \<Rightarrow> 'q"
  dq_poll :: "instant \<Rightarrow> 'q \<Rightarrow> 'q \<times> 'x poll_expired"
  dq_at :: "'q \<Rightarrow> nat \<Rightarrow> ('x \<times> instant) option"

definition dq_laws :: "('q, 'x) delay_queue \<Rightarrow> bool" where
  "dq_laws Q \<longleftrightarrow> (\<forall>k. dq_at Q (dq_default Q) k = None)
     \<and> (\<forall>x t q q' k. dq_insert Q x t q = (q', k) \<longrightarrow>
          dq_at Q q k = None \<and> dq_at Q q' = (dq_at Q q)(k := Some (x, t)))
     \<and> (\<forall>k t q x u. dq_at Q q k = Some (x, u) \<longrightarrow> dq_at Q (dq_reset Q k t q) = (dq_at Q q)(k := Some (x, t)))
     \<and> (\<forall>k q. dq_at Q (dq_remove Q k q) = (dq_at Q q)(k := None))
     \<and> (\<forall>now q q' k x. dq_poll Q now q = (q', Expired k x) \<longrightarrow>
          (\<exists>t \<le> now. dq_at Q q k = Some (x, t)) \<and> dq_at Q q' = (dq_at Q q)(k := None))
     \<and> (\<forall>now q q' e. dq_poll Q now q = (q', e) \<and> (\<forall>k x. e \<noteq> Expired k x) \<longrightarrow> dq_at Q q' = dq_at Q q)
     \<and> (\<forall>q. finite (dom (dq_at Q q)))"

lemma dq_lawsD:
  assumes "dq_laws Q"
  shows "dq_insert Q x t q = (q', k) \<Longrightarrow> dq_at Q q k = None"
    and "dq_insert Q x t q = (q', k) \<Longrightarrow> dq_at Q q' = (dq_at Q q)(k := Some (x, t))"
    and "dq_at Q q k = Some (x, u) \<Longrightarrow> dq_at Q (dq_reset Q k t q) = (dq_at Q q)(k := Some (x, t))"
    and "dq_poll Q now q = (q', Expired k x) \<Longrightarrow> \<exists>t. dq_at Q q k = Some (x, t)"
    and "dq_poll Q now q = (q', Expired k x) \<Longrightarrow> dq_at Q q' = (dq_at Q q)(k := None)"
    and "dq_poll Q now q = (q', e) \<Longrightarrow> \<forall>k x. e \<noteq> Expired k x \<Longrightarrow> dq_at Q q' = dq_at Q q"
  using assms unfolding dq_laws_def by (elim conjE; metis)+

section \<open>Items that know their timer\<close>

text \<open>A client of the queue keeps for each of its items at most one key, and the queue holds exactly these
  keys: \<open>look\<close> is the client's table.\<close>

definition tracked :: "('q, 'x) delay_queue \<Rightarrow> 'q \<Rightarrow> ('x \<Rightarrow> nat option) \<Rightarrow> bool" where
  "tracked Q q look \<longleftrightarrow> (\<forall>x k. look x = Some k \<longleftrightarrow> (\<exists>t. dq_at Q q k = Some (x, t)))"

lemma trackedD: "tracked Q q look \<Longrightarrow> look x = Some k \<Longrightarrow> \<exists>t. dq_at Q q k = Some (x, t)"
  by (simp add: tracked_def)

lemma tracked_default: "dq_laws Q \<Longrightarrow> tracked Q (dq_default Q) (\<lambda>_. None)"
  by (simp add: dq_laws_def tracked_def)

lemma tracked_inj:
  assumes "tracked Q q look" and "look x = Some k" and "look y = Some k"
  shows "x = y"
proof -
  from assms obtain t u where "dq_at Q q k = Some (x, t)" "dq_at Q q k = Some (y, u)"
    unfolding tracked_def by blast
  then show ?thesis by simp
qed

lemma tracked_insert:
  assumes Q: "dq_laws Q" and tr: "tracked Q q look" and "look x = None" and "dq_insert Q x t q = (q', k)"
  shows "tracked Q q' (look(x := Some k))"
proof -
  have new: "dq_at Q q k = None" "dq_at Q q' = (dq_at Q q)(k := Some (x, t))"
    using dq_lawsD(1,2) [OF Q] assms(4) by blast+
  have "(look(x := Some k)) y = Some j \<longleftrightarrow> (\<exists>t. dq_at Q q' j = Some (y, t))" for y j
    using tr [unfolded tracked_def, rule_format, of y j] assms(3) new by auto
  then show ?thesis by (simp add: tracked_def)
qed

lemma tracked_reset:
  assumes Q: "dq_laws Q" and tr: "tracked Q q look" and "look x = Some k"
  shows "tracked Q (dq_reset Q k t q) look"
proof -
  obtain u where u: "dq_at Q q k = Some (x, u)" using trackedD [OF tr assms(3)] by blast
  have "(\<exists>v. dq_at Q (dq_reset Q k t q) j = Some (y, v)) \<longleftrightarrow> (\<exists>v. dq_at Q q j = Some (y, v))" for y j
    unfolding dq_lawsD(3) [OF Q u] by (cases "j = k") (simp_all add: u)
  with tr show ?thesis by (simp add: tracked_def)
qed

lemma tracked_gone:
  assumes "tracked Q q look" and "look x = Some k" and "dq_at Q q' = (dq_at Q q)(k := None)"
  shows "tracked Q q' (look(x := None))"
proof -
  have tr: "look y = Some j \<longleftrightarrow> (\<exists>t. dq_at Q q j = Some (y, t))" for y j
    using assms(1) by (simp add: tracked_def)
  have "(look(x := None)) y = Some j \<longleftrightarrow> (\<exists>t. dq_at Q q' j = Some (y, t))" for y j
  proof (cases "j = k")
    case True
    then show ?thesis using tracked_inj [OF assms(1,2), of y] by (auto simp: assms(3))
  next
    case False
    then show ?thesis using assms(2) by (cases "y = x") (simp_all add: assms(3) tr [symmetric])
  qed
  then show ?thesis by (simp add: tracked_def)
qed

lemma tracked_remove:
  assumes "dq_laws Q" and "tracked Q q look" and "look x = Some k"
  shows "tracked Q (dq_remove Q k q) (look(x := None))"
proof (rule tracked_gone [OF assms(2,3)])
  show "dq_at Q (dq_remove Q k q) = (dq_at Q q)(k := None)" using assms(1) by (simp add: dq_laws_def)
qed

lemma tracked_expired:
  assumes "dq_laws Q" and "tracked Q q look" and "dq_poll Q now q = (q', Expired k x)"
  shows "look x = Some k" and "tracked Q q' (look(x := None))"
proof -
  show "look x = Some k"
    using assms(2) dq_lawsD(4) [OF assms(1,3)] by (simp add: tracked_def)
  then show "tracked Q q' (look(x := None))"
    using tracked_gone [OF assms(2)] dq_lawsD(5) [OF assms(1,3)] by blast
qed

lemma tracked_quiet:
  assumes "dq_laws Q" and "tracked Q q look" and "dq_poll Q now q = (q', e)" and "\<forall>k x. e \<noteq> Expired k x"
  shows "tracked Q q' look"
  using assms(2) dq_lawsD(6) [OF assms(1,3,4)] by (simp add: tracked_def)

text \<open>Taking expired items one by one comes to an end: each leaves one key fewer.\<close>

lemma expired_fewer:
  assumes "dq_laws Q" and "dq_poll Q now q = (q', Expired k x)"
  shows "card (dom (dq_at Q q')) < card (dom (dq_at Q q))"
proof -
  have "finite (dom (dq_at Q q))" using assms(1) by (simp add: dq_laws_def)
  moreover have "k \<in> dom (dq_at Q q)" using dq_lawsD(4) [OF assms] by auto
  moreover have "dom (dq_at Q q') = dom (dq_at Q q) - {k}"
    unfolding dq_lawsD(5) [OF assms] by simp
  ultimately show ?thesis by (simp only: card_Diff1_less)
qed

section \<open>An instance\<close>

text \<open>A counter and a table.\<close>

definition list_dq :: "(nat \<times> (nat, 'x \<times> instant) hmap, 'x) delay_queue" where
  "list_dq = \<lparr> dq_default = (0, []),
     dq_insert = (\<lambda>x t (n, m). ((Suc n, (n, x, t) # m), n)),
     dq_reset = (\<lambda>k t (n, m). (n, hm_adjust k (\<lambda>(x, _). (x, t)) m)),
     dq_remove = (\<lambda>k (n, m). (n, hm_retain (\<lambda>j _. j \<noteq> k) m)),
     dq_poll = (\<lambda>now (n, m).
       case List.find (\<lambda>k. case hm_get m k of Some (x, t) \<Rightarrow> t \<le> now | None \<Rightarrow> False) [0..<n] of
         None \<Rightarrow> ((n, m), QueuePending)
       | Some k \<Rightarrow> ((n, hm_retain (\<lambda>j _. j \<noteq> k) m), Expired k (fst (the (hm_get m k))))),
     dq_at = (\<lambda>(n, m) k. if k < n then hm_get m k else None) \<rparr>"

lemma hm_get_retain_keys: "hm_get (hm_retain (\<lambda>j _. j \<noteq> k) m) i = (if i = k then None else hm_get m i)"
  by (induction m) (auto simp: hm_retain_def)

lemma list_dq_poll:
  assumes "dq_poll list_dq now (n, m) = (q', e)"
  shows "e = QueuePending \<and> q' = (n, m) \<or> (\<exists>k x t. e = Expired k x \<and> k < n \<and> t \<le> now
      \<and> hm_get m k = Some (x, t) \<and> q' = (n, hm_retain (\<lambda>j _. j \<noteq> k) m))"
proof (cases "List.find (\<lambda>k. case hm_get m k of Some (x, t) \<Rightarrow> t \<le> now | None \<Rightarrow> False) [0..<n]")
  case None
  with assms show ?thesis by (simp add: list_dq_def)
next
  case (Some k)
  have sat: "x \<in> set xs \<and> P x" if "List.find P xs = Some x" for P xs and x :: nat
    using that by (induction xs) (auto split: if_splits)
  from sat [OF Some] obtain x t where "k < n" "hm_get m k = Some (x, t)" "t \<le> now"
    by (auto split: option.splits)
  with Some assms show ?thesis by (auto simp: list_dq_def)
qed

lemma list_dq_at: "dq_at list_dq (n, m) k = (if k < n then hm_get m k else None)"
  by (simp add: list_dq_def)

lemma list_dq_laws: "dq_laws list_dq"
  unfolding dq_laws_def
proof (intro conjI allI impI, goal_cases)
  case (3 x t q q' k)
  then show ?case by (cases q) (auto simp: list_dq_def fun_eq_iff split: if_splits)
next
  case (4 k t q x u)
  then show ?case
    by (cases q) (auto simp: list_dq_def fun_eq_iff hm_get_adjust split: if_splits)
next
  case (5 k q)
  then show ?case by (cases q) (auto simp: list_dq_def fun_eq_iff hm_get_retain_keys)
next
  case (6 now q q' k x)
  then show ?case using list_dq_poll [of now "fst q" "snd q" q' "Expired k x"]
    by (cases q) (auto simp: list_dq_at)
next
  case (7 now q q' k x)
  then show ?case using list_dq_poll [of now "fst q" "snd q" q' "Expired k x"]
    by (cases q) (auto simp: list_dq_at fun_eq_iff hm_get_retain_keys)
next
  case (8 now q q' e)
  then show ?case using list_dq_poll [of now "fst q" "snd q" q' e] by (cases q) auto
next
  case (9 q)
  have "dom (dq_at list_dq q) \<subseteq> {..<fst q}" by (cases q) (auto simp: list_dq_at split: if_splits)
  then show ?case by (rule finite_subset) simp
qed (auto simp: list_dq_def)

end
