(* ===== verification/Handler.thy ===== *)
theory Handler
  imports Rate_Limiter Delay_Queue
begin

text \<open>
  \<open>rpc/handler.rs\<close>: the handler of one connection.  It keeps the inbound substreams on which it answers
  the peer's requests, the outbound substreams on which it waits for answers, a queue of requests to
  dial and a queue of events for the behaviour.  Substreams are opaque: what polling one gives is the
  parameter \<open>io\<close>, and the two delay queues are the parameter \<open>Q\<close>.  A method of the code is one
  definition; the loops of \<open>poll\<close> are definitions of their own, composed by \<open>handler_poll\<close>.
\<close>

section \<open>Data\<close>

definition RESPONSE_TIMEOUT :: nat where "RESPONSE_TIMEOUT = 10"
definition IO_ERROR_RETRIES :: u8 where "IO_ERROR_RETRIES = 3"
definition SHUTDOWN_TIMEOUT_SECS :: nat where "SHUTDOWN_TIMEOUT_SECS = 15"
definition MAX_INBOUND_SUBSTREAMS :: nat where "MAX_INBOUND_SUBSTREAMS = 32"

datatype 'a poll = Pending | Ready 'a

text \<open>The operations of a framed substream: a poll of a running \<open>send\<close> or \<open>close\<close>, and of the stream of
  responses, where \<open>Ready None\<close> is the end of the stream; how the text of an error is read; and for how many
  responses memory can be reserved.\<close>

record ('s, 'b) substream_io =
  io_send :: "'b rpc_coded_response \<Rightarrow> 's \<Rightarrow> 's \<times> (rpc_error + unit) poll"
  io_close :: "'s \<Rightarrow> 's \<times> (rpc_error + unit) poll"
  io_next :: "'s \<Rightarrow> 's \<times> (rpc_error + 'b rpc_coded_response) option poll"
  io_text :: text_api
  io_reserve :: "u64 \<Rightarrow> bool"

text \<open>The future of \<open>send_message_to_inbound_substream\<close>: it sends the message, or has the result of
  sending and closes the substream.\<close>

datatype ('s, 'b) send_future =
    Sending 's "'b rpc_coded_response" bool
  | ClosingAfter 's "rpc_error + unit"

datatype ('s, 'b) inbound_state = InIdle 's | InBusy "('s, 'b) send_future" | InPoisoned

record ('s, 'b) inbound_info =
  in_state :: "('s, 'b) inbound_state"
  pending_items :: "'b rpc_coded_response list"
  in_protocol :: protocol_name
  in_remaining_chunks :: u64
  request_start_time :: instant
  in_delay_key :: "nat option"

datatype 's outbound_substream_state =
    RequestPendingResponse 's rpc_request
  | OutClosing 's
  | OutPoisoned

record ('s, 'i) outbound_info =
  out_state :: "'s outbound_substream_state"
  out_delay_key :: nat
  out_proto :: protocol_name
  out_remaining_chunks :: "u64 option"
  req_id :: 'i

text \<open>The shutdown timer is the moment at which it fires.\<close>

datatype handler_state = HandlerActive | ShuttingDown instant | Deactivated

record ('q, 's, 'i, 'b) handler =
  events_out :: "('i, 'b) handler_event list"
  dial_queue :: "('i \<times> rpc_request) list"
  dial_negotiated :: "32 word"
  inbound_substreams :: "(nat, ('s, 'b) inbound_info) hmap"
  inbound_substreams_delay :: 'q
  outbound_substreams :: "(nat, ('s, 'i) outbound_info) hmap"
  outbound_substreams_delay :: 'q
  current_inbound_substream_id :: nat
  current_outbound_substream_id :: nat
  max_dial_negotiated :: "32 word"
  handler_st :: handler_state
  outbound_io_error_retries :: u8

definition handler_new :: "('q, nat) delay_queue \<Rightarrow> ('q, 's, 'i, 'b) handler" where
  "handler_new Q = \<lparr> events_out = [], dial_queue = [], dial_negotiated = 0, inbound_substreams = [],
     inbound_substreams_delay = dq_default Q, outbound_substreams = [],
     outbound_substreams_delay = dq_default Q, current_inbound_substream_id = 0,
     current_outbound_substream_id = 0, max_dial_negotiated = 8, handler_st = HandlerActive,
     outbound_io_error_retries = 0 \<rparr>"

section \<open>Requests, responses and shutdown\<close>

definition emit :: "('i, 'b) handler_event \<Rightarrow> ('q, 's, 'i, 'b) handler \<Rightarrow> ('q, 's, 'i, 'b) handler" where
  "emit e h = h\<lparr>events_out := events_out h @ [e]\<rparr>"

definition disconnected_err :: "'i \<times> rpc_request \<Rightarrow> ('i, 'b) handler_event" where
  "disconnected_err r = Inl (OutboundErr (fst r) (request_protocol (snd r)) RpcDisconnected)"

text \<open>The queue is popped from its end, so the newest request is reported first.\<close>

definition handler_shutdown ::
  "instant \<Rightarrow> ('i \<times> goodbye_reason) option \<Rightarrow> ('q, 's, 'i, 'b) handler \<Rightarrow> ('q, 's, 'i, 'b) handler" where
  "handler_shutdown now goodbye h = (if handler_st h = HandlerActive
     then h\<lparr> events_out := events_out h @ map disconnected_err (rev (dial_queue h)),
             dial_queue := (case goodbye of Some (i, reason) \<Rightarrow> [(i, ReqGoodbye reason)] | None \<Rightarrow> []),
             handler_st := ShuttingDown (now + from_secs SHUTDOWN_TIMEOUT_SECS) \<rparr>
     else h)"

definition handler_send_request ::
  "'i \<Rightarrow> rpc_request \<Rightarrow> ('q, 's, 'i, 'b) handler \<Rightarrow> ('q, 's, 'i, 'b) handler" where
  "handler_send_request i req h = (case handler_st h of
       HandlerActive \<Rightarrow> h\<lparr>dial_queue := dial_queue h @ [(i, req)]\<rparr>
     | _ \<Rightarrow> emit (disconnected_err (i, req)) h)"

definition handler_send_response ::
  "('s, 'b) substream_io \<Rightarrow> nat \<Rightarrow> 'b rpc_coded_response \<Rightarrow>
     ('q, 's, 'i, 'b) handler \<Rightarrow> ('q, 's, 'i, 'b) handler" where
  "handler_send_response io i resp h = (case hm_get (inbound_substreams h) i of
       None \<Rightarrow> h
     | Some info \<Rightarrow>
         (let h = (case resp of
                     ErrorResp code reason \<Rightarrow>
                       emit (Inl (InboundErr i (in_protocol info) (ErrorResponse code (error_type_to_string (io_text io) reason)))) h
                   | _ \<Rightarrow> h)
          in if handler_st h = Deactivated then h
             else h\<lparr>inbound_substreams :=
                 hm_insert i (info\<lparr>pending_items := pending_items info @ [resp]\<rparr>) (inbound_substreams h)\<rparr>))"

definition handler_inject_event ::
  "('s, 'b) substream_io \<Rightarrow> instant \<Rightarrow> ('i, 'b) rpc_send \<Rightarrow>
     ('q, 's, 'i, 'b) handler \<Rightarrow> ('q, 's, 'i, 'b) handler" where
  "handler_inject_event io now ev h = (case ev of
       SendRequest i req \<Rightarrow> handler_send_request i req h
     | SendResponse i resp \<Rightarrow> handler_send_response io i resp h
     | SendShutdown i reason \<Rightarrow> handler_shutdown now (Some (i, reason)) h)"

section \<open>Negotiated substreams\<close>

text \<open>A goodbye from the peer starts the shutdown; then the request is reported under its id.\<close>

definition accept_request ::
  "instant \<Rightarrow> rpc_request \<Rightarrow> ('q, 's, 'i, 'b) handler \<Rightarrow> ('q, 's, 'i, 'b) handler" where
  "accept_request now req h =
     (let h = (case req of ReqGoodbye _ \<Rightarrow> handler_shutdown now None h | _ \<Rightarrow> h);
          i = current_inbound_substream_id h
      in (emit (Inr (ReceivedRequest i req)) h)\<lparr>current_inbound_substream_id := i + 1\<rparr>)"

text \<open>The queue of responses is made with room for all that are expected; \<open>None\<close> is the panic when there is no
  such room.\<close>

definition negotiated_inbound ::
  "('s, 'b) substream_io \<Rightarrow> ('q, nat) delay_queue \<Rightarrow> instant \<Rightarrow> rpc_request \<Rightarrow> 's \<Rightarrow> ('q, 's, 'i, 'b) handler \<Rightarrow>
     ('q, 's, 'i, 'b) handler option" where
  "negotiated_inbound io Q now req s h = (if handler_st h \<noteq> HandlerActive then Some h
     else
       let expected = expected_responses req; i = current_inbound_substream_id h
       in if expected > 0
          then if length (inbound_substreams h) < MAX_INBOUND_SUBSTREAMS
            then if \<not> io_reserve io expected then None
                 else let (q, key) = dq_insert Q i (now + from_secs RESPONSE_TIMEOUT) (inbound_substreams_delay h)
                 in Some (accept_request now req (h\<lparr> inbound_substreams_delay := q,
                      inbound_substreams := hm_insert i
                        \<lparr> in_state = InIdle s, pending_items = [], in_protocol = request_protocol req,
                          in_remaining_chunks = expected, request_start_time = now,
                          in_delay_key = Some key \<rparr> (inbound_substreams h) \<rparr>))
            else Some (handler_shutdown now None
                   (emit (Inl (InboundErr i (request_protocol req) HandlerRejected)) h))
          else Some (accept_request now req h))"

definition negotiated_outbound ::
  "('q, nat) delay_queue \<Rightarrow> instant \<Rightarrow> 's \<Rightarrow> 'i \<times> rpc_request \<Rightarrow> ('q, 's, 'i, 'b) handler \<Rightarrow>
     ('q, 's, 'i, 'b) handler" where
  "negotiated_outbound Q now s r h =
     (let (i, req) = r; proto = request_protocol req;
          h = h\<lparr>dial_negotiated := dial_negotiated h - 1\<rparr>;
          h = (if handler_st h = Deactivated then emit (Inl (OutboundErr i proto RpcDisconnected)) h else h);
          expected = expected_responses req
      in if expected > 0
         then let o_id = current_outbound_substream_id h;
                  (q, key) = dq_insert Q o_id (now + from_secs RESPONSE_TIMEOUT) (outbound_substreams_delay h)
              in h\<lparr> outbound_substreams_delay := q,
                    outbound_substreams := hm_insert o_id
                      \<lparr> out_state = RequestPendingResponse s req, out_delay_key = key, out_proto = proto,
                        out_remaining_chunks = (if expected > 1 then Some expected else None),
                        req_id = i \<rparr> (outbound_substreams h),
                    current_outbound_substream_id := o_id + 1 \<rparr>
         else h)"

text \<open>Why an outbound upgrade failed, as libp2p reports it.\<close>

datatype upgrade_err =
    UpgradeTimer
  | UpgradeTimeout
  | UpgradeApply rpc_error
  | NegotiationFailed
  | NegotiationIo string
  | NegotiationInvalidProtocol
  | NegotiationInvalidMessage
  | NegotiationTooManyProtocols

fun upgrade_rpc_error :: "upgrade_err \<Rightarrow> rpc_error" where
  "upgrade_rpc_error UpgradeTimer = InternalError ''Timer failed''"
| "upgrade_rpc_error UpgradeTimeout = NegotiationTimeout"
| "upgrade_rpc_error (UpgradeApply e) = e"
| "upgrade_rpc_error NegotiationFailed = UnsupportedProtocol"
| "upgrade_rpc_error (NegotiationIo e) = IoError e"
| "upgrade_rpc_error NegotiationInvalidProtocol = InternalError ''Protocol was deemed invalid''"
| "upgrade_rpc_error NegotiationInvalidMessage = InvalidData ''Invalid message during negotiation''"
| "upgrade_rpc_error NegotiationTooManyProtocols = InvalidData ''Invalid message during negotiation''"

fun is_io_error :: "upgrade_err \<Rightarrow> bool" where
  "is_io_error (UpgradeApply (IoError _)) = True"
| "is_io_error _ = False"

definition dial_upgrade_error ::
  "'i \<times> rpc_request \<Rightarrow> upgrade_err \<Rightarrow> ('q, 's, 'i, 'b) handler \<Rightarrow> ('q, 's, 'i, 'b) handler" where
  "dial_upgrade_error r err h =
     (let (i, req) = r;
          h' = (if is_io_error err
                then h\<lparr>outbound_io_error_retries := outbound_io_error_retries h + 1\<rparr> else h)
      in if is_io_error err \<and> outbound_io_error_retries h' < IO_ERROR_RETRIES
         then handler_send_request i req h'
         else emit (Inl (OutboundErr i (request_protocol req) (upgrade_rpc_error err)))
                (h'\<lparr>dial_negotiated := dial_negotiated h' - 1, outbound_io_error_retries := 0\<rparr>))"

definition shutdown_complete :: "('q, 's, 'i, 'b) handler \<Rightarrow> bool" where
  "shutdown_complete h = (dial_queue h = [] \<and> outbound_substreams h = [] \<and> inbound_substreams h = []
     \<and> events_out h = [] \<and> dial_negotiated h = 0)"

definition connection_keep_alive :: "('q, 's, 'i, 'b) handler \<Rightarrow> bool" where
  "connection_keep_alive h = (\<not> (case handler_st h of
       ShuttingDown _ \<Rightarrow> shutdown_complete h
     | Deactivated \<Rightarrow> True
     | HandlerActive \<Rightarrow> False))"

end
