(* ===== verification/Handler_Poll.thy ===== *)
theory Handler_Poll
  imports Handler
begin

text \<open>
  \<open>poll\<close> of \<open>rpc/handler.rs\<close>: report events, check the shutdown timer, purge expired substreams, drive the
  inbound and the outbound substreams, dial, and complete the shutdown, in this order.
\<close>

section \<open>Sending a response\<close>

definition send_message ::
  "'s \<Rightarrow> 'b rpc_coded_response \<Rightarrow> bool \<Rightarrow> ('s, 'b) send_future" where
  "send_message s m last_chunk = (case m of
       StreamTermination _ \<Rightarrow> ClosingAfter s (Inr ())
     | _ \<Rightarrow> Sending s m last_chunk)"

fun is_error_resp :: "'b rpc_coded_response \<Rightarrow> bool" where
  "is_error_resp (ErrorResp _ _) = True"
| "is_error_resp _ = False"

text \<open>Polling the future: it gives the substream and whether it was closed, or the error of the send, or
  else that of the close.\<close>

definition poll_close ::
  "('s, 'b) substream_io \<Rightarrow> 's \<Rightarrow> rpc_error + unit \<Rightarrow>
     ('s, 'b) send_future \<times> (rpc_error + 's \<times> bool) poll" where
  "poll_close io s send_result = (case io_close io s of
       (s, Pending) \<Rightarrow> (ClosingAfter s send_result, Pending)
     | (s, Ready r) \<Rightarrow> (ClosingAfter s send_result, Ready (case send_result of
           Inl e \<Rightarrow> Inl e
         | Inr _ \<Rightarrow> (case r of Inl e \<Rightarrow> Inl e | Inr _ \<Rightarrow> Inr (s, True)))))"

fun poll_future ::
  "('s, 'b) substream_io \<Rightarrow> ('s, 'b) send_future \<Rightarrow>
     ('s, 'b) send_future \<times> (rpc_error + 's \<times> bool) poll" where
  "poll_future io (ClosingAfter s send_result) = poll_close io s send_result"
| "poll_future io (Sending s m last_chunk) = (case io_send io m s of
       (s, Pending) \<Rightarrow> (Sending s m last_chunk, Pending)
     | (s, Ready send_result) \<Rightarrow>
         if last_chunk \<or> is_error_resp m \<or> isl send_result then poll_close io s send_result
         else (Sending s m last_chunk, Ready (Inr (s, False))))"

section \<open>Driving an inbound substream\<close>

text \<open>The loop over the states of one substream.  The result is the substream's information, the delay
  queue, the events to report, whether the substream is finished, and whether the code reached a state
  it declares unreachable.\<close>

datatype drive_end = Keep | Remove | Unreachable

definition start_next :: "('s, 'b) inbound_info \<Rightarrow> 's \<Rightarrow> ('s, 'b) inbound_info" where
  "start_next info s = info\<lparr> pending_items := tl (pending_items info),
     in_state := InBusy (send_message s (hd (pending_items info)) (in_remaining_chunks info \<le> 1)) \<rparr>"

definition drop_timer :: "('q, nat) delay_queue \<Rightarrow> ('s, 'b) inbound_info \<Rightarrow> 'q \<Rightarrow> 'q" where
  "drop_timer Q info q = (case in_delay_key info of Some k \<Rightarrow> dq_remove Q k q | None \<Rightarrow> q)"

definition reset_timer :: "('q, nat) delay_queue \<Rightarrow> instant \<Rightarrow> ('s, 'b) inbound_info \<Rightarrow> 'q \<Rightarrow> 'q" where
  "reset_timer Q now info q = (case in_delay_key info of
       Some k \<Rightarrow> dq_reset Q k (now + from_secs RESPONSE_TIMEOUT) q | None \<Rightarrow> q)"

text \<open>\<open>pending_items.back().map(|l| l.close_after()) == Some(false)\<close>.\<close>

definition last_stays_open :: "('s, 'b) inbound_info \<Rightarrow> bool" where
  "last_stays_open info = (pending_items info \<noteq> [] \<and> \<not> close_after (last (pending_items info)))"

function drive_inbound ::
  "('s, 'b) substream_io \<Rightarrow> ('q, nat) delay_queue \<Rightarrow> bool \<Rightarrow> instant \<Rightarrow> nat \<Rightarrow> ('s, 'b) inbound_info \<Rightarrow> 'q \<Rightarrow>
     ('s, 'b) inbound_info \<times> 'q \<times> ('i, 'b) handler_event list \<times> drive_end" where
  "drive_inbound io Q deactivated now i info q = (case in_state info of
       InIdle s \<Rightarrow>
         if \<not> deactivated then
           (if pending_items info \<noteq> []
            then drive_inbound io Q deactivated now i (start_next info s) q
            else (info, q, [], Keep))
         else (case io_close io s of
             (s, Pending) \<Rightarrow> (info\<lparr>in_state := InIdle s\<rparr>, q, [], Keep)
           | (_, Ready res) \<Rightarrow>
               (info\<lparr>in_state := InPoisoned\<rparr>, drop_timer Q info q,
                (case res of Inl e \<Rightarrow> [Inl (InboundErr i (in_protocol info) e)] | Inr _ \<Rightarrow> []) @
                (if last_stays_open info
                 then [Inl (InboundErr i (in_protocol info) RpcDisconnected)] else []), Remove))
     | InBusy fut \<Rightarrow> (case poll_future io fut of
             (fut, Pending) \<Rightarrow> (info\<lparr>in_state := InBusy fut\<rparr>, q, [], Keep)
           | (_, Ready (Inl e)) \<Rightarrow>
               (info\<lparr>in_state := InPoisoned\<rparr>, drop_timer Q info q,
                [Inl (InboundErr i (in_protocol info) e)], Remove)
           | (_, Ready (Inr (_, True))) \<Rightarrow>
               (info\<lparr>in_state := InPoisoned\<rparr>, drop_timer Q info q, [], Remove)
           | (_, Ready (Inr (s, False))) \<Rightarrow>
               (let q = reset_timer Q now info q;
                    info = info\<lparr>in_remaining_chunks := in_remaining_chunks info
                       - (if in_remaining_chunks info = 0 then 0 else 1)\<rparr>
                in if \<not> deactivated \<and> pending_items info \<noteq> []
                   then drive_inbound io Q deactivated now i (start_next info s) q
                   else (info\<lparr>in_state := InIdle s\<rparr>, q, [], Keep)))
     | InPoisoned \<Rightarrow> (info, q, [], Unreachable))"
  by pat_completeness auto
termination
  by (relation "measure (\<lambda>(io, Q, d, now, i, info, q). length (pending_items info))")
     (auto simp: start_next_def)

declare drive_inbound.simps [simp del]

text \<open>All inbound substreams in turn, and the removal of those that are finished.\<close>

fun drive_all_inbound ::
  "('s, 'b) substream_io \<Rightarrow> ('q, nat) delay_queue \<Rightarrow> bool \<Rightarrow> instant \<Rightarrow>
     (nat \<times> ('s, 'b) inbound_info) list \<Rightarrow> 'q \<Rightarrow>
     (nat \<times> ('s, 'b) inbound_info) list \<times> 'q \<times> ('i, 'b) handler_event list \<times> bool" where
  "drive_all_inbound io Q deactivated now [] q = ([], q, [], False)"
| "drive_all_inbound io Q deactivated now ((i, info) # rest) q =
     (let (info, q, es, e) = drive_inbound io Q deactivated now i info q;
          (rest, q, es', unreachable) = drive_all_inbound io Q deactivated now rest q
      in ((if e = Remove then rest else (i, info) # rest), q, es @ es',
          e = Unreachable \<or> unreachable))"

section \<open>Driving the outbound substreams\<close>

text \<open>The outcome of \<open>poll\<close>.\<close>

datatype ('i, 'b) handler_poll_result =
    Custom "('i, 'b) handler_event"
  | CloseConnection rpc_error
  | OutboundSubstreamRequest 'i rpc_request
  | PollPending
  | PollPanic

text \<open>What a received response is reported as.\<close>

definition received_event :: "text_api \<Rightarrow> ('s, 'i) outbound_info \<Rightarrow> 'b rpc_coded_response \<Rightarrow> ('i, 'b) handler_event" where
  "received_event T info resp = (case resp of
       StreamTermination t \<Rightarrow> Inr (ReceivedEndOfStream (req_id info) t)
     | Success r \<Rightarrow> Inr (ReceivedResponse (req_id info) r)
     | ErrorResp code r \<Rightarrow> Inl (OutboundErr (req_id info) (out_proto info) (ErrorResponse code (error_type_to_string T r))))"

text \<open>The state of a substream after a response, and whether its timer is set again.\<close>

definition after_response ::
  "'s \<Rightarrow> rpc_request \<Rightarrow> 'b rpc_coded_response \<Rightarrow> ('s, 'i) outbound_info \<Rightarrow> ('s, 'i) outbound_info \<times> bool" where
  "after_response s req resp info =
     (if expected_responses req > 1 \<and> \<not> close_after resp
      then let left = (case out_remaining_chunks info of Some n \<Rightarrow> if n = 0 then 0 else n - 1 | None \<Rightarrow> 0)
           in if left = 0 then (info\<lparr>out_state := OutClosing s\<rparr>, False)
              else (info\<lparr>out_state := RequestPendingResponse s req, out_remaining_chunks := Some left\<rparr>, True)
      else (info\<lparr>out_state := OutClosing s\<rparr>, False))"

definition put_out ::
  "nat \<Rightarrow> ('s, 'i) outbound_info \<Rightarrow> ('q, 's, 'i, 'b) handler \<Rightarrow> ('q, 's, 'i, 'b) handler" where
  "put_out i info h = h\<lparr>outbound_substreams := hm_insert i info (outbound_substreams h)\<rparr>"

definition drop_out ::
  "('q, nat) delay_queue \<Rightarrow> nat \<Rightarrow> ('s, 'i) outbound_info \<Rightarrow> ('q, 's, 'i, 'b) handler \<Rightarrow>
     ('q, 's, 'i, 'b) handler" where
  "drop_out Q i info h = h\<lparr> outbound_substreams := hm_remove i (outbound_substreams h),
     outbound_substreams_delay := dq_remove Q (out_delay_key info) (outbound_substreams_delay h) \<rparr>"

text \<open>One substream: the handler, and the event with which \<open>poll\<close> returns at once, if any.\<close>

definition drive_outbound ::
  "('s, 'b) substream_io \<Rightarrow> ('q, nat) delay_queue \<Rightarrow> instant \<Rightarrow> nat \<Rightarrow> ('q, 's, 'i, 'b) handler \<Rightarrow>
     ('q, 's, 'i, 'b) handler \<times> ('i, 'b) handler_poll_result option" where
  "drive_outbound io Q now i h = (case hm_get (outbound_substreams h) i of
       None \<Rightarrow> (h, Some PollPanic)
     | Some info \<Rightarrow> (case out_state info of
         RequestPendingResponse s req \<Rightarrow>
           if handler_st h = Deactivated
           then (emit (Inl (OutboundErr (req_id info) (out_proto info) RpcDisconnected))
                   (put_out i (info\<lparr>out_state := OutClosing s\<rparr>) h), None)
           else (case io_next io s of
               (s, Ready (Some (Inr resp))) \<Rightarrow>
                 (let (info', again) = after_response s req resp info; h = put_out i info' h
                  in (if again
                      then h\<lparr>outbound_substreams_delay := dq_reset Q (out_delay_key info)
                               (now + from_secs RESPONSE_TIMEOUT) (outbound_substreams_delay h)\<rparr>
                      else h, Some (Custom (received_event (io_text io) info resp))))
             | (_, Ready None) \<Rightarrow>
                 (drop_out Q i info h, Some
                   (if expected_responses req > 1
                    then (case stream_termination req of
                        Some t \<Rightarrow> Custom (Inr (ReceivedEndOfStream (req_id info) t))
                      | None \<Rightarrow> PollPanic)
                    else Custom (Inl (OutboundErr (req_id info) (request_protocol req) IncompleteStream))))
             | (s, Pending) \<Rightarrow> (put_out i (info\<lparr>out_state := RequestPendingResponse s req\<rparr>) h, None)
             | (_, Ready (Some (Inl e))) \<Rightarrow>
                 (drop_out Q i info h, Some (Custom (Inl (OutboundErr (req_id info) (out_proto info) e)))))
       | OutClosing s \<Rightarrow> (case io_close io s of
               (_, Ready _) \<Rightarrow> (drop_out Q i info h, (case out_proto info of
                     ProtoBlocksByRange \<Rightarrow>
                       Some (Custom (Inr (ReceivedEndOfStream (req_id info) TermBlocksByRange)))
                   | ProtoBlocksByRoot \<Rightarrow>
                       Some (Custom (Inr (ReceivedEndOfStream (req_id info) TermBlocksByRoot)))
                   | _ \<Rightarrow> None))
             | (s, Pending) \<Rightarrow> (put_out i (info\<lparr>out_state := OutClosing s\<rparr>) h, None))
       | OutPoisoned \<Rightarrow> (h, Some PollPanic)))"

fun drive_all_outbound ::
  "('s, 'b) substream_io \<Rightarrow> ('q, nat) delay_queue \<Rightarrow> instant \<Rightarrow> nat list \<Rightarrow> ('q, 's, 'i, 'b) handler \<Rightarrow>
     ('q, 's, 'i, 'b) handler \<times> ('i, 'b) handler_poll_result option" where
  "drive_all_outbound io Q now [] h = (h, None)"
| "drive_all_outbound io Q now (i # is) h = (case drive_outbound io Q now i h of
       (h, Some r) \<Rightarrow> (h, Some r)
     | (h, None) \<Rightarrow> drive_all_outbound io Q now is h)"

section \<open>Purging expired substreams\<close>

text \<open>What is done with an expired inbound substream: an error event, and an error response behind the
  queued ones when the last of these leaves the stream open.\<close>

definition expire_inbound :: "nat \<Rightarrow> ('q, 's, 'i, 'b) handler \<Rightarrow> ('q, 's, 'i, 'b) handler" where
  "expire_inbound i h = (case hm_get (inbound_substreams h) i of
       None \<Rightarrow> h
     | Some info \<Rightarrow> emit (Inl (InboundErr i (in_protocol info) StreamTimeout))
         (h\<lparr>inbound_substreams := hm_insert i (info\<lparr> in_delay_key := None,
              pending_items := pending_items info @
                (if last_stays_open info then [ErrorResp ServerError (error_type_from ''Request timed out'')] else []) \<rparr>)
            (inbound_substreams h)\<rparr>))"

partial_function (option) purge_inbound ::
  "('q, nat) delay_queue \<Rightarrow> instant \<Rightarrow> ('q, 's, 'i, 'b) handler \<Rightarrow>
     (('q, 's, 'i, 'b) handler \<times> ('i, 'b) handler_poll_result option) option" where
  "purge_inbound Q now h = (case dq_poll Q now (inbound_substreams_delay h) of
       (q, Expired _ i) \<Rightarrow> purge_inbound Q now (expire_inbound i (h\<lparr>inbound_substreams_delay := q\<rparr>))
     | (q, TimerError _) \<Rightarrow> Some (h\<lparr>inbound_substreams_delay := q\<rparr>,
         Some (CloseConnection (InternalError ''Could not poll inbound stream timer'')))
     | (q, _) \<Rightarrow> Some (h\<lparr>inbound_substreams_delay := q\<rparr>, None))"

partial_function (option) purge_outbound ::
  "('q, nat) delay_queue \<Rightarrow> instant \<Rightarrow> ('q, 's, 'i, 'b) handler \<Rightarrow>
     (('q, 's, 'i, 'b) handler \<times> ('i, 'b) handler_poll_result option) option" where
  "purge_outbound Q now h = (case dq_poll Q now (outbound_substreams_delay h) of
       (q, Expired _ i) \<Rightarrow> (case hm_get (outbound_substreams h) i of
           Some info \<Rightarrow> Some (h\<lparr> outbound_substreams_delay := q,
               outbound_substreams := hm_remove i (outbound_substreams h) \<rparr>,
             Some (Custom (Inl (OutboundErr (req_id info) (out_proto info) StreamTimeout))))
         | None \<Rightarrow> purge_outbound Q now (h\<lparr>outbound_substreams_delay := q\<rparr>))
     | (q, TimerError _) \<Rightarrow> Some (h\<lparr>outbound_substreams_delay := q\<rparr>,
         Some (CloseConnection (InternalError ''Could not poll outbound stream timer'')))
     | (q, _) \<Rightarrow> Some (h\<lparr>outbound_substreams_delay := q\<rparr>, None))"

section \<open>Polling\<close>

definition poll_inbound ::
  "('s, 'b) substream_io \<Rightarrow> ('q, nat) delay_queue \<Rightarrow> instant \<Rightarrow> ('q, 's, 'i, 'b) handler \<Rightarrow>
     ('q, 's, 'i, 'b) handler \<times> bool" where
  "poll_inbound io Q now h =
     (let (infos, q, es, unreachable) = drive_all_inbound io Q (handler_st h = Deactivated) now
            (inbound_substreams h) (inbound_substreams_delay h)
      in (h\<lparr> inbound_substreams := infos, inbound_substreams_delay := q,
             events_out := events_out h @ es \<rparr>, unreachable))"

definition poll_dial ::
  "('q, 's, 'i, 'b) handler \<Rightarrow> ('q, 's, 'i, 'b) handler \<times> ('i, 'b) handler_poll_result" where
  "poll_dial h = (case dial_queue h of
       (i, req) # rest \<Rightarrow>
         if dial_negotiated h < max_dial_negotiated h
         then (h\<lparr>dial_negotiated := dial_negotiated h + 1, dial_queue := rest\<rparr>,
               OutboundSubstreamRequest i req)
         else (h, PollPending)
     | [] \<Rightarrow> (h, case handler_st h of
           ShuttingDown _ \<Rightarrow> if shutdown_complete h then CloseConnection RpcDisconnected else PollPending
         | _ \<Rightarrow> PollPending))"

definition poll_substreams ::
  "('s, 'b) substream_io \<Rightarrow> ('q, nat) delay_queue \<Rightarrow> instant \<Rightarrow> ('q, 's, 'i, 'b) handler \<Rightarrow>
     ('q, 's, 'i, 'b) handler \<times> ('i, 'b) handler_poll_result" where
  "poll_substreams io Q now h = (case poll_inbound io Q now h of
       (h, True) \<Rightarrow> (h, PollPanic)
     | (h, False) \<Rightarrow>
         (case drive_all_outbound io Q now (map fst (outbound_substreams h)) h of
            (h, Some r) \<Rightarrow> (h, r)
          | (h, None) \<Rightarrow> poll_dial h))"

definition handler_poll ::
  "('s, 'b) substream_io \<Rightarrow> ('q, nat) delay_queue \<Rightarrow> instant \<Rightarrow> ('q, 's, 'i, 'b) handler \<Rightarrow>
     (('q, 's, 'i, 'b) handler \<times> ('i, 'b) handler_poll_result) option" where
  "handler_poll io Q now h = (case events_out h of
       e # es \<Rightarrow> Some (h\<lparr>events_out := es\<rparr>, Custom e)
     | [] \<Rightarrow>
       if (case handler_st h of ShuttingDown t \<Rightarrow> t \<le> now | _ \<Rightarrow> False)
       then Some (h\<lparr>handler_st := Deactivated\<rparr>, CloseConnection RpcDisconnected)
       else (case purge_inbound Q now h of
           None \<Rightarrow> None
         | Some (h, Some r) \<Rightarrow> Some (h, r)
         | Some (h, None) \<Rightarrow> (case purge_outbound Q now h of
               None \<Rightarrow> None
             | Some (h, Some r) \<Rightarrow> Some (h, r)
             | Some (h, None) \<Rightarrow> Some (poll_substreams io Q now h))))"

end
