(* ===== verification/Handler_Inv.thy ===== *)
theory Handler_Inv
  imports Handler_Poll
begin

text \<open>
  The invariant of the RPC handler: substream ids are fresh, every substream and its timer agree, no
  substream is left in the temporary state between two calls, and at most 32 inbound substreams are
  kept.  Every method preserves it, and under it \<open>poll\<close> returns and reaches no unreachable code.
\<close>

section \<open>The invariant\<close>

definition in_key :: "(nat, ('s, 'b) inbound_info) hmap \<Rightarrow> nat \<Rightarrow> nat option" where
  "in_key m i = (case hm_get m i of None \<Rightarrow> None | Some info \<Rightarrow> in_delay_key info)"

definition out_key :: "(nat, ('s, 'i) outbound_info) hmap \<Rightarrow> nat \<Rightarrow> nat option" where
  "out_key m i = map_option out_delay_key (hm_get m i)"

definition inbound_ok ::
  "('q, nat) delay_queue \<Rightarrow> nat \<Rightarrow> (nat, ('s, 'b) inbound_info) hmap \<Rightarrow> 'q \<Rightarrow> bool" where
  "inbound_ok Q n m q \<longleftrightarrow> hm_ok m \<and> length m \<le> MAX_INBOUND_SUBSTREAMS \<and> tracked Q q (in_key m)
     \<and> (\<forall>(i, info) \<in> set m. i < n \<and> in_state info \<noteq> InPoisoned)"

definition outbound_ok ::
  "('q, nat) delay_queue \<Rightarrow> nat \<Rightarrow> (nat, ('s, 'i) outbound_info) hmap \<Rightarrow> 'q \<Rightarrow> bool" where
  "outbound_ok Q n m q \<longleftrightarrow> hm_ok m \<and> tracked Q q (out_key m)
     \<and> (\<forall>i info. hm_get m i = Some info \<longrightarrow> i < n \<and> out_state info \<noteq> OutPoisoned)"

definition handler_ok :: "('q, nat) delay_queue \<Rightarrow> ('q, 's, 'i, 'b) handler \<Rightarrow> bool" where
  "handler_ok Q h \<longleftrightarrow>
     inbound_ok Q (current_inbound_substream_id h) (inbound_substreams h) (inbound_substreams_delay h)
   \<and> outbound_ok Q (current_outbound_substream_id h) (outbound_substreams h) (outbound_substreams_delay h)
   \<and> max_dial_negotiated h = 8"

lemma handler_okI [intro]:
  assumes "inbound_ok Q (current_inbound_substream_id h) (inbound_substreams h) (inbound_substreams_delay h)"
    and "outbound_ok Q (current_outbound_substream_id h) (outbound_substreams h) (outbound_substreams_delay h)"
    and "max_dial_negotiated h = 8"
  shows "handler_ok Q h"
  using assms by (simp add: handler_ok_def)

lemma handler_okD:
  assumes "handler_ok Q h"
  shows "inbound_ok Q (current_inbound_substream_id h) (inbound_substreams h) (inbound_substreams_delay h)"
    and "outbound_ok Q (current_outbound_substream_id h) (outbound_substreams h) (outbound_substreams_delay h)"
    and "max_dial_negotiated h = 8"
  using assms by (simp_all add: handler_ok_def)

lemma handler_ok_new: "dq_laws Q \<Longrightarrow> handler_ok Q (handler_new Q)"
  using tracked_default [of Q]
  by (auto simp: handler_new_def inbound_ok_def outbound_ok_def in_key_def [abs_def] out_key_def [abs_def]
      MAX_INBOUND_SUBSTREAMS_def)

lemma length_hm_insert:
  "length (hm_insert k v m) = (if hm_get m k = None then Suc (length m) else length m)"
  by (induction k v m rule: hm_insert.induct) auto

section \<open>The methods preserve it\<close>

lemma handler_ok_events [simp]:
  "handler_ok Q (h\<lparr>events_out := es\<rparr>) = handler_ok Q h"
  "handler_ok Q (h\<lparr>dial_queue := ds\<rparr>) = handler_ok Q h"
  "handler_ok Q (h\<lparr>dial_negotiated := n\<rparr>) = handler_ok Q h"
  "handler_ok Q (h\<lparr>outbound_io_error_retries := r\<rparr>) = handler_ok Q h"
  "handler_ok Q (h\<lparr>handler_st := st\<rparr>) = handler_ok Q h"
  "handler_ok Q (emit e h) = handler_ok Q h"
  by (simp_all add: handler_ok_def emit_def)

lemma handler_ok_shutdown [simp]: "handler_ok Q (handler_shutdown now g h) = handler_ok Q h"
  by (simp add: handler_shutdown_def handler_ok_def)

lemma handler_ok_send_request [simp]: "handler_ok Q (handler_send_request i req h) = handler_ok Q h"
  by (simp add: handler_send_request_def split: handler_state.split)

text \<open>Replacing the information of an inbound substream by one with the same key.\<close>

lemma inbound_ok_update:
  assumes "inbound_ok Q n m q" and "hm_get m i = Some info"
    and "in_delay_key info' = in_delay_key info" and "in_state info' \<noteq> InPoisoned"
  shows "inbound_ok Q n (hm_insert i info' m) q"
proof -
  have "in_key (hm_insert i info' m) = in_key m" using assms(2,3) by (auto simp: in_key_def fun_eq_iff)
  moreover have "i < n" using assms(1) hm_get_Some_in [OF assms(2)] by (auto simp: inbound_ok_def)
  ultimately show ?thesis
    using assms set_hm_insert [of i info' m] by (auto simp: inbound_ok_def length_hm_insert)
qed

lemma handler_ok_send_response:
  assumes "handler_ok Q h"
  shows "handler_ok Q (handler_send_response io i resp h)"
proof (cases "hm_get (inbound_substreams h) i")
  case (Some info)
  have "in_state info \<noteq> InPoisoned"
    using handler_okD(1) [OF assms] hm_get_Some_in [OF Some] by (auto simp: inbound_ok_def)
  then have "inbound_ok Q (current_inbound_substream_id h)
      (hm_insert i (info\<lparr>pending_items := pending_items info @ [resp]\<rparr>) (inbound_substreams h))
      (inbound_substreams_delay h)"
    using handler_okD(1) [OF assms] Some by (intro inbound_ok_update) auto
  with assms Some show ?thesis
    by (auto simp: handler_send_response_def handler_ok_def emit_def Let_def
        split: rpc_coded_response.split)
qed (use assms in \<open>simp add: handler_send_response_def\<close>)

lemma handler_ok_inject_event:
  "handler_ok Q h \<Longrightarrow> handler_ok Q (handler_inject_event io now ev h)"
  by (cases ev) (simp_all add: handler_inject_event_def handler_ok_send_response)

lemma handler_ok_dial_error: "handler_ok Q h \<Longrightarrow> handler_ok Q (dial_upgrade_error r err h)"
  by (cases r) (simp add: dial_upgrade_error_def Let_def)

lemma handler_ok_next_in:
  "handler_ok Q h \<Longrightarrow> handler_ok Q (h\<lparr>current_inbound_substream_id := current_inbound_substream_id h + 1\<rparr>)"
  by (auto simp: handler_ok_def inbound_ok_def)

lemma in_key_insert: "in_key (hm_insert i info m) = (in_key m)(i := in_delay_key info)"
  by (auto simp: in_key_def fun_eq_iff)

lemma out_key_insert: "out_key (hm_insert i info m) = (out_key m)(i := Some (out_delay_key info))"
  by (auto simp: out_key_def fun_eq_iff)

lemma out_key_remove: "hm_ok m \<Longrightarrow> out_key (hm_remove i m) = (out_key m)(i := None)"
  by (auto simp: out_key_def fun_eq_iff)

lemma inbound_ok_fresh:
  assumes Q: "dq_laws Q" and ok: "inbound_ok Q n m q" and "length m < MAX_INBOUND_SUBSTREAMS"
    and ins: "dq_insert Q n t q = (q', k)" and "in_delay_key info = Some k" and "in_state info \<noteq> InPoisoned"
  shows "inbound_ok Q (n + 1) (hm_insert n info m) q'"
proof -
  have none: "hm_get m n = None"
    using ok by (cases "hm_get m n") (force simp: inbound_ok_def dest: hm_get_Some_in)+
  then have "tracked Q q' ((in_key m)(n := Some k))"
    using ok ins by (intro tracked_insert [OF Q]) (auto simp: inbound_ok_def in_key_def)
  then have "tracked Q q' (in_key (hm_insert n info m))" unfolding in_key_insert assms(5) .
  then show ?thesis
    using ok none assms(3,6) set_hm_insert [of n info m] by (fastforce simp: inbound_ok_def length_hm_insert)
qed

lemma handler_ok_accept:
  assumes "inbound_ok Q (current_inbound_substream_id h + 1) (inbound_substreams h) (inbound_substreams_delay h)"
    and "outbound_ok Q (current_outbound_substream_id h) (outbound_substreams h) (outbound_substreams_delay h)"
    and "max_dial_negotiated h = 8"
  shows "handler_ok Q (accept_request now req h)"
  using assms
  by (cases req) (simp_all add: accept_request_def Let_def emit_def handler_shutdown_def handler_ok_def)

lemma handler_ok_inbound:
  assumes Q: "dq_laws Q" and ok: "handler_ok Q h" and inbound: "negotiated_inbound io Q now req s h = Some h'"
  shows "handler_ok Q h'"
proof -
  let ?i = "current_inbound_substream_id h"
  obtain q k where ins: "dq_insert Q ?i (now + from_secs RESPONSE_TIMEOUT) (inbound_substreams_delay h) = (q, k)"
    by force
  note d = handler_okD [OF ok]
  have "inbound_ok Q (?i + 1) (inbound_substreams h) (inbound_substreams_delay h)"
    using d(1) by (auto simp: inbound_ok_def)
  then have old: "handler_ok Q (accept_request now req h)" using d(2,3) by (rule handler_ok_accept)
  have new: "handler_ok Q (accept_request now req (h\<lparr> inbound_substreams_delay := q,
        inbound_substreams := hm_insert ?i info (inbound_substreams h) \<rparr>))"
    if "length (inbound_substreams h) < MAX_INBOUND_SUBSTREAMS" "in_delay_key info = Some k"
      "in_state info \<noteq> InPoisoned" for info
    using inbound_ok_fresh [OF Q d(1) that(1) ins that(2,3)] d(2,3)
    by (intro handler_ok_accept) simp_all
  show ?thesis
    using inbound ok old new [of "\<lparr>in_state = InIdle s, pending_items = [], in_protocol = request_protocol req,
        in_remaining_chunks = expected_responses req, request_start_time = now, in_delay_key = Some k\<rparr>"]
    unfolding negotiated_inbound_def Let_def ins by (auto split: if_splits)
qed

lemma outbound_ok_fresh:
  assumes Q: "dq_laws Q" and ok: "outbound_ok Q n m q"
    and ins: "dq_insert Q n t q = (q', k)" and "out_delay_key info = k" and "out_state info \<noteq> OutPoisoned"
  shows "outbound_ok Q (n + 1) (hm_insert n info m) q'"
proof -
  have none: "hm_get m n = None" using ok by (cases "hm_get m n") (auto simp: outbound_ok_def)
  then have "tracked Q q' ((out_key m)(n := Some k))"
    using ok ins by (intro tracked_insert [OF Q]) (auto simp: outbound_ok_def out_key_def)
  then have "tracked Q q' (out_key (hm_insert n info m))" unfolding out_key_insert assms(4) .
  then show ?thesis using ok assms(5)
    by (auto simp: outbound_ok_def less_Suc_eq split: if_splits)
qed

lemma handler_ok_outbound:
  assumes Q: "dq_laws Q" and ok: "handler_ok Q h"
  shows "handler_ok Q (negotiated_outbound Q now s r h)"
proof -
  obtain i req where r: "r = (i, req)" by force
  obtain q k where ins: "dq_insert Q (current_outbound_substream_id h)
      (now + from_secs RESPONSE_TIMEOUT) (outbound_substreams_delay h) = (q, k)" by force
  show ?thesis
    using handler_okD [OF ok] outbound_ok_fresh [OF Q handler_okD(2) [OF ok] ins]
    by (auto simp: negotiated_outbound_def Let_def r ins emit_def handler_ok_def)
qed

section \<open>Polling preserves it\<close>

lemma tracked_drop_timer:
  assumes "dq_laws Q" and "tracked Q q look" and "look i = in_delay_key info"
  shows "tracked Q (drop_timer Q info q) (look(i := None))"
proof (cases "in_delay_key info")
  case None
  then have "look(i := None) = look" using assms(3) by auto
  with None assms(2) show ?thesis by (simp add: drop_timer_def)
next
  case (Some k)
  with assms show ?thesis using tracked_remove [of Q q look i k] by (simp add: drop_timer_def)
qed

lemma tracked_reset_timer:
  assumes "dq_laws Q" and "tracked Q q look" and "look i = in_delay_key info"
  shows "tracked Q (reset_timer Q now info q) look"
  using assms tracked_reset [of Q q look i] by (simp add: reset_timer_def split: option.split)

lemma start_next_simps [simp]:
  "in_delay_key (start_next info s) = in_delay_key info" "in_state (start_next info s) \<noteq> InPoisoned"
  by (simp_all add: start_next_def)

lemma drive_idle:
  assumes "in_state info = InIdle s"
  shows "\<not> d \<Longrightarrow> pending_items info \<noteq> [] \<Longrightarrow>
      drive_inbound io Q d now i info q = drive_inbound io Q d now i (start_next info s) q"
    and "\<not> d \<Longrightarrow> pending_items info = [] \<Longrightarrow> drive_inbound io Q d now i info q = (info, q, [], Keep)"
    and "d \<Longrightarrow> drive_inbound io Q d now i info q = (case io_close io s of
        (s, Pending) \<Rightarrow> (info\<lparr>in_state := InIdle s\<rparr>, q, [], Keep)
      | (_, Ready res) \<Rightarrow> (info\<lparr>in_state := InPoisoned\<rparr>, drop_timer Q info q,
          (case res of Inl e \<Rightarrow> [Inl (InboundErr i (in_protocol info) e)] | Inr _ \<Rightarrow> []) @
          (if last_stays_open info then [Inl (InboundErr i (in_protocol info) RpcDisconnected)] else []),
          Remove))"
  by (subst drive_inbound.simps, simp add: assms)+

text \<open>After a chunk has been sent and the substream was left open.\<close>

definition chunk_sent :: "('s, 'b) inbound_info \<Rightarrow> ('s, 'b) inbound_info" where
  "chunk_sent info = info\<lparr>in_remaining_chunks := in_remaining_chunks info
     - (if in_remaining_chunks info = 0 then 0 else 1)\<rparr>"

lemma chunk_sent_simps [simp]:
  "pending_items (chunk_sent info) = pending_items info" "in_delay_key (chunk_sent info) = in_delay_key info"
  by (simp_all add: chunk_sent_def)

lemma drive_busy:
  assumes "in_state info = InBusy fut" and "poll_future io fut = (fut', r)"
  shows "drive_inbound io Q d now i info q = (case r of
        Pending \<Rightarrow> (info\<lparr>in_state := InBusy fut'\<rparr>, q, [], Keep)
      | Ready (Inl e) \<Rightarrow> (info\<lparr>in_state := InPoisoned\<rparr>, drop_timer Q info q,
          [Inl (InboundErr i (in_protocol info) e)], Remove)
      | Ready (Inr (s, True)) \<Rightarrow> (info\<lparr>in_state := InPoisoned\<rparr>, drop_timer Q info q, [], Remove)
      | Ready (Inr (s, False)) \<Rightarrow>
          if \<not> d \<and> pending_items info \<noteq> []
          then drive_inbound io Q d now i (start_next (chunk_sent info) s) (reset_timer Q now info q)
          else ((chunk_sent info)\<lparr>in_state := InIdle s\<rparr>, reset_timer Q now info q, [], Keep))"
  by (subst drive_inbound.simps)
     (simp add: assms chunk_sent_def Let_def split: poll.split sum.split prod.split bool.split)

lemma drive_inbound_ok:
  assumes Q: "dq_laws Q" and "drive_inbound io Q d now i info q = (info', q', es, e)"
    and "tracked Q q look" and "look i = in_delay_key info" and "in_state info \<noteq> InPoisoned"
  shows "e \<noteq> Unreachable \<and>
    (if e = Remove then tracked Q q' (look(i := None))
     else tracked Q q' look \<and> in_state info' \<noteq> InPoisoned \<and> in_delay_key info' = in_delay_key info)"
  using assms(2-)
proof (induction "length (pending_items info)" arbitrary: info q rule: less_induct)
  case less
  have shorter: "length (pending_items (start_next j s)) < length (pending_items info)"
    if "pending_items j = pending_items info" "pending_items info \<noteq> []" for j s
    using that by (simp add: start_next_def)
  note drop = tracked_drop_timer [OF Q less.prems(2,3)]
  note reset = tracked_reset_timer [OF Q less.prems(2,3)]
  show ?case
  proof (cases "in_state info")
    case (InIdle s)
    show ?thesis
    proof (cases d)
      case True
      then show ?thesis
        using less.prems drop by (auto simp: drive_idle(3) [OF InIdle] split: prod.splits poll.splits)
    next
      case False
      show ?thesis
      proof (cases "pending_items info = []")
        case True
        with False less.prems show ?thesis by (simp add: drive_idle(2) [OF InIdle])
      next
        case ne: False
        have run: "drive_inbound io Q d now i (start_next info s) q = (info', q', es, e)"
          using less.prems(1) by (simp only: drive_idle(1) [OF InIdle False ne])
        show ?thesis
          using less.hyps [OF shorter [OF refl ne] run less.prems(2)] less.prems(3) by simp
      qed
    qed
  next
    case (InBusy fut)
    obtain fut' r where p: "poll_future io fut = (fut', r)" by force
    note run = less.prems(1) [unfolded drive_busy [OF InBusy p]]
    show ?thesis
    proof (cases "\<exists>s. r = Ready (Inr (s, False)) \<and> \<not> d \<and> pending_items info \<noteq> []")
      case True
      then obtain s where s: "r = Ready (Inr (s, False))" "\<not> d" "pending_items info \<noteq> []" by blast
      have step: "drive_inbound io Q d now i (start_next (chunk_sent info) s) (reset_timer Q now info q)
          = (info', q', es, e)" using run s by simp
      show ?thesis
        using less.hyps [OF shorter step reset] s(3) less.prems(3) by simp
    next
      case False
      with run drop reset less.prems show ?thesis
        by (auto split: poll.splits sum.splits bool.splits if_splits)
    qed
  next
    case InPoisoned
    with less.prems show ?thesis by simp
  qed
qed

text \<open>All the inbound substreams: afterwards the timers are those of the substreams that are left.\<close>

lemma in_key_notin: "i \<notin> fst ` set m \<Longrightarrow> in_key m i = None"
  using hm_get_None_iff [of m i] by (simp add: in_key_def)

lemma in_key_Cons: "in_key ((i, info) # m) j = (if i = j then in_delay_key info else in_key m j)"
  by (simp add: in_key_def)

lemma drive_all_inbound_ok:
  fixes es :: "('i, 'b) handler_event list"
  assumes Q: "dq_laws Q" and "drive_all_inbound io Q d now m q = (m', q', es, un)"
    and "hm_ok m" and "tracked Q q look"
    and "\<forall>(i, info) \<in> set m. look i = in_delay_key info \<and> in_state info \<noteq> InPoisoned"
  shows "\<not> un \<and> hm_ok m' \<and> fst ` set m' \<subseteq> fst ` set m \<and> length m' \<le> length m
    \<and> (\<forall>(i, info) \<in> set m'. in_state info \<noteq> InPoisoned)
    \<and> tracked Q q' (\<lambda>i. if i \<in> fst ` set m then in_key m' i else look i)"
  using assms(2-)
proof (induction m arbitrary: q look m' q' es un)
  case (Cons e m)
  obtain i info where e: "e = (i, info)" by force
  obtain info1 q1 and es1 :: "('i, 'b) handler_event list" and e1 where one: "drive_inbound io Q d now i info q = (info1, q1, es1, e1)"
    by (metis prod_cases4)
  obtain m2 q2 and es2 :: "('i, 'b) handler_event list" and u2 where rest: "drive_all_inbound io Q d now m q1 = (m2, q2, es2, u2)"
    by (metis prod_cases4)
  have res: "m' = (if e1 = Remove then m2 else (i, info1) # m2)" "q' = q2" "un = (e1 = Unreachable \<or> u2)"
    using Cons.prems(1) by (simp_all add: e one rest)
  let ?look = "if e1 = Remove then look(i := None) else look"
  note D = drive_inbound_ok [OF Q one Cons.prems(3)]
  have d1: "e1 \<noteq> Unreachable" "tracked Q q1 ?look"
    "e1 \<noteq> Remove \<Longrightarrow> in_state info1 \<noteq> InPoisoned \<and> in_delay_key info1 = look i"
    using D Cons.prems(4) by (auto simp: e split: if_splits)
  have fresh: "i \<notin> fst ` set m" and ok: "hm_ok m" using Cons.prems(2) by (simp_all add: e hm_ok_def)
  have "\<forall>(j, info) \<in> set m. ?look j = in_delay_key info \<and> in_state info \<noteq> InPoisoned"
    using Cons.prems(4) fresh by force
  note IH = Cons.IH [OF rest ok d1(2) this]
  then have fresh2: "i \<notin> fst ` set m2" using fresh by blast
  have "(\<lambda>j. if j \<in> fst ` set m then in_key m2 j else ?look j)
      = (\<lambda>j. if j \<in> fst ` set (e # m) then in_key m' j else look j)"
    using d1(3) fresh in_key_notin [OF fresh2] by (auto simp: fun_eq_iff e res in_key_Cons)
  with IH have "tracked Q q' (\<lambda>j. if j \<in> fst ` set (e # m) then in_key m' j else look j)"
    by (simp only: res(2))
  then show ?case using IH d1 fresh2 by (auto simp: res e hm_ok_def)
qed simp

lemma inbound_ok_poll:
  fixes h :: "('q, 's, 'i, 'b) handler"
  assumes Q: "dq_laws Q" and ok: "handler_ok Q h" and "poll_inbound io Q now h = (h', un)"
  shows "\<not> un \<and> handler_ok Q h' \<and> dial_negotiated h' = dial_negotiated h \<and> handler_st h' = handler_st h"
proof -
  obtain m q and es :: "('i, 'b) handler_event list" where all: "drive_all_inbound io Q (handler_st h = Deactivated) now
      (inbound_substreams h) (inbound_substreams_delay h) = (m, q, es, un)"
    using assms(3) by (auto simp: poll_inbound_def split: prod.splits)
  have h': "h' = h\<lparr> inbound_substreams := m, inbound_substreams_delay := q, events_out := events_out h @ es \<rparr>"
    using assms(3) by (simp add: poll_inbound_def all)
  note i = handler_okD(1) [OF ok, unfolded inbound_ok_def]
  have keys: "\<forall>(i, info) \<in> set (inbound_substreams h). in_key (inbound_substreams h) i = in_delay_key info
      \<and> in_state info \<noteq> InPoisoned"
    using i by (auto simp: in_key_def dest: hm_in_get)
  have tr: "tracked Q (inbound_substreams_delay h) (in_key (inbound_substreams h))" using i by blast
  note D = drive_all_inbound_ok [OF Q all _ tr keys]
  have "(\<lambda>i. if i \<in> fst ` set (inbound_substreams h) then in_key m i else in_key (inbound_substreams h) i)
      = in_key m"
  proof
    fix x
    have "fst ` set m \<subseteq> fst ` set (inbound_substreams h)" using D i by blast
    then have "x \<notin> fst ` set (inbound_substreams h) \<Longrightarrow> x \<notin> fst ` set m" by blast
    then show "(if x \<in> fst ` set (inbound_substreams h) then in_key m x
        else in_key (inbound_substreams h) x) = in_key m x"
      by (cases "x \<in> fst ` set (inbound_substreams h)") (simp_all add: in_key_notin)
  qed
  with D i have "inbound_ok Q (current_inbound_substream_id h) m q"
    by (fastforce simp: inbound_ok_def)
  then show ?thesis using D i handler_okD(2,3) [OF ok] by (simp add: h' handler_ok_def)
qed

text \<open>The outbound substreams.\<close>

lemma outbound_ok_update:
  assumes "outbound_ok Q n m q" and "hm_get m i = Some info"
    and "out_delay_key info' = out_delay_key info" and "out_state info' \<noteq> OutPoisoned"
  shows "outbound_ok Q n (hm_insert i info' m) q"
proof -
  have "out_key (hm_insert i info' m) = out_key m" using assms(2,3) by (auto simp: out_key_def fun_eq_iff)
  then show ?thesis using assms by (auto simp: outbound_ok_def)
qed

lemma outbound_ok_reset:
  assumes "dq_laws Q" and "outbound_ok Q n m q" and "hm_get m i = Some info"
  shows "outbound_ok Q n m (dq_reset Q (out_delay_key info) t q)"
  using assms tracked_reset [of Q q "out_key m" i] by (simp add: outbound_ok_def out_key_def)

lemma outbound_ok_drop:
  assumes "dq_laws Q" and "outbound_ok Q n m q" and "hm_get m i = Some info"
  shows "outbound_ok Q n (hm_remove i m) (dq_remove Q (out_delay_key info) q)"
proof -
  have m: "hm_ok m" "tracked Q q (out_key m)" using assms(2) by (simp_all add: outbound_ok_def)
  have "tracked Q (dq_remove Q (out_delay_key info) q) ((out_key m)(i := None))"
    using tracked_remove [OF assms(1) m(2), of i] assms(3) by (simp add: out_key_def)
  then have "tracked Q (dq_remove Q (out_delay_key info) q) (out_key (hm_remove i m))"
    unfolding out_key_remove [OF m(1)] .
  then show ?thesis using assms(2) m(1) by (auto simp: outbound_ok_def split: if_splits)
qed

lemma handler_ok_put_out:
  assumes "handler_ok Q h" and "hm_get (outbound_substreams h) i = Some info"
    and "out_delay_key info' = out_delay_key info" and "out_state info' \<noteq> OutPoisoned"
  shows "handler_ok Q (put_out i info' h)"
  using handler_okD [OF assms(1)] outbound_ok_update [OF _ assms(2-4)]
  by (simp add: put_out_def handler_ok_def)

lemma handler_ok_drop_out:
  assumes "dq_laws Q" and "handler_ok Q h" and "hm_get (outbound_substreams h) i = Some info"
  shows "handler_ok Q (drop_out Q i info h)"
  using handler_okD [OF assms(2)] outbound_ok_drop [OF assms(1) _ assms(3)]
  by (simp add: drop_out_def handler_ok_def)

lemma after_response_ok:
  "after_response s req resp info = (info', again) \<Longrightarrow>
     out_delay_key info' = out_delay_key info \<and> out_state info' \<noteq> OutPoisoned"
  by (auto simp: after_response_def Let_def split: if_splits)

text \<open>What every phase of \<open>poll\<close> keeps: the invariant, the count of the substreams being opened, and that
  its result is neither a panic nor a request to dial.\<close>

definition phase_ok ::
  "('q, nat) delay_queue \<Rightarrow> ('q, 's, 'i, 'b) handler \<Rightarrow>
     ('q, 's, 'i, 'b) handler \<times> ('i, 'b) handler_poll_result option \<Rightarrow> bool" where
  "phase_ok Q h = (\<lambda>(h', r). handler_ok Q h' \<and> dial_negotiated h' = dial_negotiated h
     \<and> r \<noteq> Some PollPanic \<and> (\<forall>i req. r \<noteq> Some (OutboundSubstreamRequest i req)))"

lemma out_simps [simp]:
  "dial_negotiated (put_out i info h) = dial_negotiated h" "dial_negotiated (drop_out Q i info h) = dial_negotiated h"
  "dial_negotiated (emit e h) = dial_negotiated h"
  by (simp_all add: put_out_def drop_out_def emit_def)

lemma drive_outbound_next:
  assumes "hm_get (outbound_substreams h) i = Some info" and "out_state info = RequestPendingResponse s req"
    and "handler_st h \<noteq> Deactivated" and "io_next io s = (s', r)"
  shows "drive_outbound io Q now i h = (case r of
      Ready (Some (Inr resp)) \<Rightarrow>
        (let (info', again) = after_response s' req resp info; h = put_out i info' h
         in (if again
             then h\<lparr>outbound_substreams_delay := dq_reset Q (out_delay_key info)
                      (now + from_secs RESPONSE_TIMEOUT) (outbound_substreams_delay h)\<rparr>
             else h, Some (Custom (received_event (io_text io) info resp))))
    | Ready None \<Rightarrow> (drop_out Q i info h, Some
          (if expected_responses req > 1
           then (case stream_termination req of
               Some t \<Rightarrow> Custom (Inr (ReceivedEndOfStream (req_id info) t)) | None \<Rightarrow> PollPanic)
           else Custom (Inl (OutboundErr (req_id info) (request_protocol req) IncompleteStream))))
    | Pending \<Rightarrow> (put_out i (info\<lparr>out_state := RequestPendingResponse s' req\<rparr>) h, None)
    | Ready (Some (Inl e)) \<Rightarrow>
        (drop_out Q i info h, Some (Custom (Inl (OutboundErr (req_id info) (out_proto info) e)))))"
  using assms by (simp add: drive_outbound_def split: poll.split option.split sum.split)

lemma many_terminates: "expected_responses req > 1 \<Longrightarrow> stream_termination req \<noteq> None"
  by (cases req) simp_all

lemma drive_outbound_ok:
  assumes Q: "dq_laws Q" and ok: "handler_ok Q h" and at: "hm_get (outbound_substreams h) i = Some info"
  shows "phase_ok Q h (drive_outbound io Q now i h)"
proof (cases "out_state info")
  case (RequestPendingResponse s req)
  show ?thesis
  proof (cases "handler_st h = Deactivated")
    case True
    with at RequestPendingResponse show ?thesis
      using handler_ok_put_out [OF ok at, of "info\<lparr>out_state := OutClosing s\<rparr>"]
      by (simp add: drive_outbound_def phase_ok_def)
  next
    case False
    obtain s' r where n: "io_next io s = (s', r)" by force
    note D = drive_outbound_next [OF at RequestPendingResponse False n, of Q now]
    consider "r = Pending" | "r = Ready None" | e where "r = Ready (Some (Inl e))"
      | resp where "r = Ready (Some (Inr resp))"
      by (metis poll.exhaust option.exhaust sum.exhaust)
    then show ?thesis
    proof cases
      case 1
      then show ?thesis
        using D handler_ok_put_out [OF ok at, of "info\<lparr>out_state := RequestPendingResponse s' req\<rparr>"]
        by (simp add: phase_ok_def)
    next
      case 2
      then show ?thesis
        using D handler_ok_drop_out [OF Q ok at] many_terminates [of req]
        by (auto simp: phase_ok_def split: option.split)
    next
      case 3
      then show ?thesis using D handler_ok_drop_out [OF Q ok at] by (simp add: phase_ok_def)
    next
      case 4
      obtain info' again where a: "after_response s' req resp info = (info', again)" by force
      note a' = after_response_ok [OF a]
      have put: "handler_ok Q (put_out i info' h)" using a' by (intro handler_ok_put_out [OF ok at]) auto
      have "hm_get (outbound_substreams (put_out i info' h)) i = Some info'" by (simp add: put_out_def)
      with put a' have "handler_ok Q ((put_out i info' h)\<lparr>outbound_substreams_delay :=
          dq_reset Q (out_delay_key info) t (outbound_substreams_delay (put_out i info' h))\<rparr>)" for t
        using outbound_ok_reset [OF Q handler_okD(2) [OF put], of i info' t]
        by (simp add: handler_ok_def)
      with put 4 D a show ?thesis by (simp add: phase_ok_def Let_def)
    qed
  qed
next
  case (OutClosing s)
  obtain s' r where c: "io_close io s = (s', r)" by force
  show ?thesis
    using handler_ok_drop_out [OF Q ok at] at OutClosing c
      handler_ok_put_out [OF ok at, of "info\<lparr>out_state := OutClosing s'\<rparr>"]
    by (cases r) (auto simp: drive_outbound_def phase_ok_def split: protocol_name.split)
next
  case OutPoisoned
  with handler_okD(2) [OF ok] at show ?thesis by (auto simp: outbound_ok_def)
qed

lemma drive_outbound_other:
  assumes "hm_ok (outbound_substreams h)" and "hm_get (outbound_substreams h) i = Some info" and "j \<noteq> i"
  shows "hm_get (outbound_substreams (fst (drive_outbound io Q now i h))) j = hm_get (outbound_substreams h) j"
  using assms
  by (simp add: drive_outbound_def put_out_def drop_out_def emit_def Let_def
      split: outbound_substream_state.split poll.split option.split sum.split prod.split)

lemma phase_ok_trans:
  assumes "phase_ok Q h (h1, None)" and "phase_ok Q h1 x"
  shows "phase_ok Q h x"
  using assms by (auto simp: phase_ok_def split: prod.splits)

lemma drive_all_outbound_ok:
  assumes Q: "dq_laws Q"
  shows "handler_ok Q h \<Longrightarrow> distinct is \<Longrightarrow> \<forall>i \<in> set is. hm_get (outbound_substreams h) i \<noteq> None \<Longrightarrow>
    phase_ok Q h (drive_all_outbound io Q now is h)"
proof (induction "is" arbitrary: h)
  case (Cons i "is")
  then obtain info where at: "hm_get (outbound_substreams h) i = Some info" by auto
  obtain h1 r where one: "drive_outbound io Q now i h = (h1, r)" by force
  note p = drive_outbound_ok [OF Q Cons.prems(1) at, of io now, unfolded one]
  show ?case
  proof (cases r)
    case None
    have ok: "hm_ok (outbound_substreams h)" using handler_okD(2) [OF Cons.prems(1)] by (simp add: outbound_ok_def)
    have "hm_get (outbound_substreams h1) j \<noteq> None" if "j \<in> set is" for j
    proof -
      have "j \<noteq> i" using that Cons.prems(2) by auto
      then show ?thesis
        using drive_outbound_other [OF ok at, of j io Q now] Cons.prems(3) that by (simp add: one)
    qed
    moreover have "handler_ok Q h1" using p by (simp add: phase_ok_def)
    ultimately have "phase_ok Q h1 (drive_all_outbound io Q now is h1)"
      using Cons.IH Cons.prems(2) by simp
    with p None show ?thesis by (simp add: one phase_ok_trans)
  next
    case (Some x)
    with p show ?thesis by (simp add: one)
  qed
qed (simp add: phase_ok_def)

section \<open>Purging ends\<close>

lemma handler_ok_expire_inbound:
  assumes Q: "dq_laws Q" and ok: "handler_ok Q h"
    and poll: "dq_poll Q now (inbound_substreams_delay h) = (q, Expired k i)"
  shows "handler_ok Q (expire_inbound i (h\<lparr>inbound_substreams_delay := q\<rparr>))"
proof -
  let ?m = "inbound_substreams h"
  note d = handler_okD(1) [OF ok, unfolded inbound_ok_def]
  note t = tracked_expired [OF Q _ poll, of "in_key ?m"]
  have t1: "in_key ?m i = Some k" and t2: "tracked Q q ((in_key ?m)(i := None))" using d t by blast+
  obtain info where at: "hm_get ?m i = Some info" using t1 by (auto simp: in_key_def split: option.splits)
  let ?info = "info\<lparr> in_delay_key := None, pending_items := pending_items info @
     (if last_stays_open info then [ErrorResp ServerError (error_type_from ''Request timed out'')] else []) \<rparr>"
  have "tracked Q q (in_key (hm_insert i ?info ?m))" using t2 unfolding in_key_insert by simp
  moreover have "length (hm_insert i ?info ?m) = length ?m" using at by (simp add: length_hm_insert)
  moreover have "\<forall>(j, x) \<in> set (hm_insert i ?info ?m). j < current_inbound_substream_id h
      \<and> in_state x \<noteq> InPoisoned"
    using d set_hm_insert [of i ?info ?m] hm_get_Some_in [OF at] by fastforce
  ultimately have "inbound_ok Q (current_inbound_substream_id h) (hm_insert i ?info ?m) q"
    using d by (simp add: inbound_ok_def)
  then show ?thesis
    using handler_okD(2,3) [OF ok] by (simp add: expire_inbound_def at handler_ok_def emit_def)
qed

lemma handler_ok_quiet:
  assumes "dq_laws Q" and "handler_ok Q h"
  shows "dq_poll Q now (inbound_substreams_delay h) = (q, e) \<Longrightarrow> \<forall>k x. e \<noteq> Expired k x \<Longrightarrow>
      handler_ok Q (h\<lparr>inbound_substreams_delay := q\<rparr>)"
    and "dq_poll Q now (outbound_substreams_delay h) = (q, e) \<Longrightarrow> \<forall>k x. e \<noteq> Expired k x \<Longrightarrow>
      handler_ok Q (h\<lparr>outbound_substreams_delay := q\<rparr>)"
  using assms tracked_quiet [OF assms(1), of "inbound_substreams_delay h" "in_key (inbound_substreams h)" now q e]
    tracked_quiet [OF assms(1), of "outbound_substreams_delay h" "out_key (outbound_substreams h)" now q e]
  by (simp_all add: handler_ok_def inbound_ok_def outbound_ok_def)

lemma expire_inbound_simps [simp]:
  "inbound_substreams_delay (expire_inbound i h) = inbound_substreams_delay h"
  "dial_negotiated (expire_inbound i h) = dial_negotiated h"
  by (simp_all add: expire_inbound_def emit_def split: option.split)

lemma purge_inbound_ok:
  assumes Q: "dq_laws Q"
  shows "handler_ok Q h \<Longrightarrow> \<exists>x. purge_inbound Q now h = Some x \<and> phase_ok Q h x"
proof (induction "card (dom (dq_at Q (inbound_substreams_delay h)))" arbitrary: h rule: less_induct)
  case less
  obtain q e where p: "dq_poll Q now (inbound_substreams_delay h) = (q, e)" by force
  show ?case
  proof (cases "\<exists>k i. e = Expired k i")
    case True
    then obtain k i where e: "e = Expired k i" by blast
    let ?h = "expire_inbound i (h\<lparr>inbound_substreams_delay := q\<rparr>)"
    have "handler_ok Q ?h" using handler_ok_expire_inbound [OF Q less.prems p [unfolded e]] .
    then obtain x where x: "purge_inbound Q now ?h = Some x" "phase_ok Q ?h x"
      using less.hyps [of ?h] expired_fewer [OF Q p [unfolded e]] by auto
    then have "purge_inbound Q now h = Some x"
      by (subst purge_inbound.simps) (simp add: p e)
    moreover have "phase_ok Q h x" using x(2) by (simp add: phase_ok_def split: prod.splits)
    ultimately show ?thesis by blast
  next
    case False
    with handler_ok_quiet(1) [OF Q less.prems p] p show ?thesis
      by (subst purge_inbound.simps) (cases e; simp add: phase_ok_def)
  qed
qed

lemma handler_ok_expire_outbound:
  assumes Q: "dq_laws Q" and ok: "handler_ok Q h"
    and poll: "dq_poll Q now (outbound_substreams_delay h) = (q, Expired k i)"
  shows "\<exists>info. hm_get (outbound_substreams h) i = Some info \<and>
     handler_ok Q (h\<lparr> outbound_substreams_delay := q,
       outbound_substreams := hm_remove i (outbound_substreams h) \<rparr>)"
proof -
  let ?m = "outbound_substreams h"
  note d = handler_okD(2) [OF ok, unfolded outbound_ok_def]
  note t = tracked_expired [OF Q _ poll, of "out_key ?m"]
  have t1: "out_key ?m i = Some k" and t2: "tracked Q q ((out_key ?m)(i := None))" using d t by blast+
  have "tracked Q q (out_key (hm_remove i ?m))" using t2 d by (simp add: out_key_remove)
  then have "outbound_ok Q (current_outbound_substream_id h) (hm_remove i ?m) q"
    using d by (auto simp: outbound_ok_def split: if_splits)
  with t1 show ?thesis
    using handler_okD(1,3) [OF ok] by (auto simp: handler_ok_def out_key_def)
qed

text \<open>Every outbound timer has its substream, so the loop over expired outbound substreams runs at most once.\<close>

lemma purge_outbound_ok:
  assumes Q: "dq_laws Q" and ok: "handler_ok Q h"
  shows "\<exists>x. purge_outbound Q now h = Some x \<and> phase_ok Q h x"
proof -
  obtain q e where p: "dq_poll Q now (outbound_substreams_delay h) = (q, e)" by force
  show ?thesis
  proof (cases "\<exists>k i. e = Expired k i")
    case True
    then obtain k i where e: "e = Expired k i" by blast
    obtain info where "hm_get (outbound_substreams h) i = Some info"
      "handler_ok Q (h\<lparr> outbound_substreams_delay := q,
         outbound_substreams := hm_remove i (outbound_substreams h) \<rparr>)"
      using handler_ok_expire_outbound [OF Q ok p [unfolded e]] by blast
    then show ?thesis
      by (subst purge_outbound.simps) (simp add: p e phase_ok_def)
  next
    case False
    with handler_ok_quiet(2) [OF Q ok p] p show ?thesis
      by (subst purge_outbound.simps) (cases e; simp add: phase_ok_def)
  qed
qed

end
