(* ===== verification/Handler_Props.thy ===== *)
theory Handler_Props
  imports Handler_Inv
begin

text \<open>
  The RPC handler as libp2p drives it: a run of calls in any order, with the outbound substreams that are
  being opened and the number of dials that were repeated after an I/O error; and what holds along every
  run.
\<close>

section \<open>Polling as a whole\<close>

text \<open>What a completed poll keeps: the invariant, and the count of dials, which it raises exactly when it
  asks for a substream.\<close>

definition poll_ok ::
  "('q, nat) delay_queue \<Rightarrow> ('q, 's, 'i, 'b) handler \<Rightarrow>
     ('q, 's, 'i, 'b) handler \<times> ('i, 'b) handler_poll_result \<Rightarrow> bool" where
  "poll_ok Q h = (\<lambda>(h', r). handler_ok Q h' \<and> r \<noteq> PollPanic \<and> (case r of
      OutboundSubstreamRequest _ _ \<Rightarrow> dial_negotiated h < 8 \<and> dial_negotiated h' = dial_negotiated h + 1
    | _ \<Rightarrow> dial_negotiated h' = dial_negotiated h))"

lemma poll_dial_ok: "handler_ok Q h \<Longrightarrow> poll_ok Q h (poll_dial h)"
  using handler_okD(3) [of Q h]
  by (auto simp: poll_dial_def poll_ok_def split: list.split handler_state.split)

lemma poll_ok_early: "phase_ok Q h (h1, Some r) \<Longrightarrow> poll_ok Q h (h1, r)"
  by (auto simp: phase_ok_def poll_ok_def split: handler_poll_result.split)

lemma poll_ok_later: "phase_ok Q h (h1, None) \<Longrightarrow> poll_ok Q h1 x \<Longrightarrow> poll_ok Q h x"
  by (cases x) (auto simp: phase_ok_def poll_ok_def split: handler_poll_result.splits)

lemma poll_substreams_ok:
  assumes Q: "dq_laws Q" and ok: "handler_ok Q h"
  shows "poll_ok Q h (poll_substreams io Q now h)"
proof -
  obtain h1 un where i: "poll_inbound io Q now h = (h1, un)" by force
  note i1 = inbound_ok_poll [OF Q ok i]
  then have ok1: "handler_ok Q h1" and un: "un = False" by simp_all
  have start: "phase_ok Q h (h1, None)" using i1 by (simp add: phase_ok_def)
  have "distinct (map fst (outbound_substreams h1))"
    "\<forall>j \<in> set (map fst (outbound_substreams h1)). hm_get (outbound_substreams h1) j \<noteq> None"
    using handler_okD(2) [OF ok1] by (auto simp: outbound_ok_def hm_ok_def hm_get_None_iff)
  note o = drive_all_outbound_ok [OF Q ok1 this, of io now]
  obtain h2 r where d: "drive_all_outbound io Q now (map fst (outbound_substreams h1)) h1 = (h2, r)" by force
  note o = o [unfolded d]
  show ?thesis
  proof (cases r)
    case None
    have "handler_ok Q h2" using o by (simp add: phase_ok_def)
    then have "poll_ok Q h (poll_dial h2)"
      using poll_ok_later [OF start] poll_ok_later [OF o [unfolded None]] poll_dial_ok by blast
    with None show ?thesis by (simp add: poll_substreams_def i un d)
  next
    case (Some x)
    have "poll_ok Q h (h2, x)" using poll_ok_later [OF start poll_ok_early [OF o [unfolded Some]]] .
    with Some show ?thesis by (simp add: poll_substreams_def i un d)
  qed
qed

lemma handler_poll_ok:
  assumes Q: "dq_laws Q" and ok: "handler_ok Q h"
  shows "\<exists>x. handler_poll io Q now h = Some x \<and> poll_ok Q h x"
proof -
  obtain h1 r1 where a: "purge_inbound Q now h = Some (h1, r1)" "phase_ok Q h (h1, r1)"
    using purge_inbound_ok [OF Q ok, of now] by auto
  then have ok1: "handler_ok Q h1" by (simp add: phase_ok_def)
  obtain h2 r2 where b: "purge_outbound Q now h1 = Some (h2, r2)" "phase_ok Q h1 (h2, r2)"
    using purge_outbound_ok [OF Q ok1, of now] by auto
  then have ok2: "handler_ok Q h2" by (simp add: phase_ok_def)
  have main: "\<exists>x. handler_poll io Q now h = Some x \<and> poll_ok Q h x"
    if "events_out h = []" "\<not> (case handler_st h of ShuttingDown t \<Rightarrow> t \<le> now | _ \<Rightarrow> False)"
  proof (cases r1)
    case (Some x)
    with a that poll_ok_early [of Q h h1 x] show ?thesis by (simp add: handler_poll_def)
  next
    case r1: None
    note later = poll_ok_later [OF a(2) [unfolded r1]]
    show ?thesis
    proof (cases r2)
      case (Some x)
      with later [OF poll_ok_early [OF b(2) [unfolded Some]]] r1 a(1) b(1) that
      show ?thesis by (simp add: handler_poll_def)
    next
      case None
      with later [OF poll_ok_later [OF b(2) [unfolded None] poll_substreams_ok [OF Q ok2, of io now]]]
        r1 a(1) b(1) that
      show ?thesis by (simp add: handler_poll_def)
    qed
  qed
  show ?thesis
  proof (cases "events_out h")
    case Nil
    with main ok show ?thesis
      by (cases "case handler_st h of ShuttingDown t \<Rightarrow> t \<le> now | _ \<Rightarrow> False")
         (simp_all add: handler_poll_def poll_ok_def)
  next
    case (Cons e es)
    with ok show ?thesis by (simp add: handler_poll_def poll_ok_def)
  qed
qed

section \<open>Runs\<close>

text \<open>A dial error that puts the request back into the queue.\<close>

definition retried :: "upgrade_err \<Rightarrow> ('q, 's, 'i, 'b) handler \<Rightarrow> bool" where
  "retried err h = (is_io_error err \<and> outbound_io_error_retries h + 1 < IO_ERROR_RETRIES)"

text \<open>\<open>handler_run Q h dials n\<close>: a run leads to \<open>h\<close>, with the substreams in \<open>dials\<close> requested but not yet
  negotiated, and \<open>n\<close> dials repeated so far.\<close>

inductive handler_run ::
  "('q, nat) delay_queue \<Rightarrow> ('q, 's, 'i, 'b) handler \<Rightarrow> ('i \<times> rpc_request) list \<Rightarrow> nat \<Rightarrow> bool"
  for Q where
  run_new: "handler_run Q (handler_new Q) [] 0"
| run_event: "handler_run Q h dials n \<Longrightarrow> handler_run Q (handler_inject_event io now ev h) dials n"
| run_inbound: "handler_run Q h dials n \<Longrightarrow> negotiated_inbound io Q now req s h = Some h' \<Longrightarrow>
    handler_run Q h' dials n"
| run_outbound: "handler_run Q h dials n \<Longrightarrow> r \<in> set dials \<Longrightarrow>
    handler_run Q (negotiated_outbound Q now s r h) (remove1 r dials) n"
| run_dial_error: "handler_run Q h dials n \<Longrightarrow> r \<in> set dials \<Longrightarrow>
    handler_run Q (dial_upgrade_error r err h) (remove1 r dials) (if retried err h then n + 1 else n)"
| run_poll: "handler_run Q h dials n \<Longrightarrow> handler_poll io Q now h = Some (h', x) \<Longrightarrow>
    handler_run Q h' (case x of OutboundSubstreamRequest i req \<Rightarrow> (i, req) # dials | _ \<Rightarrow> dials) n"

lemma dial_negotiated_simps [simp]:
  "dial_negotiated (handler_shutdown now g h) = dial_negotiated h"
  "dial_negotiated (handler_send_request i req h) = dial_negotiated h"
  "dial_negotiated (handler_send_response io j resp h) = dial_negotiated h"
  "dial_negotiated (handler_inject_event io now ev h) = dial_negotiated h"
  "dial_negotiated (accept_request now req h) = dial_negotiated h"
  "dial_negotiated (negotiated_outbound Q now s r h) = dial_negotiated h - 1"
  "dial_negotiated (dial_upgrade_error r err h)
     = (if retried err h then dial_negotiated h else dial_negotiated h - 1)"
  by (simp_all add: handler_shutdown_def handler_send_request_def handler_send_response_def
      handler_inject_event_def accept_request_def negotiated_outbound_def
      dial_upgrade_error_def retried_def emit_def Let_def
      split: handler_state.split option.split rpc_coded_response.split rpc_send.split rpc_request.split
        prod.split)

lemma dial_negotiated_inbound:
  "negotiated_inbound io Q now req s h = Some h' \<Longrightarrow> dial_negotiated h' = dial_negotiated h"
  by (auto simp: negotiated_inbound_def Let_def emit_def split: if_splits prod.splits)

lemma unat_minus_1: "0 < unat x \<Longrightarrow> unat (x - 1) = unat x - 1" for x :: "32 word"
  by (subst unat_sub) (simp_all add: word_le_nat_alt)

lemma unat_plus_1: "x < 8 \<Longrightarrow> unat (x + 1) = unat x + 1" for x :: "32 word"
  by (subst unat_add_lem [THEN iffD1]) (simp_all add: word_less_nat_alt)

lemma handler_run_ok:
  assumes Q: "dq_laws Q"
  shows "handler_run Q h dials n \<Longrightarrow>
    handler_ok Q h \<and> unat (dial_negotiated h) = length dials + n \<and> length dials + n \<le> 8"
proof (induction rule: handler_run.induct)
  case run_new
  show ?case using handler_ok_new [OF Q] by (simp add: handler_new_def)
next
  case (run_event h dials n now ev)
  then show ?case by (simp add: handler_ok_inject_event)
next
  case (run_inbound h dials n io now req s h')
  then show ?case using handler_ok_inbound [OF Q _ run_inbound.hyps(2)] dial_negotiated_inbound [OF run_inbound.hyps(2)] by simp
next
  case (run_outbound h dials n r now s)
  then obtain m where "length dials = Suc m" by (cases dials) auto
  with run_outbound show ?case
    by (simp add: handler_ok_outbound [OF Q] unat_minus_1 length_remove1)
next
  case (run_dial_error h dials n r err)
  then obtain m where "length dials = Suc m" by (cases dials) auto
  with run_dial_error show ?case
    by (simp add: handler_ok_dial_error unat_minus_1 length_remove1)
next
  case (run_poll h dials n io now h' x)
  then have "poll_ok Q h (h', x)" using handler_poll_ok [OF Q, of h io now] by auto
  with run_poll show ?case
    by (auto simp: poll_ok_def unat_plus_1 word_less_nat_alt split: handler_poll_result.splits)
qed

section \<open>Repeated dials\<close>

lemma poll_ok_full: "poll_ok Q h (h', OutboundSubstreamRequest i req) \<Longrightarrow> dial_negotiated h \<noteq> 8"
  by (auto simp: poll_ok_def)

text \<open>An idle handler that already counts \<open>m\<close> dials.\<close>

abbreviation idle_handler :: "32 word \<Rightarrow> (nat \<times> (nat, nat \<times> instant) hmap, unit, nat, unit) handler" where
  "idle_handler m \<equiv> (handler_new list_dq)\<lparr>dial_negotiated := m\<rparr>"

definition idle_io :: "(unit, unit) substream_io" where
  "idle_io = \<lparr> io_send = (\<lambda>_ s. (s, Pending)), io_close = (\<lambda>s. (s, Pending)), io_next = (\<lambda>s. (s, Pending)),
     io_text = ascii_texts, io_reserve = (\<lambda>n. unat n < 2 ^ 63) \<rparr>"

lemma list_dq_idle: "dq_poll list_dq now (dq_default list_dq) = (dq_default list_dq, QueuePending)"
  by (simp add: list_dq_def)

lemma idle_poll:
  assumes "inbound_substreams h = []" and "outbound_substreams h = []" and "handler_st h = HandlerActive"
    and "inbound_substreams_delay h = dq_default list_dq" and "outbound_substreams_delay h = dq_default list_dq"
    and "events_out h = []"
  shows "handler_poll idle_io list_dq now h = Some (poll_dial h)"
proof -
  have "purge_inbound list_dq now h = Some (h, None)"
    using assms by (subst purge_inbound.simps) (simp add: list_dq_idle)
  moreover have "purge_outbound list_dq now h = Some (h, None)"
    using assms by (subst purge_outbound.simps) (simp add: list_dq_idle)
  moreover have "poll_inbound idle_io list_dq now h = (h, False)" using assms by (simp add: poll_inbound_def)
  ultimately show ?thesis using assms by (simp add: handler_poll_def poll_substreams_def)
qed

abbreviation metadata_req :: "nat \<times> rpc_request" where
  "metadata_req \<equiv> (0, ReqMetaData)"

abbreviation (input) handler_with ::
  "32 word \<Rightarrow> u8 \<Rightarrow> (nat \<times> rpc_request) list \<Rightarrow> (nat, unit) handler_event list \<Rightarrow>
     (nat \<times> (nat, nat \<times> instant) hmap, unit, nat, unit) handler" where
  "handler_with d k q es \<equiv>
     (idle_handler d)\<lparr>outbound_io_error_retries := k, dial_queue := q, events_out := es\<rparr>"

lemma run_dial:
  assumes "handler_run list_dq (handler_with d k [metadata_req] []) [] n" and "d < 8"
  shows "handler_run list_dq (handler_with (d + 1) k [] []) [metadata_req] n"
proof -
  have "handler_poll idle_io list_dq 0 (handler_with d k [metadata_req] [])
      = Some (handler_with (d + 1) k [] [], OutboundSubstreamRequest 0 ReqMetaData)"
    using assms(2) by (subst idle_poll) (simp_all add: handler_new_def poll_dial_def)
  from run_poll [OF assms(1) this] show ?thesis by simp
qed

lemma run_retry:
  assumes "handler_run list_dq (handler_with d k [] []) [metadata_req] n" and "k + 1 < IO_ERROR_RETRIES"
  shows "handler_run list_dq (handler_with d (k + 1) [metadata_req] []) [] (n + 1)"
  using run_dial_error [OF assms(1), of metadata_req "UpgradeApply (IoError [])"] assms(2)
  by (simp add: dial_upgrade_error_def handler_send_request_def handler_new_def retried_def)

text \<open>A request whose dial fails twice with an I/O error is queued again, and the handler counts two
  more dials although none is under way.\<close>

lemma failing_twice:
  assumes "m < 7" and "handler_run list_dq (idle_handler m) [] n"
  shows "handler_run list_dq (handler_with (m + 2) 2 [metadata_req] []) [] (n + 2)"
proof -
  have m: "m < 8" "m + 1 < 8" using assms(1) by (simp_all add: word_less_nat_alt unat_word_ariths)
  have "handler_run list_dq (handler_with m 0 [metadata_req] []) [] n"
    using run_event [OF assms(2), of idle_io 0 "SendRequest 0 ReqMetaData"]
    by (simp add: handler_inject_event_def handler_send_request_def handler_new_def)
  from run_retry [OF run_dial [OF this m(1)]]
  have "handler_run list_dq (handler_with (m + 1) 1 [metadata_req] []) [] (n + 1)"
    by (simp add: IO_ERROR_RETRIES_def)
  from run_retry [OF run_dial [OF this m(2)]] show ?thesis by (simp add: IO_ERROR_RETRIES_def add.assoc)
qed

lemma failing_request:
  assumes "m < 6" and "handler_run list_dq (idle_handler m) [] n"
  shows "handler_run list_dq (idle_handler (m + 2)) [] (n + 2)"
proof -
  have m: "m < 7" "m + 2 < 8" using assms(1) by (simp_all add: word_less_nat_alt unat_word_ariths)
  let ?e = "Inl (OutboundErr 0 ProtoMetaData (IoError []))"
  have "handler_run list_dq (handler_with (m + 2 + 1) 2 [] []) [metadata_req] (n + 2)"
    using run_dial [OF failing_twice [OF m(1) assms(2)] m(2)] .
  from run_dial_error [OF this, of metadata_req "UpgradeApply (IoError [])"]
  have "handler_run list_dq (handler_with (m + 2) 0 [] [?e]) [] (n + 2)"
    by (simp add: dial_upgrade_error_def handler_new_def retried_def IO_ERROR_RETRIES_def emit_def
        add.commute [of 2 m])
  moreover have "handler_poll idle_io list_dq 0 (handler_with (m + 2) 0 [] [?e])
      = Some (idle_handler (m + 2), Custom ?e)"
    by (simp add: handler_poll_def handler_new_def)
  ultimately show ?thesis using run_poll by fastforce
qed

lemma stuck_handler:
  "handler_run list_dq (handler_with 8 2 [metadata_req] []) [] 8"
proof -
  have lt: "(0 :: 32 word) < 6" "(2 :: 32 word) < 6" "(4 :: 32 word) < 6" "(6 :: 32 word) < 7" by simp_all
  have "handler_run list_dq (idle_handler 0) [] 0"
    using run_new [of list_dq] by (simp add: handler_new_def)
  from failing_request [OF lt(1) this] have "handler_run list_dq (idle_handler 2) [] 2"
    by (simp add: numeral_2_eq_2)
  from failing_request [OF lt(2) this] have "handler_run list_dq (idle_handler 4) [] 4" by simp
  from failing_request [OF lt(3) this] have "handler_run list_dq (idle_handler 6) [] 6" by simp
  from failing_twice [OF lt(4) this] show ?thesis by simp
qed

section \<open>Answering a request\<close>

text \<open>A substream on which every send and close completes at once.\<close>

definition io_ready :: "('s, 'b) substream_io \<Rightarrow> bool" where
  "io_ready io \<longleftrightarrow> (\<forall>m s. \<exists>s'. io_send io m s = (s', Ready (Inr ())))
     \<and> (\<forall>s. \<exists>s'. io_close io s = (s', Ready (Inr ())))"

lemma poll_future_ready:
  assumes "io_ready io"
  shows "\<exists>fut s'. poll_future io (send_message s m last_chunk)
    = (fut, Ready (Inr (s', last_chunk \<or> close_after m)))"
proof -
  have send: "\<exists>s'. io_send io m s = (s', Ready (Inr ()))" and close: "\<exists>s'. io_close io t = (s', Ready (Inr ()))"
    for t using assms by (simp_all add: io_ready_def)
  obtain s1 where s1: "io_send io m s = (s1, Ready (Inr ()))" using send by blast
  obtain s2 where s2: "io_close io s = (s2, Ready (Inr ()))" using close by blast
  obtain s3 where s3: "io_close io s1 = (s3, Ready (Inr ()))" using close by blast
  show ?thesis
    using s1 s2 s3 by (cases m) (simp_all add: send_message_def poll_close_def)
qed

lemma in_state_start_next:
  "pending_items info = m # ms \<Longrightarrow>
     in_state (start_next info s) = InBusy (send_message s m (in_remaining_chunks info \<le> 1))"
  by (simp add: start_next_def)

lemma drive_ready:
  assumes io: "io_ready io" and "pending_items info = m # ms"
  shows "snd (snd (snd (drive_inbound io Q False now i (start_next info s) q)))
    = (if (\<exists>x \<in> set (m # ms). close_after x) \<or> unat (in_remaining_chunks info) \<le> length (m # ms)
       then Remove else Keep)"
  using assms(2)
proof (induction ms arbitrary: info m s q)
  case Nil
  obtain fut s' where p: "poll_future io (send_message s m (in_remaining_chunks info \<le> 1))
      = (fut, Ready (Inr (s', in_remaining_chunks info \<le> 1 \<or> close_after m)))"
    using poll_future_ready [OF io] by blast
  have "pending_items (start_next info s) = []" using Nil by (simp add: start_next_def)
  then show ?case
    by (simp add: drive_busy [OF in_state_start_next [OF Nil] p] word_le_nat_alt split: bool.split)
next
  case (Cons m' ms)
  obtain fut s' where p: "poll_future io (send_message s m (in_remaining_chunks info \<le> 1))
      = (fut, Ready (Inr (s', in_remaining_chunks info \<le> 1 \<or> close_after m)))"
    using poll_future_ready [OF io] by blast
  note D = drive_busy [OF in_state_start_next [OF Cons.prems] p, of Q False now i q]
  have next_items: "pending_items (start_next info s) = m' # ms"
    using Cons.prems by (simp add: start_next_def)
  show ?case
  proof (cases "in_remaining_chunks info \<le> 1 \<or> close_after m")
    case True
    then show ?thesis by (auto simp: D word_le_nat_alt)
  next
    case False
    let ?i = "chunk_sent (start_next info s)"
    have r: "in_remaining_chunks ?i = in_remaining_chunks info - 1" "1 < unat (in_remaining_chunks info)"
      using False by (auto simp: chunk_sent_def start_next_def word_le_nat_alt)
    then have "unat (in_remaining_chunks ?i) = unat (in_remaining_chunks info) - 1"
      by (simp add: unat_sub word_le_nat_alt)
    moreover have "pending_items ?i = m' # ms" using next_items by simp
    ultimately show ?thesis
      using False next_items r(2) Cons.IH [of ?i m' s' "reset_timer Q now (start_next info s) q"]
      by (simp add: D) auto
  qed
qed

section \<open>Properties\<close>

lemma negotiated_inbound_memory:
  "io_reserve io (expected_responses req) \<Longrightarrow> negotiated_inbound io Q now req s h \<noteq> None"
  by (simp add: negotiated_inbound_def Let_def split: prod.split)

text \<open>C1. However libp2p and the application drive a handler, it keeps at most 32 inbound substreams, every
  substream and its timer agree, it counts exactly the dials under way and the repeated ones, at most 8
  in all, the next poll returns without reaching the code marked unreachable, and a request is taken in without
  a panic when there is memory for its responses.\<close>
theorem handler_run_safe:
  assumes "dq_laws Q" and "handler_run Q h dials n"
  shows "length (inbound_substreams h) \<le> 32
    \<and> (\<forall>i k. in_key (inbound_substreams h) i = Some k
          \<longleftrightarrow> (\<exists>t. dq_at Q (inbound_substreams_delay h) k = Some (i, t)))
    \<and> (\<forall>i k. out_key (outbound_substreams h) i = Some k
          \<longleftrightarrow> (\<exists>t. dq_at Q (outbound_substreams_delay h) k = Some (i, t)))
    \<and> unat (dial_negotiated h) = length dials + n \<and> length dials + n \<le> 8
    \<and> (\<exists>h' x. handler_poll io Q now h = Some (h', x) \<and> x \<noteq> PollPanic)
    \<and> (io_reserve io (expected_responses req) \<longrightarrow> negotiated_inbound io Q now req s h \<noteq> None)"
proof -
  note ok = handler_run_ok [OF assms]
  then have "handler_ok Q h" by blast
  then have "\<exists>x. handler_poll io Q now h = Some x \<and> poll_ok Q h x" by (rule handler_poll_ok [OF assms(1)])
  then show ?thesis
    using ok negotiated_inbound_memory [of io req Q now s h]
    by (auto simp: handler_ok_def inbound_ok_def outbound_ok_def tracked_def poll_ok_def MAX_INBOUND_SUBSTREAMS_def)
qed

lemma handler_run_safe_witness:
  "\<exists>h. negotiated_inbound idle_io list_dq 0 ReqMetaData ()
      (handler_new list_dq :: (nat \<times> (nat, nat \<times> instant) hmap, unit, nat, unit) handler) = Some h
    \<and> length (inbound_substreams h) \<le> 32"
proof -
  obtain h where "negotiated_inbound idle_io list_dq 0 ReqMetaData ()
      (handler_new list_dq :: (nat \<times> (nat, nat \<times> instant) hmap, unit, nat, unit) handler) = Some h"
    using negotiated_inbound_memory [of idle_io ReqMetaData list_dq 0 "()" "handler_new list_dq"]
    by (auto simp: idle_io_def)
  with handler_run_safe [OF list_dq_laws run_inbound [OF run_new this]] show ?thesis by blast
qed

text \<open>\<open>VecDeque::with_capacity\<close> panics when the items take more than \<open>isize::MAX\<close> bytes.  The number of blocks a peer
  asks for is nowhere limited before the handler makes room for so many.\<close>

definition reserve_laws :: "('s, 'b) substream_io \<Rightarrow> bool" where
  "reserve_laws io \<longleftrightarrow> (\<exists>bytes > 0. \<forall>n. 2 ^ 63 \<le> unat n * bytes \<longrightarrow> \<not> io_reserve io n)"

theorem huge_range_panics:
  assumes "reserve_laws io" and "handler_st h = HandlerActive" and "length (inbound_substreams h) < 32"
    and "2 ^ 63 \<le> unat (old_count r)"
  shows "negotiated_inbound io Q now (ReqBlocksByRange r) s h = None"
proof -
  obtain b where b: "0 < b" "\<forall>n. 2 ^ 63 \<le> unat n * b \<longrightarrow> \<not> io_reserve io n"
    using assms(1) by (auto simp: reserve_laws_def)
  have "unat (old_count r) \<le> unat (old_count r) * b" using b(1) by simp
  then have "2 ^ 63 \<le> unat (old_count r) * b" using assms(4) by (rule order_trans [rotated])
  then have "\<not> io_reserve io (old_count r)" using b(2) by blast
  moreover have "old_count r > 0" using assms(4) by (auto simp: word_less_nat_alt)
  ultimately show ?thesis using assms(2,3) by (simp add: negotiated_inbound_def MAX_INBOUND_SUBSTREAMS_def)
qed

lemma huge_range_panics_witness:
  "negotiated_inbound idle_io list_dq 0 (ReqBlocksByRange \<lparr>old_start_slot = 0, old_count = 0xFFFFFFFFFFFFFFFF, old_step = 1\<rparr>) ()
     (handler_new list_dq) = None"
proof (rule huge_range_panics)
  show "reserve_laws idle_io"
    unfolding reserve_laws_def by (rule exI [of _ 1]) (simp add: idle_io_def)
  show "2 ^ 63 \<le> unat (old_count \<lparr>old_start_slot = 0, old_count = 0xFFFFFFFFFFFFFFFF, old_step = 1\<rparr>)"
    by simp
qed (simp_all add: handler_new_def)

text \<open>A dial that is repeated after an I/O error stays counted for ever: after eight repetitions no
  substream is being opened any more, but no request is dialed either, a queued one least of all, and a
  shutdown is not completed before its timer.\<close>
theorem repeated_dials_block:
  assumes "dq_laws Q" and "handler_run Q h dials 8"
  shows "dials = [] \<and> \<not> shutdown_complete h
    \<and> handler_poll io Q now h \<noteq> Some (h', OutboundSubstreamRequest i req)"
proof -
  note ok = handler_run_ok [OF assms]
  then have d: "dials = []" "unat (dial_negotiated h) = 8" by auto
  then have "dial_negotiated h = 8" by (simp add: word_unat_eq_iff)
  moreover obtain x where "handler_poll io Q now h = Some x" "poll_ok Q h x"
    using handler_poll_ok [OF assms(1)] ok by blast
  ultimately show ?thesis using d poll_ok_full [of Q h h' i req] by (auto simp: shutdown_complete_def)
qed

lemma repeated_dials_block_witness:
  "handler_poll idle_io list_dq 0 (handler_with 8 2 [metadata_req] [])
     \<noteq> Some (handler_with 9 2 [] [], OutboundSubstreamRequest 0 ReqMetaData)"
  using repeated_dials_block [OF list_dq_laws stuck_handler] by blast



text \<open>An inbound substream that times out with nothing queued for it is reported, but neither closed nor
  removed: it keeps its slot, now without a timer, until a response is sent or the connection closes.\<close>

lemma timed_out_substream_keeps_slot:
  assumes "hm_get (inbound_substreams h) i = Some info" and "in_state info = InIdle s"
    and "pending_items info = []"
  shows "hm_get (inbound_substreams (expire_inbound i h)) i = Some (info\<lparr>in_delay_key := None\<rparr>)
    \<and> drive_inbound io Q False now i (info\<lparr>in_delay_key := None\<rparr>) q
        = (info\<lparr>in_delay_key := None\<rparr>, q, [], Keep)"
  using assms by (simp add: expire_inbound_def emit_def last_stays_open_def drive_inbound.simps Let_def)

end
