(* ===== verification/Pubsub.thy ===== *)
theory Pubsub
  imports Topics Rpc_Protocol
begin

text \<open>
  \<open>types/pubsub.rs\<close>: gossip messages, their compression and their decoding by topic.  The SSZ codecs of the
  consensus objects, the fork digests and the snappy compression come from other crates and are
  parameters; an object is of an arbitrary type.
\<close>

section \<open>Compression\<close>

record snap_api =
  snap_decompress_len :: "bytes \<Rightarrow> string + nat"
  snap_decompress :: "bytes \<Rightarrow> string + bytes"
  snap_compress :: "bytes \<Rightarrow> string + bytes"

record raw_message =
  rm_source :: "peer_id option"
  rm_data :: bytes
  rm_sequence_number :: "u64 option"
  rm_topic :: string

definition inbound_transform :: "snap_api \<Rightarrow> nat \<Rightarrow> raw_message \<Rightarrow> string + raw_message" where
  "inbound_transform snap max_size raw = (case snap_decompress_len snap (rm_data raw) of
       Inl e \<Rightarrow> Inl e
     | Inr len \<Rightarrow>
         if len > max_size then Inl ''ssz_snappy decoded data > GOSSIP_MAX_SIZE''
         else (case snap_decompress snap (rm_data raw) of
                 Inl e \<Rightarrow> Inl e
               | Inr data \<Rightarrow> Inr (raw\<lparr>rm_data := data\<rparr>)))"

definition outbound_transform :: "snap_api \<Rightarrow> nat \<Rightarrow> string \<Rightarrow> bytes \<Rightarrow> string + bytes" where
  "outbound_transform snap max_size topic data =
     (if length data > max_size then Inl ''ssz_snappy Encoded data > GOSSIP_MAX_SIZE''
      else snap_compress snap data)"

section \<open>Messages\<close>

datatype 'o pubsub_message =
    PubsubBeaconBlock 'o
  | AggregateAndProofAttestation 'o
  | PubsubAttestation nat 'o
  | PubsubVoluntaryExit 'o
  | PubsubProposerSlashing 'o
  | PubsubAttesterSlashing 'o
  | PubsubSignedContributionAndProof 'o
  | PubsubSyncCommitteeMessage nat 'o

fun message_kind :: "'o pubsub_message \<Rightarrow> gossip_kind" where
  "message_kind (PubsubBeaconBlock _) = BeaconBlock"
| "message_kind (AggregateAndProofAttestation _) = BeaconAggregateAndProof"
| "message_kind (PubsubAttestation i _) = KindAttestation i"
| "message_kind (PubsubVoluntaryExit _) = VoluntaryExit"
| "message_kind (PubsubProposerSlashing _) = ProposerSlashing"
| "message_kind (PubsubAttesterSlashing _) = AttesterSlashing"
| "message_kind (PubsubSignedContributionAndProof _) = SignedContributionAndProof"
| "message_kind (PubsubSyncCommitteeMessage i _) = SyncCommitteeMessage i"

definition message_topics :: "'o pubsub_message \<Rightarrow> gossip_encoding \<Rightarrow> bytes \<Rightarrow> gossip_topic list" where
  "message_topics m e digest = [gossip_topic_new (message_kind m) e digest]"

text \<open>The decoders of the object of each kind, the encoder, and the fork of a digest.\<close>

record 'o object_codec =
  oc_encode :: "'o \<Rightarrow> bytes"
  oc_block :: "fork_name \<Rightarrow> bytes \<Rightarrow> string + 'o"
  oc_object :: "gossip_kind \<Rightarrow> bytes \<Rightarrow> string + 'o"
  oc_fork :: "bytes \<Rightarrow> fork_name option"

definition pubsub_decode ::
  "hex_api \<Rightarrow> 'o object_codec \<Rightarrow> string \<Rightarrow> bytes \<Rightarrow> string + 'o pubsub_message" where
  "pubsub_decode H C topic data = (case topic_decode H topic of
       Inl _ \<Rightarrow> Inl (''Unknown gossipsub topic: '' @ topic)
     | Inr t \<Rightarrow> (let object = (\<lambda>mk. map_sum id mk (oc_object C (gt_kind t) data)) in
         case gt_kind t of
           BeaconAggregateAndProof \<Rightarrow> object AggregateAndProofAttestation
         | KindAttestation i \<Rightarrow> object (PubsubAttestation i)
         | BeaconBlock \<Rightarrow> (case oc_fork C (gt_fork_digest t) of
               None \<Rightarrow> Inl (''Unknown gossipsub fork digest: '' @ show_bytes (gt_fork_digest t))
             | Some f \<Rightarrow> map_sum id PubsubBeaconBlock (oc_block C f data))
         | VoluntaryExit \<Rightarrow> object PubsubVoluntaryExit
         | ProposerSlashing \<Rightarrow> object PubsubProposerSlashing
         | AttesterSlashing \<Rightarrow> object PubsubAttesterSlashing
         | SignedContributionAndProof \<Rightarrow> object PubsubSignedContributionAndProof
         | SyncCommitteeMessage i \<Rightarrow> object (PubsubSyncCommitteeMessage i)))"

fun message_object :: "'o pubsub_message \<Rightarrow> 'o" where
  "message_object (PubsubBeaconBlock d) = d"
| "message_object (AggregateAndProofAttestation d) = d"
| "message_object (PubsubAttestation _ d) = d"
| "message_object (PubsubVoluntaryExit d) = d"
| "message_object (PubsubProposerSlashing d) = d"
| "message_object (PubsubAttesterSlashing d) = d"
| "message_object (PubsubSignedContributionAndProof d) = d"
| "message_object (PubsubSyncCommitteeMessage _ d) = d"

definition pubsub_encode :: "'o object_codec \<Rightarrow> 'o pubsub_message \<Rightarrow> gossip_encoding \<Rightarrow> bytes" where
  "pubsub_encode C m e = oc_encode C (message_object m)"

section \<open>Properties\<close>



end
