(* ===== verification/Gossip_Cache.thy ===== *)
theory Gossip_Cache
  imports Topics Delay_Queue
begin

text \<open>
  \<open>network/gossip_cache.rs\<close>: messages that could not be published, kept per topic until they expire.
\<close>

type_synonym cache_item = "gossip_topic \<times> bytes"

section \<open>The cache\<close>

record gossip_timeouts =
  beacon_block :: "duration option"
  aggregates :: "duration option"
  attestation :: "duration option"
  voluntary_exit :: "duration option"
  proposer_slashing :: "duration option"
  attester_slashing :: "duration option"
  signed_contribution_and_proof :: "duration option"
  sync_committee_message :: "duration option"

record 'q gossip_cache =
  expirations :: 'q
  topic_msgs :: "(gossip_topic, (bytes, nat) hmap) hmap"
  timeouts :: gossip_timeouts

record gossip_cache_builder =
  default_timeout :: "duration option"
  builder_timeouts :: gossip_timeouts

text \<open>The builder: without a timeout of its own or a default one a kind of message is not kept.\<close>

definition cache_builder :: gossip_cache_builder where
  "cache_builder = \<lparr> default_timeout = None, builder_timeouts = \<lparr> beacon_block = None, aggregates = None,
     attestation = None, voluntary_exit = None, proposer_slashing = None, attester_slashing = None,
     signed_contribution_and_proof = None, sync_committee_message = None \<rparr> \<rparr>"

definition with_default_timeout :: "duration \<Rightarrow> gossip_cache_builder \<Rightarrow> gossip_cache_builder" where
  "with_default_timeout t b = b\<lparr>default_timeout := Some t\<rparr>"

definition set_timeout :: "(gossip_timeouts \<Rightarrow> gossip_timeouts) \<Rightarrow> gossip_cache_builder \<Rightarrow> gossip_cache_builder" where
  "set_timeout f b = b\<lparr>builder_timeouts := f (builder_timeouts b)\<rparr>"

definition beacon_block_timeout :: "duration \<Rightarrow> gossip_cache_builder \<Rightarrow> gossip_cache_builder" where
  "beacon_block_timeout t = set_timeout (\<lambda>ts. ts\<lparr>beacon_block := Some t\<rparr>)"

definition aggregates_timeout :: "duration \<Rightarrow> gossip_cache_builder \<Rightarrow> gossip_cache_builder" where
  "aggregates_timeout t = set_timeout (\<lambda>ts. ts\<lparr>aggregates := Some t\<rparr>)"

definition attestation_timeout :: "duration \<Rightarrow> gossip_cache_builder \<Rightarrow> gossip_cache_builder" where
  "attestation_timeout t = set_timeout (\<lambda>ts. ts\<lparr>attestation := Some t\<rparr>)"

definition voluntary_exit_timeout :: "duration \<Rightarrow> gossip_cache_builder \<Rightarrow> gossip_cache_builder" where
  "voluntary_exit_timeout t = set_timeout (\<lambda>ts. ts\<lparr>voluntary_exit := Some t\<rparr>)"

definition proposer_slashing_timeout :: "duration \<Rightarrow> gossip_cache_builder \<Rightarrow> gossip_cache_builder" where
  "proposer_slashing_timeout t = set_timeout (\<lambda>ts. ts\<lparr>proposer_slashing := Some t\<rparr>)"

definition attester_slashing_timeout :: "duration \<Rightarrow> gossip_cache_builder \<Rightarrow> gossip_cache_builder" where
  "attester_slashing_timeout t = set_timeout (\<lambda>ts. ts\<lparr>attester_slashing := Some t\<rparr>)"

definition signed_contribution_and_proof_timeout :: "duration \<Rightarrow> gossip_cache_builder \<Rightarrow> gossip_cache_builder" where
  "signed_contribution_and_proof_timeout t = set_timeout (\<lambda>ts. ts\<lparr>signed_contribution_and_proof := Some t\<rparr>)"

definition sync_committee_message_timeout :: "duration \<Rightarrow> gossip_cache_builder \<Rightarrow> gossip_cache_builder" where
  "sync_committee_message_timeout t = set_timeout (\<lambda>ts. ts\<lparr>sync_committee_message := Some t\<rparr>)"

lemmas cache_builder_defs = cache_builder_def set_timeout_def beacon_block_timeout_def aggregates_timeout_def attestation_timeout_def voluntary_exit_timeout_def
  proposer_slashing_timeout_def attester_slashing_timeout_def signed_contribution_and_proof_timeout_def sync_committee_message_timeout_def

definition or_else :: "'a option \<Rightarrow> 'a option \<Rightarrow> 'a option" where
  "or_else x d = (case x of Some _ \<Rightarrow> x | None \<Rightarrow> d)"

definition cache_build :: "('q, cache_item) delay_queue \<Rightarrow> gossip_cache_builder \<Rightarrow> 'q gossip_cache" where
  "cache_build Q b = (let d = default_timeout b; t = builder_timeouts b in
     \<lparr> expirations = dq_default Q, topic_msgs = [],
       timeouts = \<lparr> beacon_block = or_else (beacon_block t) d, aggregates = or_else (aggregates t) d,
         attestation = or_else (attestation t) d, voluntary_exit = or_else (voluntary_exit t) d,
         proposer_slashing = or_else (proposer_slashing t) d,
         attester_slashing = or_else (attester_slashing t) d,
         signed_contribution_and_proof = or_else (signed_contribution_and_proof t) d,
         sync_committee_message = or_else (sync_committee_message t) d \<rparr> \<rparr>)"

fun timeout_of :: "gossip_kind \<Rightarrow> gossip_timeouts \<Rightarrow> duration option" where
  "timeout_of BeaconBlock t = beacon_block t"
| "timeout_of BeaconAggregateAndProof t = aggregates t"
| "timeout_of (KindAttestation _) t = attestation t"
| "timeout_of VoluntaryExit t = voluntary_exit t"
| "timeout_of ProposerSlashing t = proposer_slashing t"
| "timeout_of AttesterSlashing t = attester_slashing t"
| "timeout_of SignedContributionAndProof t = signed_contribution_and_proof t"
| "timeout_of (SyncCommitteeMessage _) t = sync_committee_message t"

definition msgs_of :: "(gossip_topic, (bytes, nat) hmap) hmap \<Rightarrow> gossip_topic \<Rightarrow> (bytes, nat) hmap" where
  "msgs_of m topic = (case hm_get m topic of Some ms \<Rightarrow> ms | None \<Rightarrow> [])"

definition cache_insert ::
  "('q, cache_item) delay_queue \<Rightarrow> instant \<Rightarrow> gossip_topic \<Rightarrow> bytes \<Rightarrow> 'q gossip_cache \<Rightarrow> 'q gossip_cache" where
  "cache_insert Q now topic data c = (case timeout_of (gt_kind topic) (timeouts c) of
       None \<Rightarrow> c
     | Some timeout \<Rightarrow>
         (let msgs = msgs_of (topic_msgs c) topic; deadline = now + timeout in
          case hm_get msgs data of
            Some key \<Rightarrow> c\<lparr>expirations := dq_reset Q key deadline (expirations c)\<rparr>
          | None \<Rightarrow> (let (q, key) = dq_insert Q (topic, data) deadline (expirations c)
                     in c\<lparr>expirations := q,
                          topic_msgs := hm_insert topic (hm_insert data key msgs) (topic_msgs c)\<rparr>)))"

definition cache_retrieve ::
  "('q, cache_item) delay_queue \<Rightarrow> gossip_topic \<Rightarrow> 'q gossip_cache \<Rightarrow> 'q gossip_cache \<times> bytes list option" where
  "cache_retrieve Q topic c = (case hm_get (topic_msgs c) topic of
       None \<Rightarrow> (c, None)
     | Some msgs \<Rightarrow>
         (c\<lparr>topic_msgs := hm_remove topic (topic_msgs c),
            expirations := fold (\<lambda>(_, key). dq_remove Q key) msgs (expirations c)\<rparr>,
          Some (map fst msgs)))"

datatype cache_poll = CacheExpired gossip_topic | CacheError string | CacheDone | CachePending
  | CachePanic

definition cache_poll_next ::
  "('q, cache_item) delay_queue \<Rightarrow> instant \<Rightarrow> 'q gossip_cache \<Rightarrow> 'q gossip_cache \<times> cache_poll" where
  "cache_poll_next Q now c = (let (q, r) = dq_poll Q now (expirations c); c = c\<lparr>expirations := q\<rparr> in
     case r of
       Expired key (topic, data) \<Rightarrow>
         (case hm_get (topic_msgs c) topic of
            Some msgs \<Rightarrow>
              if hm_get msgs data \<noteq> Some key then (c, CachePanic)
              else (let msgs = hm_remove data msgs in
                (c\<lparr>topic_msgs := (if msgs = [] then hm_remove topic (topic_msgs c)
                                  else hm_insert topic msgs (topic_msgs c))\<rparr>, CacheExpired topic))
          | None \<Rightarrow> (c, CachePanic))
     | TimerError e \<Rightarrow> (c, CacheError e)
     | QueueEmpty \<Rightarrow> (c, CacheDone)
     | QueuePending \<Rightarrow> (c, CachePending))"

section \<open>The table and the queue agree\<close>

text \<open>\<open>CachePanic\<close> stands for the debug assertions: a build without them goes on instead.\<close>

text \<open>What the cache holds: the key under which a message of a topic is queued.\<close>

definition cached_key :: "'q gossip_cache \<Rightarrow> cache_item \<Rightarrow> nat option" where
  "cached_key c x = hm_get (msgs_of (topic_msgs c) (fst x)) (snd x)"

definition cache_ok :: "('q, cache_item) delay_queue \<Rightarrow> 'q gossip_cache \<Rightarrow> bool" where
  "cache_ok Q c \<longleftrightarrow> hm_ok (topic_msgs c)
     \<and> (\<forall>t ms. hm_get (topic_msgs c) t = Some ms \<longrightarrow> hm_ok ms \<and> ms \<noteq> [])
     \<and> (\<forall>x k. cached_key c x = Some k \<longleftrightarrow> (\<exists>u. dq_at Q (expirations c) k = Some (x, u)))"

lemma cache_okD:
  "cache_ok Q c \<Longrightarrow> cached_key c x = Some k \<longleftrightarrow> (\<exists>u. dq_at Q (expirations c) k = Some (x, u))"
  unfolding cache_ok_def by blast

lemma cache_ok_build: "dq_laws Q \<Longrightarrow> cache_ok Q (cache_build Q b)"
  by (simp add: cache_ok_def cache_build_def Let_def dq_laws_def cached_key_def msgs_of_def)

lemma cached_key_insert:
  "cached_key (c\<lparr>expirations := q, topic_msgs := hm_insert t (hm_insert d k (msgs_of (topic_msgs c) t))
     (topic_msgs c)\<rparr>) x = (if x = (t, d) then Some k else cached_key c x)"
  by (cases x) (auto simp: cached_key_def msgs_of_def)

lemma cached_key_expirations [simp]: "cached_key (c\<lparr>expirations := q\<rparr>) x = cached_key c x"
  by (simp add: cached_key_def)

lemma hm_ok_msgs_of: "cache_ok Q c \<Longrightarrow> hm_ok (msgs_of (topic_msgs c) t)"
  by (auto simp: cache_ok_def msgs_of_def split: option.split)

lemma cache_ok_insert:
  assumes Q: "dq_laws Q" and ok: "cache_ok Q c"
  shows "cache_ok Q (cache_insert Q now t d c)"
proof (cases "timeout_of (gt_kind t) (timeouts c)")
  case (Some timeout)
  let ?msgs = "msgs_of (topic_msgs c) t" and ?dl = "now + timeout"
  show ?thesis
  proof (cases "hm_get ?msgs d")
    case None
    obtain q k where ins: "dq_insert Q (t, d) ?dl (expirations c) = (q, k)" by force
    then have q: "dq_at Q (expirations c) k = None"
      "dq_at Q q = (dq_at Q (expirations c))(k := Some ((t, d), ?dl))"
      using dq_lawsD(1,2) [OF Q] by blast+
    let ?c = "c\<lparr>expirations := q, topic_msgs := hm_insert t (hm_insert d k ?msgs) (topic_msgs c)\<rparr>"
    have ne: "hm_insert d k ms \<noteq> []" for ms :: "(bytes, nat) hmap"
      by (cases "(d, k, ms)" rule: hm_insert.cases) auto
    have "cached_key ?c x = Some j \<longleftrightarrow> (\<exists>u. dq_at Q (expirations ?c) j = Some (x, u))" for x j
      using ok q None unfolding cached_key_insert cache_ok_def
      by (auto simp: cached_key_def split: if_splits) (metis option.distinct(1))+
    then have "cache_ok Q ?c"
      using ok ne hm_ok_msgs_of [OF ok, of t] by (auto simp: cache_ok_def)
    with Some None ins show ?thesis by (simp add: cache_insert_def Let_def)
  next
    case (Some k)
    then obtain u where u: "dq_at Q (expirations c) k = Some ((t, d), u)"
      using ok by (auto simp: cache_ok_def cached_key_def)
    then have q: "dq_at Q (dq_reset Q k ?dl (expirations c)) = (dq_at Q (expirations c))(k := Some ((t, d), ?dl))"
      using dq_lawsD(3) [OF Q] by blast
    have "cache_ok Q (c\<lparr>expirations := dq_reset Q k ?dl (expirations c)\<rparr>)"
      using ok u unfolding cache_ok_def by (auto simp: q)
    with Some \<open>timeout_of (gt_kind t) (timeouts c) = _\<close> show ?thesis
      by (simp add: cache_insert_def Let_def)
  qed
qed (use ok in \<open>simp add: cache_insert_def\<close>)

lemma dq_remove_fold:
  assumes "dq_laws Q"
  shows "dq_at Q (fold (\<lambda>(_, k). dq_remove Q k) ms q) j
    = (if j \<in> snd ` set ms then None else dq_at Q q j)"
proof -
  have rm: "dq_at Q (dq_remove Q k q) = (dq_at Q q)(k := None)" for k q
    using assms by (simp add: dq_laws_def)
  show ?thesis by (induction ms arbitrary: q) (auto simp: rm)
qed

lemma cache_ok_retrieve:
  assumes Q: "dq_laws Q" and ok: "cache_ok Q c"
  shows "cache_ok Q (fst (cache_retrieve Q t c))"
proof (cases "hm_get (topic_msgs c) t")
  case (Some ms)
  let ?c = "fst (cache_retrieve Q t c)"
  have c: "topic_msgs ?c = hm_remove t (topic_msgs c)"
    "expirations ?c = fold (\<lambda>(_, k). dq_remove Q k) ms (expirations c)"
    using Some by (simp_all add: cache_retrieve_def)
  have ms: "hm_ok ms" and m: "hm_ok (topic_msgs c)" using ok Some by (auto simp: cache_ok_def)
  have key: "cached_key ?c x = (if fst x = t then None else cached_key c x)" for x
    using m by (simp add: cached_key_def msgs_of_def c)
  have in_ms: "j \<in> snd ` set ms \<longleftrightarrow> (\<exists>d. cached_key c (t, d) = Some j)" for j
  proof
    assume "j \<in> snd ` set ms"
    then obtain d where "(d, j) \<in> set ms" by auto
    with Some hm_in_get [OF ms] show "\<exists>d. cached_key c (t, d) = Some j"
      by (auto simp: cached_key_def msgs_of_def)
  next
    assume "\<exists>d. cached_key c (t, d) = Some j"
    with Some show "j \<in> snd ` set ms"
      by (auto simp: cached_key_def msgs_of_def image_iff dest!: hm_get_Some_in)
         (metis snd_conv)
  qed
  have at: "\<exists>u. dq_at Q (expirations c) j = Some (x, u)" if "cached_key c x = Some j" for x j
    using ok that unfolding cache_ok_def by blast
  have un: "x = y" if "cached_key c x = Some j" "cached_key c y = Some j" for x y j
    using at [OF that(1)] at [OF that(2)] by auto
  have "cached_key ?c x = Some j \<longleftrightarrow> (\<exists>u. dq_at Q (expirations ?c) j = Some (x, u))" for x j
  proof -
    have old: "cached_key c x = Some j \<longleftrightarrow> (\<exists>u. dq_at Q (expirations c) j = Some (x, u))"
      by (rule cache_okD [OF ok])
    show ?thesis
    proof (cases "fst x = t")
      case True
      then obtain d where "x = (t, d)" by (cases x) auto
      with old show ?thesis unfolding key c dq_remove_fold [OF Q] in_ms by auto
    next
      case False
      then have "cached_key c x = Some j \<Longrightarrow> \<not> (\<exists>d. cached_key c (t, d) = Some j)"
        using un [of x j] by (metis fst_conv)
      with False old show ?thesis unfolding key c dq_remove_fold [OF Q] in_ms by auto
    qed
  qed
  moreover have "\<forall>u us. hm_get (topic_msgs ?c) u = Some us \<longrightarrow> hm_ok us \<and> us \<noteq> []"
    using ok m by (simp add: cache_ok_def c)
  ultimately show ?thesis using m by (simp add: cache_ok_def c)
qed (use ok in \<open>simp add: cache_retrieve_def\<close>)

lemma cache_poll_expired:
  assumes Q: "dq_laws Q" and ok: "cache_ok Q c"
    and poll: "dq_poll Q now (expirations c) = (q, Expired k (t, d))"
  shows "snd (cache_poll_next Q now c) = CacheExpired t"
    and "cache_ok Q (fst (cache_poll_next Q now c))"
proof -
  obtain u where u: "dq_at Q (expirations c) k = Some ((t, d), u)"
    and q: "dq_at Q q = (dq_at Q (expirations c))(k := None)"
    using dq_lawsD(4,5) [OF Q poll] by blast
  then have key: "cached_key c (t, d) = Some k" using ok by (auto simp: cache_ok_def)
  then obtain ms where ms: "hm_get (topic_msgs c) t = Some ms" "hm_get ms d = Some k"
    by (auto simp: cached_key_def msgs_of_def split: option.splits)
  have m: "hm_ok (topic_msgs c)" "hm_ok ms" using ok ms(1) by (auto simp: cache_ok_def)
  let ?c = "c\<lparr>expirations := q, topic_msgs := (if hm_remove d ms = [] then hm_remove t (topic_msgs c)
               else hm_insert t (hm_remove d ms) (topic_msgs c))\<rparr>"
  have res: "cache_poll_next Q now c = (?c, CacheExpired t)"
    using poll ms by (simp add: cache_poll_next_def Let_def)
  then show "snd (cache_poll_next Q now c) = CacheExpired t" by simp
  have gone: "hm_get (hm_remove d ms) e = (if e = d then None else hm_get ms e)" for e
    using m(2) by simp
  have "cached_key ?c x = (if x = (t, d) then None else cached_key c x)" for x
  proof (cases "hm_remove d ms = []")
    case True
    with gone have "hm_get ms e = None" if "e \<noteq> d" for e using that by (metis hm_get.simps(1))
    with True ms m(1) show ?thesis by (cases x) (auto simp: cached_key_def msgs_of_def)
  next
    case False
    with ms m show ?thesis by (cases x) (auto simp: cached_key_def msgs_of_def)
  qed
  note key' = this
  have "cached_key ?c x = Some j \<longleftrightarrow> (\<exists>u. dq_at Q (expirations ?c) j = Some (x, u))" for x j
  proof (cases "j = k")
    case True
    with cache_okD [OF ok, of x k] u q show ?thesis
      unfolding key' by auto
  next
    case False
    with cache_okD [OF ok, of x j] cache_okD [OF ok, of "(t, d)" j] key q show ?thesis
      unfolding key' by (cases "x = (t, d)") auto
  qed
  moreover have "hm_ok us \<and> us \<noteq> []" if "hm_get (topic_msgs ?c) s = Some us" for s us
  proof (cases "s = t")
    case True
    show ?thesis
    proof (cases "hm_remove d ms = []")
      case True
      then have "hm_get (topic_msgs ?c) t = None" using m(1) by simp
      with that \<open>s = t\<close> show ?thesis by (metis option.distinct(1))
    next
      case False
      then have "hm_get (topic_msgs ?c) t = Some (hm_remove d ms)" by simp
      with that \<open>s = t\<close> have "us = hm_remove d ms" by (metis option.inject)
      with m(2) False show ?thesis by simp
    qed
  next
    case False
    have "hm_get (topic_msgs ?c) s = hm_get (topic_msgs c) s" using m(1) False by simp
    with that have us: "hm_get (topic_msgs c) s = Some us" by metis
    from ok have "\<forall>t ms. hm_get (topic_msgs c) t = Some ms \<longrightarrow> hm_ok ms \<and> ms \<noteq> []"
      by (simp add: cache_ok_def)
    then have "hm_get (topic_msgs c) s = Some us \<longrightarrow> hm_ok us \<and> us \<noteq> []" by (elim allE)
    with us show ?thesis by (rule rev_mp)
  qed
  moreover have "hm_ok (topic_msgs ?c)" using m by simp
  ultimately have "cache_ok Q ?c" unfolding cache_ok_def by blast
  then show "cache_ok Q (fst (cache_poll_next Q now c))" by (simp add: res)
qed

lemma cache_ok_poll:
  assumes Q: "dq_laws Q" and ok: "cache_ok Q c"
  shows "cache_ok Q (fst (cache_poll_next Q now c)) \<and> snd (cache_poll_next Q now c) \<noteq> CachePanic"
proof -
  obtain q r where p: "dq_poll Q now (expirations c) = (q, r)" by force
  show ?thesis
  proof (cases "\<exists>k x. r = Expired k x")
    case True
    with p cache_poll_expired [OF Q ok] show ?thesis by auto
  next
    case False
    then have "dq_at Q q = dq_at Q (expirations c)"
      using dq_lawsD(6) [OF Q p] by blast
    then have "cache_ok Q (c\<lparr>expirations := q\<rparr>)" using ok by (simp add: cache_ok_def)
    with p False show ?thesis
      by (cases r) (auto simp: cache_poll_next_def Let_def)
  qed
qed

section \<open>Properties\<close>

datatype cache_op = OpInsert instant gossip_topic bytes | OpRetrieve gossip_topic | OpPoll instant

fun cache_step :: "('q, cache_item) delay_queue \<Rightarrow> cache_op \<Rightarrow> 'q gossip_cache \<Rightarrow> 'q gossip_cache" where
  "cache_step Q (OpInsert now t d) c = cache_insert Q now t d c"
| "cache_step Q (OpRetrieve t) c = fst (cache_retrieve Q t c)"
| "cache_step Q (OpPoll now) c = fst (cache_poll_next Q now c)"

lemma cache_ok_run: "dq_laws Q \<Longrightarrow> cache_ok Q c \<Longrightarrow> cache_ok Q (fold (cache_step Q) ops c)"
proof (induction ops arbitrary: c)
  case (Cons op ops)
  then show ?case
    by (cases op) (simp_all add: cache_ok_insert cache_ok_retrieve cache_ok_poll)
qed simp

text \<open>C8. However messages are inserted, retrieved and expired, the table of cached messages and the delay
  queue stay in step: polling never reaches the panic for a message that is not registered, and
  retrieving a topic gives exactly the messages still queued for it and takes them off the queue.\<close>
theorem gossip_cache_consistent:
  fixes ops :: "cache_op list" and b :: gossip_cache_builder
  assumes "dq_laws Q"
  defines "c \<equiv> fold (cache_step Q) ops (cache_build Q b)"
  shows "snd (cache_poll_next Q now c) \<noteq> CachePanic
    \<and> set (case snd (cache_retrieve Q t c) of Some ds \<Rightarrow> ds | None \<Rightarrow> [])
        = {d. \<exists>k u. dq_at Q (expirations c) k = Some ((t, d), u)}
    \<and> (\<forall>k d u. dq_at Q (expirations (fst (cache_retrieve Q t c))) k \<noteq> Some ((t, d), u))"
proof (intro conjI)
  have ok: "cache_ok Q c"
    unfolding c_def using assms(1) by (intro cache_ok_run cache_ok_build)
  then show "snd (cache_poll_next Q now c) \<noteq> CachePanic"
    using cache_ok_poll [OF assms(1)] by blast
  have "set (case snd (cache_retrieve Q t c) of Some ds \<Rightarrow> ds | None \<Rightarrow> [])
      = {d. cached_key c (t, d) \<noteq> None}"
  proof (cases "hm_get (topic_msgs c) t")
    case (Some ms)
    then show ?thesis
      by (simp add: cache_retrieve_def cached_key_def msgs_of_def hm_get_None_iff [of ms]
          del: not_None_eq)
  qed (simp add: cache_retrieve_def cached_key_def msgs_of_def)
  also have "\<dots> = {d. \<exists>k u. dq_at Q (expirations c) k = Some ((t, d), u)}"
    using ok by (auto simp: cache_ok_def)
  finally show "set (case snd (cache_retrieve Q t c) of Some ds \<Rightarrow> ds | None \<Rightarrow> [])
      = {d. \<exists>k u. dq_at Q (expirations c) k = Some ((t, d), u)}" .
  have "cached_key (fst (cache_retrieve Q t c)) (t, d) = None" for d
    using ok by (auto simp: cache_retrieve_def cached_key_def msgs_of_def cache_ok_def split: option.split)
  moreover have "cache_ok Q (fst (cache_retrieve Q t c))" using assms(1) ok by (rule cache_ok_retrieve)
  ultimately show "\<forall>k d u. dq_at Q (expirations (fst (cache_retrieve Q t c))) k \<noteq> Some ((t, d), u)"
    by (metis cache_ok_def option.distinct(1))
qed

lemma gossip_cache_consistent_witness:
  "snd (cache_poll_next list_dq 5 (fold (cache_step list_dq) [OpInsert 1 (gossip_topic_new BeaconBlock GossipSSZSnappy [0, 0, 0, 0]) [7]]
     (cache_build list_dq \<lparr>default_timeout = Some 3, builder_timeouts =
        \<lparr>beacon_block = None, aggregates = None, attestation = None, voluntary_exit = None,
         proposer_slashing = None, attester_slashing = None, signed_contribution_and_proof = None,
         sync_committee_message = None\<rparr>\<rparr>))) \<noteq> CachePanic"
  using gossip_cache_consistent [OF list_dq_laws] by blast

end
