(* ===== verification/Discovery.thy ===== *)
theory Discovery
  imports Peer_DB_Ops
begin

text \<open>
  \<open>discovery/mod.rs\<close>: the queue of subnet queries, the queries that are running, what a finished query
  gives, and the bans and record updates passed on to discv5.  The discv5 service, the LRU cache of
  records, the SSZ library and the clock are parameters.
\<close>

section \<open>Data\<close>

definition TARGET_PEERS_FOR_GROUPED_QUERY :: nat where "TARGET_PEERS_FOR_GROUPED_QUERY = 6"
definition MAX_DISCOVERY_RETRY :: nat where "MAX_DISCOVERY_RETRY = 3"
definition MAX_CONCURRENT_SUBNET_QUERIES :: nat where "MAX_CONCURRENT_SUBNET_QUERIES = 2"
definition MAX_SUBNETS_IN_QUERY :: nat where "MAX_SUBNETS_IN_QUERY = 3"
definition FIND_NODE_QUERY_CLOSEST_PEERS :: nat where "FIND_NODE_QUERY_CLOSEST_PEERS = 16"
definition DURATION_DIFFERENCE :: duration where "DURATION_DIFFERENCE = 1000000"

record subnet_query =
  sq_subnet :: subnet
  sq_min_ttl :: "instant option"
  sq_retries :: nat

definition query_expired :: "instant \<Rightarrow> subnet_query \<Rightarrow> bool" where
  "query_expired now q = (case sq_min_ttl q of Some t \<Rightarrow> t < now | None \<Rightarrow> False)"

datatype query_type = SubnetQueries "subnet_query list" | FindPeers

type_synonym query_result = "query_type \<times> (string + enr list)"

text \<open>A running query is what it searches for, how many records it wants and which it accepts.\<close>

type_synonym active_query = "query_type \<times> nat \<times> (enr \<Rightarrow> bool)"

text \<open>The libraries: the LRU cache with state \<open>'c\<close>, the discv5 service with state \<open>'d\<close>, the decoder of
  the fork field (giving the fork digest), the encoder of a bit field, and the conversions between peer
  ids and node ids.\<close>

record ('c, 'd) disc_api =
  lru_put :: "peer_id \<Rightarrow> enr \<Rightarrow> 'c \<Rightarrow> 'c"
  lru_get :: "peer_id \<Rightarrow> 'c \<Rightarrow> 'c \<times> enr option"
  lru_pop :: "peer_id \<Rightarrow> 'c \<Rightarrow> 'c \<times> enr option"
  dv_local_enr :: "'d \<Rightarrow> enr"
  dv_enr_insert :: "string \<Rightarrow> bytes \<Rightarrow> 'd \<Rightarrow> string + 'd"
  dv_add_enr :: "enr \<Rightarrow> 'd \<Rightarrow> 'd"
  dv_find_enr :: "nat \<Rightarrow> 'd \<Rightarrow> enr option"
  dv_ban_node :: "nat \<Rightarrow> 'd \<Rightarrow> 'd"
  dv_remove_node :: "nat \<Rightarrow> 'd \<Rightarrow> 'd"
  dv_ban_ip :: "ip_addr \<Rightarrow> 'd \<Rightarrow> 'd"
  dv_unban_node :: "nat \<Rightarrow> 'd \<Rightarrow> 'd"
  dv_unban_ip :: "ip_addr \<Rightarrow> 'd \<Rightarrow> 'd"
  dv_disconnect_node :: "nat \<Rightarrow> 'd \<Rightarrow> 'd"
  decode_fork_digest :: "bytes \<Rightarrow> bytes option"
  encode_bits :: "bitfield \<Rightarrow> bytes"
  ip_octets :: "ip_addr \<Rightarrow> bytes"
  port_bytes :: "port \<Rightarrow> bytes"
  id_of_enr :: "enr \<Rightarrow> peer_id"
  node_id_of :: "peer_id \<Rightarrow> nat option"
  ssz :: ssz_api

text \<open>The event stream of discv5 is awaited, present, or inactive.\<close>

datatype event_stream = Awaiting | Present | InActive

datatype discv5_event = SocketUpdated socket_addr | OtherDiscv5Event

record ('c, 'd) discovery =
  cached_enrs :: 'c
  discv5 :: 'd
  global_enr :: enr
  enr_on_disk :: "enr option"
  find_peer_active :: bool
  queued_queries :: "subnet_query list"
  active_queries :: "active_query list"
  disc_stream :: event_stream
  started :: bool

section \<open>The cache and the local record\<close>

definition put_enr :: "('c, 'd) disc_api \<Rightarrow> enr \<Rightarrow> ('c, 'd) discovery \<Rightarrow> ('c, 'd) discovery" where
  "put_enr A e d = d\<lparr>cached_enrs := lru_put A (id_of_enr A e) e (cached_enrs d)\<rparr>"

definition remove_cached_enr ::
  "('c, 'd) disc_api \<Rightarrow> peer_id \<Rightarrow> ('c, 'd) discovery \<Rightarrow> ('c, 'd) discovery \<times> enr option" where
  "remove_cached_enr A p d = (let (c, e) = lru_pop A p (cached_enrs d) in (d\<lparr>cached_enrs := c\<rparr>, e))"

definition disc_add_enr :: "('c, 'd) disc_api \<Rightarrow> enr \<Rightarrow> ('c, 'd) discovery \<Rightarrow> ('c, 'd) discovery" where
  "disc_add_enr A e d = (let d = put_enr A e d in d\<lparr>discv5 := dv_add_enr A e (discv5 d)\<rparr>)"

definition enr_of_peer ::
  "('c, 'd) disc_api \<Rightarrow> peer_id \<Rightarrow> ('c, 'd) discovery \<Rightarrow> ('c, 'd) discovery \<times> enr option" where
  "enr_of_peer A p d = (case lru_get A p (cached_enrs d) of
       (c, Some e) \<Rightarrow> (d\<lparr>cached_enrs := c\<rparr>, Some e)
     | (c, None) \<Rightarrow> (d\<lparr>cached_enrs := c\<rparr>, case node_id_of A p of
           Some n \<Rightarrow> dv_find_enr A n (discv5 d) | None \<Rightarrow> None))"

definition addresses_of_peer ::
  "('c, 'd) disc_api \<Rightarrow> peer_id \<Rightarrow> ('c, 'd) discovery \<Rightarrow> ('c, 'd) discovery \<times> multiaddr list" where
  "addresses_of_peer A p d = (case enr_of_peer A p d of
       (d, Some e) \<Rightarrow> (d, enr_multiaddr_tcp e) | (d, None) \<Rightarrow> (d, []))"

text \<open>The local record is copied to the globals and written to disk.\<close>

definition publish_enr :: "('c, 'd) disc_api \<Rightarrow> ('c, 'd) discovery \<Rightarrow> ('c, 'd) discovery" where
  "publish_enr A d = (let e = dv_local_enr A (discv5 d) in d\<lparr>global_enr := e, enr_on_disk := Some e\<rparr>)"

definition update_enr_tcp_port ::
  "('c, 'd) disc_api \<Rightarrow> port \<Rightarrow> ('c, 'd) discovery \<Rightarrow> ('c, 'd) discovery \<times> (string + unit)" where
  "update_enr_tcp_port A port d = (case dv_enr_insert A ''tcp'' (port_bytes A port) (discv5 d) of
       Inl e \<Rightarrow> (d, Inl e)
     | Inr dv \<Rightarrow> (publish_enr A (d\<lparr>discv5 := dv\<rparr>), Inr ()))"

definition update_enr_udp_socket ::
  "('c, 'd) disc_api \<Rightarrow> socket_addr \<Rightarrow> ('c, 'd) discovery \<Rightarrow> ('c, 'd) discovery \<times> (string + unit)" where
  "update_enr_udp_socket A sa d =
     (let (ipkey, udpkey) = (case fst sa of V4 _ \<Rightarrow> (''ip'', ''udp'') | V6 _ \<Rightarrow> (''ip6'', ''udp6'')) in
      case dv_enr_insert A ipkey (ip_octets A (fst sa)) (discv5 d) of
        Inl e \<Rightarrow> (d, Inl e)
      | Inr dv \<Rightarrow> (case dv_enr_insert A udpkey (port_bytes A (snd sa)) dv of
            Inl e \<Rightarrow> (d\<lparr>discv5 := dv\<rparr>, Inl e)
          | Inr dv \<Rightarrow> (publish_enr A (d\<lparr>discv5 := dv\<rparr>), Inr ())))"

text \<open>The two branches differ in the bit field and its key only.\<close>

definition update_enr_bitfield ::
  "('c, 'd) disc_api \<Rightarrow> subnet \<Rightarrow> bool \<Rightarrow> ('c, 'd) discovery \<Rightarrow> ('c, 'd) discovery \<times> (string + unit)" where
  "update_enr_bitfield A s value d =
     (let (i, key, field) = (case s of
            Attestation i \<Rightarrow> (i, ATTESTATION_BITFIELD_ENR_KEY, attestation_bitfield (ssz A))
          | SyncCommittee i \<Rightarrow> (i, SYNC_COMMITTEE_BITFIELD_ENR_KEY, sync_committee_bitfield (ssz A)))
      in case field (dv_local_enr A (discv5 d)) of
        Inl e \<Rightarrow> (d, Inl e)
      | Inr bits \<Rightarrow>
          if i \<ge> length bits
          then (d, Inl (''Subnet id: '' @ show_nat i @ '' is outside the ENR bitfield length: ''
                          @ show_nat (length bits)))
          else if bits ! i = value then (d, Inr ())
          else (case dv_enr_insert A key (encode_bits A (bits[i := value])) (discv5 d) of
              Inl e \<Rightarrow> (d, Inl e)
            | Inr dv \<Rightarrow> (publish_enr A (d\<lparr>discv5 := dv\<rparr>), Inr ())))"

definition update_eth2_enr :: "('c, 'd) disc_api \<Rightarrow> bytes \<Rightarrow> ('c, 'd) discovery \<Rightarrow> ('c, 'd) discovery" where
  "update_eth2_enr A fork_id d = publish_enr A (case dv_enr_insert A ETH2_ENR_KEY fork_id (discv5 d) of
       Inl _ \<Rightarrow> d | Inr dv \<Rightarrow> d\<lparr>discv5 := dv\<rparr>)"

section \<open>Bans and disconnections\<close>

definition disc_ban_peer ::
  "('c, 'd) disc_api \<Rightarrow> peer_id \<Rightarrow> ip_addr list \<Rightarrow> ('c, 'd) discovery \<Rightarrow> ('c, 'd) discovery" where
  "disc_ban_peer A p ips d =
     (let dv = (case node_id_of A p of
            Some n \<Rightarrow> dv_remove_node A n (dv_ban_node A n (discv5 d)) | None \<Rightarrow> discv5 d)
      in d\<lparr>discv5 := fold (dv_ban_ip A) ips dv\<rparr>)"

definition disc_unban_peer ::
  "('c, 'd) disc_api \<Rightarrow> peer_id \<Rightarrow> ip_addr list \<Rightarrow> ('c, 'd) discovery \<Rightarrow> ('c, 'd) discovery" where
  "disc_unban_peer A p ips d =
     (let dv = (case node_id_of A p of Some n \<Rightarrow> dv_unban_node A n (discv5 d) | None \<Rightarrow> discv5 d)
      in d\<lparr>discv5 := fold (dv_unban_ip A) ips dv\<rparr>)"

definition disc_disconnect_peer ::
  "('c, 'd) disc_api \<Rightarrow> peer_id \<Rightarrow> ('c, 'd) discovery \<Rightarrow> ('c, 'd) discovery" where
  "disc_disconnect_peer A p d =
     (let dv = (case node_id_of A p of Some n \<Rightarrow> dv_disconnect_node A n (discv5 d) | None \<Rightarrow> discv5 d)
      in fst (remove_cached_enr A p (d\<lparr>discv5 := dv\<rparr>)))"

datatype dial_error =
    DialBanned | LocalPeerId | InvalidPeerId | ConnectionIo | NoAddresses | TransportErr | WrongPeerId
  | ConnectionLimit | DialPeerConditionFalse | DialAborted

definition disc_inject_dial_failure ::
  "('c, 'd) disc_api \<Rightarrow> peer_id option \<Rightarrow> dial_error \<Rightarrow> ('c, 'd) discovery \<Rightarrow> ('c, 'd) discovery" where
  "disc_inject_dial_failure A p err d = (case p of
       None \<Rightarrow> d
     | Some p \<Rightarrow> if err \<in> {ConnectionLimit, DialPeerConditionFalse, DialAborted} then d
                 else disc_disconnect_peer A p d)"

section \<open>Starting queries\<close>

text \<open>\<open>eth2()\<close> of a record: the fork digest of its fork field.\<close>

definition enr_fork_digest :: "('c, 'd) disc_api \<Rightarrow> enr \<Rightarrow> bytes option" where
  "enr_fork_digest A e = (case hm_get (enr_kv e) ETH2_ENR_KEY of
       None \<Rightarrow> None | Some bs \<Rightarrow> decode_fork_digest A bs)"

definition start_query ::
  "('c, 'd) disc_api \<Rightarrow> query_type \<Rightarrow> nat \<Rightarrow> (enr \<Rightarrow> bool) \<Rightarrow> ('c, 'd) discovery \<Rightarrow> ('c, 'd) discovery" where
  "start_query A query target additional d =
     (if query = SubnetQueries [] then d
      else case enr_fork_digest A (dv_local_enr A (discv5 d)) of
        None \<Rightarrow> d
      | Some digest \<Rightarrow> d\<lparr>active_queries := active_queries d @ [(query, target,
          \<lambda>e. (enr_fork_digest A e = Some digest \<and> (enr_tcp4 e \<noteq> None \<or> enr_tcp6 e \<noteq> None))
              \<and> additional e)]\<rparr>)"

definition discover_peers :: "('c, 'd) disc_api \<Rightarrow> nat \<Rightarrow> ('c, 'd) discovery \<Rightarrow> ('c, 'd) discovery" where
  "discover_peers A target d = (if \<not> started d \<or> find_peer_active d then d
     else start_query A FindPeers (min FIND_NODE_QUERY_CLOSEST_PEERS target) (\<lambda>_. True)
            (d\<lparr>find_peer_active := True\<rparr>))"

definition needs_peers :: "('c, 'd) disc_api \<Rightarrow> peer_db \<Rightarrow> subnet_query \<Rightarrow> bool" where
  "needs_peers A db q = (length (good_peers_on_subnet (ssz A) (sq_subnet q) db) < TARGET_SUBNET_PEERS)"

definition start_subnet_query ::
  "('c, 'd) disc_api \<Rightarrow> peer_db \<Rightarrow> subnet_query list \<Rightarrow> ('c, 'd) discovery \<Rightarrow> ('c, 'd) discovery" where
  "start_subnet_query A db qs d =
     (let wanted = filter (needs_peers A db) qs
      in if wanted \<noteq> []
         then start_query A (SubnetQueries wanted) TARGET_PEERS_FOR_GROUPED_QUERY
                (subnet_predicate (ssz A) (map sq_subnet wanted)) d
         else d)"

section \<open>The queue of subnet queries\<close>

text \<open>\<open>Option\<close> compares \<open>None\<close> below every instant.\<close>

definition ttl_less :: "instant option \<Rightarrow> instant option \<Rightarrow> bool" where
  "ttl_less a b = (case (a, b) of
       (None, Some _) \<Rightarrow> True | (Some s, Some t) \<Rightarrow> s < t | (_, None) \<Rightarrow> False)"

text \<open>The first query for the subnet is updated, if there is one.\<close>

fun update_queued :: "subnet \<Rightarrow> instant option \<Rightarrow> nat \<Rightarrow> subnet_query list \<Rightarrow> subnet_query list option" where
  "update_queued s ttl retries [] = None"
| "update_queued s ttl retries (q # qs) =
     (if sq_subnet q = s
      then Some (q\<lparr>sq_min_ttl := (if ttl_less (sq_min_ttl q) ttl then ttl else sq_min_ttl q),
                   sq_retries := retries\<rparr> # qs)
      else map_option ((#) q) (update_queued s ttl retries qs))"

definition add_subnet_query ::
  "subnet \<Rightarrow> instant option \<Rightarrow> nat \<Rightarrow> ('c, 'd) discovery \<Rightarrow> ('c, 'd) discovery" where
  "add_subnet_query s ttl retries d = (if retries > MAX_DISCOVERY_RETRY then d
     else d\<lparr>queued_queries := (case update_queued s ttl retries (queued_queries d) of
         Some qs \<Rightarrow> qs
       | None \<Rightarrow> queued_queries d @ [\<lparr>sq_subnet = s, sq_min_ttl = ttl, sq_retries = retries\<rparr>])\<rparr>)"

definition discover_subnet_peers ::
  "subnet_discovery list \<Rightarrow> ('c, 'd) discovery \<Rightarrow> ('c, 'd) discovery" where
  "discover_subnet_peers ss d = (if \<not> started d then d
     else fold (\<lambda>s. add_subnet_query (sd_subnet s) (sd_min_ttl s) 0) ss d)"

definition at_capacity :: "('c, 'd) discovery \<Rightarrow> bool" where
  "at_capacity d = (length (active_queries d) - (if find_peer_active d then 1 else 0)
     \<ge> MAX_CONCURRENT_SUBNET_QUERIES)"

lemma start_subnet_query_queue [simp]:
  "queued_queries (start_subnet_query A db qs d) = queued_queries d"
  by (simp add: start_subnet_query_def start_query_def Let_def split: option.split)

text \<open>The loop over the queue, with the group collected so far and whether a query was started.\<close>

function queue_loop ::
  "('c, 'd) disc_api \<Rightarrow> peer_db \<Rightarrow> subnet_query list \<Rightarrow> bool \<Rightarrow> ('c, 'd) discovery \<Rightarrow> ('c, 'd) discovery \<times> bool" where
  "queue_loop A db grp processed d = (if at_capacity d then (d, processed)
     else case queued_queries d of
       [] \<Rightarrow> (d, processed)
     | q # rest \<Rightarrow>
         (let d = d\<lparr>queued_queries := rest\<rparr>; grp = grp @ [q]
          in if length grp = MAX_SUBNETS_IN_QUERY \<or> rest = []
             then queue_loop A db [] True (start_subnet_query A db grp d)
             else queue_loop A db grp processed d))"
  by pat_completeness auto
termination
  by (relation "measure (\<lambda>(A, db, grp, processed, d). length (queued_queries d))") auto

declare queue_loop.simps [simp del]

definition process_queue ::
  "('c, 'd) disc_api \<Rightarrow> instant \<Rightarrow> peer_db \<Rightarrow> ('c, 'd) discovery \<Rightarrow> ('c, 'd) discovery \<times> bool" where
  "process_queue A now db d = queue_loop A db [] False
     (d\<lparr>queued_queries := filter (\<lambda>q. \<not> query_expired now q) (queued_queries d)\<rparr>)"

section \<open>Finished queries\<close>

text \<open>The time a peer is wanted for: of two the later, unless they differ by no more than a millisecond.\<close>

definition merge_ttl :: "instant option \<Rightarrow> instant option option \<Rightarrow> instant option" where
  "merge_ttl ttl other = (case (ttl, other) of
       (Some t, Some (Some u)) \<Rightarrow> if t - u > DURATION_DIFFERENCE then Some t else Some u
     | (Some t, Some None) \<Rightarrow> Some t
     | (Some t, None) \<Rightarrow> Some t
     | (None, None) \<Rightarrow> None
     | (None, Some x) \<Rightarrow> x)"

definition map_result ::
  "('c, 'd) disc_api \<Rightarrow> subnet_query \<Rightarrow> enr \<Rightarrow> (peer_id, instant option) hmap \<Rightarrow>
     (peer_id, instant option) hmap" where
  "map_result A q e m = (if subnet_predicate (ssz A) [sq_subnet q] e
     then hm_insert (id_of_enr A e) (merge_ttl (sq_min_ttl q) (hm_get m (id_of_enr A e))) m else m)"

definition retry_query :: "subnet_query \<Rightarrow> ('c, 'd) discovery \<Rightarrow> ('c, 'd) discovery" where
  "retry_query q = add_subnet_query (sq_subnet q) (sq_min_ttl q) (sq_retries q + 1)"

definition process_completed_queries ::
  "('c, 'd) disc_api \<Rightarrow> query_result \<Rightarrow> ('c, 'd) discovery \<Rightarrow>
     ('c, 'd) discovery \<times> (peer_id, instant option) hmap option" where
  "process_completed_queries A qr d = (case qr of
       (FindPeers, r) \<Rightarrow>
         (let d = d\<lparr>find_peer_active := False\<rparr> in case r of
            Inr (e # es) \<Rightarrow> (fold (put_enr A) (e # es) d,
              Some (fold (\<lambda>e. hm_insert (id_of_enr A e) None) (e # es) []))
          | _ \<Rightarrow> (d, None))
     | (SubnetQueries qs, Inl _) \<Rightarrow> (d, None)
     | (SubnetQueries qs, Inr []) \<Rightarrow> (fold retry_query qs d, None)
     | (SubnetQueries qs, Inr es) \<Rightarrow>
         (let d = fold (put_enr A) es d;
              d = fold retry_query qs d;
              m = fold (\<lambda>q. fold (map_result A q) es) qs []
          in (d, if m = [] then None else Some m)))"

text \<open>The running queries that have finished, in the order the executor gives them, each with its
  position and what it found; the others stay.\<close>

fun poll_queries ::
  "('c, 'd) disc_api \<Rightarrow> (nat \<times> (string + enr list)) list \<Rightarrow> ('c, 'd) discovery \<Rightarrow>
     ('c, 'd) discovery \<times> (peer_id, instant option) hmap option" where
  "poll_queries A [] d = (d, None)"
| "poll_queries A ((i, r) # ready) d =
     (if i \<ge> length (active_queries d) then (d, None)
      else (let q = fst (active_queries d ! i);
                d = d\<lparr>active_queries := take i (active_queries d) @ drop (Suc i) (active_queries d)\<rparr>
            in case process_completed_queries A (q, r) d of
                 (d, Some m) \<Rightarrow> (d, Some m)
               | (d, None) \<Rightarrow> poll_queries A ready d))"

text \<open>The events received so far are read up to the first that updates the socket: then the record is
  published, and the address with the node's TCP port is reported.\<close>

definition multiaddr_of_ip :: "ip_addr \<Rightarrow> multiaddr" where
  "multiaddr_of_ip ip = (case ip of V4 w \<Rightarrow> [Ip4 w] | V6 w \<Rightarrow> [Ip6 w])"

fun read_events ::
  "('c, 'd) disc_api \<Rightarrow> port \<Rightarrow> discv5_event list \<Rightarrow> ('c, 'd) discovery \<Rightarrow>
     ('c, 'd) discovery \<times> multiaddr option" where
  "read_events A tcp [] d = (d, None)"
| "read_events A tcp (SocketUpdated sa # evs) d =
     (publish_enr A d, Some (multiaddr_of_ip (fst sa) @ [Tcp tcp]))"
| "read_events A tcp (OtherDiscv5Event # evs) d = read_events A tcp evs d"

datatype disc_action = DiscoveredPeers "(peer_id, instant option) hmap" | ReportObservedAddr multiaddr

text \<open>One poll: \<open>ready\<close> are the queries that have finished, \<open>stream\<close> the result of awaiting the event stream, if it
  has come, and \<open>evs\<close> the events waiting on the stream.\<close>

definition disc_poll ::
  "('c, 'd) disc_api \<Rightarrow> instant \<Rightarrow> peer_db \<Rightarrow> port \<Rightarrow> (nat \<times> (string + enr list)) list \<Rightarrow>
     (string + unit) option \<Rightarrow> discv5_event list \<Rightarrow> ('c, 'd) discovery \<Rightarrow>
     ('c, 'd) discovery \<times> disc_action option" where
  "disc_poll A now db tcp ready stream evs d = (if \<not> started d then (d, None)
     else case poll_queries A ready (fst (process_queue A now db d)) of
       (d, Some m) \<Rightarrow> (d, Some (DiscoveredPeers m))
     | (d, None) \<Rightarrow> (case disc_stream d of
           Awaiting \<Rightarrow> (case stream of
               None \<Rightarrow> (d, None)
             | Some (Inr _) \<Rightarrow> (d\<lparr>disc_stream := Present\<rparr>, None)
             | Some (Inl _) \<Rightarrow> (d\<lparr>disc_stream := InActive\<rparr>, None))
         | InActive \<Rightarrow> (d, None)
         | Present \<Rightarrow> (case read_events A tcp evs d of
               (d, Some ma) \<Rightarrow> (d, Some (ReportObservedAddr ma))
             | (d, None) \<Rightarrow> (d, None))))"

end
