(* ===== verification/Discovery_Props.thy ===== *)
theory Discovery_Props
  imports Discovery
begin

text \<open>
  What the query queue of discovery promises: no query is lost when the queue is processed, the running
  queries stay within the limit, a subnet is queued at most once, and a search that finds nothing ends.
\<close>

section \<open>Frame conditions\<close>

lemma start_query_frame [simp]:
  "find_peer_active (start_query A q n P d) = find_peer_active d"
  "queued_queries (start_query A q n P d) = queued_queries d"
  "discv5 (start_query A q n P d) = discv5 d"
  "started (start_query A q n P d) = started d"
  by (simp_all add: start_query_def split: option.split)

lemma start_subnet_query_frame [simp]:
  "find_peer_active (start_subnet_query A db qs d) = find_peer_active d"
  "discv5 (start_subnet_query A db qs d) = discv5 d"
  by (simp_all add: start_subnet_query_def Let_def)

text \<open>The subnet queries that are running.\<close>

definition searched :: "('c, 'd) discovery \<Rightarrow> subnet_query list" where
  "searched d = concat (map (\<lambda>a. case fst a of SubnetQueries qs \<Rightarrow> qs | FindPeers \<Rightarrow> []) (active_queries d))"

definition has_fork :: "('c, 'd) disc_api \<Rightarrow> ('c, 'd) discovery \<Rightarrow> bool" where
  "has_fork A d = (enr_fork_digest A (dv_local_enr A (discv5 d)) \<noteq> None)"

lemma has_fork_frame [simp]:
  "has_fork A (start_subnet_query A db qs d) = has_fork A d"
  "has_fork A (d\<lparr>queued_queries := qs\<rparr>) = has_fork A d"
  by (simp_all add: has_fork_def)

lemma searched_start_subnet_query:
  "has_fork A d \<Longrightarrow> searched (start_subnet_query A db qs d) = searched d @ filter (needs_peers A db) qs"
  by (auto simp: start_subnet_query_def start_query_def searched_def has_fork_def Let_def filter_empty_conv)

lemma length_start_subnet_query:
  "length (active_queries (start_subnet_query A db qs d)) \<le> length (active_queries d) + 1"
  by (simp add: start_subnet_query_def start_query_def Let_def split: option.split)

section \<open>A simple instance of the libraries\<close>

text \<open>The cache keeps everything, discv5 is its local record and finds no other.\<close>

definition simple_api :: "((peer_id, enr) hmap, enr) disc_api" where
  "simple_api = \<lparr>lru_put = hm_insert, lru_get = (\<lambda>p c. (c, hm_get c p)),
     lru_pop = (\<lambda>p c. (hm_remove p c, hm_get c p)), dv_local_enr = (\<lambda>e. e),
     dv_enr_insert = (\<lambda>k bs e. Inr (e\<lparr>enr_kv := hm_insert k bs (enr_kv e)\<rparr>)),
     dv_add_enr = (\<lambda>_ e. e), dv_find_enr = (\<lambda>_ _. None), dv_ban_node = (\<lambda>_ e. e),
     dv_remove_node = (\<lambda>_ e. e), dv_ban_ip = (\<lambda>_ e. e), dv_unban_node = (\<lambda>_ e. e),
     dv_unban_ip = (\<lambda>_ e. e), dv_disconnect_node = (\<lambda>_ e. e), decode_fork_digest = Some,
     encode_bits = map (\<lambda>b. if b then 1 else 0), ip_octets = (\<lambda>_. [127, 0, 0, 1]),
     port_bytes = (\<lambda>_. [35, 40]), id_of_enr = enr_node_id, node_id_of = Some,
     ssz = list_ssz\<lparr>decode_attnets := \<lambda>bs. Some (map (\<lambda>b. b = 1) bs)\<rparr>\<rparr>"

definition simple_enr :: "nat \<Rightarrow> enr" where
  "simple_enr n = \<lparr>enr_node_id = n, enr_seq = 1, enr_ip4 = Some 1, enr_tcp4 = Some 9000, enr_udp4 = Some 9000,
     enr_ip6 = None, enr_tcp6 = None, enr_udp6 = None,
     enr_kv = [(ETH2_ENR_KEY, [1]), (ATTESTATION_BITFIELD_ENR_KEY, [0, 1])]\<rparr>"

definition simple_discovery :: "subnet_query list \<Rightarrow> ((peer_id, enr) hmap, enr) discovery" where
  "simple_discovery qs = \<lparr>cached_enrs = [], discv5 = simple_enr 0, global_enr = simple_enr 0, enr_on_disk = None,
     find_peer_active = False, queued_queries = qs, active_queries = [], disc_stream = Present, started = True\<rparr>"

lemma simple_has_fork: "has_fork simple_api (simple_discovery qs)"
  by (simp add: has_fork_def simple_discovery_def simple_api_def simple_enr_def enr_fork_digest_def)

lemma simple_good_peers [simp]: "good_peers_on_subnet api s (new_db 0 []) = []"
  by (simp add: good_peers_on_subnet_def ids_where_def new_db_def)

section \<open>Processing the queue\<close>

text \<open>The loop moves queries from the front of the queue, in order, to the running queries.\<close>

lemma queue_loop_moves:
  "has_fork A d \<Longrightarrow> length grp < MAX_SUBNETS_IN_QUERY \<Longrightarrow>
   (grp \<noteq> [] \<Longrightarrow> \<not> at_capacity d \<and> queued_queries d \<noteq> []) \<Longrightarrow>
   queue_loop A db grp p d = (d', p') \<Longrightarrow>
   \<exists>moved. grp @ queued_queries d = moved @ queued_queries d'
     \<and> searched d' = searched d @ filter (needs_peers A db) moved
     \<and> (at_capacity d' \<or> queued_queries d' = [])"
proof (induction A db grp p d arbitrary: d' p' rule: queue_loop.induct)
  case (1 A db grp p d)
  show ?case
  proof (cases "at_capacity d \<or> queued_queries d = []")
    case True
    then have "d' = d" "grp = []" using "1.prems" by (auto simp: queue_loop.simps [of A db grp p d] split: list.splits)
    with True show ?thesis by simp
  next
    case False
    then obtain q rest where q: "queued_queries d = q # rest" by (cases "queued_queries d") auto
    let ?d = "d\<lparr>queued_queries := rest\<rparr>" and ?g = "grp @ [q]"
    have cap: "at_capacity ?d = at_capacity d" by (simp add: at_capacity_def)
    have s: "searched ?d = searched d" by (simp add: searched_def)
    show ?thesis
    proof (cases "length ?g = MAX_SUBNETS_IN_QUERY \<or> rest = []")
      case True
      then have run: "queue_loop A db [] True (start_subnet_query A db ?g ?d) = (d', p')"
        using False "1.prems"(4) by (subst (asm) queue_loop.simps) (simp add: q)
      have "\<exists>moved. [] @ queued_queries (start_subnet_query A db ?g ?d) = moved @ queued_queries d'
          \<and> searched d' = searched (start_subnet_query A db ?g ?d) @ filter (needs_peers A db) moved
          \<and> (at_capacity d' \<or> queued_queries d' = [])"
        using False True "1.prems"(1) run
        by (intro "1.IH"(1) [of q rest ?d ?g]) (simp_all add: q MAX_SUBNETS_IN_QUERY_def)
      then obtain moved where m: "rest = moved @ queued_queries d'"
        "searched d' = searched d @ filter (needs_peers A db) (?g @ moved)"
        "at_capacity d' \<or> queued_queries d' = []"
        using "1.prems"(1) by (auto simp: searched_start_subnet_query s)
      then have "grp @ queued_queries d = (?g @ moved) @ queued_queries d'" by (simp add: q)
      with m show ?thesis by blast
    next
      case more: False
      then have run: "queue_loop A db ?g p ?d = (d', p')"
        using False "1.prems"(4) by (subst (asm) queue_loop.simps) (simp add: q)
      have "\<exists>moved. ?g @ queued_queries ?d = moved @ queued_queries d'
          \<and> searched d' = searched ?d @ filter (needs_peers A db) moved
          \<and> (at_capacity d' \<or> queued_queries d' = [])"
        using False more "1.prems"(1,2) run cap
        by (intro "1.IH"(2) [of q rest ?d ?g]) (auto simp: q)
      then show ?thesis by (simp add: q s)
    qed
  qed
qed

section \<open>The invariant of the queries\<close>

definition is_find :: "active_query \<Rightarrow> bool" where
  "is_find a = (fst a = FindPeers)"

definition query_ok :: "active_query \<Rightarrow> bool" where
  "query_ok a = (case fst a of FindPeers \<Rightarrow> True
     | SubnetQueries qs \<Rightarrow> qs \<noteq> [] \<and> length qs \<le> MAX_SUBNETS_IN_QUERY)"

definition disc_ok :: "('c, 'd) discovery \<Rightarrow> bool" where
  "disc_ok d \<longleftrightarrow> distinct (map sq_subnet (queued_queries d))
     \<and> (\<forall>q \<in> set (queued_queries d). sq_retries q \<le> MAX_DISCOVERY_RETRY)
     \<and> (\<forall>a \<in> set (active_queries d). query_ok a)
     \<and> length (filter is_find (active_queries d)) = (if find_peer_active d then 1 else 0)
     \<and> length (filter (\<lambda>a. \<not> is_find a) (active_queries d)) \<le> MAX_CONCURRENT_SUBNET_QUERIES"

lemma length_active:
  "length as = length (filter is_find as) + length (filter (\<lambda>a. \<not> is_find a) as)"
  by (induction as) auto

lemma at_capacity_count:
  "length (filter is_find (active_queries d)) = (if find_peer_active d then 1 else 0) \<Longrightarrow>
   at_capacity d \<longleftrightarrow> length (filter (\<lambda>a. \<not> is_find a) (active_queries d)) \<ge> MAX_CONCURRENT_SUBNET_QUERIES"
  using length_active [of "active_queries d"] by (auto simp: at_capacity_def)

lemma disc_ok_start_subnet_query:
  assumes "disc_ok d" and "\<not> at_capacity d" and "length qs \<le> MAX_SUBNETS_IN_QUERY"
  shows "disc_ok (start_subnet_query A db qs d)"
proof -
  have "length (filter (\<lambda>a. \<not> is_find a) (active_queries d)) < MAX_CONCURRENT_SUBNET_QUERIES"
    using assms(1,2) at_capacity_count [of d] by (auto simp: disc_ok_def)
  moreover have "length (filter (needs_peers A db) qs) \<le> MAX_SUBNETS_IN_QUERY"
    using assms(3) length_filter_le order_trans by blast
  ultimately show ?thesis
    using assms(1) by (auto simp: disc_ok_def start_subnet_query_def start_query_def Let_def is_find_def
        query_ok_def split: option.split)
qed

lemma disc_ok_queue:
  assumes "disc_ok d" and "\<exists>P n. qs = filter P (drop n (queued_queries d))"
  shows "disc_ok (d\<lparr>queued_queries := qs\<rparr>)"
proof -
  obtain P n where qs: "qs = filter P (drop n (queued_queries d))" using assms(2) by blast
  have "distinct (map sq_subnet (drop n (queued_queries d)))"
    using assms(1) by (simp add: disc_ok_def drop_map [symmetric])
  then have "distinct (map sq_subnet qs)" unfolding qs by (rule distinct_map_filter)
  moreover have "set qs \<subseteq> set (queued_queries d)" using qs by (auto dest: in_set_dropD)
  ultimately show ?thesis using assms(1) by (auto simp: disc_ok_def)
qed

text \<open>What starting a group of subnet queries and taking a query off the queue keep, the loop keeps.\<close>

lemma queue_loop_invariant:
  assumes start: "\<And>d qs. P d \<Longrightarrow> \<not> at_capacity d \<Longrightarrow> length qs \<le> MAX_SUBNETS_IN_QUERY \<Longrightarrow>
      P (start_subnet_query A db qs d)"
    and take_off: "\<And>d. P d \<Longrightarrow> P (d\<lparr>queued_queries := tl (queued_queries d)\<rparr>)"
  shows "P d \<Longrightarrow> length grp < MAX_SUBNETS_IN_QUERY \<Longrightarrow> P (fst (queue_loop A db grp p d))"
proof (induction A\<equiv>A db\<equiv>db grp p d rule: queue_loop.induct)
  case (1 grp p d)
  show ?case
  proof (cases "at_capacity d \<or> queued_queries d = []")
    case True
    with 1(3) show ?thesis by (auto simp: queue_loop.simps [of A db grp p d] split: list.split)
  next
    case False
    then obtain q rest where q: "queued_queries d = q # rest" by (cases "queued_queries d") auto
    let ?d = "d\<lparr>queued_queries := rest\<rparr>" and ?g = "grp @ [q]"
    have ok: "P ?d" using take_off [OF 1(3)] by (simp add: q)
    have cap: "\<not> at_capacity ?d" using False by (simp add: at_capacity_def)
    show ?thesis
    proof (cases "length ?g = MAX_SUBNETS_IN_QUERY \<or> rest = []")
      case True
      have "P (start_subnet_query A db ?g ?d)"
        using start [OF ok cap] "1.prems"(2) by simp
      then have "P (fst (queue_loop A db [] True (start_subnet_query A db ?g ?d)))"
        using False True by (intro "1.hyps"(1) [of q rest ?d ?g]) (simp_all add: q MAX_SUBNETS_IN_QUERY_def)
      with False True show ?thesis by (subst queue_loop.simps) (simp add: q)
    next
      case more: False
      then have "P (fst (queue_loop A db ?g p ?d))"
        using False ok "1.prems"(2) by (intro "1.hyps"(2) [of q rest ?d ?g]) (auto simp: q)
      with False more show ?thesis by (subst queue_loop.simps) (simp add: q)
    qed
  qed
qed

lemma disc_ok_queue_loop:
  "disc_ok d \<Longrightarrow> length grp < MAX_SUBNETS_IN_QUERY \<Longrightarrow> disc_ok (fst (queue_loop A db grp p d))"
  by (rule queue_loop_invariant [where P = disc_ok])
     (auto intro: disc_ok_start_subnet_query intro!: disc_ok_queue exI [of _ "\<lambda>_. True"] exI [of _ 1]
        simp: drop_Suc)

lemma disc_ok_process_queue: "disc_ok d \<Longrightarrow> disc_ok (fst (process_queue A now db d))"
  unfolding process_queue_def
  by (intro disc_ok_queue_loop disc_ok_queue)
     (auto simp: MAX_SUBNETS_IN_QUERY_def intro!: exI [of _ "\<lambda>q. \<not> query_expired now q"] exI [of _ 0])

lemma update_queued_None: "update_queued s ttl r qs = None \<longleftrightarrow> s \<notin> sq_subnet ` set qs"
  by (induction qs) auto

lemma update_queued_Some:
  "update_queued s ttl r qs = Some qs' \<Longrightarrow>
     map sq_subnet qs' = map sq_subnet qs \<and> (\<forall>q \<in> set qs'. q \<in> set qs \<or> sq_retries q = r)"
  by (induction qs arbitrary: qs') (auto split: if_splits)

lemma disc_ok_add_subnet_query:
  assumes "disc_ok d"
  shows "disc_ok (add_subnet_query s ttl r d)"
proof (cases "r > MAX_DISCOVERY_RETRY")
  case False
  show ?thesis
  proof (cases "update_queued s ttl r (queued_queries d)")
    case None
    then have "s \<notin> sq_subnet ` set (queued_queries d)" by (rule update_queued_None [THEN iffD1])
    with None False assms show ?thesis
      by (auto simp: add_subnet_query_def disc_ok_def)
  next
    case (Some qs)
    with False assms update_queued_Some [OF Some] show ?thesis
      by (auto simp: add_subnet_query_def disc_ok_def)
  qed
qed (use assms in \<open>simp add: add_subnet_query_def\<close>)

lemma disc_ok_fold: "(\<And>x d. disc_ok d \<Longrightarrow> disc_ok (f x d)) \<Longrightarrow> disc_ok d \<Longrightarrow> disc_ok (fold f xs d)"
  by (induction xs arbitrary: d) simp_all

lemma disc_ok_cache [simp]: "disc_ok (put_enr A e d) = disc_ok d" "disc_ok (d\<lparr>disc_stream := st\<rparr>) = disc_ok d"
  "disc_ok (publish_enr A d) = disc_ok d"
  by (simp_all add: put_enr_def publish_enr_def disc_ok_def Let_def)

lemma disc_ok_retry: "disc_ok d \<Longrightarrow> disc_ok (retry_query q d)"
  by (simp add: retry_query_def disc_ok_add_subnet_query)

lemma disc_ok_put_enrs: "disc_ok d \<Longrightarrow> disc_ok (fold (put_enr A) es d)"
  by (intro disc_ok_fold) simp_all

lemma disc_ok_retries: "disc_ok d \<Longrightarrow> disc_ok (fold retry_query qs d)"
  by (intro disc_ok_fold) (simp_all add: disc_ok_retry)

lemma completed_find_peers:
  "\<exists>es. fst (process_completed_queries A (FindPeers, r) d)
     = fold (put_enr A) es (d\<lparr>find_peer_active := False\<rparr>)"
proof (cases r)
  case (Inr es)
  then show ?thesis
    by (cases es) (auto simp: process_completed_queries_def Let_def intro: exI [of _ "[]"] exI [of _ es])
qed (auto simp: process_completed_queries_def Let_def intro: exI [of _ "[]"])

lemma completed_subnets:
  "\<exists>es qs'. fst (process_completed_queries A (SubnetQueries qs, r) d) = fold retry_query qs' (fold (put_enr A) es d)"
proof (cases r)
  case (Inl e)
  then have "fst (process_completed_queries A (SubnetQueries qs, r) d) = fold retry_query [] (fold (put_enr A) [] d)"
    by (simp add: process_completed_queries_def)
  then show ?thesis by blast
next
  case (Inr es)
  then have "fst (process_completed_queries A (SubnetQueries qs, r) d) = fold retry_query qs (fold (put_enr A) es d)"
    by (cases es) (simp_all add: process_completed_queries_def Let_def)
  then show ?thesis by blast
qed

lemma disc_ok_completed:
  assumes "disc_ok (if qt = FindPeers then d\<lparr>find_peer_active := False\<rparr> else d)"
  shows "disc_ok (fst (process_completed_queries A (qt, r) d))"
proof (cases qt)
  case FindPeers
  with assms completed_find_peers [of A r d] show ?thesis by (auto intro: disc_ok_put_enrs)
next
  case (SubnetQueries qs)
  obtain es qs' where "fst (process_completed_queries A (SubnetQueries qs, r) d)
      = fold retry_query qs' (fold (put_enr A) es d)"
    using completed_subnets by blast
  moreover have "disc_ok (fold retry_query qs' (fold (put_enr A) es d))"
    using assms SubnetQueries by (intro disc_ok_retries disc_ok_put_enrs) simp
  ultimately show ?thesis using SubnetQueries by simp
qed

lemma disc_ok_finished:
  assumes ok: "disc_ok d" and i: "i < length (active_queries d)"
  defines "d' \<equiv> d\<lparr>active_queries := take i (active_queries d) @ drop (Suc i) (active_queries d)\<rparr>"
  shows "disc_ok (if fst (active_queries d ! i) = FindPeers then d'\<lparr>find_peer_active := False\<rparr> else d')"
proof -
  let ?as = "active_queries d" and ?bs = "take i (active_queries d) @ drop (Suc i) (active_queries d)"
  have as: "?as = take i ?as @ ?as ! i # drop (Suc i) ?as" using id_take_nth_drop [OF i] .
  have "filter P ?as = filter P (take i ?as) @ (if P (?as ! i) then [?as ! i] else []) @ filter P (drop (Suc i) ?as)"
    for P by (subst as) simp
  then have len: "length (filter P ?as) = length (filter P ?bs) + (if P (?as ! i) then 1 else 0)" for P
    by simp
  have "set ?bs \<subseteq> set ?as" by (auto dest: in_set_takeD in_set_dropD)
  with ok len [of is_find] len [of "\<lambda>a. \<not> is_find a"] show ?thesis
    by (auto simp: disc_ok_def d'_def is_find_def split: if_splits)
qed

lemma disc_ok_poll_queries: "disc_ok d \<Longrightarrow> disc_ok (fst (poll_queries A ready d))"
proof (induction A ready d rule: poll_queries.induct)
  case (2 A i r ready d)
  show ?case
  proof (cases "i < length (active_queries d)")
    case True
    let ?q = "fst (active_queries d ! i)"
    let ?d = "d\<lparr>active_queries := take i (active_queries d) @ drop (Suc i) (active_queries d)\<rparr>"
    have "disc_ok (fst (process_completed_queries A (?q, r) ?d))"
      using disc_ok_finished [OF 2(2) True] by (rule disc_ok_completed)
    moreover obtain d1 m where c: "process_completed_queries A (?q, r) ?d = (d1, m)" by force
    ultimately show ?thesis
      using True 2(1) [of ?q ?d d1 m] by (auto simp: c split: option.split)
  qed (use 2 in simp)
qed simp

lemma disc_ok_read_events: "disc_ok d \<Longrightarrow> disc_ok (fst (read_events A tcp evs d))"
  by (induction A tcp evs d rule: read_events.induct) simp_all

lemma disc_ok_poll:
  assumes "disc_ok d"
  shows "disc_ok (fst (disc_poll A now db tcp ready stream evs d))"
proof (cases "started d")
  case True
  obtain d1 r where q: "poll_queries A ready (fst (process_queue A now db d)) = (d1, r)" by force
  then have ok: "disc_ok d1"
    using disc_ok_poll_queries [OF disc_ok_process_queue [OF assms], of A ready A now db] by simp
  obtain d2 ma where e: "read_events A tcp evs d1 = (d2, ma)" by force
  then have ok2: "disc_ok d2" using disc_ok_read_events [OF ok, of A tcp evs] by simp
  show ?thesis
  proof (cases r)
    case None
    with True q e ok ok2 show ?thesis
      by (simp add: disc_poll_def split: event_stream.split option.split sum.split)
  qed (use True q ok in \<open>simp add: disc_poll_def\<close>)
qed (use assms in \<open>simp add: disc_poll_def\<close>)

lemma disc_ok_discover_peers:
  "has_fork A d \<Longrightarrow> disc_ok d \<Longrightarrow> disc_ok (discover_peers A n d)"
  by (auto simp: discover_peers_def start_query_def has_fork_def disc_ok_def is_find_def query_ok_def)


lemma process_queue_moves:
  assumes "has_fork A d"
  shows "\<exists>moved. filter (\<lambda>q. \<not> query_expired now q) (queued_queries d)
           = moved @ queued_queries (fst (process_queue A now db d))
     \<and> searched (fst (process_queue A now db d)) = searched d @ filter (needs_peers A db) moved
     \<and> (at_capacity (fst (process_queue A now db d)) \<or> queued_queries (fst (process_queue A now db d)) = [])"
proof -
  let ?d = "d\<lparr>queued_queries := filter (\<lambda>q. \<not> query_expired now q) (queued_queries d)\<rparr>"
  obtain d' p where r: "process_queue A now db d = (d', p)" by force
  then have "queue_loop A db [] False ?d = (d', p)" by (simp add: process_queue_def)
  from queue_loop_moves [OF _ _ _ this] show ?thesis
    using assms by (simp add: r MAX_SUBNETS_IN_QUERY_def searched_def)
qed

text \<open>Processing the queue loses no query: of the queries that have not expired, those at the front are
  taken in order and exactly those among them whose subnet lacks peers become running queries; the rest
  stay in the queue, and some stay only because as many queries run as may.\<close>

theorem process_queue_keeps_queries:
  assumes "has_fork A d"
  shows "\<exists>moved. filter (\<lambda>q. \<not> query_expired now q) (queued_queries d)
           = moved @ queued_queries (fst (process_queue A now db d))
     \<and> searched (fst (process_queue A now db d)) = searched d @ filter (needs_peers A db) moved
     \<and> (at_capacity (fst (process_queue A now db d)) \<or> queued_queries (fst (process_queue A now db d)) = [])"
  using assms by (rule process_queue_moves)

lemma process_queue_keeps_queries_witness:
  "at_capacity (fst (process_queue simple_api 5 (new_db 0 []) (simple_discovery [\<lparr>sq_subnet = Attestation 1, sq_min_ttl = Some 9, sq_retries = 0\<rparr>])))
   \<or> queued_queries (fst (process_queue simple_api 5 (new_db 0 []) (simple_discovery [\<lparr>sq_subnet = Attestation 1, sq_min_ttl = Some 9, sq_retries = 0\<rparr>]))) = []"
  using process_queue_keeps_queries [OF simple_has_fork, of 5 "[\<lparr>sq_subnet = Attestation 1, sq_min_ttl = Some 9, sq_retries = 0\<rparr>]" "new_db 0 []"]
  by blast

section \<open>Runs of discovery\<close>

lemma disc_ok_frame:
  "find_peer_active d' = find_peer_active d \<Longrightarrow> queued_queries d' = queued_queries d \<Longrightarrow>
   active_queries d' = active_queries d \<Longrightarrow> disc_ok d' = disc_ok d"
  by (simp add: disc_ok_def)

lemma disc_ok_peer_ops [simp]:
  "disc_ok (disc_ban_peer A p ips d) = disc_ok d"
  "disc_ok (disc_unban_peer A p ips d) = disc_ok d"
  "disc_ok (disc_disconnect_peer A p d) = disc_ok d"
  by (rule disc_ok_frame; simp add: disc_ban_peer_def disc_unban_peer_def disc_disconnect_peer_def
      remove_cached_enr_def Let_def split: prod.split)+

lemma disc_ok_update_bitfield [simp]: "disc_ok (fst (update_enr_bitfield A s v d)) = disc_ok d"
  by (rule disc_ok_frame; simp add: update_enr_bitfield_def publish_enr_def Let_def
      split: subnet.split sum.split prod.split)

lemma disc_ok_discover_subnet_peers: "disc_ok d \<Longrightarrow> disc_ok (discover_subnet_peers ss d)"
  by (auto simp: discover_subnet_peers_def intro: disc_ok_fold disc_ok_add_subnet_query)

text \<open>A run interleaves the requests of the node with polls, whatever the queries find and the events are.\<close>

inductive disc_run :: "('c, 'd) disc_api \<Rightarrow> ('c, 'd) discovery \<Rightarrow> ('c, 'd) discovery \<Rightarrow> bool"
  for A :: "('c, 'd) disc_api" and d0 :: "('c, 'd) discovery" where
  Start: "disc_run A d0 d0"
| Peers: "disc_run A d0 d \<Longrightarrow> has_fork A d \<Longrightarrow> disc_run A d0 (discover_peers A n d)"
| Subnets: "disc_run A d0 d \<Longrightarrow> disc_run A d0 (discover_subnet_peers ss d)"
| Poll: "disc_run A d0 d \<Longrightarrow> disc_run A d0 (fst (disc_poll A now db tcp ready stream evs d))"
| Ban: "disc_run A d0 d \<Longrightarrow> disc_run A d0 (disc_ban_peer A p ips d)"
| Unban: "disc_run A d0 d \<Longrightarrow> disc_run A d0 (disc_unban_peer A p ips d)"
| Disconnect: "disc_run A d0 d \<Longrightarrow> disc_run A d0 (disc_disconnect_peer A p d)"
| Bitfield: "disc_run A d0 d \<Longrightarrow> disc_run A d0 (fst (update_enr_bitfield A s v d))"

lemma disc_run_ok: "disc_run A d0 d \<Longrightarrow> disc_ok d0 \<Longrightarrow> disc_ok d"
  by (induction rule: disc_run.induct)
     (simp_all add: disc_ok_discover_peers disc_ok_discover_subnet_peers disc_ok_poll)

lemma disc_ok_length:
  assumes "disc_ok d"
  shows "length (active_queries d) \<le> MAX_CONCURRENT_SUBNET_QUERIES + 1"
  using assms length_active [of "active_queries d"] by (auto simp: disc_ok_def split: if_splits)

text \<open>C14. Whatever the node asks for and the queries find, at most three queries run: at most two groups of
  subnets, of at most three subnets each, and at most one search for peers, which runs exactly when it is
  noted; no subnet is queued twice, and no queued query has been retried more than three times.\<close>

theorem disc_run_safe:
  assumes "disc_run A d0 d" and "active_queries d0 = []" and "queued_queries d0 = []"
    and "\<not> find_peer_active d0"
  shows "length (active_queries d) \<le> 3
     \<and> length (filter is_find (active_queries d)) = (if find_peer_active d then 1 else 0)
     \<and> (\<forall>qs n P. (SubnetQueries qs, n, P) \<in> set (active_queries d) \<longrightarrow> 1 \<le> length qs \<and> length qs \<le> 3)
     \<and> distinct (map sq_subnet (queued_queries d))
     \<and> (\<forall>q \<in> set (queued_queries d). sq_retries q \<le> 3)"
proof -
  have "disc_ok d0" using assms(2-4) by (simp add: disc_ok_def)
  with assms(1) have ok: "disc_ok d" by (rule disc_run_ok)
  have "1 \<le> length qs \<and> length qs \<le> 3" if "(SubnetQueries qs, n, P) \<in> set (active_queries d)" for qs n P
    using ok that by (fastforce simp: disc_ok_def query_ok_def MAX_SUBNETS_IN_QUERY_def Suc_le_eq)
  with ok disc_ok_length [OF ok] show ?thesis
    by (simp add: disc_ok_def MAX_CONCURRENT_SUBNET_QUERIES_def MAX_DISCOVERY_RETRY_def)
qed

lemma disc_run_safe_witness:
  "length (active_queries (discover_peers simple_api 5 (simple_discovery []))) \<le> 3
   \<and> find_peer_active (discover_peers simple_api 5 (simple_discovery []))"
proof -
  have "disc_run simple_api (simple_discovery []) (discover_peers simple_api 5 (simple_discovery []))"
    by (intro disc_run.intros simple_has_fork)
  note run = disc_run_safe [OF this]
  have "find_peer_active (discover_peers simple_api 5 (simple_discovery []))"
    by (simp add: discover_peers_def simple_discovery_def)
  with run show ?thesis by (simp add: simple_discovery_def)
qed

section \<open>A search that finds nothing ends\<close>

text \<open>A round processes the queue, and then every running query ends without a record.\<close>

definition fruitless_round ::
  "('c, 'd) disc_api \<Rightarrow> instant \<Rightarrow> peer_db \<Rightarrow> ('c, 'd) discovery \<Rightarrow> ('c, 'd) discovery" where
  "fruitless_round A now db d = (let d = fst (process_queue A now db d)
     in fst (poll_queries A (replicate (length (active_queries d)) (0, Inr [])) d))"

definition idle :: "('c, 'd) disc_api \<Rightarrow> ('c, 'd) discovery \<Rightarrow> bool" where
  "idle A d \<longleftrightarrow> has_fork A d \<and> disc_ok d \<and> active_queries d = [] \<and> \<not> find_peer_active d"

text \<open>How often the queued queries may still be tried.\<close>

definition attempts_left :: "subnet_query list \<Rightarrow> nat" where
  "attempts_left qs = sum_list (map (\<lambda>q. MAX_DISCOVERY_RETRY + 1 - sq_retries q) qs)"

lemma attempts_left_simps [simp]:
  "attempts_left [] = 0"
  "attempts_left (q # qs) = (MAX_DISCOVERY_RETRY + 1 - sq_retries q) + attempts_left qs"
  "attempts_left (qs @ qs') = attempts_left qs + attempts_left qs'"
  by (simp_all add: attempts_left_def)

lemma attempts_left_filter: "attempts_left (filter P qs) \<le> attempts_left qs"
  by (induction qs) auto

lemma update_queued_new: "s \<notin> sq_subnet ` set qs \<Longrightarrow> update_queued s ttl r qs = None"
  by (simp add: update_queued_None)

lemma retries_append:
  assumes "distinct (map sq_subnet (queued_queries d @ qs))"
  shows "fold retry_query qs d = d\<lparr>queued_queries := queued_queries d
     @ map (\<lambda>q. q\<lparr>sq_retries := sq_retries q + 1\<rparr>) (filter (\<lambda>q. sq_retries q < MAX_DISCOVERY_RETRY) qs)\<rparr>"
  using assms
proof (induction qs arbitrary: d)
  case (Cons q qs)
  let ?q = "q\<lparr>sq_retries := sq_retries q + 1\<rparr>"
  have new: "update_queued (sq_subnet q) (sq_min_ttl q) (Suc (sq_retries q)) (queued_queries d) = None"
    using Cons.prems by (intro update_queued_new) auto
  have eq: "\<lparr>sq_subnet = sq_subnet q, sq_min_ttl = sq_min_ttl q, sq_retries = Suc (sq_retries q)\<rparr> = ?q"
    by simp
  show ?case
  proof (cases "sq_retries q < MAX_DISCOVERY_RETRY")
    case True
    then have "retry_query q d = d\<lparr>queued_queries := queued_queries d @ [?q]\<rparr>"
      by (simp add: retry_query_def add_subnet_query_def new eq)
    with Cons True show ?thesis by simp
  next
    case False
    then have "retry_query q d = d" by (simp add: retry_query_def add_subnet_query_def)
    with Cons False show ?thesis by simp
  qed
qed simp

lemma attempts_left_retried:
  "attempts_left (map (\<lambda>q. q\<lparr>sq_retries := sq_retries q + 1\<rparr>)
     (filter (\<lambda>q. sq_retries q < MAX_DISCOVERY_RETRY) qs)) + length qs
   \<le> attempts_left qs + length (filter (\<lambda>q. sq_retries q > MAX_DISCOVERY_RETRY) qs)"
  by (induction qs) auto

lemma poll_fruitless:
  "\<forall>a \<in> set (active_queries d). fst a \<noteq> FindPeers \<Longrightarrow>
   fst (poll_queries A (replicate (length (active_queries d)) (0, Inr [])) d)
     = fold retry_query (searched d) (d\<lparr>active_queries := []\<rparr>)"
proof (induction "active_queries d" arbitrary: d)
  case Nil
  then have "active_queries d = []" by simp
  then have "d\<lparr>active_queries := []\<rparr> = d" by simp
  with Nil show ?case by (simp add: searched_def)
next
  case (Cons a as)
  obtain qs where a: "fst a = SubnetQueries qs" using Cons.prems Cons.hyps(2) by (cases "fst a") (auto, metis list.set_intros(1))
  let ?d = "fold retry_query qs (d\<lparr>active_queries := as\<rparr>)"
  have frame: "active_queries (fold retry_query qs e) = active_queries e" for e :: "('c, 'd) discovery"
    by (induction qs arbitrary: e) (simp_all add: retry_query_def add_subnet_query_def)
  have comm: "fold retry_query qs' (e\<lparr>active_queries := bs\<rparr>) = (fold retry_query qs' e)\<lparr>active_queries := bs\<rparr>"
    for qs' bs and e :: "('c, 'd) discovery"
  proof (induction qs' arbitrary: e)
    case (Cons q qs')
    have "retry_query q (e\<lparr>active_queries := bs\<rparr>) = (retry_query q e)\<lparr>active_queries := bs\<rparr>"
      by (simp add: retry_query_def add_subnet_query_def split: option.split)
    with Cons show ?case by simp
  qed simp
  have d: "active_queries d = a # as" using Cons.hyps(2) by simp
  have "fst (poll_queries A (replicate (length as) (0, Inr [])) ?d)
      = fold retry_query (searched ?d) (?d\<lparr>active_queries := []\<rparr>)"
    using Cons.hyps(1) [of ?d] Cons.prems by (simp add: frame d)
  moreover have "searched d = qs @ searched ?d" by (simp add: searched_def frame d a)
  ultimately show ?case
    by (simp add: d a process_completed_queries_def comm)
qed

text \<open>No search for peers is started, and only the queries change.\<close>

definition only_subnets :: "('c, 'd) discovery \<Rightarrow> ('c, 'd) discovery \<Rightarrow> bool" where
  "only_subnets d d' \<longleftrightarrow> d'\<lparr>queued_queries := queued_queries d, active_queries := active_queries d\<rparr> = d
     \<and> (\<forall>a \<in> set (active_queries d'). a \<in> set (active_queries d) \<or> fst a \<noteq> FindPeers)"

lemma process_queue_only_subnets: "only_subnets d (fst (process_queue A now db d))"
  unfolding process_queue_def
  by (rule queue_loop_invariant)
     (auto simp: only_subnets_def MAX_SUBNETS_IN_QUERY_def start_subnet_query_def start_query_def Let_def
        split: option.splits)

lemma searched_empty: "disc_ok d \<Longrightarrow> searched d = [] \<Longrightarrow> \<forall>a \<in> set (active_queries d). fst a \<noteq> FindPeers \<Longrightarrow>
    active_queries d = []"
  by (cases "active_queries d") (auto simp: disc_ok_def searched_def query_ok_def split: query_type.splits)

abbreviation tried :: "subnet_query list \<Rightarrow> subnet_query list" where
  "tried qs \<equiv> map (\<lambda>q. q\<lparr>sq_retries := sq_retries q + 1\<rparr>) (filter (\<lambda>q. sq_retries q < MAX_DISCOVERY_RETRY) qs)"

text \<open>A round of an idle discovery takes queries off the queue, and puts those back that were searched for and
  have attempts left.\<close>

lemma fruitless_round_queue:
  assumes "idle A d"
  shows "\<exists>moved kept. filter (\<lambda>q. \<not> query_expired now q) (queued_queries d) = moved @ kept
     \<and> (moved = [] \<longrightarrow> kept = [])
     \<and> fruitless_round A now db d = d\<lparr>queued_queries := kept @ tried (filter (needs_peers A db) moved)\<rparr>"
proof -
  let ?d = "fst (process_queue A now db d)" and ?unexpired = "filter (\<lambda>q. \<not> query_expired now q)"
  have idle: "has_fork A d" "disc_ok d" "active_queries d = []" using assms by (simp_all add: idle_def)
  then have none: "searched d = []" by (simp add: searched_def)
  obtain moved where m: "?unexpired (queued_queries d) = moved @ queued_queries ?d"
    "searched ?d = filter (needs_peers A db) moved" "at_capacity ?d \<or> queued_queries ?d = []"
    using process_queue_moves [OF idle(1), of now db] none by auto
  have os: "only_subnets d ?d" by (rule process_queue_only_subnets)
  then have kinds: "\<forall>a \<in> set (active_queries ?d). fst a \<noteq> FindPeers"
    using idle by (simp add: only_subnets_def)
  have "queued_queries ?d = []" if "moved = []"
  proof -
    have "active_queries ?d = []"
      using searched_empty [OF disc_ok_process_queue [OF idle(2)] _ kinds] m(2) that by simp
    with m(3) show ?thesis by (simp add: at_capacity_def MAX_CONCURRENT_SUBNET_QUERIES_def)
  qed
  moreover have "fruitless_round A now db d
      = d\<lparr>queued_queries := queued_queries ?d @ tried (filter (needs_peers A db) moved)\<rparr>"
  proof -
    have "distinct (map sq_subnet (moved @ queued_queries ?d))"
      using idle(2) m(1) by (metis disc_ok_def distinct_map_filter)
    then have "distinct (map sq_subnet (queued_queries (?d\<lparr>active_queries := []\<rparr>) @ filter (needs_peers A db) moved))"
      by (auto simp: distinct_map_filter)
    note r = retries_append [OF this]
    have "?d\<lparr>active_queries := [], queued_queries := qs\<rparr> = d\<lparr>queued_queries := qs\<rparr>" for qs
    proof -
      have "?d\<lparr>active_queries := [], queued_queries := qs\<rparr>
          = ?d\<lparr>queued_queries := queued_queries d, active_queries := active_queries d\<rparr>\<lparr>queued_queries := qs\<rparr>"
        using idle(3) by simp
      then show ?thesis using os by (simp only: only_subnets_def)
    qed
    with r show ?thesis
      by (simp add: fruitless_round_def Let_def poll_fruitless [OF kinds] m(2))
  qed
  ultimately show ?thesis using m(1) by blast
qed

lemma attempts_left_tried:
  "\<forall>q \<in> set qs. sq_retries q \<le> MAX_DISCOVERY_RETRY \<Longrightarrow>
     attempts_left (tried qs) + length qs = attempts_left qs"
  by (induction qs) auto

lemma attempts_left_0: "\<forall>q \<in> set qs. sq_retries q \<le> MAX_DISCOVERY_RETRY \<Longrightarrow> attempts_left qs = 0 \<longleftrightarrow> qs = []"
  by (cases qs) auto

lemma attempts_left_filter_tried:
  assumes "\<forall>q \<in> set qs. sq_retries q \<le> MAX_DISCOVERY_RETRY" and "qs \<noteq> []"
  shows "attempts_left (tried (filter P qs)) < attempts_left qs"
proof (cases "filter P qs = []")
  case True
  with assms attempts_left_0 [of qs] show ?thesis by simp
next
  case False
  have "attempts_left (tried (filter P qs)) + length (filter P qs) = attempts_left (filter P qs)"
    using assms(1) by (intro attempts_left_tried) simp
  with False attempts_left_filter [of P qs] show ?thesis by (cases "filter P qs") auto
qed

lemma fruitless_round_idle:
  assumes "idle A d"
  shows "idle A (fruitless_round A now db d)"
    and "queued_queries d \<noteq> [] \<Longrightarrow>
      attempts_left (queued_queries (fruitless_round A now db d)) < attempts_left (queued_queries d)"
    and "queued_queries d = [] \<Longrightarrow> fruitless_round A now db d = d"
proof -
  obtain moved kept where q: "filter (\<lambda>q. \<not> query_expired now q) (queued_queries d) = moved @ kept"
    "moved = [] \<longrightarrow> kept = []"
    and r: "fruitless_round A now db d = d\<lparr>queued_queries := kept @ tried (filter (needs_peers A db) moved)\<rparr>"
    using fruitless_round_queue [OF assms] by blast
  have ok: "disc_ok d" using assms by (simp add: idle_def)
  have retries: "\<forall>q \<in> set (moved @ kept). sq_retries q \<le> MAX_DISCOVERY_RETRY"
    using ok unfolding q(1) [symmetric] by (auto simp: disc_ok_def)
  have dist: "distinct (map sq_subnet (moved @ kept))"
    using ok unfolding q(1) [symmetric] by (simp add: disc_ok_def distinct_map_filter)
  have "disc_ok (fruitless_round A now db d)"
    using ok dist retries unfolding r by (auto simp: disc_ok_def comp_def distinct_map_filter)
  then show "idle A (fruitless_round A now db d)"
    using assms unfolding r by (simp add: idle_def has_fork_def)
  show "attempts_left (queued_queries (fruitless_round A now db d)) < attempts_left (queued_queries d)"
    if "queued_queries d \<noteq> []"
  proof (cases "moved = []")
    case True
    have "attempts_left (queued_queries d) > 0"
      using that ok attempts_left_0 [of "queued_queries d"] by (auto simp: disc_ok_def)
    with True q show ?thesis unfolding r by simp
  next
    case False
    then have "attempts_left (tried (filter (needs_peers A db) moved)) < attempts_left moved"
      using retries by (intro attempts_left_filter_tried) auto
    moreover have "attempts_left (moved @ kept) \<le> attempts_left (queued_queries d)"
      unfolding q(1) [symmetric] by (rule attempts_left_filter)
    ultimately show ?thesis unfolding r by simp
  qed
  show "fruitless_round A now db d = d" if "queued_queries d = []"
    using that q r by auto
qed

lemma fruitless_rounds:
  "idle A d \<Longrightarrow> idle A ((fruitless_round A now db ^^ n) d)
     \<and> attempts_left (queued_queries ((fruitless_round A now db ^^ n) d)) \<le> attempts_left (queued_queries d) - n"
proof (induction n)
  case (Suc n)
  let ?d = "(fruitless_round A now db ^^ n) d"
  show ?case
    using Suc fruitless_round_idle [of A ?d now db] by (cases "queued_queries ?d = []") auto
qed simp

lemma attempts_left_bound: "attempts_left qs \<le> (MAX_DISCOVERY_RETRY + 1) * length qs"
  by (induction qs) auto

text \<open>C15. A search that finds nothing comes to an end: however many subnets are queued, when no round of
  queries finds a record, four rounds for each of them empty the queue, and no query is left running.\<close>

theorem fruitless_search_ends:
  assumes "idle A d" and "n \<ge> 4 * length (queued_queries d)"
  shows "queued_queries ((fruitless_round A now db ^^ n) d) = []
     \<and> active_queries ((fruitless_round A now db ^^ n) d) = []"
proof -
  let ?d = "(fruitless_round A now db ^^ n) d"
  have i: "idle A ?d" "attempts_left (queued_queries ?d) = 0"
    using fruitless_rounds [OF assms(1), where now = now and db = db and n = n] attempts_left_bound [of "queued_queries d"] assms(2)
    by (simp_all add: MAX_DISCOVERY_RETRY_def)
  then show ?thesis using attempts_left_0 [of "queued_queries ?d"] by (auto simp: idle_def disc_ok_def)
qed

lemma fruitless_search_ends_witness:
  "queued_queries ((fruitless_round simple_api 5 (new_db 0 []) ^^ 4)
     (simple_discovery [\<lparr>sq_subnet = Attestation 1, sq_min_ttl = Some 9, sq_retries = 0\<rparr>])) = []"
proof -
  let ?d = "simple_discovery [\<lparr>sq_subnet = Attestation 1, sq_min_ttl = Some 9, sq_retries = 0\<rparr>]"
  have "idle simple_api ?d"
    using simple_has_fork by (simp add: idle_def disc_ok_def simple_discovery_def)
  from fruitless_search_ends [OF this, of 4 5 "new_db 0 []"] show ?thesis
    by (simp add: simple_discovery_def)
qed

section \<open>What a finished query gives\<close>

text \<open>The merged time of the queries seen so far.\<close>

definition merged :: "instant option list \<Rightarrow> instant option option" where
  "merged ts = fold (\<lambda>t acc. Some (merge_ttl t acc)) ts None"

lemma merged_snoc: "merged (ts @ [t]) = Some (merge_ttl t (merged ts))"
  by (simp add: merged_def)

lemma merged_Nil [simp]: "merged [] = None" and merged_single [simp]: "merged [t] = Some (merge_ttl t None)"
  by (simp_all add: merged_def)

lemma merged_ttl:
  "(merged ts = None \<longleftrightarrow> ts = [])
   \<and> (merged ts = Some None \<longrightarrow> set ts \<subseteq> {None})
   \<and> (\<forall>u. merged ts = Some (Some u) \<longrightarrow> Some u \<in> set ts \<and> (\<forall>t. Some t \<in> set ts \<longrightarrow> t \<le> u + DURATION_DIFFERENCE))"
proof (induction ts rule: rev_induct)
  case (snoc t ts)
  show ?case
  proof (cases t)
    case None
    with snoc show ?thesis by (auto simp: merged_snoc merge_ttl_def split: option.split)
  next
    case (Some v)
    have pos: "DURATION_DIFFERENCE \<ge> 0" by (simp add: DURATION_DIFFERENCE_def)
    consider "merged ts = None" | "merged ts = Some None" | u where "merged ts = Some (Some u)"
      by (metis option.exhaust)
    then show ?thesis
    proof cases
      case 3
      then have "Some u \<in> set ts" "\<forall>t. Some t \<in> set ts \<longrightarrow> t \<le> u + DURATION_DIFFERENCE" using snoc by auto
      moreover have "merged (ts @ [t]) = Some (Some (if v - u > DURATION_DIFFERENCE then v else u))"
        using 3 Some by (simp add: merged_snoc merge_ttl_def)
      ultimately show ?thesis using Some pos by (auto intro: order_trans)
    qed (use snoc Some pos in \<open>auto simp: merged_snoc merge_ttl_def\<close>)
  qed
qed simp

text \<open>The times a peer is wanted for, in the order the code meets them.\<close>

definition wanted_ttls :: "('c, 'd) disc_api \<Rightarrow> peer_id \<Rightarrow> enr list \<Rightarrow> subnet_query list \<Rightarrow> instant option list" where
  "wanted_ttls A p es qs = concat (map (\<lambda>q. map (\<lambda>_. sq_min_ttl q)
     (filter (\<lambda>e. id_of_enr A e = p \<and> subnet_predicate (ssz A) [sq_subnet q] e) es)) qs)"

lemma map_results_get:
  "hm_get m p = merged ts \<Longrightarrow> hm_get (fold (map_result A q) es m) p = merged (ts @ wanted_ttls A p es [q])"
proof (induction es arbitrary: m ts)
  case (Cons e es)
  let ?new = "if id_of_enr A e = p \<and> subnet_predicate (ssz A) [sq_subnet q] e then [sq_min_ttl q] else []"
  have "hm_get (map_result A q e m) p = merged (ts @ ?new)"
    using Cons.prems by (auto simp: map_result_def merged_snoc)
  from Cons.IH [OF this] show ?case by (simp add: wanted_ttls_def)
qed (simp add: wanted_ttls_def)

lemma map_all_results_get:
  "hm_get m p = merged ts \<Longrightarrow>
   hm_get (fold (\<lambda>q. fold (map_result A q) es) qs m) p = merged (ts @ wanted_ttls A p es qs)"
proof (induction qs arbitrary: m ts)
  case (Cons q qs)
  from Cons.IH [OF map_results_get [OF Cons.prems]] show ?case by (simp add: wanted_ttls_def)
qed (simp add: wanted_ttls_def)

text \<open>A group of subnet queries that has found records reports exactly the peers whose record serves one of
  its subnets; a peer is given a time one of these queries asked for, and no query asked for it more than a
  millisecond longer; only a peer that no query put a time on is given none.\<close>

theorem discovered_peer_ttl:
  assumes "snd (process_completed_queries A (SubnetQueries qs, Inr es) d) = Some m"
  shows "(hm_get m p = None \<longleftrightarrow> wanted_ttls A p es qs = [])
     \<and> (hm_get m p = Some None \<longrightarrow> set (wanted_ttls A p es qs) \<subseteq> {None})
     \<and> (\<forall>u. hm_get m p = Some (Some u) \<longrightarrow> Some u \<in> set (wanted_ttls A p es qs)
          \<and> (\<forall>t. Some t \<in> set (wanted_ttls A p es qs) \<longrightarrow> t \<le> u + DURATION_DIFFERENCE))"
proof -
  have "m = fold (\<lambda>q. fold (map_result A q) es) qs []"
    using assms by (cases es) (simp_all add: process_completed_queries_def Let_def split: if_splits)
  then have "hm_get m p = merged (wanted_ttls A p es qs)"
    using map_all_results_get [of "[]" p "[]" A es qs] by simp
  then show ?thesis using merged_ttl [of "wanted_ttls A p es qs"] by simp
qed

lemma discovered_peer_ttl_witness:
  "hm_get (the (snd (process_completed_queries simple_api
     (SubnetQueries [\<lparr>sq_subnet = Attestation 1, sq_min_ttl = Some 9, sq_retries = 0\<rparr>], Inr [simple_enr 4])
     (simple_discovery [])))) 4 = Some (Some 9)"
proof -
  let ?qs = "[\<lparr>sq_subnet = Attestation 1, sq_min_ttl = Some 9, sq_retries = 0\<rparr>]"
  let ?m = "[(4, Some 9)] :: (peer_id, instant option) hmap"
  have serves: "subnet_predicate (ssz simple_api) [Attestation 1] (simple_enr 4)"
    by (simp add: simple_api_def simple_enr_def subnet_predicate_def attestation_bitfield_def bit_set_def
        list_ssz_def ETH2_ENR_KEY_def ATTESTATION_BITFIELD_ENR_KEY_def)
  have id: "id_of_enr simple_api (simple_enr 4) = 4" by (simp add: simple_api_def simple_enr_def)
  have m: "snd (process_completed_queries simple_api (SubnetQueries ?qs, Inr [simple_enr 4]) (simple_discovery []))
      = Some ?m"
    by (simp add: process_completed_queries_def map_result_def serves [unfolded One_nat_def] id merge_ttl_def Let_def)
  have w: "wanted_ttls simple_api 4 [simple_enr 4] ?qs = [Some 9]"
    by (simp add: wanted_ttls_def serves [unfolded One_nat_def] id)
  show ?thesis using discovered_peer_ttl [OF m, of 4] w unfolding m by auto
qed

section \<open>A query without an end given one\<close>

text \<open>A subnet queued without an end keeps its place, but a request with an end gives it that end: the query
  expires then, though peers were first asked for without a limit in time.\<close>

lemma long_lived_query_expires:
  "add_subnet_query s (Some t) 0 (d\<lparr>queued_queries := \<lparr>sq_subnet = s, sq_min_ttl = None, sq_retries = 0\<rparr> # qs\<rparr>)
     = d\<lparr>queued_queries := \<lparr>sq_subnet = s, sq_min_ttl = Some t, sq_retries = 0\<rparr> # qs\<rparr>"
  by (simp add: add_subnet_query_def ttl_less_def)

text \<open>When the local record has no fork digest, a search for peers is noted but never started, and no other is
  started after it.\<close>

lemma peer_search_without_fork_blocks:
  assumes "\<not> has_fork A d" and "started d"
  shows "active_queries (discover_peers A n d) = active_queries d \<and> find_peer_active (discover_peers A n d)
     \<and> discover_peers A m (discover_peers A n d) = discover_peers A n d"
  using assms by (auto simp: discover_peers_def start_query_def has_fork_def)

end
