(* ===== verification/Codec.thy ===== *)
theory Codec
  imports Rpc_Protocol Rust_Strings
begin

text \<open>
  \<open>rpc/codec/base.rs\<close>, \<open>rpc/codec/ssz_snappy.rs\<close>, \<open>rpc/codec/mod.rs\<close> and the upgrades of
  \<open>rpc/protocol.rs\<close> and \<open>rpc/outbound.rs\<close> that use them: how requests and responses are written to and
  read from a stream.  A message is its SSZ encoding, preceded by its length as a variable-length integer
  and compressed in Snappy frames; a response starts with its code and, for blocks, with the context bytes
  of their fork.  The three encodings and the fork context come from other crates and are fields of
  \<open>wire\<close> and \<open>fork_context\<close>.
\<close>

section \<open>The libraries\<close>

text \<open>Decoding a length: more bytes are needed, the bytes are no number, or a number and how many bytes it
  took.\<close>

datatype uvi_result = UviNeedMore | UviInvalid string | UviNumber nat nat

datatype io_kind = UnexpectedEof | OtherIo

text \<open>Reading a given number of bytes through the frame decoder: the bytes, or an I/O error, and the
  position reached in the compressed input.\<close>

datatype frame_result = FrameOk bytes nat | FrameErr io_kind string nat

datatype 'b signed_block = BlockBase 'b | BlockAltair 'b | BlockMerge 'b | BlockCapella 'b

record fork_context =
  current_fork :: fork_name
  to_context_bytes :: "fork_name \<Rightarrow> bytes option"
  genesis_context_bytes :: bytes
  from_context_bytes :: "bytes \<Rightarrow> fork_name option"

record 'b wire =
  uvi_encode :: "nat \<Rightarrow> bytes"
  uvi_decode :: "bytes \<Rightarrow> uvi_result"
  frame_encode :: "bytes \<Rightarrow> bytes"
  frame_decode :: "nat \<Rightarrow> bytes \<Rightarrow> frame_result"
  max_compress_len :: "nat \<Rightarrow> nat"
  wire_lengths :: ssz_lengths
  error_type_min :: nat
  error_type_max :: nat
  enc_status :: "status_message \<Rightarrow> bytes"
  dec_status :: "bytes \<Rightarrow> string + status_message"
  enc_u64 :: "u64 \<Rightarrow> bytes"
  dec_u64 :: "bytes \<Rightarrow> string + u64"
  enc_ping :: "ping \<Rightarrow> bytes"
  enc_old_range :: "old_blocks_by_range_request \<Rightarrow> bytes"
  dec_old_range :: "bytes \<Rightarrow> string + old_blocks_by_range_request"
  enc_roots :: "hash256 list \<Rightarrow> bytes"
  dec_roots :: "bytes \<Rightarrow> string + hash256 list"
  enc_metadata :: "meta_data \<Rightarrow> bytes"
  dec_metadata_v1 :: "bytes \<Rightarrow> string + u64 \<times> bitfield"
  dec_metadata_v2 :: "bytes \<Rightarrow> string + u64 \<times> bitfield \<times> bitfield"
  default_syncnets :: bitfield
  enc_block :: "'b signed_block \<Rightarrow> bytes"
  dec_block :: "fork_name \<Rightarrow> bytes \<Rightarrow> string + 'b"
  enc_error :: "error_type \<Rightarrow> bytes"
  dec_error :: "bytes \<Rightarrow> string + error_type"

definition CONTEXT_BYTES_LEN :: nat where "CONTEXT_BYTES_LEN = 4"

text \<open>\<open>Ok(Some(f(from_ssz_bytes(..)?)))\<close>.\<close>

fun from_ssz :: "string + 'x \<Rightarrow> ('x \<Rightarrow> 'y) \<Rightarrow> rpc_error + 'y option" where
  "from_ssz (Inl e) f = Inl (SSZDecodeError e)"
| "from_ssz (Inr x) f = Inr (Some (f x))"

section \<open>Pieces shared by the codecs\<close>

definition handle_length ::
  "'b wire \<Rightarrow> nat option \<Rightarrow> bytes \<Rightarrow> (rpc_error + nat option) \<times> nat option \<times> bytes" where
  "handle_length W len bs = (case len of
       Some n \<Rightarrow> (Inr (Some n), len, bs)
     | None \<Rightarrow> (case uvi_decode W bs of
           UviInvalid e \<Rightarrow> (Inl (IoError e), None, bs)
         | UviNumber n k \<Rightarrow> (Inr (Some n), Some n, drop k bs)
         | UviNeedMore \<Rightarrow> (Inr None, None, bs)))"

fun handle_error :: "io_kind \<Rightarrow> string \<Rightarrow> nat \<Rightarrow> nat \<Rightarrow> rpc_error + 'a option" where
  "handle_error UnexpectedEof e num_bytes max_len = (if num_bytes \<ge> max_len
     then Inl (InvalidData (''Received malicious snappy message, num_bytes '' @ show_nat num_bytes
                            @ '', max_compressed_len '' @ show_nat max_len))
     else Inr None)"
| "handle_error OtherIo e num_bytes max_len = Inl (IoError e)"

text \<open>The limit reader passes at most the longest compressed form of the given length to the frame
  decoder.\<close>

definition read_exact :: "'b wire \<Rightarrow> nat \<Rightarrow> bytes \<Rightarrow> frame_result" where
  "read_exact W n src = frame_decode W n (take (max_compress_len W n) src)"

definition context_bytes ::
  "protocol_id \<Rightarrow> fork_context \<Rightarrow> 'b signed_block rpc_coded_response \<Rightarrow> bytes option" where
  "context_bytes p fc resp = (if has_context_bytes p
     then (case resp of
         Success (RespBlocksByRange b) \<Rightarrow> (case b of
             BlockCapella _ \<Rightarrow> to_context_bytes fc Capella
           | BlockMerge _ \<Rightarrow> to_context_bytes fc Merge
           | BlockAltair _ \<Rightarrow> to_context_bytes fc Altair
           | BlockBase _ \<Rightarrow> Some (genesis_context_bytes fc))
       | Success (RespBlocksByRoot b) \<Rightarrow> (case b of
             BlockCapella _ \<Rightarrow> to_context_bytes fc Capella
           | BlockMerge _ \<Rightarrow> to_context_bytes fc Merge
           | BlockAltair _ \<Rightarrow> to_context_bytes fc Altair
           | BlockBase _ \<Rightarrow> Some (genesis_context_bytes fc))
       | _ \<Rightarrow> None)
     else None)"

definition context_bytes_to_fork_name :: "bytes \<Rightarrow> fork_context \<Rightarrow> rpc_error + fork_name" where
  "context_bytes_to_fork_name bs fc = (case from_context_bytes fc bs of
       Some f \<Rightarrow> Inr f
     | None \<Rightarrow> Inl (ErrorResponse InvalidRequest ''Context bytes does not correspond to a valid fork''))"

text \<open>The tail of both encoders: the size check aside, what is written after the code and the context.\<close>

definition write_payload :: "'b wire \<Rightarrow> bytes \<Rightarrow> bytes \<Rightarrow> bytes" where
  "write_payload W payload dst = dst @ uvi_encode W (length payload) @ frame_encode W payload"

section \<open>What the payload of a message decodes to\<close>

fun handle_v1_request :: "'b wire \<Rightarrow> protocol_name \<Rightarrow> bytes \<Rightarrow> rpc_error + rpc_request option" where
  "handle_v1_request W ProtoStatus bs = from_ssz (dec_status W bs) ReqStatus"
| "handle_v1_request W ProtoGoodbye bs = from_ssz (goodbye_ssz_decode (dec_u64 W) bs) ReqGoodbye"
| "handle_v1_request W ProtoBlocksByRange bs = from_ssz (dec_old_range W bs) ReqBlocksByRange"
| "handle_v1_request W ProtoBlocksByRoot bs =
     from_ssz (dec_roots W bs) (\<lambda>rs. ReqBlocksByRoot \<lparr> block_roots = rs \<rparr>)"
| "handle_v1_request W ProtoPing bs = from_ssz (dec_u64 W bs) (\<lambda>n. ReqPing \<lparr> ping_data = n \<rparr>)"
| "handle_v1_request W ProtoMetaData bs = (if bs \<noteq> []
     then Inl (InternalError ''Metadata requests shouldn't reach decoder'')
     else Inr (Some ReqMetaData))"

fun handle_v2_request :: "'b wire \<Rightarrow> protocol_name \<Rightarrow> bytes \<Rightarrow> rpc_error + rpc_request option" where
  "handle_v2_request W ProtoBlocksByRange bs = from_ssz (dec_old_range W bs) ReqBlocksByRange"
| "handle_v2_request W ProtoBlocksByRoot bs =
     from_ssz (dec_roots W bs) (\<lambda>rs. ReqBlocksByRoot \<lparr> block_roots = rs \<rparr>)"
| "handle_v2_request W ProtoMetaData bs = (if bs \<noteq> []
     then Inl (InvalidData ''Metadata request'')
     else Inr (Some ReqMetaData))"
| "handle_v2_request W p bs =
     Inl (ErrorResponse InvalidRequest (protocol_display p @ '' does not support version 2''))"

fun handle_v1_response ::
  "'b wire \<Rightarrow> protocol_name \<Rightarrow> bytes \<Rightarrow> rpc_error + 'b signed_block rpc_response option" where
  "handle_v1_response W ProtoStatus bs = from_ssz (dec_status W bs) RespStatus"
| "handle_v1_response W ProtoGoodbye bs =
     Inl (InvalidData ''Goodbye RPC message has no valid response'')"
| "handle_v1_response W ProtoBlocksByRange bs =
     from_ssz (dec_block W Base bs) (\<lambda>b. RespBlocksByRange (BlockBase b))"
| "handle_v1_response W ProtoBlocksByRoot bs =
     from_ssz (dec_block W Base bs) (\<lambda>b. RespBlocksByRoot (BlockBase b))"
| "handle_v1_response W ProtoPing bs = from_ssz (dec_u64 W bs) (\<lambda>n. RespPong \<lparr> ping_data = n \<rparr>)"
| "handle_v1_response W ProtoMetaData bs = from_ssz (dec_metadata_v1 W bs)
     (\<lambda>(n, att). RespMetaData \<lparr> seq_number = n, attnets = att, syncnets = None \<rparr>)"

text \<open>For a block, the fork read from the context bytes is taken out of the codec.\<close>

definition handle_v2_response ::
  "'b wire \<Rightarrow> protocol_name \<Rightarrow> bytes \<Rightarrow> fork_name option
     \<Rightarrow> (rpc_error + 'b signed_block rpc_response option) \<times> fork_name option" where
  "handle_v2_response W p bs fork = (if p = ProtoMetaData
     then (from_ssz (dec_metadata_v2 W bs)
             (\<lambda>(n, att, sync). RespMetaData \<lparr> seq_number = n, attnets = att, syncnets = Some sync \<rparr>), fork)
     else (case fork of
         None \<Rightarrow> (Inl (ErrorResponse InvalidRequest
                       (''No context bytes provided for '' @ protocol_display p @ '' response'')), None)
       | Some f \<Rightarrow> ((case p of
             ProtoBlocksByRange \<Rightarrow> (case f of
                 Altair \<Rightarrow> from_ssz (dec_block W Altair bs) (\<lambda>b. RespBlocksByRange (BlockAltair b))
               | Base \<Rightarrow> from_ssz (dec_block W Base bs) (\<lambda>b. RespBlocksByRange (BlockBase b))
               | Merge \<Rightarrow> from_ssz (dec_block W Merge bs) (\<lambda>b. RespBlocksByRange (BlockMerge b))
               | Capella \<Rightarrow> from_ssz (dec_block W Capella bs) (\<lambda>b. RespBlocksByRange (BlockCapella b)))
           | ProtoBlocksByRoot \<Rightarrow> (case f of
                 Altair \<Rightarrow> from_ssz (dec_block W Altair bs) (\<lambda>b. RespBlocksByRoot (BlockAltair b))
               | Base \<Rightarrow> from_ssz (dec_block W Base bs) (\<lambda>b. RespBlocksByRoot (BlockBase b))
               | Merge \<Rightarrow> from_ssz (dec_block W Merge bs) (\<lambda>b. RespBlocksByRoot (BlockMerge b))
               | Capella \<Rightarrow> from_ssz (dec_block W Capella bs) (\<lambda>b. RespBlocksByRoot (BlockCapella b)))
           | _ \<Rightarrow> Inl (ErrorResponse InvalidRequest ''Invalid v2 request'')), None)))"

section \<open>The codec of a server: requests in, responses out\<close>

record ssz_inbound_codec =
  ic_protocol :: protocol_id
  ic_len :: "nat option"
  ic_max_packet_size :: nat
  ic_fork_context :: fork_context

definition ssz_inbound_new :: "protocol_id \<Rightarrow> nat \<Rightarrow> fork_context \<Rightarrow> ssz_inbound_codec" where
  "ssz_inbound_new p max_size fc = \<lparr> ic_protocol = p, ic_len = None, ic_max_packet_size = max_size,
     ic_fork_context = fc \<rparr>"

text \<open>The metadata of a node is sent in the version that was negotiated.\<close>

definition metadata_payload :: "'b wire \<Rightarrow> version \<Rightarrow> meta_data \<Rightarrow> bytes" where
  "metadata_payload W v res = (case v of
       V1 \<Rightarrow> enc_metadata W \<lparr> seq_number = seq_number res, attnets = attnets res, syncnets = None \<rparr>
     | V2 \<Rightarrow> (if syncnets res \<noteq> None then enc_metadata W res
              else enc_metadata W \<lparr> seq_number = seq_number res, attnets = attnets res,
                                    syncnets = Some (default_syncnets W) \<rparr>))"

text \<open>Encoding a stream termination panics.\<close>

fun response_payload :: "'b wire \<Rightarrow> version \<Rightarrow> 'b signed_block rpc_coded_response \<Rightarrow> bytes option" where
  "response_payload W v (Success (RespStatus res)) = Some (enc_status W res)"
| "response_payload W v (Success (RespBlocksByRange res)) = Some (enc_block W res)"
| "response_payload W v (Success (RespBlocksByRoot res)) = Some (enc_block W res)"
| "response_payload W v (Success (RespPong res)) = Some (enc_u64 W (ping_data res))"
| "response_payload W v (Success (RespMetaData res)) = Some (metadata_payload W v res)"
| "response_payload W v (ErrorResp _ err) = Some (enc_error W err)"
| "response_payload W v (StreamTermination _) = None"

definition ssz_inbound_encode ::
  "'b wire \<Rightarrow> ssz_inbound_codec \<Rightarrow> 'b signed_block rpc_coded_response \<Rightarrow> bytes
     \<Rightarrow> ((rpc_error + unit) \<times> bytes) option" where
  "ssz_inbound_encode W c item dst = (case response_payload W (pid_version (ic_protocol c)) item of
       None \<Rightarrow> None
     | Some payload \<Rightarrow> Some (
         if length payload > ic_max_packet_size c
         then (Inl (InternalError ''attempting to encode data > max_packet_size''), dst)
         else (Inr (), write_payload W payload
                 (case context_bytes (ic_protocol c) (ic_fork_context c) item of
                    Some ctx \<Rightarrow> dst @ ctx | None \<Rightarrow> dst))))"

definition ssz_inbound_decode ::
  "'b wire \<Rightarrow> ssz_inbound_codec \<Rightarrow> bytes
     \<Rightarrow> (rpc_error + rpc_request option) \<times> ssz_inbound_codec \<times> bytes" where
  "ssz_inbound_decode W c src = (if message_name (ic_protocol c) = ProtoMetaData
     then (Inr (Some ReqMetaData), c, src)
     else (case handle_length W (ic_len c) src of
         (Inl e, len, src) \<Rightarrow> (Inl e, c\<lparr>ic_len := len\<rparr>, src)
       | (Inr None, len, src) \<Rightarrow> (Inr None, c\<lparr>ic_len := len\<rparr>, src)
       | (Inr (Some n), len, src) \<Rightarrow>
           (if is_out_of_bounds (rpc_request_limits (wire_lengths W) (ic_protocol c)) n (ic_max_packet_size c)
            then (Inl (InvalidData (''RPC request length is out of bounds, length '' @ show_nat n)),
                  c\<lparr>ic_len := len\<rparr>, src)
            else (case read_exact W n src of
                FrameOk buf k \<Rightarrow>
                  ((case pid_version (ic_protocol c) of
                      V1 \<Rightarrow> handle_v1_request W (message_name (ic_protocol c)) buf
                    | V2 \<Rightarrow> handle_v2_request W (message_name (ic_protocol c)) buf),
                   c\<lparr>ic_len := None\<rparr>, drop k src)
              | FrameErr kind e k \<Rightarrow>
                  (handle_error kind e k (max_compress_len W n), c\<lparr>ic_len := len\<rparr>, src)))))"

record base_inbound_codec =
  bi_inner :: ssz_inbound_codec

definition base_inbound_new :: "ssz_inbound_codec \<Rightarrow> base_inbound_codec" where
  "base_inbound_new codec = \<lparr> bi_inner = codec \<rparr>"

definition base_inbound_encode ::
  "'b wire \<Rightarrow> base_inbound_codec \<Rightarrow> 'b signed_block rpc_coded_response \<Rightarrow> bytes
     \<Rightarrow> ((rpc_error + unit) \<times> bytes) option" where
  "base_inbound_encode W c item dst = (case as_u8 item of
       None \<Rightarrow> None
     | Some code \<Rightarrow> ssz_inbound_encode W (bi_inner c) item [code])"

definition base_inbound_decode ::
  "'b wire \<Rightarrow> base_inbound_codec \<Rightarrow> bytes
     \<Rightarrow> (rpc_error + rpc_request option) \<times> base_inbound_codec \<times> bytes" where
  "base_inbound_decode W c src = (case ssz_inbound_decode W (bi_inner c) src of
       (r, inner, src) \<Rightarrow> (r, c\<lparr>bi_inner := inner\<rparr>, src))"

datatype inbound_codec = InboundSnappy base_inbound_codec

fun inbound_encode ::
  "'b wire \<Rightarrow> inbound_codec \<Rightarrow> 'b signed_block rpc_coded_response \<Rightarrow> bytes
     \<Rightarrow> ((rpc_error + unit) \<times> bytes) option" where
  "inbound_encode W (InboundSnappy codec) item dst = base_inbound_encode W codec item dst"

fun inbound_decode ::
  "'b wire \<Rightarrow> inbound_codec \<Rightarrow> bytes \<Rightarrow> (rpc_error + rpc_request option) \<times> inbound_codec \<times> bytes" where
  "inbound_decode W (InboundSnappy codec) src = (case base_inbound_decode W codec src of
       (r, codec, src) \<Rightarrow> (r, InboundSnappy codec, src))"

section \<open>The codec of a client: requests out, responses in\<close>

record ssz_outbound_codec =
  oc_len :: "nat option"
  oc_protocol :: protocol_id
  oc_max_packet_size :: nat
  oc_fork_name :: "fork_name option"
  oc_fork_context :: fork_context

definition ssz_outbound_new :: "protocol_id \<Rightarrow> nat \<Rightarrow> fork_context \<Rightarrow> ssz_outbound_codec" where
  "ssz_outbound_new p max_size fc = \<lparr> oc_len = None, oc_protocol = p, oc_max_packet_size = max_size,
     oc_fork_name = None, oc_fork_context = fc \<rparr>"

text \<open>A metadata request has no payload.\<close>

fun request_payload :: "'b wire \<Rightarrow> rpc_request \<Rightarrow> bytes option" where
  "request_payload W (ReqStatus req) = Some (enc_status W req)"
| "request_payload W (ReqGoodbye req) = Some (goodbye_ssz_encode (enc_u64 W) req)"
| "request_payload W (ReqBlocksByRange req) = Some (enc_old_range W req)"
| "request_payload W (ReqBlocksByRoot req) = Some (enc_roots W (block_roots req))"
| "request_payload W (ReqPing req) = Some (enc_ping W req)"
| "request_payload W ReqMetaData = None"

definition ssz_outbound_encode ::
  "'b wire \<Rightarrow> ssz_outbound_codec \<Rightarrow> rpc_request \<Rightarrow> bytes \<Rightarrow> (rpc_error + unit) \<times> bytes" where
  "ssz_outbound_encode W c item dst = (case request_payload W item of
       None \<Rightarrow> (Inr (), dst)
     | Some payload \<Rightarrow>
         (if length payload > oc_max_packet_size c
          then (Inl (InternalError ''attempting to encode data > max_packet_size''), dst)
          else (Inr (), write_payload W payload dst)))"

text \<open>Reading the context bytes, when the protocol has them and they have not been read yet: an error,
  or whether the decoder goes on.\<close>

definition read_context ::
  "ssz_outbound_codec \<Rightarrow> bytes \<Rightarrow> (rpc_error + bool) \<times> ssz_outbound_codec \<times> bytes" where
  "read_context c src = (if has_context_bytes (oc_protocol c) \<and> oc_fork_name c = None
     then (if length src \<ge> CONTEXT_BYTES_LEN
           then (case context_bytes_to_fork_name (take CONTEXT_BYTES_LEN src) (oc_fork_context c) of
               Inl e \<Rightarrow> (Inl e, c, drop CONTEXT_BYTES_LEN src)
             | Inr f \<Rightarrow> (Inr True, c\<lparr>oc_fork_name := Some f\<rparr>, drop CONTEXT_BYTES_LEN src))
           else (Inr False, c, src))
     else (Inr True, c, src))"

definition read_response ::
  "'b wire \<Rightarrow> ssz_outbound_codec \<Rightarrow> bytes
     \<Rightarrow> (rpc_error + 'b signed_block rpc_response option) \<times> ssz_outbound_codec \<times> bytes" where
  "read_response W c src = (case handle_length W (oc_len c) src of
       (Inl e, len, src) \<Rightarrow> (Inl e, c\<lparr>oc_len := len\<rparr>, src)
     | (Inr None, len, src) \<Rightarrow> (Inr None, c\<lparr>oc_len := len\<rparr>, src)
     | (Inr (Some n), len, src) \<Rightarrow>
         (if is_out_of_bounds (rpc_response_limits (wire_lengths W) (current_fork (oc_fork_context c))
                                 (oc_protocol c)) n (oc_max_packet_size c)
          then (Inl (InvalidData (''RPC response length is out of bounds, length '' @ show_nat n)),
                c\<lparr>oc_len := len\<rparr>, src)
          else (case read_exact W n src of
              FrameOk buf k \<Rightarrow> (case pid_version (oc_protocol c) of
                  V1 \<Rightarrow> (handle_v1_response W (message_name (oc_protocol c)) buf,
                         c\<lparr>oc_len := None\<rparr>, drop k src)
                | V2 \<Rightarrow> (case handle_v2_response W (message_name (oc_protocol c)) buf (oc_fork_name c) of
                      (r, fork) \<Rightarrow> (r, c\<lparr>oc_len := None, oc_fork_name := fork\<rparr>, drop k src)))
            | FrameErr kind e k \<Rightarrow>
                (handle_error kind e k (max_compress_len W n), c\<lparr>oc_len := len\<rparr>, src))))"

definition ssz_outbound_decode ::
  "'b wire \<Rightarrow> ssz_outbound_codec \<Rightarrow> bytes
     \<Rightarrow> (rpc_error + 'b signed_block rpc_response option) \<times> ssz_outbound_codec \<times> bytes" where
  "ssz_outbound_decode W c src = (case read_context c src of
       (Inl e, c, src) \<Rightarrow> (Inl e, c, src)
     | (Inr False, c, src) \<Rightarrow> (Inr None, c, src)
     | (Inr True, c, src) \<Rightarrow> read_response W c src)"

definition ssz_outbound_decode_error ::
  "'b wire \<Rightarrow> ssz_outbound_codec \<Rightarrow> bytes \<Rightarrow> (rpc_error + error_type option) \<times> ssz_outbound_codec \<times> bytes" where
  "ssz_outbound_decode_error W c src = (case handle_length W (oc_len c) src of
       (Inl e, len, src) \<Rightarrow> (Inl e, c\<lparr>oc_len := len\<rparr>, src)
     | (Inr None, len, src) \<Rightarrow> (Inr None, c\<lparr>oc_len := len\<rparr>, src)
     | (Inr (Some n), len, src) \<Rightarrow>
         (if n > oc_max_packet_size c \<or> n > error_type_max W \<or> n < error_type_min W
          then (Inl (InvalidData (''RPC Error length is out of bounds, length '' @ show_nat n)),
                c\<lparr>oc_len := len\<rparr>, src)
          else (case read_exact W n src of
              FrameOk buf k \<Rightarrow> (from_ssz (dec_error W buf) id, c\<lparr>oc_len := None\<rparr>, drop k src)
            | FrameErr kind e k \<Rightarrow>
                (handle_error kind e k (max_compress_len W n), c\<lparr>oc_len := len\<rparr>, src))))"

record base_outbound_codec =
  bo_inner :: ssz_outbound_codec
  bo_response_code :: "u8 option"

definition base_outbound_new :: "ssz_outbound_codec \<Rightarrow> base_outbound_codec" where
  "base_outbound_new codec = \<lparr> bo_inner = codec, bo_response_code = None \<rparr>"

definition base_outbound_encode ::
  "'b wire \<Rightarrow> base_outbound_codec \<Rightarrow> rpc_request \<Rightarrow> bytes \<Rightarrow> (rpc_error + unit) \<times> bytes" where
  "base_outbound_encode W c item dst = ssz_outbound_encode W (bo_inner c) item dst"

definition base_outbound_decode ::
  "'b wire \<Rightarrow> base_outbound_codec \<Rightarrow> bytes
     \<Rightarrow> (rpc_error + 'b signed_block rpc_coded_response option) \<times> base_outbound_codec \<times> bytes" where
  "base_outbound_decode W c src = (if length src \<le> 1 then (Inr None, c, src)
     else
       let (code, src) = (case bo_response_code c of
               Some code \<Rightarrow> (code, src) | None \<Rightarrow> (hd src, tl src));
           (res, inner, src) = (if is_response code
               then (case ssz_outbound_decode W (bo_inner c) src of
                   (r, inner, src) \<Rightarrow> (map_sum id (map_option Success) r, inner, src))
               else (case ssz_outbound_decode_error W (bo_inner c) src of
                   (r, inner, src) \<Rightarrow> (map_sum id (map_option (from_error code)) r, inner, src)))
       in (res,
           \<lparr> bo_inner = inner,
             bo_response_code = (case res of Inr (Some _) \<Rightarrow> None | _ \<Rightarrow> Some code) \<rparr>,
           src))"

datatype outbound_codec = OutboundSnappy base_outbound_codec

fun outbound_encode ::
  "'b wire \<Rightarrow> outbound_codec \<Rightarrow> rpc_request \<Rightarrow> bytes \<Rightarrow> (rpc_error + unit) \<times> bytes" where
  "outbound_encode W (OutboundSnappy codec) item dst = base_outbound_encode W codec item dst"

fun outbound_decode ::
  "'b wire \<Rightarrow> outbound_codec \<Rightarrow> bytes
     \<Rightarrow> (rpc_error + 'b signed_block rpc_coded_response option) \<times> outbound_codec \<times> bytes" where
  "outbound_decode W (OutboundSnappy codec) src = (case base_outbound_decode W codec src of
       (r, codec, src) \<Rightarrow> (r, OutboundSnappy codec, src))"

section \<open>The upgrades\<close>

text \<open>A framed stream appends what arrives to its buffer and asks the codec again after every arrival,
  until an item or an error comes out; \<open>None\<close> when all has been read and the codec still waits.\<close>

fun framed_read ::
  "('c \<Rightarrow> bytes \<Rightarrow> (rpc_error + 'a option) \<times> 'c \<times> bytes) \<Rightarrow> 'c \<Rightarrow> bytes \<Rightarrow> bytes list
     \<Rightarrow> (rpc_error + 'a) option \<times> 'c \<times> bytes" where
  "framed_read dec c buf [] = (None, c, buf)"
| "framed_read dec c buf (chunk # chunks) = (case dec c (buf @ chunk) of
       (Inl e, c, buf) \<Rightarrow> (Some (Inl e), c, buf)
     | (Inr (Some x), c, buf) \<Rightarrow> (Some (Inr x), c, buf @ concat chunks)
     | (Inr None, c, buf) \<Rightarrow> framed_read dec c buf chunks)"

definition inbound_codec_for :: "protocol_id \<Rightarrow> nat \<Rightarrow> fork_context \<Rightarrow> inbound_codec" where
  "inbound_codec_for p max_size fc = (case pid_encoding p of
       SSZSnappy \<Rightarrow> InboundSnappy (base_inbound_new (ssz_inbound_new p max_size fc)))"

definition outbound_codec_for :: "protocol_id \<Rightarrow> nat \<Rightarrow> fork_context \<Rightarrow> outbound_codec" where
  "outbound_codec_for p max_size fc = (case pid_encoding p of
       SSZSnappy \<Rightarrow> OutboundSnappy (base_outbound_new (ssz_outbound_new p max_size fc)))"

text \<open>A server upgrades a stream that carries the given chunks: the request it obtains, the codec with
  which it will answer, and the bytes left in the buffer.\<close>

definition serve_stream ::
  "'b wire \<Rightarrow> protocol_id \<Rightarrow> nat \<Rightarrow> fork_context \<Rightarrow> bytes list \<Rightarrow> rpc_error + rpc_request \<times> inbound_codec \<times> bytes"
  where
  "serve_stream W p max_size fc chunks =
     (let codec = inbound_codec_for p max_size fc;
          (r, codec', buf) = (if message_name p = ProtoMetaData then (None, codec, [])
                              else framed_read (inbound_decode W) codec [] chunks)
      in map_sum id (\<lambda>req. (req, codec', buf))
           (upgrade_inbound p (case r of
                Some (Inr req) \<Rightarrow> ReadRequest req
              | Some (Inl e) \<Rightarrow> ReadError e
              | None \<Rightarrow> if buf = [] then ReadEof else ReadError (IoError ''bytes remaining on stream''))))"

text \<open>A client upgrades a stream by sending its request.\<close>

definition send_request_stream ::
  "'b wire \<Rightarrow> protocol_id \<Rightarrow> nat \<Rightarrow> fork_context \<Rightarrow> rpc_request \<Rightarrow> rpc_error + bytes \<times> outbound_codec" where
  "send_request_stream W p max_size fc req =
     (let codec = outbound_codec_for p max_size fc in
      case outbound_encode W codec req [] of
        (Inl e, _) \<Rightarrow> Inl e
      | (Inr _, sent) \<Rightarrow> Inr (sent, codec))"

end
