(* ===== verification/Codec_Props.thy ===== *)
theory Codec_Props
  imports Codec "HOL-Library.Sublist"
begin

text \<open>
  What the codec promises when its libraries keep theirs: requests and responses survive the wire however
  the bytes are cut into pieces, a length outside the limits is refused before the payload is looked at,
  and what is decoded belongs to the protocol of the stream.
\<close>

section \<open>The laws of the libraries\<close>

text \<open>A number and a sequence of frames are recognised at the start of any input, and a proper part of
  them is answered with a request for more; frames are never longer than the bound the library gives.\<close>

definition wire_laws :: "'b wire \<Rightarrow> bool" where
  "wire_laws W =
     ((\<forall>n rest. n < 2 ^ 64 \<longrightarrow>
         uvi_decode W (uvi_encode W n @ rest) = UviNumber n (length (uvi_encode W n)))
      \<and> (\<forall>n s. n < 2 ^ 64 \<longrightarrow> strict_prefix s (uvi_encode W n) \<longrightarrow> uvi_decode W s = UviNeedMore)
      \<and> (\<forall>n. uvi_encode W n \<noteq> [])
      \<and> (\<forall>bs. length (frame_encode W bs) \<le> max_compress_len W (length bs))
      \<and> (\<forall>bs rest. frame_decode W (length bs) (frame_encode W bs @ rest)
             = FrameOk bs (length (frame_encode W bs)))
      \<and> (\<forall>bs s. strict_prefix s (frame_encode W bs) \<longrightarrow>
             (\<exists>e k. frame_decode W (length bs) s = FrameErr UnexpectedEof e k \<and> k \<le> length s))
      \<and> (\<forall>bs. bs \<noteq> [] \<longrightarrow> 2 \<le> length (frame_encode W bs)))"

lemma wire_lawsD:
  assumes "wire_laws W"
  shows "n < 2 ^ 64 \<Longrightarrow> uvi_decode W (uvi_encode W n @ rest) = UviNumber n (length (uvi_encode W n))"
    and "n < 2 ^ 64 \<Longrightarrow> strict_prefix s (uvi_encode W n) \<Longrightarrow> uvi_decode W s = UviNeedMore"
    and "uvi_encode W n \<noteq> []"
    and "length (frame_encode W bs) \<le> max_compress_len W (length bs)"
    and "frame_decode W (length bs) (frame_encode W bs @ rest) = FrameOk bs (length (frame_encode W bs))"
    and "strict_prefix s (frame_encode W bs) \<Longrightarrow>
           \<exists>e k. frame_decode W (length bs) s = FrameErr UnexpectedEof e k \<and> k \<le> length s"
    and "bs \<noteq> [] \<Longrightarrow> 2 \<le> length (frame_encode W bs)"
  using assms unfolding wire_laws_def by blast+

section \<open>Reading one payload piece by piece\<close>

lemma strict_prefix_append_cases:
  assumes "strict_prefix x (u @ f)"
  shows "strict_prefix x u \<or> (\<exists>y. x = u @ y \<and> strict_prefix y f)"
  using assms by (auto simp: strict_prefix_def prefix_def append_eq_append_conv2)

lemma strict_prefix_length: "strict_prefix x y \<Longrightarrow> length x < length y"
  by (auto simp: strict_prefix_def prefix_def)

lemma append_prefix_cases:
  assumes "s @ ch @ rest = r @ extra"
  shows "strict_prefix (s @ ch) r \<or> (\<exists>e. s @ ch = r @ e \<and> extra = e @ rest)"
  using assms
  by (metis append.assoc append_eq_append_conv2 prefix_order.le_less prefixI self_append_conv)

definition framed_payload :: "'b wire \<Rightarrow> bytes \<Rightarrow> bytes" where
  "framed_payload W payload = uvi_encode W (length payload) @ frame_encode W payload"

text \<open>The state of a codec that has seen a proper part \<open>s\<close> of a payload: the length is known once it has
  been cut off the buffer.\<close>

definition pending :: "'b wire \<Rightarrow> bytes \<Rightarrow> nat option \<Rightarrow> bytes \<Rightarrow> bytes \<Rightarrow> bool" where
  "pending W payload len buf s =
     ((len = None \<and> buf = s \<and> strict_prefix s (framed_payload W payload))
      \<or> (len = Some (length payload) \<and> s = uvi_encode W (length payload) @ buf
         \<and> strict_prefix buf (frame_encode W payload)))"

lemma pending_start: "wire_laws W \<Longrightarrow> pending W payload None [] []"
  using wire_lawsD(3) [of W "length payload"] by (simp add: pending_def framed_payload_def strict_prefix_def)

lemma pending_prefix: "pending W payload len buf s \<Longrightarrow> strict_prefix s (framed_payload W payload)"
  by (auto simp: pending_def framed_payload_def strict_prefix_def)

lemma pending_idle:
  assumes "pending W payload len buf s" and "strict_prefix (s @ ch) (framed_payload W payload)"
  shows "pending W payload len (buf @ ch) (s @ ch)"
  using assms by (auto simp: pending_def framed_payload_def strict_prefix_def)

lemma read_exact_partial:
  assumes W: "wire_laws W" and "strict_prefix buf (frame_encode W payload)"
  shows "\<exists>e k. read_exact W (length payload) buf = FrameErr UnexpectedEof e k
           \<and> k < max_compress_len W (length payload)"
proof -
  have l: "length buf < max_compress_len W (length payload)"
    using strict_prefix_length [OF assms(2)] wire_lawsD(4) [OF W, of payload] by simp
  then show ?thesis
    using wire_lawsD(6) [OF W assms(2)] by (force simp: read_exact_def)
qed

lemma read_exact_complete:
  assumes W: "wire_laws W"
  shows "read_exact W (length payload) (frame_encode W payload @ extra)
     = FrameOk payload (length (frame_encode W payload))"
  using wire_lawsD(4,5) [OF W, of payload] by (simp add: read_exact_def)

lemma handle_length_pending:
  assumes W: "wire_laws W" and n: "length payload < 2 ^ 64"
    and p: "pending W payload len buf s" and t: "strict_prefix (s @ ch) (framed_payload W payload)"
  shows "(handle_length W len (buf @ ch) = (Inr None, None, buf @ ch)
            \<and> pending W payload None (buf @ ch) (s @ ch))
     \<or> (\<exists>buf' e k. handle_length W len (buf @ ch) = (Inr (Some (length payload)), Some (length payload), buf')
            \<and> read_exact W (length payload) buf' = FrameErr UnexpectedEof e k
            \<and> k < max_compress_len W (length payload)
            \<and> pending W payload (Some (length payload)) buf' (s @ ch))"
proof (cases len)
  case None
  then have b: "buf = s" using p by (simp add: pending_def)
  from strict_prefix_append_cases [OF t [unfolded framed_payload_def]] show ?thesis
  proof
    assume "strict_prefix (s @ ch) (uvi_encode W (length payload))"
    then show ?thesis
      using wire_lawsD(2) [OF W n] t None b by (simp add: handle_length_def pending_def)
  next
    assume "\<exists>y. s @ ch = uvi_encode W (length payload) @ y \<and> strict_prefix y (frame_encode W payload)"
    then obtain y where y: "s @ ch = uvi_encode W (length payload) @ y"
      "strict_prefix y (frame_encode W payload)" by blast
    then show ?thesis
      using read_exact_partial [OF W y(2)] wire_lawsD(1) [OF W n, of y] None b
      by (auto simp: handle_length_def pending_def)
  qed
next
  case (Some m)
  then have b: "m = length payload" "s = uvi_encode W (length payload) @ buf"
    using p by (simp_all add: pending_def)
  have y: "strict_prefix (buf @ ch) (frame_encode W payload)"
    using t b(2) by (auto simp: framed_payload_def strict_prefix_def)
  show ?thesis
    using read_exact_partial [OF W y] Some b y by (auto simp: handle_length_def pending_def)
qed

lemma handle_length_complete:
  assumes W: "wire_laws W" and n: "length payload < 2 ^ 64"
    and p: "pending W payload len buf s" and t: "s @ ch = framed_payload W payload @ extra"
  shows "handle_length W len (buf @ ch)
     = (Inr (Some (length payload)), Some (length payload), frame_encode W payload @ extra)"
  using p t wire_lawsD(1) [OF W n]
  by (auto simp: pending_def handle_length_def framed_payload_def)

text \<open>A framed reader whose codec keeps an invariant on every proper part of an input, and gives the item
  once the input is complete, gives the item for every way of cutting the input.\<close>

lemma framed_read_pieces:
  assumes part: "\<And>c buf t ch. I c buf t \<Longrightarrow> strict_prefix (t @ ch) r \<Longrightarrow>
      \<exists>c' buf'. dec c (buf @ ch) = (Inr None, c', buf') \<and> I c' buf' (t @ ch)"
    and whole: "\<And>c buf t ch e. I c buf t \<Longrightarrow> t @ ch = r @ e \<Longrightarrow> dec c (buf @ ch) = (Inr (Some x), d, e)"
    and inside: "\<And>c buf t. I c buf t \<Longrightarrow> strict_prefix t r"
    and start: "I c buf t" and input: "t @ concat chunks = r @ extra"
  shows "framed_read dec c buf chunks = (Some (Inr x), d, extra)"
  using start input
proof (induction chunks arbitrary: c buf t)
  case Nil
  then show ?case
    using inside [OF Nil.prems(1)] by (auto dest: strict_prefix_length)
next
  case (Cons ch chunks)
  have "t @ ch @ concat chunks = r @ extra" using Cons.prems(2) by simp
  from append_prefix_cases [OF this] show ?case
  proof (elim disjE exE conjE)
    assume "strict_prefix (t @ ch) r"
    from part [OF Cons.prems(1) this] obtain c' buf'
      where d: "dec c (buf @ ch) = (Inr None, c', buf')" "I c' buf' (t @ ch)" by blast
    from Cons.IH [OF d(2)] Cons.prems(2) d(1) show ?thesis by simp
  next
    fix e assume "t @ ch = r @ e" "extra = e @ concat chunks"
    then show ?thesis using whole [OF Cons.prems(1), of ch e] by simp
  qed
qed

section \<open>Requests\<close>

text \<open>The payload of a request lies within the limits of the server, and the SSZ crate reads back what it
  wrote.\<close>

definition request_fits :: "'b wire \<Rightarrow> protocol_id \<Rightarrow> nat \<Rightarrow> rpc_request \<Rightarrow> bool" where
  "request_fits W p max_size req = (case request_payload W req of
       None \<Rightarrow> True
     | Some payload \<Rightarrow>
         \<not> is_out_of_bounds (rpc_request_limits (wire_lengths W) p) (length payload) max_size)"

fun request_ssz_ok :: "'b wire \<Rightarrow> rpc_request \<Rightarrow> bool" where
  "request_ssz_ok W (ReqStatus m) = (dec_status W (enc_status W m) = Inr m)"
| "request_ssz_ok W (ReqGoodbye r) = (dec_u64 W (enc_u64 W (goodbye_to_u64 r)) = Inr (goodbye_to_u64 r))"
| "request_ssz_ok W (ReqBlocksByRange m) = (dec_old_range W (enc_old_range W m) = Inr m)"
| "request_ssz_ok W (ReqBlocksByRoot m) = (dec_roots W (enc_roots W (block_roots m)) = Inr (block_roots m))"
| "request_ssz_ok W (ReqPing m) = (dec_u64 W (enc_ping W m) = Inr (ping_data m))"
| "request_ssz_ok W ReqMetaData = True"

lemma in_bounds_le: "\<not> is_out_of_bounds l n max_size \<Longrightarrow> n \<le> max_size"
  by (auto simp: is_out_of_bounds_def not_less)

lemma supported_name: "p \<in> set (supported_protocols req) \<Longrightarrow> message_name p = request_protocol req"
  by (cases req) (auto simp: protocol_id_new_def)

lemma decodes_request:
  assumes "p \<in> set (supported_protocols req)" and "request_ssz_ok W req"
    and "request_payload W req = Some payload"
  shows "(case pid_version p of V1 \<Rightarrow> handle_v1_request W (message_name p) payload
            | V2 \<Rightarrow> handle_v2_request W (message_name p) payload) = Inr (Some req)"
  using assms
  by (cases req)
     (auto simp: protocol_id_new_def goodbye_ssz_decode_def goodbye_ssz_encode_def goodbye_to_from)

definition server_reading ::
  "'b wire \<Rightarrow> protocol_id \<Rightarrow> nat \<Rightarrow> fork_context \<Rightarrow> bytes \<Rightarrow> inbound_codec \<Rightarrow> bytes \<Rightarrow> bytes \<Rightarrow> bool" where
  "server_reading W p max_size fc payload c buf s =
     (\<exists>len. c = InboundSnappy \<lparr> bi_inner = (ssz_inbound_new p max_size fc)\<lparr>ic_len := len\<rparr> \<rparr>
        \<and> pending W payload len buf s)"

lemma server_reads_part:
  assumes W: "wire_laws W" and n: "length payload < 2 ^ 64"
    and name: "message_name p \<noteq> ProtoMetaData"
    and fits: "\<not> is_out_of_bounds (rpc_request_limits (wire_lengths W) p) (length payload) max_size"
    and c: "server_reading W p max_size fc payload c buf s"
    and t: "strict_prefix (s @ ch) (framed_payload W payload)"
  shows "\<exists>c' buf'. inbound_decode W c (buf @ ch) = (Inr None, c', buf')
           \<and> server_reading W p max_size fc payload c' buf' (s @ ch)"
proof -
  from c obtain len where len:
    "c = InboundSnappy \<lparr> bi_inner = (ssz_inbound_new p max_size fc)\<lparr>ic_len := len\<rparr> \<rparr>"
    "pending W payload len buf s" by (auto simp: server_reading_def)
  from handle_length_pending [OF W n len(2) t] show ?thesis
    using name fits
    by (auto simp: len(1) server_reading_def base_inbound_decode_def ssz_inbound_decode_def ssz_inbound_new_def)
qed

lemma server_reads_whole:
  assumes W: "wire_laws W" and n: "length payload < 2 ^ 64"
    and name: "message_name p \<noteq> ProtoMetaData"
    and fits: "\<not> is_out_of_bounds (rpc_request_limits (wire_lengths W) p) (length payload) max_size"
    and dec: "(case pid_version p of V1 \<Rightarrow> handle_v1_request W (message_name p) payload
            | V2 \<Rightarrow> handle_v2_request W (message_name p) payload) = Inr (Some req)"
    and c: "server_reading W p max_size fc payload c buf s"
    and t: "s @ ch = framed_payload W payload @ e"
  shows "inbound_decode W c (buf @ ch)
     = (Inr (Some req), InboundSnappy (base_inbound_new (ssz_inbound_new p max_size fc)), e)"
proof -
  from c obtain len where len:
    "c = InboundSnappy \<lparr> bi_inner = (ssz_inbound_new p max_size fc)\<lparr>ic_len := len\<rparr> \<rparr>"
    "pending W payload len buf s" by (auto simp: server_reading_def)
  show ?thesis
    using handle_length_complete [OF W n len(2) t] read_exact_complete [OF W, of payload e] name fits dec
    by (auto simp: len(1) base_inbound_decode_def ssz_inbound_decode_def ssz_inbound_new_def
        base_inbound_new_def split: version.splits)
qed

lemma server_reads_request:
  assumes W: "wire_laws W" and size: "max_size < 2 ^ 64"
    and p: "p \<in> set (supported_protocols req)" and ssz: "request_ssz_ok W req"
    and pay: "request_payload W req = Some payload" and fits: "request_fits W p max_size req"
    and input: "concat chunks = framed_payload W payload @ extra"
  shows "framed_read (inbound_decode W) (InboundSnappy (base_inbound_new (ssz_inbound_new p max_size fc))) []
           chunks
     = (Some (Inr req), InboundSnappy (base_inbound_new (ssz_inbound_new p max_size fc)), extra)"
proof -
  have name: "message_name p \<noteq> ProtoMetaData"
    using supported_name [OF p] pay by (cases req) auto
  have bounds: "\<not> is_out_of_bounds (rpc_request_limits (wire_lengths W) p) (length payload) max_size"
    using fits pay by (simp add: request_fits_def)
  have n: "length payload < 2 ^ 64" using in_bounds_le [OF bounds] size by simp
  show ?thesis
  proof (rule framed_read_pieces [where I = "server_reading W p max_size fc payload"
        and r = "framed_payload W payload" and t = "[]"])
    show "server_reading W p max_size fc payload
        (InboundSnappy (base_inbound_new (ssz_inbound_new p max_size fc))) [] []"
      using pending_start [OF W, of payload]
      by (auto simp: server_reading_def base_inbound_new_def ssz_inbound_new_def)
    show "strict_prefix t (framed_payload W payload)"
      if "server_reading W p max_size fc payload c buf t" for c buf t
      using that pending_prefix by (auto simp: server_reading_def)
  qed (use server_reads_part [OF W n name bounds] input
        server_reads_whole [OF W n name bounds decodes_request [OF p ssz pay]] in auto)
qed

lemma send_request_sent:
  assumes "send_request_stream W p max_size fc req = Inr (sent, codec)"
  shows "codec = outbound_codec_for p max_size fc
    \<and> sent = (case request_payload W req of None \<Rightarrow> [] | Some payload \<Rightarrow> framed_payload W payload)"
  using assms
  by (cases "pid_encoding p")
     (auto simp: send_request_stream_def outbound_codec_for_def base_outbound_encode_def
       ssz_outbound_encode_def write_payload_def framed_payload_def split: option.splits if_splits)

lemma request_crosses_wire:
  assumes W: "wire_laws W" and size: "max_size < 2 ^ 64"
    and p: "p \<in> set (supported_protocols req)" and ssz: "request_ssz_ok W req"
    and sent: "send_request_stream W p client_max client_fc req = Inr (concat chunks, codec)"
    and fits: "request_fits W p max_size req"
  shows "serve_stream W p max_size fc chunks = Inr (req, inbound_codec_for p max_size fc, [])"
proof (cases "request_payload W req")
  case None
  then have "req = ReqMetaData" by (cases req) auto
  then show ?thesis
    using supported_name [OF p] by (simp add: serve_stream_def Let_def)
next
  case (Some payload)
  have name: "message_name p \<noteq> ProtoMetaData"
    using supported_name [OF p] Some by (cases req) auto
  have "concat chunks = framed_payload W payload @ []"
    using send_request_sent [OF sent] Some by simp
  from server_reads_request [OF W size p ssz Some fits this] show ?thesis
    using name by (cases "pid_encoding p") (simp add: serve_stream_def inbound_codec_for_def)
qed

text \<open>C22. A request that a client sends on any of the protocols it offers for it is the request the server
  obtains, whatever the pieces in which the bytes arrive; nothing is left in the buffer, and the codec
  is ready to answer.\<close>
theorem request_wire_roundtrip:
  assumes W: "wire_laws W" and size: "max_size < 2 ^ 64"
    and p: "p \<in> set (supported_protocols req)" and ssz: "request_ssz_ok W req"
    and sent: "send_request_stream W p client_max client_fc req = Inr (concat chunks, codec)"
    and fits: "request_fits W p max_size req"
  shows "serve_stream W p max_size fc chunks = Inr (req, inbound_codec_for p max_size fc, [])"
  using assms by (rule request_crosses_wire)

section \<open>Responses\<close>

text \<open>The decoder of a response once its code is known.\<close>

definition after_code ::
  "'b wire \<Rightarrow> u8 \<Rightarrow> ssz_outbound_codec \<Rightarrow> bytes
     \<Rightarrow> (rpc_error + 'b signed_block rpc_coded_response option) \<times> ssz_outbound_codec \<times> bytes" where
  "after_code W code c src = (if is_response code
     then (case ssz_outbound_decode W c src of (r, inner, src) \<Rightarrow> (map_sum id (map_option Success) r, inner, src))
     else (case ssz_outbound_decode_error W c src of
             (r, inner, src) \<Rightarrow> (map_sum id (map_option (from_error code)) r, inner, src)))"

lemma outbound_decode_code:
  assumes "length src > 1"
  shows "outbound_decode W (OutboundSnappy \<lparr> bo_inner = c, bo_response_code = Some code \<rparr>) src =
      (case after_code W code c src of (res, inner, src) \<Rightarrow>
         (res, OutboundSnappy \<lparr> bo_inner = inner,
            bo_response_code = (case res of Inr (Some _) \<Rightarrow> None | _ \<Rightarrow> Some code) \<rparr>, src))"
  using assms by (auto simp: base_outbound_decode_def after_code_def Let_def split: prod.splits)

lemma outbound_decode_first:
  assumes "u \<noteq> []"
  shows "outbound_decode W (OutboundSnappy \<lparr> bo_inner = c, bo_response_code = None \<rparr>) (code # u) =
      (case after_code W code c u of (res, inner, src) \<Rightarrow>
         (res, OutboundSnappy \<lparr> bo_inner = inner,
            bo_response_code = (case res of Inr (Some _) \<Rightarrow> None | _ \<Rightarrow> Some code) \<rparr>, src))"
  using assms by (auto simp: base_outbound_decode_def after_code_def Let_def neq_Nil_conv split: prod.splits)

lemma outbound_decode_short:
  "length src \<le> 1 \<Longrightarrow> outbound_decode W (OutboundSnappy c) src = (Inr None, OutboundSnappy c, src)"
  by (simp add: base_outbound_decode_def)

declare outbound_decode.simps [simp del]

text \<open>What a client that reads the response \<open>code # ctx @ framed_payload W payload\<close> has done with a proper
  part of it: nothing before it has two bytes, then it waits for the context bytes, then for the
  payload.  The inner codec is \<open>fresh\<close> until the context has been read and \<open>st len\<close> after.\<close>

definition client_reading ::
  "'b wire \<Rightarrow> u8 \<Rightarrow> bytes \<Rightarrow> bytes \<Rightarrow> ssz_outbound_codec \<Rightarrow> (nat option \<Rightarrow> ssz_outbound_codec)
     \<Rightarrow> outbound_codec \<Rightarrow> bytes \<Rightarrow> bytes \<Rightarrow> bool" where
  "client_reading W code ctx payload fresh st c buf t =
     (strict_prefix t (code # ctx @ framed_payload W payload)
      \<and> ((c = OutboundSnappy \<lparr> bo_inner = fresh, bo_response_code = None \<rparr> \<and> buf = t \<and> length t \<le> 1)
         \<or> (c = OutboundSnappy \<lparr> bo_inner = fresh, bo_response_code = Some code \<rparr>
              \<and> t = code # buf \<and> length buf < length ctx)
         \<or> (\<exists>len s. c = OutboundSnappy \<lparr> bo_inner = st len, bo_response_code = Some code \<rparr>
              \<and> t = code # ctx @ s \<and> pending W payload len buf s)))"

text \<open>What is required of the inner decoder.\<close>

definition inner_reads ::
  "'b wire \<Rightarrow> u8 \<Rightarrow> bytes \<Rightarrow> bytes \<Rightarrow> ssz_outbound_codec \<Rightarrow> (nat option \<Rightarrow> ssz_outbound_codec)
     \<Rightarrow> 'b signed_block rpc_coded_response \<Rightarrow> bool" where
  "inner_reads W code ctx payload fresh st item =
     ((\<forall>len buf s ch. pending W payload len buf s \<longrightarrow> strict_prefix (s @ ch) (framed_payload W payload) \<longrightarrow>
         (\<exists>len' buf'. after_code W code (st len) (buf @ ch) = (Inr None, st len', buf')
            \<and> pending W payload len' buf' (s @ ch)))
      \<and> (\<forall>len buf s ch e. pending W payload len buf s \<longrightarrow> s @ ch = framed_payload W payload @ e \<longrightarrow>
           after_code W code (st len) (buf @ ch) = (Inr (Some item), fresh, e))
      \<and> (\<forall>u. length u < length ctx \<longrightarrow> after_code W code fresh u = (Inr None, fresh, u))
      \<and> (\<forall>v. after_code W code fresh (ctx @ v) = after_code W code (st None) v))"

lemma inner_readsD:
  assumes "inner_reads W code ctx payload fresh st item"
  shows "pending W payload len buf s \<Longrightarrow> strict_prefix (s @ ch) (framed_payload W payload) \<Longrightarrow>
      \<exists>len' buf'. after_code W code (st len) (buf @ ch) = (Inr None, st len', buf')
        \<and> pending W payload len' buf' (s @ ch)"
    and "pending W payload len buf s \<Longrightarrow> s @ ch = framed_payload W payload @ e \<Longrightarrow>
      after_code W code (st len) (buf @ ch) = (Inr (Some item), fresh, e)"
    and "length u < length ctx \<Longrightarrow> after_code W code fresh u = (Inr None, fresh, u)"
    and "after_code W code fresh (ctx @ v) = after_code W code (st None) v"
  using assms unfolding inner_reads_def by blast+

lemma payload_long:
  assumes "wire_laws W" and "payload \<noteq> []"
  shows "2 < length (framed_payload W payload)"
  using wire_lawsD(3) [OF assms(1), of "length payload"] wire_lawsD(7) [OF assms]
  by (cases "uvi_encode W (length payload)") (auto simp: framed_payload_def)

text \<open>The inner decoder on the bytes after the code, none of which have been consumed.\<close>

lemma after_code_part:
  assumes W: "wire_laws W" and inner: "inner_reads W code ctx payload fresh st item"
    and u: "strict_prefix u (ctx @ framed_payload W payload)"
  shows "\<exists>c' buf'. after_code W code fresh u = (Inr None, c', buf')
     \<and> client_reading W code ctx payload fresh st
         (OutboundSnappy \<lparr> bo_inner = c', bo_response_code = Some code \<rparr>) buf' (code # u)"
proof -
  have cu: "strict_prefix (code # u) (code # ctx @ framed_payload W payload)"
    using u by (simp add: strict_prefix_def)
  from strict_prefix_append_cases [OF u] show ?thesis
  proof (elim disjE exE conjE)
    assume "strict_prefix u ctx"
    then have l: "length u < length ctx" by (rule strict_prefix_length)
    show ?thesis using inner_readsD(3) [OF inner l] l cu by (auto simp: client_reading_def)
  next
    fix v assume v: "u = ctx @ v" "strict_prefix v (framed_payload W payload)"
    from inner_readsD(1) [OF inner pending_start [OF W], of v] v(2)
    obtain len' buf' where "after_code W code (st None) v = (Inr None, st len', buf')"
      "pending W payload len' buf' v" by auto
    then show ?thesis
      using inner_readsD(4) [OF inner, of v] v(1) cu by (fastforce simp: client_reading_def)
  qed
qed

lemma after_code_whole:
  assumes W: "wire_laws W" and inner: "inner_reads W code ctx payload fresh st item"
  shows "after_code W code fresh (ctx @ framed_payload W payload @ e) = (Inr (Some item), fresh, e)"
  using inner_readsD(2) [OF inner pending_start [OF W], of "framed_payload W payload @ e" e]
    inner_readsD(4) [OF inner] by simp

lemma client_reads_part:
  assumes W: "wire_laws W" and inner: "inner_reads W code ctx payload fresh st item"
    and ctx: "ctx = [] \<or> 2 \<le> length ctx"
    and c: "client_reading W code ctx payload fresh st c buf t"
    and t: "strict_prefix (t @ ch) (code # ctx @ framed_payload W payload)"
  shows "\<exists>c' buf'. outbound_decode W c (buf @ ch) = (Inr None, c', buf')
     \<and> client_reading W code ctx payload fresh st c' buf' (t @ ch)"
proof -
  let ?I = "client_reading W code ctx payload fresh st"
  from c consider
      (start) "c = OutboundSnappy \<lparr> bo_inner = fresh, bo_response_code = None \<rparr>" "buf = t"
    | (awaiting) "c = OutboundSnappy \<lparr> bo_inner = fresh, bo_response_code = Some code \<rparr>" "t = code # buf"
        "length buf < length ctx"
    | (payload) len s where "c = OutboundSnappy \<lparr> bo_inner = st len, bo_response_code = Some code \<rparr>"
        "t = code # ctx @ s" "pending W payload len buf s"
    by (auto simp: client_reading_def)
  then show ?thesis
  proof cases
    case start
    show ?thesis
    proof (cases "length (t @ ch) \<le> 1")
      case True
      then show ?thesis using start t by (auto simp: outbound_decode_short client_reading_def)
    next
      case False
      then obtain u where u: "t @ ch = code # u" "u \<noteq> []"
        using t by (cases "t @ ch") (auto simp: strict_prefix_def)
      have "strict_prefix u (ctx @ framed_payload W payload)" using t u by (simp add: strict_prefix_def)
      from after_code_part [OF W inner this] show ?thesis
        using start u by (auto simp: outbound_decode_first)
    qed
  next
    case awaiting
    have u: "strict_prefix (buf @ ch) (ctx @ framed_payload W payload)"
      using t awaiting(2) by (simp add: strict_prefix_def)
    show ?thesis
    proof (cases "length (buf @ ch) \<le> 1")
      case True
      then show ?thesis
        using awaiting t ctx by (auto simp: outbound_decode_short client_reading_def)
    next
      case False
      with after_code_part [OF W inner u] show ?thesis
        using awaiting by (auto simp: outbound_decode_code)
    qed
  next
    case payload
    have s: "strict_prefix (s @ ch) (framed_payload W payload)"
      using t payload(2) by (auto simp: strict_prefix_def)
    show ?thesis
    proof (cases "length (buf @ ch) \<le> 1")
      case True
      then show ?thesis
        using payload t pending_idle [OF payload(3) s]
        by (fastforce simp: outbound_decode_short client_reading_def)
    next
      case False
      with inner_readsD(1) [OF inner payload(3) s] show ?thesis
        using payload t by (fastforce simp: outbound_decode_code client_reading_def)
    qed
  qed
qed

lemma client_reads_whole:
  assumes W: "wire_laws W" and inner: "inner_reads W code ctx payload fresh st item"
    and pay: "payload \<noteq> []"
    and c: "client_reading W code ctx payload fresh st c buf t"
    and t: "t @ ch = (code # ctx @ framed_payload W payload) @ e"
  shows "outbound_decode W c (buf @ ch)
     = (Inr (Some item), OutboundSnappy \<lparr> bo_inner = fresh, bo_response_code = None \<rparr>, e)"
proof -
  let ?u = "ctx @ framed_payload W payload @ e"
  have long: "length ?u > 1" using payload_long [OF W pay] by simp
  from c consider
      (start) "c = OutboundSnappy \<lparr> bo_inner = fresh, bo_response_code = None \<rparr>" "buf = t"
    | (awaiting) "c = OutboundSnappy \<lparr> bo_inner = fresh, bo_response_code = Some code \<rparr>" "t = code # buf"
    | (payload) len s where "c = OutboundSnappy \<lparr> bo_inner = st len, bo_response_code = Some code \<rparr>"
        "t = code # ctx @ s" "pending W payload len buf s"
    by (auto simp: client_reading_def)
  then show ?thesis
  proof cases
    case start
    have "?u \<noteq> []" using long by force
    then show ?thesis
      using start t after_code_whole [OF W inner, of e] by (simp add: outbound_decode_first)
  next
    case awaiting
    have "buf @ ch = ?u" using awaiting(2) t by simp
    then show ?thesis
      using awaiting(1) long after_code_whole [OF W inner, of e] by (simp add: outbound_decode_code)
  next
    case payload
    have s: "s @ ch = framed_payload W payload @ e" using payload(2) t by simp
    have "buf @ ch = framed_payload W payload @ e \<or> buf @ ch = frame_encode W payload @ e"
      using payload(3) s by (auto simp: pending_def framed_payload_def)
    then have "2 \<le> length (buf @ ch)"
      using payload_long [OF W pay] wire_lawsD(7) [OF W pay] by (metis length_append less_imp_le trans_le_add1)
    then show ?thesis
      using payload(1) inner_readsD(2) [OF inner payload(3) s]
      by (simp add: outbound_decode_code)
  qed
qed

lemma client_reads_response:
  assumes W: "wire_laws W" and inner: "inner_reads W code ctx payload fresh st item"
    and ctx: "ctx = [] \<or> 2 \<le> length ctx" and pay: "payload \<noteq> []"
    and input: "concat chunks = code # ctx @ framed_payload W payload @ extra"
  shows "framed_read (outbound_decode W) (OutboundSnappy \<lparr> bo_inner = fresh, bo_response_code = None \<rparr>) [] chunks
     = (Some (Inr item), OutboundSnappy \<lparr> bo_inner = fresh, bo_response_code = None \<rparr>, extra)"
proof (rule framed_read_pieces [where I = "client_reading W code ctx payload fresh st"
      and r = "code # ctx @ framed_payload W payload" and t = "[]"])
  show "client_reading W code ctx payload fresh st
      (OutboundSnappy \<lparr> bo_inner = fresh, bo_response_code = None \<rparr>) [] []"
    by (simp add: client_reading_def strict_prefix_def)
  show "strict_prefix t (code # ctx @ framed_payload W payload)"
    if "client_reading W code ctx payload fresh st c buf t" for c buf t
    using that by (simp add: client_reading_def)
qed (use client_reads_part [OF W inner ctx] client_reads_whole [OF W inner pay] input in auto)

subsection \<open>The two inner decoders\<close>

lemma success_inner:
  assumes W: "wire_laws W" and n: "length payload < 2 ^ 64"
    and fits: "\<not> is_out_of_bounds (rpc_response_limits (wire_lengths W) (current_fork fc) p) (length payload) max_size"
    and ctx: "if has_context_bytes p
      then length ctx = CONTEXT_BYTES_LEN \<and> from_context_bytes fc ctx = fork \<and> fork \<noteq> None
      else ctx = [] \<and> fork = None"
    and dec: "(case pid_version p of
         V1 \<Rightarrow> (handle_v1_response W (message_name p) payload, fork)
       | V2 \<Rightarrow> handle_v2_response W (message_name p) payload fork) = (Inr (Some resp), None)"
  shows "inner_reads W 0 ctx payload (ssz_outbound_new p max_size fc)
     (\<lambda>len. (ssz_outbound_new p max_size fc)\<lparr>oc_len := len, oc_fork_name := fork\<rparr>) (Success resp)"
proof -
  let ?st = "\<lambda>len. (ssz_outbound_new p max_size fc)\<lparr>oc_len := len, oc_fork_name := fork\<rparr>"
  have run: "after_code W 0 \<lparr> oc_len = len, oc_protocol = p, oc_max_packet_size = max_size,
          oc_fork_name = fork, oc_fork_context = fc \<rparr> src
      = (case read_response W \<lparr> oc_len = len, oc_protocol = p, oc_max_packet_size = max_size,
          oc_fork_name = fork, oc_fork_context = fc \<rparr> src of
           (r, c, src) \<Rightarrow> (map_sum id (map_option Success) r, c, src))"
    for len src
    using ctx by (auto simp: after_code_def is_response_def ssz_outbound_decode_def read_context_def
        ssz_outbound_new_def split: if_splits)
  show ?thesis
    unfolding inner_reads_def
  proof (intro conjI allI impI)
    fix len buf s ch
    assume "pending W payload len buf s" "strict_prefix (s @ ch) (framed_payload W payload)"
    from handle_length_pending [OF W n this] show
      "\<exists>len' buf'. after_code W 0 (?st len) (buf @ ch) = (Inr None, ?st len', buf') \<and> pending W payload len' buf' (s @ ch)"
      using fits by (auto simp: run read_response_def ssz_outbound_new_def)
  next
    fix len buf s ch e
    assume "pending W payload len buf s" "s @ ch = framed_payload W payload @ e"
    from handle_length_complete [OF W n this] show
      "after_code W 0 (?st len) (buf @ ch) = (Inr (Some (Success resp)), ssz_outbound_new p max_size fc, e)"
      using fits dec ctx read_exact_complete [OF W, of payload e]
      by (auto simp: run read_response_def ssz_outbound_new_def split: version.splits if_splits prod.splits)
  next
    fix u :: bytes assume "length u < length ctx"
    then show "after_code W 0 (ssz_outbound_new p max_size fc) u = (Inr None, ssz_outbound_new p max_size fc, u)"
      using ctx by (auto simp: after_code_def is_response_def ssz_outbound_decode_def read_context_def
          ssz_outbound_new_def split: if_splits)
  next
    fix v
    show "after_code W 0 (ssz_outbound_new p max_size fc) (ctx @ v) = after_code W 0 (?st None) v"
      using ctx by (auto simp: after_code_def is_response_def ssz_outbound_decode_def read_context_def
          ssz_outbound_new_def context_bytes_to_fork_name_def split: if_splits)
  qed
qed

lemma error_inner:
  assumes W: "wire_laws W" and n: "length payload < 2 ^ 64" and code: "\<not> is_response code"
    and fits: "length payload \<le> max_size" "length payload \<le> error_type_max W" "error_type_min W \<le> length payload"
    and dec: "dec_error W payload = Inr err"
  shows "inner_reads W code [] payload (ssz_outbound_new p max_size fc)
     (\<lambda>len. (ssz_outbound_new p max_size fc)\<lparr>oc_len := len\<rparr>) (from_error code err)"
  unfolding inner_reads_def
proof (intro conjI allI impI)
  let ?st = "\<lambda>len. (ssz_outbound_new p max_size fc)\<lparr>oc_len := len\<rparr>"
  fix len buf s ch
  assume "pending W payload len buf s" "strict_prefix (s @ ch) (framed_payload W payload)"
  from handle_length_pending [OF W n this] show
    "\<exists>len' buf'. after_code W code (?st len) (buf @ ch) = (Inr None, ?st len', buf') \<and> pending W payload len' buf' (s @ ch)"
    using fits code by (auto simp: after_code_def ssz_outbound_decode_error_def ssz_outbound_new_def)
next
  fix len buf s ch e
  assume "pending W payload len buf s" "s @ ch = framed_payload W payload @ e"
  from handle_length_complete [OF W n this] show
    "after_code W code ((ssz_outbound_new p max_size fc)\<lparr>oc_len := len\<rparr>) (buf @ ch)
       = (Inr (Some (from_error code err)), ssz_outbound_new p max_size fc, e)"
    using fits dec code read_exact_complete [OF W, of payload e]
    by (auto simp: after_code_def ssz_outbound_decode_error_def ssz_outbound_new_def)
qed (auto simp: ssz_outbound_new_def)

subsection \<open>The round trip\<close>

fun block_fork :: "'b signed_block \<Rightarrow> fork_name" where
  "block_fork (BlockBase _) = Base"
| "block_fork (BlockAltair _) = Altair"
| "block_fork (BlockMerge _) = Merge"
| "block_fork (BlockCapella _) = Capella"

fun block_content :: "'b signed_block \<Rightarrow> 'b" where
  "block_content (BlockBase b) = b"
| "block_content (BlockAltair b) = b"
| "block_content (BlockMerge b) = b"
| "block_content (BlockCapella b) = b"

text \<open>What arrives is what was sent, except that metadata is of the negotiated version.\<close>

fun received :: "'b wire \<Rightarrow> version \<Rightarrow> 'b signed_block rpc_coded_response \<Rightarrow> 'b signed_block rpc_coded_response" where
  "received W v (Success (RespMetaData m)) = Success (RespMetaData \<lparr> seq_number = seq_number m, attnets = attnets m,
     syncnets = (case v of V1 \<Rightarrow> None
       | V2 \<Rightarrow> Some (case syncnets m of Some s \<Rightarrow> s | None \<Rightarrow> default_syncnets W)) \<rparr>)"
| "received W v r = r"

text \<open>The SSZ crate reads back the payload of a response.\<close>

fun response_ssz_ok :: "'b wire \<Rightarrow> version \<Rightarrow> 'b signed_block rpc_coded_response \<Rightarrow> bool" where
  "response_ssz_ok W v (Success (RespStatus m)) = (dec_status W (enc_status W m) = Inr m)"
| "response_ssz_ok W v (Success (RespBlocksByRange b)) =
     (dec_block W (block_fork b) (enc_block W b) = Inr (block_content b))"
| "response_ssz_ok W v (Success (RespBlocksByRoot b)) =
     (dec_block W (block_fork b) (enc_block W b) = Inr (block_content b))"
| "response_ssz_ok W v (Success (RespPong m)) = (dec_u64 W (enc_u64 W (ping_data m)) = Inr (ping_data m))"
| "response_ssz_ok W v (Success (RespMetaData m)) = (case received W v (Success (RespMetaData m)) of
       Success (RespMetaData m') \<Rightarrow> (case syncnets m' of
           None \<Rightarrow> dec_metadata_v1 W (enc_metadata W m') = Inr (seq_number m', attnets m')
         | Some s \<Rightarrow> dec_metadata_v2 W (enc_metadata W m') = Inr (seq_number m', attnets m', s))
     | _ \<Rightarrow> False)"
| "response_ssz_ok W v (ErrorResp c err) = (dec_error W (enc_error W err) = Inr err)"
| "response_ssz_ok W v (StreamTermination t) = False"

text \<open>The response answers a request of the protocol, a block is of the first fork or comes with context
  bytes from which the client knows its fork, and the payload is within the limits of the client.\<close>

fun sent_block :: "'b signed_block rpc_coded_response \<Rightarrow> 'b signed_block option" where
  "sent_block (Success (RespBlocksByRange b)) = Some b"
| "sent_block (Success (RespBlocksByRoot b)) = Some b"
| "sent_block _ = None"

definition response_expected ::
  "protocol_id \<Rightarrow> fork_context \<Rightarrow> fork_context \<Rightarrow> 'b signed_block rpc_coded_response \<Rightarrow> bool" where
  "response_expected p server_fc client_fc item =
     ((case item of Success r \<Rightarrow> response_protocol r = message_name p | _ \<Rightarrow> True)
      \<and> (case sent_block item of
           None \<Rightarrow> True
         | Some b \<Rightarrow> (if pid_version p = V1 then block_fork b = Base
             else (case context_bytes p server_fc item of
                 None \<Rightarrow> False
               | Some ctx \<Rightarrow> length ctx = CONTEXT_BYTES_LEN
                   \<and> from_context_bytes client_fc ctx = Some (block_fork b)))))"

definition response_fits ::
  "'b wire \<Rightarrow> protocol_id \<Rightarrow> nat \<Rightarrow> fork_name \<Rightarrow> 'b signed_block rpc_coded_response \<Rightarrow> bytes \<Rightarrow> bool" where
  "response_fits W p max_size fork item payload = (case item of
       Success _ \<Rightarrow> \<not> is_out_of_bounds (rpc_response_limits (wire_lengths W) fork p) (length payload) max_size
     | _ \<Rightarrow> length payload \<le> max_size \<and> length payload \<le> error_type_max W
            \<and> error_type_min W \<le> length payload)"

lemma context_of_block:
  assumes "sent_block item = Some b"
  shows "context_bytes p fc item = (if has_context_bytes p
     then (if block_fork b = Base then Some (genesis_context_bytes fc) else to_context_bytes fc (block_fork b))
     else None)"
  using assms by (cases item rule: sent_block.cases; cases b) (auto simp: context_bytes_def)

lemma no_context:
  "sent_block item = None \<Longrightarrow> context_bytes p fc item = None"
  by (cases item rule: sent_block.cases) (auto simp: context_bytes_def)

lemma offered_v2:
  "p \<in> set protocol_info \<Longrightarrow> pid_version p = V2 \<Longrightarrow>
     message_name p = ProtoMetaData \<and> \<not> has_context_bytes p
     \<or> (message_name p = ProtoBlocksByRange \<or> message_name p = ProtoBlocksByRoot) \<and> has_context_bytes p"
  by (auto simp: protocol_info_def protocol_id_new_def has_context_bytes_def)

lemma v1_no_context: "pid_version p = V1 \<Longrightarrow> \<not> has_context_bytes p"
  by (simp add: has_context_bytes_def)

text \<open>The fork a client has read before it decodes a response, and what it makes of the payload.\<close>

definition known_fork :: "protocol_id \<Rightarrow> 'b signed_block rpc_coded_response \<Rightarrow> fork_name option" where
  "known_fork p item = (if pid_version p = V2 then map_option block_fork (sent_block item) else None)"

lemma decodes_response:
  assumes p: "p \<in> set protocol_info" and ex: "response_expected p sfc cfc (Success r)"
    and ssz: "response_ssz_ok W (pid_version p) (Success r)"
    and pay: "response_payload W (pid_version p) (Success r) = Some payload"
  shows "\<exists>r'. received W (pid_version p) (Success r) = Success r'
     \<and> (case pid_version p of
          V1 \<Rightarrow> (handle_v1_response W (message_name p) payload, known_fork p (Success r))
        | V2 \<Rightarrow> handle_v2_response W (message_name p) payload (known_fork p (Success r)))
       = (Inr (Some r'), None)"
proof (cases "pid_version p")
  case V1
  show ?thesis
  proof (cases r)
    case (RespBlocksByRange b)
    then show ?thesis using V1 ex ssz pay by (cases b) (auto simp: response_expected_def known_fork_def)
  next
    case (RespBlocksByRoot b)
    then show ?thesis using V1 ex ssz pay by (cases b) (auto simp: response_expected_def known_fork_def)
  qed (use V1 ex ssz pay in \<open>auto simp: response_expected_def known_fork_def metadata_payload_def\<close>)
next
  case V2
  show ?thesis
  proof (cases r)
    case (RespBlocksByRange b)
    then show ?thesis
      using V2 ex ssz pay by (cases b) (auto simp: response_expected_def known_fork_def handle_v2_response_def)
  next
    case (RespBlocksByRoot b)
    then show ?thesis
      using V2 ex ssz pay by (cases b) (auto simp: response_expected_def known_fork_def handle_v2_response_def)
  next
    case (RespMetaData m)
    then show ?thesis
      using V2 ex ssz pay
      by (cases m; cases "syncnets m")
         (auto simp: response_expected_def known_fork_def handle_v2_response_def metadata_payload_def)
  qed (use V2 ex offered_v2 [OF p V2] in \<open>auto simp: response_expected_def\<close>)
qed

lemma response_context:
  assumes p: "p \<in> set protocol_info" and ex: "response_expected p sfc cfc (Success r)"
  defines "ctx \<equiv> case context_bytes p sfc (Success r) of Some c \<Rightarrow> c | None \<Rightarrow> []"
  shows "if has_context_bytes p
     then length ctx = CONTEXT_BYTES_LEN \<and> from_context_bytes cfc ctx = known_fork p (Success r)
          \<and> known_fork p (Success r) \<noteq> None
     else ctx = [] \<and> known_fork p (Success r) = None"
proof (cases "sent_block (Success r)")
  case None
  have "\<not> has_context_bytes p"
    using ex None offered_v2 [OF p] v1_no_context [of p]
    by (cases r; cases "pid_version p") (auto simp: response_expected_def)
  then show ?thesis using None no_context [OF None] by (simp add: ctx_def known_fork_def)
next
  case (Some b)
  show ?thesis
  proof (cases "pid_version p")
    case V1
    then show ?thesis
      using v1_no_context [OF V1] context_of_block [OF Some, of p sfc] by (simp add: ctx_def known_fork_def)
  next
    case V2
    have "has_context_bytes p"
      using ex Some offered_v2 [OF p V2] by (cases r) (auto simp: response_expected_def)
    then show ?thesis
      using ex Some V2 by (auto simp: response_expected_def ctx_def known_fork_def split: option.splits)
  qed
qed

lemma response_sent:
  assumes "inbound_encode W (inbound_codec_for p server_max sfc) item dst = Some (Inr (), sent)"
    and "response_payload W (pid_version p) item = Some payload"
  shows "\<exists>code. as_u8 item = Some code \<and> sent = code
     # (case context_bytes p sfc item of Some c \<Rightarrow> c | None \<Rightarrow> []) @ framed_payload W payload"
  using assms
  by (cases "pid_encoding p")
     (auto simp: inbound_codec_for_def base_inbound_encode_def base_inbound_new_def ssz_inbound_encode_def
       ssz_inbound_new_def write_payload_def framed_payload_def split: option.splits if_splits)

lemma outbound_codec_eq:
  "outbound_codec_for p max_size fc
     = OutboundSnappy \<lparr> bo_inner = ssz_outbound_new p max_size fc, bo_response_code = None \<rparr>"
  by (cases "pid_encoding p") (simp add: outbound_codec_for_def base_outbound_new_def)

lemma response_crosses_wire:
  assumes W: "wire_laws W" and size: "client_max < 2 ^ 64" and p: "p \<in> set protocol_info"
    and sent: "inbound_encode W (inbound_codec_for p server_max sfc) item dst = Some (Inr (), sent)"
    and pay: "response_payload W (pid_version p) item = Some payload" "payload \<noteq> []"
    and ex: "response_expected p sfc cfc item" and ssz: "response_ssz_ok W (pid_version p) item"
    and fits: "response_fits W p client_max (current_fork cfc) item payload"
    and input: "concat chunks = sent @ extra"
  shows "framed_read (outbound_decode W) (outbound_codec_for p client_max cfc) [] chunks
     = (Some (Inr (received W (pid_version p) item)), outbound_codec_for p client_max cfc, extra)"
proof (cases item)
  case (Success r)
  let ?ctx = "case context_bytes p sfc item of Some c \<Rightarrow> c | None \<Rightarrow> []"
  have bounds: "\<not> is_out_of_bounds (rpc_response_limits (wire_lengths W) (current_fork cfc) p)
      (length payload) client_max"
    using fits Success by (simp add: response_fits_def)
  have n: "length payload < 2 ^ 64" using in_bounds_le [OF bounds] size by simp
  note ctx = response_context [OF p ex [unfolded Success], folded Success]
  obtain r' where r': "received W (pid_version p) item = Success r'"
    "(case pid_version p of V1 \<Rightarrow> (handle_v1_response W (message_name p) payload, known_fork p item)
        | V2 \<Rightarrow> handle_v2_response W (message_name p) payload (known_fork p item)) = (Inr (Some r'), None)"
    using decodes_response [OF p ex [unfolded Success] ssz [unfolded Success] pay(1) [unfolded Success]] Success
    by auto
  have two: "?ctx = [] \<or> 2 \<le> length ?ctx"
    using ctx by (auto simp: CONTEXT_BYTES_LEN_def split: if_splits)
  have "concat chunks = 0 # ?ctx @ framed_payload W payload @ extra"
    using response_sent [OF sent pay(1)] input Success by auto
  from client_reads_response [OF W success_inner [OF W n bounds ctx r'(2)] two pay(2) this] r'(1)
  show ?thesis by (simp add: outbound_codec_eq)
next
  case (ErrorResp c err)
  have bounds: "length payload \<le> client_max" "length payload \<le> error_type_max W"
    "error_type_min W \<le> length payload"
    using fits ErrorResp by (simp_all add: response_fits_def)
  have n: "length payload < 2 ^ 64" using bounds(1) size by simp
  have code: "\<not> is_response (error_code_as_u8 c)" by (cases c) (simp_all add: is_response_def)
  have dec: "dec_error W payload = Inr err" using ssz pay(1) ErrorResp by simp
  have "concat chunks = error_code_as_u8 c # [] @ framed_payload W payload @ extra"
    using response_sent [OF sent pay(1)] input ErrorResp no_context [of item p sfc] by auto
  from client_reads_response [OF W error_inner [OF W n code bounds dec] _ pay(2) this]
  show ?thesis
    using ErrorResp by (cases c) (simp_all add: outbound_codec_eq from_error_def)
qed (use pay in simp)

text \<open>C23. A response, or an error, that a server sends is what the client reads, whatever the pieces in which
  the bytes arrive; the bytes after it stay in the buffer and the codec is ready for the next chunk.\<close>
theorem response_wire_roundtrip:
  assumes W: "wire_laws W" and size: "client_max < 2 ^ 64" and p: "p \<in> set protocol_info"
    and sent: "inbound_encode W (inbound_codec_for p server_max sfc) item dst = Some (Inr (), sent)"
    and pay: "response_payload W (pid_version p) item = Some payload" "payload \<noteq> []"
    and ex: "response_expected p sfc cfc item" and ssz: "response_ssz_ok W (pid_version p) item"
    and fits: "response_fits W p client_max (current_fork cfc) item payload"
    and input: "concat chunks = sent @ extra"
  shows "framed_read (outbound_decode W) (outbound_codec_for p client_max cfc) [] chunks
     = (Some (Inr (received W (pid_version p) item)), outbound_codec_for p client_max cfc, extra)"
  using assms by (rule response_crosses_wire)

section \<open>Lengths outside the limits\<close>

lemma handle_length_start:
  assumes "wire_laws W" and "n < 2 ^ 64"
  shows "handle_length W None (uvi_encode W n @ rest) = (Inr (Some n), Some n, rest)"
  using wire_lawsD(1) [OF assms] by (simp add: handle_length_def)

lemma outside_request:
  assumes W: "wire_laws W" and n: "n < 2 ^ 64" and "message_name p \<noteq> ProtoMetaData"
    and "is_out_of_bounds (rpc_request_limits (wire_lengths W) p) n max_size"
  shows "\<exists>e c. inbound_decode W (inbound_codec_for p max_size fc) (uvi_encode W n @ rest)
           = (Inl (InvalidData e), c, rest)"
  using assms handle_length_start [OF W n, of rest]
  by (cases "pid_encoding p")
     (auto simp: inbound_codec_for_def base_inbound_new_def ssz_inbound_new_def base_inbound_decode_def
       ssz_inbound_decode_def)

lemma outside_response:
  assumes W: "wire_laws W" and n: "n < 2 ^ 64"
    and ctx: "if has_context_bytes p
      then length ctx = CONTEXT_BYTES_LEN \<and> from_context_bytes fc ctx \<noteq> None else ctx = []"
    and "is_out_of_bounds (rpc_response_limits (wire_lengths W) (current_fork fc) p) n max_size"
  shows "\<exists>e c. outbound_decode W (outbound_codec_for p max_size fc) (0 # ctx @ uvi_encode W n @ rest)
           = (Inl (InvalidData e), c, rest)"
proof -
  have "ctx @ uvi_encode W n @ rest \<noteq> []" using wire_lawsD(3) [OF W, of n] by simp
  then show ?thesis
    using assms handle_length_start [OF W n, of rest]
    by (auto simp: outbound_codec_eq outbound_decode_first after_code_def is_response_def
        ssz_outbound_decode_def read_context_def ssz_outbound_new_def context_bytes_to_fork_name_def
        read_response_def split: if_splits)
qed

lemma outside_error:
  assumes W: "wire_laws W" and n: "n < 2 ^ 64" and "\<not> is_response code"
    and "n > max_size \<or> n > error_type_max W \<or> n < error_type_min W"
  shows "\<exists>e c. outbound_decode W (outbound_codec_for p max_size fc) (code # uvi_encode W n @ rest)
           = (Inl (InvalidData e), c, rest)"
proof -
  have "uvi_encode W n @ rest \<noteq> []" using wire_lawsD(3) [OF W, of n] by simp
  then show ?thesis
    using assms handle_length_start [OF W n, of rest]
    by (auto simp: outbound_codec_eq outbound_decode_first after_code_def
        ssz_outbound_decode_error_def ssz_outbound_new_def)
qed

lemma oversized_request:
  assumes "request_payload W req = Some payload" and "length payload > max_size"
  shows "send_request_stream W p max_size fc req
           = Inl (InternalError ''attempting to encode data > max_packet_size'')"
  using assms
  by (cases "pid_encoding p")
     (simp add: send_request_stream_def outbound_codec_for_def base_outbound_new_def ssz_outbound_new_def
       base_outbound_encode_def ssz_outbound_encode_def)

text \<open>C28. A message that announces a length outside the limits of its protocol is refused as invalid as soon
  as the length has been read, whatever follows: a request by a server, and a response or an error by
  a client; and a client sends no request above its maximum.\<close>
theorem length_outside_limits:
  assumes "wire_laws W" and "n < 2 ^ 64"
  shows "(message_name p \<noteq> ProtoMetaData
      \<and> is_out_of_bounds (rpc_request_limits (wire_lengths W) p) n max_size \<longrightarrow>
        (\<exists>e c. inbound_decode W (inbound_codec_for p max_size fc) (uvi_encode W n @ rest)
           = (Inl (InvalidData e), c, rest)))
    \<and> ((if has_context_bytes p then length ctx = CONTEXT_BYTES_LEN \<and> from_context_bytes fc ctx \<noteq> None
        else ctx = [])
      \<and> is_out_of_bounds (rpc_response_limits (wire_lengths W) (current_fork fc) p) n max_size \<longrightarrow>
        (\<exists>e c. outbound_decode W (outbound_codec_for p max_size fc) (0 # ctx @ uvi_encode W n @ rest)
           = (Inl (InvalidData e), c, rest)))
    \<and> (\<not> is_response code \<and> (n > max_size \<or> n > error_type_max W \<or> n < error_type_min W) \<longrightarrow>
        (\<exists>e c. outbound_decode W (outbound_codec_for p max_size fc) (code # uvi_encode W n @ rest)
           = (Inl (InvalidData e), c, rest)))
    \<and> (request_payload W req = Some payload \<and> length payload > max_size \<longrightarrow>
        send_request_stream W p max_size fc req
          = Inl (InternalError ''attempting to encode data > max_packet_size''))"
  using outside_request [OF assms] outside_response [OF assms] outside_error [OF assms] oversized_request
  by meson

section \<open>What is decoded belongs to the stream\<close>

lemma from_ssz_Some: "from_ssz d f = Inr (Some y) \<longleftrightarrow> (\<exists>x. d = Inr x \<and> y = f x)"
  by (cases d) auto

lemma handle_error_None: "handle_error k e a b \<noteq> Inr (Some x)"
  by (cases k) auto

lemma v1_request_protocol: "handle_v1_request W n bs = Inr (Some req) \<Longrightarrow> request_protocol req = n"
  by (cases n) (auto simp: from_ssz_Some split: if_splits)

lemma v2_request_protocol: "handle_v2_request W n bs = Inr (Some req) \<Longrightarrow> request_protocol req = n"
  by (cases n) (auto simp: from_ssz_Some split: if_splits)

lemma v1_response_protocol:
  "handle_v1_response W n bs = Inr (Some r) \<Longrightarrow>
     response_protocol r = n \<and> (\<forall>b. sent_block (Success r) = Some b \<longrightarrow> block_fork b = Base)"
  by (cases n) (auto simp: from_ssz_Some)

lemma v2_response_protocol:
  "handle_v2_response W n bs fork = (Inr (Some r), fork') \<Longrightarrow>
     response_protocol r = n \<and> (\<forall>b. sent_block (Success r) = Some b \<longrightarrow> fork = Some (block_fork b))"
  by (cases n)
     (auto simp: handle_v2_response_def from_ssz_Some split: option.splits fork_name.splits)

lemma inbound_type:
  assumes "ssz_inbound_decode W c src = (Inr (Some req), c', rest)"
  shows "request_protocol req = message_name (ic_protocol c) \<and> ic_protocol c' = ic_protocol c
    \<and> (\<exists>taken. src = taken @ rest)"
proof -
  have drop: "\<exists>taken. xs = taken @ drop k xs" for k and xs :: bytes
    by (metis append_take_drop_id)
  have hl: "\<exists>taken. src = taken @ s" if "handle_length W len src = (r, len', s)" for len r len' s
    using that drop by (auto simp: handle_length_def split: option.splits uvi_result.splits)
  show ?thesis
    using assms
    by (auto simp: ssz_inbound_decode_def handle_error_None from_ssz_Some
        split: if_splits prod.splits sum.splits option.splits frame_result.splits version.splits
        dest!: hl v1_request_protocol v2_request_protocol)
       (metis append.assoc append_take_drop_id)+
qed

text \<open>The fork of a block that a codec decodes: the first fork for the first version of a protocol, else
  the one already read or the one of the context bytes at the start of the input.\<close>

definition fork_accounted :: "ssz_outbound_codec \<Rightarrow> bytes \<Rightarrow> fork_name \<Rightarrow> bool" where
  "fork_accounted c src f = (if pid_version (oc_protocol c) = V1 then f = Base
     else oc_fork_name c = Some f
       \<or> (\<exists>a ctx b. src = a @ ctx @ b \<and> length a \<le> 1 \<and> length ctx = CONTEXT_BYTES_LEN
            \<and> from_context_bytes (oc_fork_context c) ctx = Some f))"

lemma read_response_type:
  assumes "read_response W c src = (Inr (Some r), c', rest)"
  shows "response_protocol r = message_name (oc_protocol c) \<and> oc_protocol c' = oc_protocol c
    \<and> (\<forall>b. sent_block (Success r) = Some b \<longrightarrow>
          (if pid_version (oc_protocol c) = V1 then block_fork b = Base else oc_fork_name c = Some (block_fork b)))"
  using assms
  by (auto simp: read_response_def handle_error_None
      split: if_splits prod.splits sum.splits option.splits frame_result.splits version.splits
      dest!: v1_response_protocol v2_response_protocol)

lemma outbound_type:
  assumes "ssz_outbound_decode W c src = (Inr (Some r), c', rest)"
  shows "response_protocol r = message_name (oc_protocol c) \<and> oc_protocol c' = oc_protocol c
    \<and> (\<forall>b a. sent_block (Success r) = Some b \<longrightarrow> length a \<le> 1 \<longrightarrow> fork_accounted c (a @ src) (block_fork b))"
proof -
  from assms obtain c1 src1 where c1: "read_context c src = (Inr True, c1, src1)"
    "read_response W c1 src1 = (Inr (Some r), c', rest)"
    by (auto simp: ssz_outbound_decode_def split: prod.splits sum.splits bool.splits)
  have same: "oc_protocol c1 = oc_protocol c \<and>
      (\<forall>a. length a \<le> 1 \<longrightarrow> oc_fork_name c1 = Some f \<longrightarrow> pid_version (oc_protocol c) = V2 \<longrightarrow>
         fork_accounted c (a @ src) f)" for f
  proof (cases "c1 = c")
    case False
    then have l: "CONTEXT_BYTES_LEN \<le> length src"
      "from_context_bytes (oc_fork_context c) (take CONTEXT_BYTES_LEN src) = oc_fork_name c1"
      "oc_protocol c1 = oc_protocol c"
      using c1(1) by (auto simp: read_context_def context_bytes_to_fork_name_def split: if_splits option.splits)
    have "fork_accounted c (a @ src) f"
      if "length a \<le> 1" "oc_fork_name c1 = Some f" "pid_version (oc_protocol c) = V2" for a
    proof -
      have "\<exists>x ctx b. a @ src = x @ ctx @ b \<and> length x \<le> 1 \<and> length ctx = CONTEXT_BYTES_LEN
          \<and> from_context_bytes (oc_fork_context c) ctx = Some f"
        using l(1,2) that
        by (intro exI [of _ a] exI [of _ "take CONTEXT_BYTES_LEN src"] exI [of _ "drop CONTEXT_BYTES_LEN src"]) auto
      then show ?thesis using that(3) unfolding fork_accounted_def by simp
    qed
    then show ?thesis using l(3) by blast
  qed (simp add: fork_accounted_def)
  from read_response_type [OF c1(2)] show ?thesis
    using same by (cases "pid_version (oc_protocol c)") (auto simp: fork_accounted_def)
qed

fun server_protocol :: "inbound_codec \<Rightarrow> protocol_name" where
  "server_protocol (InboundSnappy c) = message_name (ic_protocol (bi_inner c))"

fun client_codec :: "outbound_codec \<Rightarrow> ssz_outbound_codec" where
  "client_codec (OutboundSnappy c) = bo_inner c"

lemma inbound_decode_type:
  assumes "inbound_decode W c src = (Inr (Some req), c', rest)"
  shows "request_protocol req = server_protocol c \<and> server_protocol c' = server_protocol c
    \<and> (\<exists>taken. src = taken @ rest)"
  using assms
  by (cases c) (auto simp: base_inbound_decode_def split: prod.splits dest!: inbound_type)

lemma outbound_decode_type:
  assumes d: "outbound_decode W c src = (Inr (Some (Success r)), c', rest)"
  shows "response_protocol r = message_name (oc_protocol (client_codec c))
    \<and> oc_protocol (client_codec c') = oc_protocol (client_codec c)
    \<and> (\<forall>b. sent_block (Success r) = Some b \<longrightarrow> fork_accounted (client_codec c) src (block_fork b))"
proof -
  obtain i k where c: "c = OutboundSnappy \<lparr> bo_inner = i, bo_response_code = k \<rparr>"
    by (cases c) (metis base_outbound_codec.cases)
  have long: "length src > 1" using d c outbound_decode_short [of src W] by (cases "length src \<le> 1") auto
  obtain a code u where u: "src = a @ u" "length a \<le> 1"
    "(case after_code W code i u of (res, inner, src) \<Rightarrow>
         (res, OutboundSnappy \<lparr> bo_inner = inner,
            bo_response_code = (case res of Inr (Some _) \<Rightarrow> None | _ \<Rightarrow> Some code) \<rparr>, src))
       = (Inr (Some (Success r)), c', rest)"
  proof (cases k)
    case None
    obtain x y where "src = x # y" "y \<noteq> []" using long by (cases src) auto
    then show ?thesis using that [of "[x]" y x] d c None outbound_decode_first [of y W i x] by simp
  next
    case (Some code)
    then show ?thesis using that [of "[]" src code] d c outbound_decode_code [OF long, of W i code] by simp
  qed
  then obtain inner where inner: "after_code W code i u = (Inr (Some (Success r)), inner, rest)"
    "client_codec c' = inner" by (auto split: prod.splits)
  then have "ssz_outbound_decode W i u = (Inr (Some r), inner, rest)"
    by (auto simp: after_code_def from_error_def map_sum_def split: if_splits prod.splits sum.splits)
  from outbound_type [OF this] show ?thesis using u inner(2) c by auto
qed

text \<open>C29. In every state of a codec, a request that a server decodes is one of the protocol of the stream and
  is cut off the front of the buffer; a successful response that a client decodes is one of the protocol
  it asked on, and a block in it is of the fork that its version and context bytes stand for.\<close>
theorem decoded_belongs_to_stream:
  "(inbound_decode W ic src = (Inr (Some req), ic', rest) \<longrightarrow>
      request_protocol req = server_protocol ic \<and> server_protocol ic' = server_protocol ic
      \<and> (\<exists>taken. src = taken @ rest))
   \<and> (outbound_decode W oc src = (Inr (Some (Success r)), oc', rest') \<longrightarrow>
      response_protocol r = message_name (oc_protocol (client_codec oc))
      \<and> oc_protocol (client_codec oc') = oc_protocol (client_codec oc)
      \<and> (\<forall>b. sent_block (Success r) = Some b \<longrightarrow> fork_accounted (client_codec oc) src (block_fork b)))"
  using inbound_decode_type outbound_decode_type by metis

section \<open>An instance\<close>

text \<open>A codec with unary numbers and one byte of framing, and SSZ encoders that are faithful on small
  values; it satisfies the laws.\<close>

definition small_wire :: "nat wire" where
  "small_wire = \<lparr>
     uvi_encode = \<lambda>n. replicate n 1 @ [0],
     uvi_decode = \<lambda>bs. (case dropWhile ((=) 1) bs of
         [] \<Rightarrow> UviNeedMore
       | _ \<Rightarrow> UviNumber (length (takeWhile ((=) 1) bs)) (Suc (length (takeWhile ((=) 1) bs)))),
     frame_encode = \<lambda>bs. if bs = [] then [] else 255 # bs,
     frame_decode = \<lambda>n src. if n = 0 then FrameOk [] 0
       else if n < length src then FrameOk (take n (tl src)) (Suc n)
       else FrameErr UnexpectedEof ''failed to fill whole buffer'' (length src),
     max_compress_len = \<lambda>n. 32 + n + n div 6,
     wire_lengths = \<lparr> len_status = 1, len_goodbye = 1, len_old_range = 3, len_ping = 1, len_metadata_v1 = 2,
       len_metadata_v2 = 3, len_root_min = 0, len_root_max = 4, len_base_min = 1, len_base_max = 2,
       len_altair_max = 2, len_merge_max = 2, len_capella_max = 2 \<rparr>,
     error_type_min = 0, error_type_max = 256,
     enc_status = \<lambda>m. [of_nat (sm_head_slot m)],
     dec_status = \<lambda>bs. Inl ''no status'',
     enc_u64 = \<lambda>n. [ucast n],
     dec_u64 = \<lambda>bs. (case bs of [b] \<Rightarrow> Inr (ucast b) | _ \<Rightarrow> Inl ''length''),
     enc_ping = \<lambda>p. [ucast (ping_data p)],
     enc_old_range = \<lambda>m. [ucast (old_start_slot m), ucast (old_count m), ucast (old_step m)],
     dec_old_range = \<lambda>bs. (case bs of [a, b, c] \<Rightarrow>
         Inr \<lparr> old_start_slot = ucast a, old_count = ucast b, old_step = ucast c \<rparr> | _ \<Rightarrow> Inl ''length''),
     enc_roots = map ucast,
     dec_roots = \<lambda>bs. Inr (map ucast bs),
     enc_metadata = \<lambda>m. [ucast (seq_number m)],
     dec_metadata_v1 = \<lambda>bs. Inl ''no metadata'',
     dec_metadata_v2 = \<lambda>bs. Inl ''no metadata'',
     default_syncnets = [],
     enc_block = \<lambda>b. [of_nat (block_content b)],
     dec_block = \<lambda>f bs. (case bs of [b] \<Rightarrow> Inr (unat b) | _ \<Rightarrow> Inl ''length''),
     enc_error = (\<lambda>e. e),
     dec_error = Inr \<rparr>"

definition small_forks :: fork_context where
  "small_forks = \<lparr> current_fork = Altair,
     to_context_bytes = \<lambda>f. if f = Altair then Some [1, 0, 0, 0] else None,
     genesis_context_bytes = [0, 0, 0, 0],
     from_context_bytes = \<lambda>bs. if bs = [1, 0, 0, 0] then Some Altair
       else if bs = [0, 0, 0, 0] then Some Base else None \<rparr>"

lemma unary_prefix:
  assumes "strict_prefix s (replicate n (1::8 word) @ [0])"
  shows "\<forall>x \<in> set s. x = 1"
proof -
  from assms have "prefix s (replicate n (1::8 word))" by (auto simp: strict_prefix_def)
  then show ?thesis using set_mono_prefix by fastforce
qed

lemma small_wire_laws: "wire_laws small_wire"
  unfolding wire_laws_def
proof (intro conjI allI impI)
  fix n s assume "strict_prefix s (uvi_encode small_wire n)"
  then have "dropWhile ((=) 1) s = []"
    using unary_prefix [of s n] by (force simp: small_wire_def)
  then show "uvi_decode small_wire s = UviNeedMore"
    by (simp add: small_wire_def del: dropWhile_eq_Nil_conv)
next
  fix bs s assume "strict_prefix s (frame_encode small_wire bs)"
  then show "\<exists>e k. frame_decode small_wire (length bs) s = FrameErr UnexpectedEof e k \<and> k \<le> length s"
    using strict_prefix_length [of s "frame_encode small_wire bs"]
    by (auto simp: small_wire_def split: if_splits)
next
  fix n and rest :: bytes
  have "takeWhile ((=) 1) (replicate n 1 @ 0 # rest) = replicate n (1::8 word)"
    "dropWhile ((=) 1) (replicate n 1 @ 0 # rest) = (0::8 word) # rest" by (induction n) auto
  then show "uvi_decode small_wire (uvi_encode small_wire n @ rest) = UviNumber n (length (uvi_encode small_wire n))"
    by (simp add: small_wire_def)
qed (auto simp: small_wire_def Suc_le_eq)

lemma request_wire_roundtrip_witness:
  "serve_stream small_wire (protocol_id_new ProtoBlocksByRange V2 SSZSnappy) 100 small_forks [[1, 1], [1, 0, 255, 7], [2], [1]]
     = Inr (ReqBlocksByRange \<lparr> old_start_slot = 7, old_count = 2, old_step = 1 \<rparr>,
         inbound_codec_for (protocol_id_new ProtoBlocksByRange V2 SSZSnappy) 100 small_forks, [])"
  by (rule request_wire_roundtrip [OF small_wire_laws, where client_max = 100 and client_fc = small_forks
        and codec = "outbound_codec_for (protocol_id_new ProtoBlocksByRange V2 SSZSnappy) 100 small_forks"])
     (simp_all add: small_wire_def protocol_id_new_def send_request_stream_def outbound_codec_for_def
       base_outbound_new_def ssz_outbound_new_def base_outbound_encode_def ssz_outbound_encode_def
       write_payload_def request_fits_def is_out_of_bounds_def rpc_request_limits_def rpc_limits_new_def
       numeral_3_eq_3)

lemma response_wire_roundtrip_witness:
  "framed_read (outbound_decode small_wire)
       (outbound_codec_for (protocol_id_new ProtoBlocksByRoot V2 SSZSnappy) 100 small_forks) []
       [[0, 1], [0, 0, 0, 1], [0, 255], [9], [0]]
     = (Some (Inr (Success (RespBlocksByRoot (BlockAltair 9)))),
        outbound_codec_for (protocol_id_new ProtoBlocksByRoot V2 SSZSnappy) 100 small_forks, [0])"
proof -
  let ?p = "protocol_id_new ProtoBlocksByRoot V2 SSZSnappy"
  have "framed_read (outbound_decode small_wire) (outbound_codec_for ?p 100 small_forks) []
      [[0, 1], [0, 0, 0, 1], [0, 255], [9], [0]]
     = (Some (Inr (received small_wire (pid_version ?p) (Success (RespBlocksByRoot (BlockAltair 9))))),
        outbound_codec_for ?p 100 small_forks, [0])"
    by (rule response_wire_roundtrip [OF small_wire_laws, where server_max = 100 and sfc = small_forks
        and dst = "[]" and sent = "[0, 1, 0, 0, 0, 1, 0, 255, 9]" and payload = "[9]"])
       (simp_all add: small_wire_def small_forks_def protocol_id_new_def protocol_info_def inbound_codec_for_def
       base_inbound_new_def ssz_inbound_new_def base_inbound_encode_def ssz_inbound_encode_def
       write_payload_def context_bytes_def has_context_bytes_def response_expected_def response_fits_def
       is_out_of_bounds_def rpc_response_limits_def rpc_limits_new_def CONTEXT_BYTES_LEN_def)
  then show ?thesis by simp
qed

lemma length_outside_limits_witness:
  "\<exists>e c. inbound_decode small_wire (inbound_codec_for (protocol_id_new ProtoPing V1 SSZSnappy) 100 small_forks)
        (uvi_encode small_wire 2 @ [5]) = (Inl (InvalidData e), c, [5])"
proof -
  have "is_out_of_bounds (rpc_request_limits (wire_lengths small_wire) (protocol_id_new ProtoPing V1 SSZSnappy)) 2 100"
    by (simp add: small_wire_def is_out_of_bounds_def rpc_request_limits_def rpc_limits_new_def protocol_id_new_def)
  then show ?thesis
    using length_outside_limits [OF small_wire_laws, of 2 "protocol_id_new ProtoPing V1 SSZSnappy" 100 small_forks "[5]"]
    by (simp add: protocol_id_new_def)
qed

lemma decoded_belongs_to_stream_witness:
  "let ic = inbound_codec_for (protocol_id_new ProtoPing V1 SSZSnappy) 100 small_forks in
   inbound_decode small_wire ic [1, 0, 255, 5, 6] = (Inr (Some (ReqPing \<lparr> ping_data = 5 \<rparr>)), ic, [6])
   \<and> request_protocol (ReqPing \<lparr> ping_data = 5 \<rparr>) = server_protocol ic"
proof -
  let ?ic = "inbound_codec_for (protocol_id_new ProtoPing V1 SSZSnappy) 100 small_forks"
  have d: "inbound_decode small_wire ?ic [1, 0, 255, 5, 6] = (Inr (Some (ReqPing \<lparr> ping_data = 5 \<rparr>)), ?ic, [6])"
    by (simp add: inbound_codec_for_def protocol_id_new_def base_inbound_new_def ssz_inbound_new_def
        base_inbound_decode_def ssz_inbound_decode_def handle_length_def small_wire_def is_out_of_bounds_def
        rpc_request_limits_def rpc_limits_new_def read_exact_def)
  then show ?thesis
    using decoded_belongs_to_stream [THEN conjunct1, THEN mp, OF d] by (simp add: Let_def)
qed

end
