(* ===== verification/Network.thy ===== *)
theory Network
  imports Peer_Behaviour Discovery Gossip_Cache Pubsub Rate_Limiter
begin

text \<open>
  \<open>network/mod.rs\<close> and \<open>network/api_types.rs\<close>: the network service, which owns the peer manager, discovery, the RPC
  behaviour, the cache of gossip messages and gossipsub, and passes the events of each to the others and
  to the application.  Gossipsub is a parameter, with state \<open>'g\<close>; what is asked of the swarm is recorded.
\<close>

section \<open>What the application sends and receives\<close>

datatype 'a request_id = Application 'a | Internal

datatype app_request =
    AppStatus status_message
  | AppBlocksByRange blocks_by_range_request
  | AppBlocksByRoot blocks_by_root_request

fun request_into :: "app_request \<Rightarrow> rpc_request" where
  "request_into (AppBlocksByRoot r) = ReqBlocksByRoot r"
| "request_into (AppBlocksByRange r) = ReqBlocksByRange
     \<lparr> old_start_slot = range_start_slot r, old_count = range_count r, old_step = 1 \<rparr>"
| "request_into (AppStatus s) = ReqStatus s"

text \<open>No block signals the end of a batch.\<close>

datatype 'b app_response =
    RespondStatus status_message
  | RespondBlocksByRange "'b option"
  | RespondBlocksByRoot "'b option"

fun response_into :: "'b app_response \<Rightarrow> 'b rpc_coded_response" where
  "response_into (RespondBlocksByRoot r) = (case r of
       Some b \<Rightarrow> Success (RespBlocksByRoot b) | None \<Rightarrow> StreamTermination TermBlocksByRoot)"
| "response_into (RespondBlocksByRange r) = (case r of
       Some b \<Rightarrow> Success (RespBlocksByRange b) | None \<Rightarrow> StreamTermination TermBlocksByRange)"
| "response_into (RespondStatus s) = Success (RespStatus s)"

datatype ('a, 'b, 'o) network_event =
    EvPeerConnectedOutgoing peer_id
  | EvPeerConnectedIncoming peer_id
  | EvPeerDisconnected peer_id
  | EvPeerBanned peer_id
  | EvPeerUnbanned peer_id
  | EvRPCFailed 'a peer_id
  | EvRequestReceived peer_id "nat \<times> nat" app_request
  | EvResponseReceived peer_id 'a "'b app_response"
  | EvPubsubMessage string peer_id string "'o pubsub_message"
  | EvStatusPeer peer_id
  | EvNewListenAddr multiaddr
  | EvZeroListeners

section \<open>The state\<close>

datatype publish_error = InsufficientPeers | OtherPublishError string

datatype acceptance = Accept | Reject | Ignore

record 'g gossip_api =
  gs_subscribe :: "string \<Rightarrow> 'g \<Rightarrow> 'g \<times> (string + bool)"
  gs_unsubscribe :: "string \<Rightarrow> 'g \<Rightarrow> 'g \<times> (string + bool)"
  gs_publish :: "string \<Rightarrow> bytes \<Rightarrow> 'g \<Rightarrow> 'g \<times> (publish_error + unit)"
  gs_validate :: "string \<Rightarrow> peer_id \<Rightarrow> acceptance \<Rightarrow> 'g \<Rightarrow> 'g \<times> (string + bool)"
  gs_peer_score :: "'g \<Rightarrow> peer_id \<Rightarrow> f64 option"
  gs_add_explicit :: "peer_id \<Rightarrow> 'g \<Rightarrow> 'g"
  gs_remove_explicit :: "peer_id \<Rightarrow> 'g \<Rightarrow> 'g"

text \<open>The libraries of all parts; \<open>cached_items\<close> lists the cache of node records in its own order.\<close>

record ('h, 'c, 'd, 'q, 'g, 'o) net_env =
  pm_of :: "'h pm_env"
  disc_of :: "('c, 'd) disc_api"
  queue_of :: "('q, cache_item) delay_queue"
  gossip_of :: "'g gossip_api"
  hex_of :: hex_api
  objects_of :: "'o object_codec"
  cached_items :: "'c \<Rightarrow> (peer_id \<times> enr) list"

record enr_fork_id =
  fork_digest :: bytes
  fork_id_ssz :: bytes

datatype swarm_action = SwarmBan peer_id | SwarmUnban peer_id

text \<open>The globals are those of the peer manager, but for the local record, of which discovery keeps the
  copy.\<close>

record ('a, 'b, 'h, 'c, 'd, 'q, 'g) network =
  n_pm :: "'h peer_manager"
  n_disc :: "('c, 'd) discovery"
  n_rpc :: "('a request_id, 'b) rpc"
  n_cache :: "'q gossip_cache"
  n_gossip :: 'g
  n_fork_id :: enr_fork_id
  n_swarm :: "swarm_action list"
  n_metadata_on_disk :: "meta_data option"

definition on_pm :: "('h peer_manager \<Rightarrow> 'h peer_manager) \<Rightarrow> ('a, 'b, 'h, 'c, 'd, 'q, 'g) network \<Rightarrow>
     ('a, 'b, 'h, 'c, 'd, 'q, 'g) network" where
  "on_pm f n = n\<lparr>n_pm := f (n_pm n)\<rparr>"

definition on_db :: "(peer_db \<Rightarrow> peer_db) \<Rightarrow> ('a, 'b, 'h, 'c, 'd, 'q, 'g) network \<Rightarrow>
     ('a, 'b, 'h, 'c, 'd, 'q, 'g) network" where
  "on_db f = on_pm (\<lambda>pm. set_db (f (pm_db pm)) pm)"

definition on_globals :: "(network_globals \<Rightarrow> network_globals) \<Rightarrow> ('a, 'b, 'h, 'c, 'd, 'q, 'g) network \<Rightarrow>
     ('a, 'b, 'h, 'c, 'd, 'q, 'g) network" where
  "on_globals f = on_pm (\<lambda>pm. pm\<lparr>globals := f (globals pm)\<rparr>)"

definition on_disc :: "(('c, 'd) discovery \<Rightarrow> ('c, 'd) discovery) \<Rightarrow> ('a, 'b, 'h, 'c, 'd, 'q, 'g) network \<Rightarrow>
     ('a, 'b, 'h, 'c, 'd, 'q, 'g) network" where
  "on_disc f n = n\<lparr>n_disc := f (n_disc n)\<rparr>"

definition on_rpc :: "(('a request_id, 'b) rpc \<Rightarrow> ('a request_id, 'b) rpc) \<Rightarrow>
     ('a, 'b, 'h, 'c, 'd, 'q, 'g) network \<Rightarrow> ('a, 'b, 'h, 'c, 'd, 'q, 'g) network" where
  "on_rpc f n = n\<lparr>n_rpc := f (n_rpc n)\<rparr>"

definition net_globals :: "('a, 'b, 'h, 'c, 'd, 'q, 'g) network \<Rightarrow> network_globals" where
  "net_globals n = globals (n_pm n)"

definition net_db :: "('a, 'b, 'h, 'c, 'd, 'q, 'g) network \<Rightarrow> peer_db" where
  "net_db n = pm_db (n_pm n)"

definition net_local_enr :: "('a, 'b, 'h, 'c, 'd, 'q, 'g) network \<Rightarrow> enr" where
  "net_local_enr n = global_enr (n_disc n)"

section \<open>Topics\<close>

text \<open>The set of subscriptions in the globals changes whatever gossipsub answers.\<close>

definition net_subscribe :: "('h, 'c, 'd, 'q, 'g, 'o) net_env \<Rightarrow> gossip_topic \<Rightarrow>
     ('a, 'b, 'h, 'c, 'd, 'q, 'g) network \<Rightarrow> ('a, 'b, 'h, 'c, 'd, 'q, 'g) network \<times> bool" where
  "net_subscribe E t n =
     (let n = on_globals (\<lambda>g. g\<lparr>gossipsub_subscriptions := List.insert t (gossipsub_subscriptions g)\<rparr>) n
      in case gs_subscribe (gossip_of E) (gossip_topic_display (hex_of E) t) (n_gossip n) of
        (g, Inl _) \<Rightarrow> (n\<lparr>n_gossip := g\<rparr>, False)
      | (g, Inr _) \<Rightarrow> (n\<lparr>n_gossip := g\<rparr>, True))"

definition net_unsubscribe :: "('h, 'c, 'd, 'q, 'g, 'o) net_env \<Rightarrow> gossip_topic \<Rightarrow>
     ('a, 'b, 'h, 'c, 'd, 'q, 'g) network \<Rightarrow> ('a, 'b, 'h, 'c, 'd, 'q, 'g) network \<times> bool" where
  "net_unsubscribe E t n =
     (let n = on_globals (\<lambda>g. g\<lparr>gossipsub_subscriptions := removeAll t (gossipsub_subscriptions g)\<rparr>) n
      in case gs_unsubscribe (gossip_of E) (gossip_topic_display (hex_of E) t) (n_gossip n) of
        (g, Inl _) \<Rightarrow> (n\<lparr>n_gossip := g\<rparr>, False)
      | (g, Inr v) \<Rightarrow> (n\<lparr>n_gossip := g\<rparr>, v))"

definition subscribe_kind :: "('h, 'c, 'd, 'q, 'g, 'o) net_env \<Rightarrow> gossip_kind \<Rightarrow>
     ('a, 'b, 'h, 'c, 'd, 'q, 'g) network \<Rightarrow> ('a, 'b, 'h, 'c, 'd, 'q, 'g) network \<times> bool" where
  "subscribe_kind E k n = net_subscribe E (gossip_topic_new k GossipSSZSnappy (fork_digest (n_fork_id n))) n"

definition unsubscribe_kind :: "('h, 'c, 'd, 'q, 'g, 'o) net_env \<Rightarrow> gossip_kind \<Rightarrow>
     ('a, 'b, 'h, 'c, 'd, 'q, 'g) network \<Rightarrow> ('a, 'b, 'h, 'c, 'd, 'q, 'g) network \<times> bool" where
  "unsubscribe_kind E k n = net_unsubscribe E (gossip_topic_new k GossipSSZSnappy (fork_digest (n_fork_id n))) n"

definition subscribe_new_fork_topics :: "('h, 'c, 'd, 'q, 'g, 'o) net_env \<Rightarrow> bytes \<Rightarrow>
     ('a, 'b, 'h, 'c, 'd, 'q, 'g) network \<Rightarrow> ('a, 'b, 'h, 'c, 'd, 'q, 'g) network" where
  "subscribe_new_fork_topics E digest n =
     fold (\<lambda>t n. fst (net_subscribe E (t\<lparr>gt_fork_digest := digest\<rparr>) n))
       (gossipsub_subscriptions (net_globals n)) n"

definition unsubscribe_from_fork_topics_except :: "('h, 'c, 'd, 'q, 'g, 'o) net_env \<Rightarrow> bytes \<Rightarrow>
     ('a, 'b, 'h, 'c, 'd, 'q, 'g) network \<Rightarrow> ('a, 'b, 'h, 'c, 'd, 'q, 'g) network" where
  "unsubscribe_from_fork_topics_except E except n =
     fold (\<lambda>t n. fst (net_unsubscribe E t n))
       (filter (\<lambda>t. gt_fork_digest t \<noteq> except) (gossipsub_subscriptions (net_globals n))) n"

section \<open>Publishing\<close>

text \<open>A message that cannot be published for want of peers is kept to be sent later.\<close>

definition publish_on :: "('h, 'c, 'd, 'q, 'g, 'o) net_env \<Rightarrow> instant \<Rightarrow> 'o pubsub_message \<Rightarrow> gossip_topic \<Rightarrow>
     ('a, 'b, 'h, 'c, 'd, 'q, 'g) network \<Rightarrow> ('a, 'b, 'h, 'c, 'd, 'q, 'g) network" where
  "publish_on E now m t n =
     (let data = pubsub_encode (objects_of E) m GossipSSZSnappy in
      case gs_publish (gossip_of E) (gossip_topic_display (hex_of E) t) data (n_gossip n) of
        (g, Inr _) \<Rightarrow> n\<lparr>n_gossip := g\<rparr>
      | (g, Inl e) \<Rightarrow> (if e = InsufficientPeers
            then n\<lparr>n_gossip := g, n_cache := cache_insert (queue_of E) now t data (n_cache n)\<rparr>
            else n\<lparr>n_gossip := g\<rparr>))"

definition net_publish :: "('h, 'c, 'd, 'q, 'g, 'o) net_env \<Rightarrow> instant \<Rightarrow> 'o pubsub_message list \<Rightarrow>
     ('a, 'b, 'h, 'c, 'd, 'q, 'g) network \<Rightarrow> ('a, 'b, 'h, 'c, 'd, 'q, 'g) network" where
  "net_publish E now ms n =
     fold (\<lambda>m n. fold (publish_on E now m) (message_topics m GossipSSZSnappy (fork_digest (n_fork_id n))) n) ms n"

definition report_message_validation_result :: "('h, 'c, 'd, 'q, 'g, 'o) net_env \<Rightarrow> peer_id \<Rightarrow> string \<Rightarrow>
     acceptance \<Rightarrow> ('a, 'b, 'h, 'c, 'd, 'q, 'g) network \<Rightarrow> ('a, 'b, 'h, 'c, 'd, 'q, 'g) network" where
  "report_message_validation_result E source i result n =
     n\<lparr>n_gossip := fst (gs_validate (gossip_of E) i source result (n_gossip n))\<rparr>"

section \<open>Requests and responses\<close>

definition net_send_request :: "peer_id \<Rightarrow> 'a \<Rightarrow> app_request \<Rightarrow> ('a, 'b, 'h, 'c, 'd, 'q, 'g) network \<Rightarrow>
     ('a, 'b, 'h, 'c, 'd, 'q, 'g) network" where
  "net_send_request p i req = on_rpc (rpc_send_request p (Application i) (request_into req))"

definition net_send_response :: "peer_id \<Rightarrow> nat \<times> nat \<Rightarrow> 'b app_response \<Rightarrow>
     ('a, 'b, 'h, 'c, 'd, 'q, 'g) network \<Rightarrow> ('a, 'b, 'h, 'c, 'd, 'q, 'g) network" where
  "net_send_response p i resp = on_rpc (rpc_send_response p i (response_into resp))"

definition send_error_response :: "peer_id \<Rightarrow> nat \<times> nat \<Rightarrow> rpc_response_error_code \<Rightarrow> string \<Rightarrow>
     ('a, 'b, 'h, 'c, 'd, 'q, 'g) network \<Rightarrow> ('a, 'b, 'h, 'c, 'd, 'q, 'g) network" where
  "send_error_response p i code reason = on_rpc (rpc_send_response p i (ErrorResp code (error_type_from reason)))"

definition net_ping :: "peer_id \<Rightarrow> ('a, 'b, 'h, 'c, 'd, 'q, 'g) network \<Rightarrow> ('a, 'b, 'h, 'c, 'd, 'q, 'g) network" where
  "net_ping p n = on_rpc (rpc_send_request p Internal
     (ReqPing \<lparr> ping_data = seq_number (g_local_metadata (net_globals n)) \<rparr>)) n"

definition net_pong :: "nat \<times> nat \<Rightarrow> peer_id \<Rightarrow> ('a, 'b, 'h, 'c, 'd, 'q, 'g) network \<Rightarrow>
     ('a, 'b, 'h, 'c, 'd, 'q, 'g) network" where
  "net_pong i p n = on_rpc (rpc_send_response p i
     (Success (RespPong \<lparr> ping_data = seq_number (g_local_metadata (net_globals n)) \<rparr>))) n"

definition send_meta_data_request :: "peer_id \<Rightarrow> ('a, 'b, 'h, 'c, 'd, 'q, 'g) network \<Rightarrow>
     ('a, 'b, 'h, 'c, 'd, 'q, 'g) network" where
  "send_meta_data_request p = on_rpc (rpc_send_request p Internal ReqMetaData)"

definition send_meta_data_response :: "nat \<times> nat \<Rightarrow> peer_id \<Rightarrow> ('a, 'b, 'h, 'c, 'd, 'q, 'g) network \<Rightarrow>
     ('a, 'b, 'h, 'c, 'd, 'q, 'g) network" where
  "send_meta_data_response i p n =
     on_rpc (rpc_send_response p i (Success (RespMetaData (g_local_metadata (net_globals n))))) n"

text \<open>A response to a request of the node itself is not passed on.\<close>

fun build_response :: "'a request_id \<Rightarrow> peer_id \<Rightarrow> 'b app_response \<Rightarrow> ('a, 'b, 'o) network_event option" where
  "build_response (Application i) p resp = Some (EvResponseReceived p i resp)"
| "build_response Internal p resp = None"

definition build_request :: "nat \<times> nat \<Rightarrow> peer_id \<Rightarrow> app_request \<Rightarrow> ('a, 'b, 'o) network_event" where
  "build_request i p req = EvRequestReceived p i req"

section \<open>Peers and records\<close>

definition net_report_peer :: "('h, 'c, 'd, 'q, 'g, 'o) net_env \<Rightarrow> instant \<Rightarrow> peer_id \<Rightarrow> peer_action \<Rightarrow>
     ('a, 'b, 'h, 'c, 'd, 'q, 'g) network \<Rightarrow> ('a, 'b, 'h, 'c, 'd, 'q, 'g) network" where
  "net_report_peer E now p a = on_pm (report_peer (pm_of E) now p a None)"

definition net_goodbye_peer :: "('h, 'c, 'd, 'q, 'g, 'o) net_env \<Rightarrow> instant \<Rightarrow> peer_id \<Rightarrow> goodbye_reason \<Rightarrow>
     ('a, 'b, 'h, 'c, 'd, 'q, 'g) network \<Rightarrow> ('a, 'b, 'h, 'c, 'd, 'q, 'g) network" where
  "net_goodbye_peer E now p reason = on_pm (goodbye_peer (pm_of E) now p reason)"

definition net_add_enr :: "('h, 'c, 'd, 'q, 'g, 'o) net_env \<Rightarrow> enr \<Rightarrow>
     ('a, 'b, 'h, 'c, 'd, 'q, 'g) network \<Rightarrow> ('a, 'b, 'h, 'c, 'd, 'q, 'g) network" where
  "net_add_enr E e = on_disc (disc_add_enr (disc_of E) e)"

text \<open>Reading a bit field of the local record that is not there panics.\<close>

definition update_metadata_bitfields :: "('h, 'c, 'd, 'q, 'g, 'o) net_env \<Rightarrow>
     ('a, 'b, 'h, 'c, 'd, 'q, 'g) network \<Rightarrow> ('a, 'b, 'h, 'c, 'd, 'q, 'g) network option" where
  "update_metadata_bitfields E n =
     (let e = dv_local_enr (disc_of E) (discv5 (n_disc n)); api = ssz (disc_of E) in
      case (attestation_bitfield api e, sync_committee_bitfield api e) of
        (Inr att, Inr sync) \<Rightarrow>
          (let md = g_local_metadata (net_globals n);
               md = md\<lparr>seq_number := seq_number md + 1, attnets := att,
                       syncnets := map_option (\<lambda>_. sync) (syncnets md)\<rparr>
           in Some ((on_globals (\<lambda>g. g\<lparr>g_local_metadata := md\<rparr>) n)\<lparr>n_metadata_on_disk := Some md\<rparr>))
      | _ \<Rightarrow> None)"

definition update_enr_subnet :: "('h, 'c, 'd, 'q, 'g, 'o) net_env \<Rightarrow> subnet \<Rightarrow> bool \<Rightarrow>
     ('a, 'b, 'h, 'c, 'd, 'q, 'g) network \<Rightarrow> ('a, 'b, 'h, 'c, 'd, 'q, 'g) network option" where
  "update_enr_subnet E s value n =
     update_metadata_bitfields E (on_disc (\<lambda>d. fst (update_enr_bitfield (disc_of E) s value d)) n)"

definition update_fork_version :: "('h, 'c, 'd, 'q, 'g, 'o) net_env \<Rightarrow> enr_fork_id \<Rightarrow>
     ('a, 'b, 'h, 'c, 'd, 'q, 'g) network \<Rightarrow> ('a, 'b, 'h, 'c, 'd, 'q, 'g) network" where
  "update_fork_version E f n =
     (on_disc (update_eth2_enr (disc_of E) (fork_id_ssz f)) n)\<lparr>n_fork_id := f\<rparr>"

text \<open>Asking the peer manager to dial a peer, with the record discovery has of it.\<close>

definition dial_with_enr :: "('h, 'c, 'd, 'q, 'g, 'o) net_env \<Rightarrow> peer_id \<Rightarrow>
     ('a, 'b, 'h, 'c, 'd, 'q, 'g) network \<Rightarrow> ('a, 'b, 'h, 'c, 'd, 'q, 'g) network" where
  "dial_with_enr E p n = (let (d, e) = enr_of_peer (disc_of E) p (n_disc n)
     in on_pm (dial_peer p e) (n\<lparr>n_disc := d\<rparr>))"

definition dial_cached_enrs_in_subnet :: "('h, 'c, 'd, 'q, 'g, 'o) net_env \<Rightarrow> subnet \<Rightarrow>
     ('a, 'b, 'h, 'c, 'd, 'q, 'g) network \<Rightarrow> ('a, 'b, 'h, 'c, 'd, 'q, 'g) network" where
  "dial_cached_enrs_in_subnet E s n =
     (let to_dial = map fst (filter (\<lambda>(p, e). subnet_predicate (ssz (disc_of E)) [s] e \<and> should_dial (net_db n) p)
            (cached_items E (cached_enrs (n_disc n))))
      in fold (\<lambda>p n. dial_with_enr E p (on_disc (\<lambda>d. fst (remove_cached_enr (disc_of E) p d)) n)) to_dial n)"

text \<open>One subnet: the peers on it are kept longer, and it is searched, the cached records first, when it has
  too few.\<close>

definition want_subnet :: "('h, 'c, 'd, 'q, 'g, 'o) net_env \<Rightarrow> subnet_discovery \<Rightarrow>
     ('a, 'b, 'h, 'c, 'd, 'q, 'g) network \<Rightarrow> ('a, 'b, 'h, 'c, 'd, 'q, 'g) network \<times> bool" where
  "want_subnet E s n =
     (let n = (case sd_min_ttl s of
            None \<Rightarrow> n
          | Some t \<Rightarrow> (let n = on_db (extend_peers_on_subnet (pm_ssz (pm_of E)) (sd_subnet s) t) n
              in case sd_subnet s of SyncCommittee i \<Rightarrow> on_pm (add_sync_subnet i t) n | Attestation _ \<Rightarrow> n))
      in if length (good_peers_on_subnet (pm_ssz (pm_of E)) (sd_subnet s) (net_db n)) \<ge> TARGET_SUBNET_PEERS
         then (n, False)
         else (dial_cached_enrs_in_subnet E (sd_subnet s) n, True))"

fun want_subnets :: "('h, 'c, 'd, 'q, 'g, 'o) net_env \<Rightarrow> subnet_discovery list \<Rightarrow>
     ('a, 'b, 'h, 'c, 'd, 'q, 'g) network \<Rightarrow> ('a, 'b, 'h, 'c, 'd, 'q, 'g) network \<times> subnet_discovery list" where
  "want_subnets E [] n = (n, [])"
| "want_subnets E (s # ss) n = (let (n, keep) = want_subnet E s n; (n, kept) = want_subnets E ss n
     in (n, if keep then s # kept else kept))"

definition net_discover_subnet_peers :: "('h, 'c, 'd, 'q, 'g, 'o) net_env \<Rightarrow> subnet_discovery list \<Rightarrow>
     ('a, 'b, 'h, 'c, 'd, 'q, 'g) network \<Rightarrow> ('a, 'b, 'h, 'c, 'd, 'q, 'g) network" where
  "net_discover_subnet_peers E ss n = (if \<not> started (n_disc n) then n
     else (let (n, kept) = want_subnets E ss n
           in if kept \<noteq> [] then on_disc (discover_subnet_peers kept) n else n))"

end
