(* ===== verification/Network_Events.thy ===== *)
theory Network_Events
  imports Network F32
begin

text \<open>
  \<open>network/mod.rs\<close>: the handlers of the events of gossipsub, the RPC behaviour, discovery, identify and the peer
  manager, the poll of the whole network, and the state it starts with.
\<close>

section \<open>Gossipsub\<close>

datatype gossipsub_event =
    GsMessage peer_id string string bytes
  | GsSubscribed peer_id string
  | GsUnsubscribed peer_id string
  | GsNotSupported peer_id

text \<open>When a peer subscribes to a topic, the messages kept for it are sent.\<close>

definition publish_again :: "('h, 'c, 'd, 'q, 'g, 'o) net_env \<Rightarrow> gossip_topic \<Rightarrow>
     ('a, 'b, 'h, 'c, 'd, 'q, 'g) network \<Rightarrow> ('a, 'b, 'h, 'c, 'd, 'q, 'g) network" where
  "publish_again E t n = (case cache_retrieve (queue_of E) t (n_cache n) of
       (c, None) \<Rightarrow> n\<lparr>n_cache := c\<rparr>
     | (c, Some msgs) \<Rightarrow> n\<lparr>n_cache := c,
         n_gossip := fold (\<lambda>data g. fst (gs_publish (gossip_of E) (gossip_topic_display (hex_of E) t) data g))
           msgs (n_gossip n)\<rparr>)"

definition inject_gs_event :: "('h, 'c, 'd, 'q, 'g, 'o) net_env \<Rightarrow> instant \<Rightarrow> gossipsub_event \<Rightarrow>
     ('a, 'b, 'h, 'c, 'd, 'q, 'g) network \<Rightarrow>
     ('a, 'b, 'h, 'c, 'd, 'q, 'g) network \<times> ('a, 'b, 'o) network_event option" where
  "inject_gs_event E now ev n = (case ev of
       GsMessage source i topic data \<Rightarrow>
         (case pubsub_decode (hex_of E) (objects_of E) topic data of
            Inl _ \<Rightarrow> (report_message_validation_result E source i Reject n, None)
          | Inr msg \<Rightarrow> (n, Some (EvPubsubMessage i source topic msg)))
     | GsSubscribed p topic \<Rightarrow>
         (case topic_decode (hex_of E) topic of
            Inl _ \<Rightarrow> (n, None)
          | Inr t \<Rightarrow> (publish_again E t (case topic_subnet_id t of
                None \<Rightarrow> n | Some s \<Rightarrow> on_db (add_subscription p s) n), None))
     | GsUnsubscribed p topic \<Rightarrow>
         (case subnet_from_topic_hash (hex_of E) topic of
            None \<Rightarrow> (n, None) | Some s \<Rightarrow> (on_db (remove_subscription p s) n, None))
     | GsNotSupported p \<Rightarrow>
         (on_pm (report_peer (pm_of E) now p LowToleranceError (Some GoodbyeUnknown)) n, None))"

section \<open>RPC\<close>

text \<open>A request of a peer: pings and requests for metadata are answered here, the others are passed on.  A
  step of zero in a request for a range is invalid, one above one is answered with one block.\<close>

definition inject_request :: "('h, 'c, 'd, 'q, 'g, 'o) net_env \<Rightarrow> instant \<Rightarrow> peer_id \<Rightarrow> nat \<times> nat \<Rightarrow>
     rpc_request \<Rightarrow> ('a, 'b, 'h, 'c, 'd, 'q, 'g) network \<Rightarrow>
     ('a, 'b, 'h, 'c, 'd, 'q, 'g) network \<times> ('a, 'b, 'o) network_event option" where
  "inject_request E now p i req n = (case req of
       ReqPing ping \<Rightarrow> (net_pong i p (on_pm (ping_request (pm_of E) now p (ping_data ping)) n), None)
     | ReqMetaData \<Rightarrow> (send_meta_data_response i p n, None)
     | ReqGoodbye _ \<Rightarrow> (n, None)
     | ReqStatus msg \<Rightarrow>
         (on_pm (peer_statusd (pm_of E) now p) n, Some (build_request i p (AppStatus msg)))
     | ReqBlocksByRange r \<Rightarrow>
         (if old_step r = 0
          then (on_pm (handle_rpc_error (pm_of E) now p ProtoBlocksByRange
                  (InvalidData ''Blocks by range with 0 step parameter'') Incoming) n, None)
          else (n, Some (build_request i p (AppBlocksByRange
                  \<lparr> range_start_slot = old_start_slot r,
                    range_count = (if old_step r > 1 then 1 else old_count r) \<rparr>))))
     | ReqBlocksByRoot r \<Rightarrow> (n, Some (build_request i p (AppBlocksByRoot r))))"

definition inject_response :: "('h, 'c, 'd, 'q, 'g, 'o) net_env \<Rightarrow> instant \<Rightarrow> peer_id \<Rightarrow> 'a request_id \<Rightarrow>
     'b rpc_response \<Rightarrow> ('a, 'b, 'h, 'c, 'd, 'q, 'g) network \<Rightarrow>
     ('a, 'b, 'h, 'c, 'd, 'q, 'g) network \<times> ('a, 'b, 'o) network_event option" where
  "inject_response E now p i resp n = (case resp of
       RespPong ping \<Rightarrow> (on_pm (pong_response p (ping_data ping)) n, None)
     | RespMetaData md \<Rightarrow> (on_pm (meta_data_response p md) n, None)
     | RespStatus msg \<Rightarrow> (on_pm (peer_statusd (pm_of E) now p) n, build_response i p (RespondStatus msg))
     | RespBlocksByRange b \<Rightarrow> (n, build_response i p (RespondBlocksByRange (Some b)))
     | RespBlocksByRoot b \<Rightarrow> (n, build_response i p (RespondBlocksByRoot (Some b))))"

definition inject_rpc_event :: "('h, 'c, 'd, 'q, 'g, 'o) net_env \<Rightarrow> instant \<Rightarrow> peer_id \<Rightarrow> nat \<Rightarrow>
     ('a request_id, 'b) handler_event \<Rightarrow> ('a, 'b, 'h, 'c, 'd, 'q, 'g) network \<Rightarrow>
     ('a, 'b, 'h, 'c, 'd, 'q, 'g) network \<times> ('a, 'b, 'o) network_event option" where
  "inject_rpc_event E now p conn ev n = (if \<not> pm_is_connected (n_pm n) p then (n, None)
     else (case ev of
         Inl (InboundErr _ proto err) \<Rightarrow>
           (on_pm (handle_rpc_error (pm_of E) now p proto err Incoming) n, None)
       | Inl (OutboundErr i proto err) \<Rightarrow>
           (on_pm (handle_rpc_error (pm_of E) now p proto err Outgoing) n,
            (case i of Application i \<Rightarrow> Some (EvRPCFailed i p) | Internal \<Rightarrow> None))
       | Inr (ReceivedRequest i req) \<Rightarrow> inject_request E now p (conn, i) req n
       | Inr (ReceivedResponse i resp) \<Rightarrow> inject_response E now p i resp n
       | Inr (ReceivedEndOfStream i term) \<Rightarrow>
           (n, build_response i p (case term of
              TermBlocksByRange \<Rightarrow> RespondBlocksByRange None | TermBlocksByRoot \<Rightarrow> RespondBlocksByRoot None))))"

section \<open>Discovery, identify and the peer manager\<close>

definition inject_discovery_event :: "('h, 'c, 'd, 'q, 'g, 'o) net_env \<Rightarrow> instant \<Rightarrow>
     (peer_id, instant option) hmap \<Rightarrow> ('a, 'b, 'h, 'c, 'd, 'q, 'g) network \<Rightarrow>
     ('a, 'b, 'h, 'c, 'd, 'q, 'g) network" where
  "inject_discovery_event E now results n =
     (let (pm, to_dial) = peers_discovered now results (n_pm n)
      in fold (dial_with_enr E) to_dial (n\<lparr>n_pm := pm\<rparr>))"

definition MAX_IDENTIFY_ADDRESSES :: nat where "MAX_IDENTIFY_ADDRESSES = 10"

datatype identify_event = IdentifyReceived peer_id identify_info "multiaddr list" | IdentifyOther

definition inject_identify_event :: "identify_event \<Rightarrow> ('a, 'b, 'h, 'c, 'd, 'q, 'g) network \<Rightarrow>
     ('a, 'b, 'h, 'c, 'd, 'q, 'g) network" where
  "inject_identify_event ev n = (case ev of
       IdentifyReceived p info listen \<Rightarrow> on_pm (identify p info (take MAX_IDENTIFY_ADDRESSES listen)) n
     | IdentifyOther \<Rightarrow> n)"

definition inject_pm_event :: "('h, 'c, 'd, 'q, 'g, 'o) net_env \<Rightarrow> pm_event \<Rightarrow>
     ('a, 'b, 'h, 'c, 'd, 'q, 'g) network \<Rightarrow>
     ('a, 'b, 'h, 'c, 'd, 'q, 'g) network \<times> ('a, 'b, 'o) network_event option" where
  "inject_pm_event E ev n = (case ev of
       PeerConnectedIncoming p \<Rightarrow> (n, Some (EvPeerConnectedIncoming p))
     | PeerConnectedOutgoing p \<Rightarrow> (n, Some (EvPeerConnectedOutgoing p))
     | PeerDisconnected p \<Rightarrow> (n, Some (EvPeerDisconnected p))
     | PeerBanned p ips \<Rightarrow>
         (on_disc (disc_ban_peer (disc_of E) p ips) (n\<lparr>n_swarm := n_swarm n @ [SwarmBan p]\<rparr>),
          Some (EvPeerBanned p))
     | PeerUnBanned p ips \<Rightarrow>
         (on_disc (disc_unban_peer (disc_of E) p ips) (n\<lparr>n_swarm := n_swarm n @ [SwarmUnban p]\<rparr>),
          Some (EvPeerUnbanned p))
     | SendStatus p \<Rightarrow> (n, Some (EvStatusPeer p))
     | DiscoverPeers k \<Rightarrow> (on_disc (discover_peers (disc_of E) k) n, None)
     | DiscoverSubnetPeers ss \<Rightarrow> (net_discover_subnet_peers E ss n, None)
     | SendPing p \<Rightarrow> (net_ping p n, None)
     | AskMetaData p \<Rightarrow> (send_meta_data_request p n, None)
     | DisconnectPeer p reason \<Rightarrow> (on_rpc (rpc_shutdown p Internal reason) n, None))"

section \<open>Polling\<close>

text \<open>The events of the swarm that the network acts on; the number says how many listeners are left.\<close>

datatype ('a, 'b) swarm_event =
    FromGossipsub gossipsub_event
  | FromRpc peer_id nat "('a request_id, 'b) handler_event"
  | FromDiscovery "(peer_id, instant option) hmap"
  | FromIdentify identify_event
  | FromPeerManager pm_event
  | NewListenAddr multiaddr
  | ListenerClosed nat
  | ListenerError nat
  | OtherSwarmEvent

definition handle_swarm_event :: "('h, 'c, 'd, 'q, 'g, 'o) net_env \<Rightarrow> instant \<Rightarrow> ('a, 'b) swarm_event \<Rightarrow>
     ('a, 'b, 'h, 'c, 'd, 'q, 'g) network \<Rightarrow>
     ('a, 'b, 'h, 'c, 'd, 'q, 'g) network \<times> ('a, 'b, 'o) network_event option" where
  "handle_swarm_event E now ev n = (case ev of
       FromGossipsub e \<Rightarrow> inject_gs_event E now e n
     | FromRpc p conn e \<Rightarrow> inject_rpc_event E now p conn e n
     | FromDiscovery results \<Rightarrow> (inject_discovery_event E now results n, None)
     | FromIdentify e \<Rightarrow> (inject_identify_event e n, None)
     | FromPeerManager e \<Rightarrow> inject_pm_event E e n
     | NewListenAddr a \<Rightarrow> (n, Some (EvNewListenAddr a))
     | ListenerClosed k \<Rightarrow> (n, if k = 0 then Some EvZeroListeners else None)
     | ListenerError k \<Rightarrow> (n, if k = 0 then Some EvZeroListeners else None)
     | OtherSwarmEvent \<Rightarrow> (n, None))"

text \<open>The swarm is asked for events until one concerns the application; what is left stays in the swarm.\<close>

fun poll_swarm :: "('h, 'c, 'd, 'q, 'g, 'o) net_env \<Rightarrow> instant \<Rightarrow> ('a, 'b) swarm_event list \<Rightarrow>
     ('a, 'b, 'h, 'c, 'd, 'q, 'g) network \<Rightarrow>
     ('a, 'b, 'h, 'c, 'd, 'q, 'g) network \<times> ('a, 'b) swarm_event list \<times> ('a, 'b, 'o) network_event option" where
  "poll_swarm E now [] n = (n, [], None)"
| "poll_swarm E now (ev # evs) n = (case handle_swarm_event E now ev n of
       (n, Some e) \<Rightarrow> (n, evs, Some e)
     | (n, None) \<Rightarrow> poll_swarm E now evs n)"

text \<open>Expired messages are dropped until the queue has none; an error of its timer is logged.\<close>

partial_function (option) drain_cache ::
  "('q, cache_item) delay_queue \<Rightarrow> instant \<Rightarrow> 'q gossip_cache \<Rightarrow> 'q gossip_cache option" where
  "drain_cache Q now c = (case cache_poll_next Q now c of
       (c, CacheExpired _) \<Rightarrow> drain_cache Q now c
     | (c, CacheError _) \<Rightarrow> drain_cache Q now c
     | (c, CacheDone) \<Rightarrow> Some c
     | (c, CachePending) \<Rightarrow> Some c
     | (c, CachePanic) \<Rightarrow> None)"

definition poll_network :: "('h, 'c, 'd, 'q, 'g, 'o) net_env \<Rightarrow> instant \<Rightarrow> ('a, 'b) swarm_event list \<Rightarrow> nat \<Rightarrow>
     ('a, 'b, 'h, 'c, 'd, 'q, 'g) network \<Rightarrow>
     (('a, 'b, 'h, 'c, 'd, 'q, 'g) network \<times> ('a, 'b) swarm_event list \<times> ('a, 'b, 'o) network_event option) option"
  where
  "poll_network E now evs ticks n = (case poll_swarm E now evs n of
       (n, rest, Some e) \<Rightarrow> Some (n, rest, Some e)
     | (n, rest, None) \<Rightarrow>
         (let n = ((\<lambda>n. on_pm (pm_update_gossipsub_scores (pm_of E) now (gs_peer_score (gossip_of E) (n_gossip n))) n)
                    ^^ ticks) n
          in map_option (\<lambda>c. (n\<lparr>n_cache := c\<rparr>, rest, None)) (drain_cache (queue_of E) now (n_cache n))))"

section \<open>The start\<close>

text \<open>How long messages are kept: blocks for a slot, attestations for half an epoch, exits and slashings for an
  epoch, the messages of the sync committees not at all.\<close>

definition network_cache_builder :: "nat \<Rightarrow> nat \<Rightarrow> gossip_cache_builder" where
  "network_cache_builder seconds_per_slot slots_per_epoch =
     (let slot = from_secs seconds_per_slot; half = from_secs (seconds_per_slot * slots_per_epoch div 2)
      in (attester_slashing_timeout (half * 2) \<circ> proposer_slashing_timeout (half * 2) \<circ> voluntary_exit_timeout (half * 2)
          \<circ> attestation_timeout half \<circ> aggregates_timeout half \<circ> beacon_block_timeout slot) cache_builder)"

definition network_pm_config :: "bool \<Rightarrow> bool \<Rightarrow> nat \<Rightarrow> pm_config" where
  "network_pm_config disable_discovery metrics target = default_pm_config\<lparr>
     cfg_discovery_enabled := \<not> disable_discovery, cfg_metrics_enabled := metrics, cfg_target_peer_count := target\<rparr>"

text \<open>The limits of the swarm on connections; the difference of two factors is rounded like their sum.\<close>

definition f32_sub :: "f32 \<Rightarrow> f32 \<Rightarrow> f32" where "f32_sub a b = f32_round (a - b)"

record connection_limits =
  max_pending_incoming :: nat
  max_pending_outgoing :: nat
  max_established_incoming :: nat
  max_established_outgoing :: nat
  max_established :: nat
  max_established_per_peer :: nat

definition MAX_CONNECTIONS_PER_PEER :: nat where "MAX_CONNECTIONS_PER_PEER = 1"

definition network_limits :: "nat \<Rightarrow> connection_limits" where
  "network_limits target = \<lparr>
     max_pending_incoming = 5,
     max_pending_outgoing = 16,
     max_established_incoming = ceil_as_usize (f32_mult (f32_of_nat target)
       (f32_sub (f32_add F32_1 PEER_EXCESS_FACTOR) MIN_OUTBOUND_ONLY_FACTOR)),
     max_established_outgoing = ceil_as_usize (f32_mult (f32_of_nat target) (f32_add F32_1 PEER_EXCESS_FACTOR)),
     max_established = ceil_as_usize (f32_mult (f32_of_nat target)
       (f32_add (f32_add F32_1 PEER_EXCESS_FACTOR) PRIORITY_PEER_EXCESS)),
     max_established_per_peer = MAX_CONNECTIONS_PER_PEER \<rparr>"

text \<open>The parts as the service puts them together; discovery and gossipsub have been started, discovery is asked
  for peers at once.\<close>

definition network_new :: "('h, 'c, 'd, 'q, 'g, 'o) net_env \<Rightarrow> pm_config \<Rightarrow> network_globals \<Rightarrow> enr_fork_id \<Rightarrow>
     nat \<Rightarrow> nat \<Rightarrow> ('c, 'd) discovery \<Rightarrow> ('a request_id, 'b) rpc \<Rightarrow> 'g \<Rightarrow>
     ('a, 'b, 'h, 'c, 'd, 'q, 'g) network" where
  "network_new E cfg g fork seconds_per_slot slots_per_epoch disc rpc gossip = \<lparr>
     n_pm = peer_manager_new (pm_of E) cfg g,
     n_disc = discover_peers (disc_of E) FIND_NODE_QUERY_CLOSEST_PEERS disc,
     n_rpc = rpc,
     n_cache = cache_build (queue_of E) (network_cache_builder seconds_per_slot slots_per_epoch),
     n_gossip = gossip,
     n_fork_id = fork,
     n_swarm = [],
     n_metadata_on_disk = None \<rparr>"

end
