(* ===== verification/Config.thy ===== *)
theory Config
  imports Pubsub Codec
begin

text \<open>
  \<open>config.rs\<close>: the configuration of the network, the load profiles, the configuration of gossipsub with the
  function that names messages, and the test for globally routable addresses.  The builders of gossipsub
  and discv5 and the hash function are parameters.
\<close>

section \<open>Sizes and times\<close>

definition GOSSIP_MAX_SIZE :: nat where "GOSSIP_MAX_SIZE = 1048576"
definition GOSSIP_MAX_SIZE_POST_MERGE :: nat where "GOSSIP_MAX_SIZE_POST_MERGE = 10 * 1048576"

definition DUPLICATE_CACHE_TIME :: duration where "DUPLICATE_CACHE_TIME = from_secs (33 * 12 + 1)"

definition MESSAGE_DOMAIN_VALID_SNAPPY :: bytes where "MESSAGE_DOMAIN_VALID_SNAPPY = [1, 0, 0, 0]"

definition gossip_max_size :: "bool \<Rightarrow> nat" where
  "gossip_max_size is_merge_enabled = (if is_merge_enabled then GOSSIP_MAX_SIZE_POST_MERGE else GOSSIP_MAX_SIZE)"

section \<open>Load profiles\<close>

record network_load =
  load_name :: string
  mesh_n_low :: nat
  outbound_min :: nat
  mesh_n :: nat
  mesh_n_high :: nat
  gossip_lazy :: nat
  history_gossip :: nat
  heartbeat_interval :: duration

definition from_millis :: "nat \<Rightarrow> duration" where "from_millis ms = ms * 1000000"

definition network_load_of :: "u8 \<Rightarrow> network_load" where
  "network_load_of load =
     (if load = 1 then \<lparr> load_name = ''Low'', mesh_n_low = 1, outbound_min = 1, mesh_n = 3, mesh_n_high = 4,
        gossip_lazy = 3, history_gossip = 3, heartbeat_interval = from_millis 1200 \<rparr>
      else if load = 2 then \<lparr> load_name = ''Low'', mesh_n_low = 2, outbound_min = 2, mesh_n = 4, mesh_n_high = 8,
        gossip_lazy = 3, history_gossip = 3, heartbeat_interval = from_millis 1000 \<rparr>
      else if load = 3 then \<lparr> load_name = ''Average'', mesh_n_low = 3, outbound_min = 2, mesh_n = 5,
        mesh_n_high = 10, gossip_lazy = 3, history_gossip = 3, heartbeat_interval = from_millis 700 \<rparr>
      else if load = 4 then \<lparr> load_name = ''Average'', mesh_n_low = 4, outbound_min = 3, mesh_n = 8,
        mesh_n_high = 12, gossip_lazy = 3, history_gossip = 3, heartbeat_interval = from_millis 700 \<rparr>
      else if load = 5 then \<lparr> load_name = ''High'', mesh_n_low = 5, outbound_min = 3, mesh_n = 10,
        mesh_n_high = 15, gossip_lazy = 5, history_gossip = 6, heartbeat_interval = from_millis 500 \<rparr>
      else \<lparr> load_name = ''LowLatency'', mesh_n_low = 6, outbound_min = 3, mesh_n = 12, mesh_n_high = 18,
        gossip_lazy = 5, history_gossip = 3, heartbeat_interval = from_millis 500 \<rparr>)"

section \<open>Gossipsub\<close>

text \<open>A message on a topic; the raw message is only hashed.\<close>

record gossipsub_message =
  gm_topic :: string
  gm_data :: bytes

text \<open>\<open>usize::to_le_bytes\<close> on a 64-bit machine.\<close>

definition to_le_bytes :: "nat \<Rightarrow> bytes" where
  "to_le_bytes n = map (\<lambda>i. of_nat (n div 256 ^ i)) [0..<8]"


text \<open>What is hashed to name a message: before Altair the domain and the data; since then the topic and its
  length stand between them.\<close>

definition message_prefix :: "bytes \<Rightarrow> gossipsub_message \<Rightarrow> fork_context \<Rightarrow> bytes" where
  "message_prefix pre m fc = (case current_fork fc of
       Base \<Rightarrow> pre @ gm_data m
     | _ \<Rightarrow> (let topic = as_bytes (gm_topic m) in pre @ to_le_bytes (length topic) @ topic @ gm_data m))"

definition fast_gossip_message_id :: "(bytes \<Rightarrow> bytes) \<Rightarrow> bytes \<Rightarrow> bytes" where
  "fast_gossip_message_id sha data = take 8 (sha data)"

definition gossip_message_id :: "(bytes \<Rightarrow> bytes) \<Rightarrow> fork_context \<Rightarrow> gossipsub_message \<Rightarrow> bytes" where
  "gossip_message_id sha fc m = take 20 (sha (message_prefix MESSAGE_DOMAIN_VALID_SNAPPY m fc))"

text \<open>The settings the program asks of the builder; the others keep their defaults.\<close>

record gossip_settings =
  gs_max_transmit_size :: nat
  gs_heartbeat_interval :: duration
  gs_mesh_n :: nat
  gs_mesh_n_low :: nat
  gs_mesh_outbound_min :: nat
  gs_mesh_n_high :: nat
  gs_gossip_lazy :: nat
  gs_fanout_ttl :: duration
  gs_history_length :: nat
  gs_max_messages_per_rpc :: "nat option"
  gs_history_gossip :: nat
  gs_validate_messages :: bool
  gs_anonymous :: bool
  gs_duplicate_cache_time :: duration
  gs_allow_self_origin :: bool

definition load_settings :: "network_load \<Rightarrow> bool \<Rightarrow> gossip_settings" where
  "load_settings load is_merge_enabled = \<lparr>
     gs_max_transmit_size = gossip_max_size is_merge_enabled,
     gs_heartbeat_interval = heartbeat_interval load,
     gs_mesh_n = mesh_n load,
     gs_mesh_n_low = mesh_n_low load,
     gs_mesh_outbound_min = outbound_min load,
     gs_mesh_n_high = mesh_n_high load,
     gs_gossip_lazy = gossip_lazy load,
     gs_fanout_ttl = from_secs 60,
     gs_history_length = 12,
     gs_max_messages_per_rpc = Some 500,
     gs_history_gossip = history_gossip load,
     gs_validate_messages = True,
     gs_anonymous = True,
     gs_duplicate_cache_time = DUPLICATE_CACHE_TIME,
     gs_allow_self_origin = True \<rparr>"

text \<open>The builder takes the settings and the two functions that name messages; it panics when it refuses
  them.\<close>

type_synonym 'cfg gossip_builder =
  "gossip_settings \<Rightarrow> (gossipsub_message \<Rightarrow> bytes) \<Rightarrow> (bytes \<Rightarrow> bytes) \<Rightarrow> string + 'cfg"

definition gossipsub_config ::
  "'cfg gossip_builder \<Rightarrow> (bytes \<Rightarrow> bytes) \<Rightarrow> u8 \<Rightarrow> fork_context \<Rightarrow> 'cfg option" where
  "gossipsub_config build sha load fc =
     (case build (load_settings (network_load_of load) (to_context_bytes fc Merge \<noteq> None))
             (gossip_message_id sha fc) (fast_gossip_message_id sha) of
        Inl _ \<Rightarrow> None | Inr cfg \<Rightarrow> Some cfg)"

section \<open>Global addresses\<close>

text \<open>The octets of an address, and the classes of the standard library.\<close>

definition octets :: "32 word \<Rightarrow> u8 list" where
  "octets a = [ucast (drop_bit 24 a), ucast (drop_bit 16 a), ucast (drop_bit 8 a), ucast a]"

definition is_private :: "32 word \<Rightarrow> bool" where
  "is_private a = (octets a ! 0 = 10
     \<or> (octets a ! 0 = 172 \<and> 16 \<le> octets a ! 1 \<and> octets a ! 1 \<le> 31)
     \<or> (octets a ! 0 = 192 \<and> octets a ! 1 = 168))"

definition is_loopback :: "32 word \<Rightarrow> bool" where "is_loopback a = (octets a ! 0 = 127)"
definition is_link_local :: "32 word \<Rightarrow> bool" where
  "is_link_local a = (octets a ! 0 = 169 \<and> octets a ! 1 = 254)"
definition is_broadcast :: "32 word \<Rightarrow> bool" where "is_broadcast a = (octets a = [255, 255, 255, 255])"
definition is_documentation :: "32 word \<Rightarrow> bool" where
  "is_documentation a = (take 3 (octets a) \<in> {[192, 0, 2], [198, 51, 100], [203, 0, 113]})"

unbundle bit_operations_syntax

definition is_global :: "32 word \<Rightarrow> bool" where
  "is_global a = (if a = 0xc0000009 \<or> a = 0xc000000a then True
     else \<not> is_private a \<and> \<not> is_loopback a \<and> \<not> is_link_local a \<and> \<not> is_broadcast a \<and> \<not> is_documentation a
       \<and> \<not> (octets a ! 0 = 100 \<and> (octets a ! 1 AND 192) = 64)
       \<and> \<not> ((octets a ! 0 AND 240) = 240 \<and> \<not> is_broadcast a)
       \<and> \<not> (octets a ! 0 = 192 \<and> octets a ! 1 = 0 \<and> octets a ! 2 = 0)
       \<and> octets a ! 0 \<noteq> 0)"

section \<open>The configuration\<close>

text \<open>The table of discv5 takes records with a global address only.\<close>

definition discv5_table_filter :: "enr \<Rightarrow> bool" where
  "discv5_table_filter e = (case enr_ip4 e of Some a \<Rightarrow> is_global a | None \<Rightarrow> False)"

text \<open>The limiter of unsolicited packets of discv5: how many packets in all, of an address and of a node in what
  time.\<close>

record filter_limiter =
  fl_total :: "nat \<times> duration"
  fl_ip :: "nat \<times> duration"
  fl_node :: "nat \<times> duration"

text \<open>What is asked of the builder of the configuration of discv5.\<close>

record discv5_settings =
  dc_packet_filter :: bool
  dc_session_cache_capacity :: nat
  dc_request_timeout :: duration
  dc_query_peer_timeout :: duration
  dc_query_timeout :: duration
  dc_request_retries :: u8
  dc_enr_peer_update_min :: nat
  dc_query_parallelism :: nat
  dc_report_discovered_peers :: bool
  dc_ip_limit :: bool
  dc_incoming_bucket_limit :: nat
  dc_filter_rate_limiter :: "filter_limiter option"
  dc_filter_max_bans_per_ip :: "nat option"
  dc_filter_max_nodes_per_ip :: "nat option"
  dc_table_filter :: "enr \<Rightarrow> bool"
  dc_ban_duration :: "duration option"
  dc_ping_interval :: duration

definition default_discv5_settings :: discv5_settings where
  "default_discv5_settings = \<lparr> dc_packet_filter = True, dc_session_cache_capacity = 5000,
     dc_request_timeout = from_secs 1, dc_query_peer_timeout = from_secs 2, dc_query_timeout = from_secs 30,
     dc_request_retries = 1, dc_enr_peer_update_min = 10, dc_query_parallelism = 5,
     dc_report_discovered_peers = False, dc_ip_limit = True, dc_incoming_bucket_limit = 8,
     dc_filter_rate_limiter = Some \<lparr> fl_total = (10, from_secs 1), fl_ip = (9, from_secs 1), fl_node = (8, from_secs 1) \<rparr>,
     dc_filter_max_bans_per_ip = Some 5, dc_filter_max_nodes_per_ip = Some 10, dc_table_filter = discv5_table_filter,
     dc_ban_duration = Some (from_secs 3600), dc_ping_interval = from_secs 300 \<rparr>"

text \<open>\<open>PathBuf::join\<close>.\<close>

definition path_join :: "string \<Rightarrow> string \<Rightarrow> string" where
  "path_join p q = (if q \<noteq> [] \<and> hd q = CHR ''/'' then q
     else if p = [] \<or> last p = CHR ''/'' then p @ q else p @ ''/'' @ q)"

text \<open>What the default is made of: the default configuration of gossipsub, the home directory, the names of the
  directories below it and the version of the client come from libraries.\<close>

record 'cfg config_env =
  ce_gs :: 'cfg
  ce_home :: "string option"
  ce_directories :: "string list"
  ce_client_version :: string

record 'cfg network_config =
  cfg_network_dir :: string
  cfg_listen_address :: ip_addr
  cfg_libp2p_port :: port
  cfg_discovery_port :: port
  cfg_enr_address :: "ip_addr option"
  cfg_enr_udp_port :: "port option"
  cfg_enr_tcp_port :: "port option"
  cfg_target_peers :: nat
  cfg_gs :: 'cfg
  cfg_discv5 :: discv5_settings
  cfg_boot_nodes_enr :: "enr list"
  cfg_boot_nodes_multiaddr :: "multiaddr list"
  cfg_libp2p_nodes :: "multiaddr list"
  cfg_trusted_peers :: "peer_id list"
  cfg_client_version :: string
  cfg_disable_discovery :: bool
  cfg_upnp_enabled :: bool
  cfg_subscribe_all_subnets :: bool
  cfg_import_all_attestations :: bool
  cfg_load :: u8
  cfg_private :: bool
  cfg_shutdown_after_sync :: bool
  cfg_topics :: "gossip_kind list"
  cfg_metrics :: bool

definition default_network_config :: "'cfg config_env \<Rightarrow> 'cfg network_config" where
  "default_network_config C = \<lparr>
     cfg_network_dir = foldl path_join (case ce_home C of Some home \<Rightarrow> home | None \<Rightarrow> ''.'') (ce_directories C),
     cfg_listen_address = V4 0, cfg_libp2p_port = 9000, cfg_discovery_port = 9000,
     cfg_enr_address = None, cfg_enr_udp_port = None, cfg_enr_tcp_port = None,
     cfg_target_peers = 50, cfg_gs = ce_gs C, cfg_discv5 = default_discv5_settings,
     cfg_boot_nodes_enr = [], cfg_boot_nodes_multiaddr = [], cfg_libp2p_nodes = [], cfg_trusted_peers = [],
     cfg_client_version = ce_client_version C,
     cfg_disable_discovery = False, cfg_upnp_enabled = True, cfg_subscribe_all_subnets = False,
     cfg_import_all_attestations = False, cfg_load = 3, cfg_private = False, cfg_shutdown_after_sync = False,
     cfg_topics = [], cfg_metrics = False \<rparr>"

end
