(* ===== verification/Network_Start.thy ===== *)
theory Network_Start
  imports Network_Events Config
begin

text \<open>
  The helpers of \<open>network/utils.rs\<close> and the start of the network in \<open>network/mod.rs\<close>: the metadata the node
  starts with, the addresses it dials and the topics it subscribes to.  The swarm, the file system and the SSZ
  encoding are parameters.
\<close>

section \<open>Addresses\<close>

definition strip_peer_id :: "multiaddr \<Rightarrow> multiaddr" where
  "strip_peer_id addr = (case rev addr of P2p _ # others \<Rightarrow> rev others | _ \<Rightarrow> addr)"

text \<open>The addresses of the boot nodes that are dialed: no UDP addresses, and none of a peer that is connected or
  being dialed.  An address with fewer than two components panics.\<close>

definition boot_dials :: "('c, 'd) disc_api \<Rightarrow> peer_db \<Rightarrow> enr \<Rightarrow> multiaddr list option" where
  "boot_dials A db e = (let addrs = enr_multiaddr e in
     if list_ex (\<lambda>a. length a < 2) addrs then None
     else Some (map strip_peer_id (filter (\<lambda>a. (case a ! 1 of Udp _ \<Rightarrow> False | _ \<Rightarrow> True)
            \<and> \<not> is_connected_or_dialing db (id_of_enr A e)) addrs)))"

fun all_boot_dials :: "('c, 'd) disc_api \<Rightarrow> peer_db \<Rightarrow> enr list \<Rightarrow> multiaddr list option" where
  "all_boot_dials A db [] = Some []"
| "all_boot_dials A db (e # es) = (case boot_dials A db e of
       None \<Rightarrow> None
     | Some ds \<Rightarrow> map_option (\<lambda>rest. ds @ rest) (all_boot_dials A db es))"

definition start_dials :: "('c, 'd) disc_api \<Rightarrow> peer_db \<Rightarrow> 'cfg network_config \<Rightarrow> multiaddr list option" where
  "start_dials A db cfg = map_option
     (\<lambda>boot. map strip_peer_id (cfg_libp2p_nodes cfg) @ boot
        @ map strip_peer_id (filter has_tcp (cfg_boot_nodes_multiaddr cfg)))
     (all_boot_dials A db (remdups_adj (cfg_boot_nodes_enr cfg)))"

section \<open>The start\<close>

definition listen_multiaddr :: "'cfg network_config \<Rightarrow> multiaddr" where
  "listen_multiaddr cfg = (case cfg_listen_address cfg of V4 a \<Rightarrow> [Ip4 a] | V6 a \<Rightarrow> [Ip6 a])
     @ [Tcp (cfg_libp2p_port cfg)]"

text \<open>Each topic is subscribed to; those that fail are only logged.\<close>

fun subscribe_kinds :: "('h, 'c, 'd, 'q, 'g, 'o) net_env \<Rightarrow> gossip_kind list \<Rightarrow>
     ('a, 'b, 'h, 'c, 'd, 'q, 'g) network \<Rightarrow> ('a, 'b, 'h, 'c, 'd, 'q, 'g) network \<times> gossip_kind list" where
  "subscribe_kinds E [] n = (n, [])"
| "subscribe_kinds E (k # ks) n = (let (n, ok) = subscribe_kind E k n; (n, done) = subscribe_kinds E ks n
     in (n, if ok then k # done else done))"

text \<open>The result is an error when the swarm cannot listen, or the network, the addresses dialed and the topics
  subscribed to.\<close>

definition network_start :: "('h, 'c, 'd, 'q, 'g, 'o) net_env \<Rightarrow> (multiaddr \<Rightarrow> bool) \<Rightarrow> 'cfg network_config \<Rightarrow>
     ('a, 'b, 'h, 'c, 'd, 'q, 'g) network \<Rightarrow>
     (string + ('a, 'b, 'h, 'c, 'd, 'q, 'g) network \<times> multiaddr list \<times> gossip_kind list) option" where
  "network_start E listens cfg n =
     (if \<not> listens (listen_multiaddr cfg)
      then Some (Inl ''Libp2p was unable to listen on the given listen address.'')
      else (case start_dials (disc_of E) (net_db n) cfg of
         None \<Rightarrow> None
       | Some dials \<Rightarrow> (let (n, topics) = subscribe_kinds E (cfg_topics cfg) n
           in Some (Inr (n, dials, topics)))))"

section \<open>The metadata\<close>

text \<open>The SSZ encoding of the metadata of both versions, and the default bit fields.\<close>

record md_codec =
  md_encode :: "meta_data \<Rightarrow> bytes"
  md_decode_v2 :: "bytes \<Rightarrow> (u64 \<times> bitfield \<times> bitfield) option"
  md_decode_v1 :: "bytes \<Rightarrow> (u64 \<times> bitfield) option"
  default_attnets :: bitfield
  default_syncnets :: bitfield

text \<open>The sequence number of the file is kept and grows when its bit fields are not the default ones, with which
  the node starts.  A file that is missing or cannot be read is nothing.\<close>

definition load_or_build_metadata :: "md_codec \<Rightarrow> bytes option \<Rightarrow> meta_data" where
  "load_or_build_metadata M file =
     (let seq = (case file of
            None \<Rightarrow> 0
          | Some bs \<Rightarrow> (case md_decode_v2 M bs of
              Some (seq, att, sync) \<Rightarrow>
                (if att \<noteq> default_attnets M \<or> sync \<noteq> default_syncnets M then seq + 1 else seq)
            | None \<Rightarrow> (case md_decode_v1 M bs of Some (seq, _) \<Rightarrow> seq + 1 | None \<Rightarrow> 0)))
      in \<lparr> seq_number = seq, attnets = default_attnets M, syncnets = Some (default_syncnets M) \<rparr>)"

definition save_metadata_to_disk :: "md_codec \<Rightarrow> meta_data \<Rightarrow> bytes option" where
  "save_metadata_to_disk M md = Some (md_encode M md)"

end
