(* ===== verification/Gossip_Scoring.thy ===== *)
theory Gossip_Scoring
  imports Network
begin

text \<open>
  \<open>network/gossipsub_scoring_parameters.rs\<close>: the parameters of the score gossipsub keeps of each peer, computed
  from the constants of the chain, and their update in \<open>network/mod.rs\<close>.  Doubles are real numbers, so the
  division by a decay time of zero, which gives an infinity there, is not covered.  The number of
  committees is computed by the library of chain types and is a parameter.
\<close>

section \<open>Constants and thresholds\<close>

definition MAX_IN_MESH_SCORE :: f64 where "MAX_IN_MESH_SCORE = 10"
definition MAX_FIRST_MESSAGE_DELIVERIES_SCORE :: f64 where "MAX_FIRST_MESSAGE_DELIVERIES_SCORE = 40"
definition BEACON_BLOCK_WEIGHT :: f64 where "BEACON_BLOCK_WEIGHT = 5 / 10"
definition BEACON_AGGREGATE_PROOF_WEIGHT :: f64 where "BEACON_AGGREGATE_PROOF_WEIGHT = 5 / 10"
definition VOLUNTARY_EXIT_WEIGHT :: f64 where "VOLUNTARY_EXIT_WEIGHT = 5 / 100"
definition PROPOSER_SLASHING_WEIGHT :: f64 where "PROPOSER_SLASHING_WEIGHT = 5 / 100"
definition ATTESTER_SLASHING_WEIGHT :: f64 where "ATTESTER_SLASHING_WEIGHT = 5 / 100"
definition MESH_MESSAGE_DELIVERIES_WINDOW :: nat where "MESH_MESSAGE_DELIVERIES_WINDOW = 2"

lemmas scoring_consts = MAX_IN_MESH_SCORE_def MAX_FIRST_MESSAGE_DELIVERIES_SCORE_def BEACON_BLOCK_WEIGHT_def
  BEACON_AGGREGATE_PROOF_WEIGHT_def VOLUNTARY_EXIT_WEIGHT_def PROPOSER_SLASHING_WEIGHT_def
  ATTESTER_SLASHING_WEIGHT_def

record peer_score_thresholds =
  gossip_threshold :: f64
  publish_threshold :: f64
  graylist_threshold :: f64
  accept_px_threshold :: f64
  opportunistic_graft_threshold :: f64

definition lighthouse_gossip_thresholds :: peer_score_thresholds where
  "lighthouse_gossip_thresholds = \<lparr> gossip_threshold = -4000, publish_threshold = -8000,
     graylist_threshold = GREYLIST_THRESHOLD, accept_px_threshold = 100, opportunistic_graft_threshold = 5 \<rparr>"

section \<open>The settings\<close>

record chain_spec =
  seconds_per_slot :: nat
  slots_per_epoch :: nat
  spec_subnet_count :: nat
  spec_max_committees :: nat
  spec_target_size :: nat
  spec_target_aggregators :: nat

record score_settings =
  ss_slot :: duration
  ss_epoch :: duration
  ss_slots_per_epoch :: nat
  ss_subnet_weight :: f64
  ss_max_positive_score :: f64
  ss_decay_interval :: duration
  ss_decay_to_zero :: f64
  ss_mesh_n :: nat
  ss_max_committees :: nat
  ss_target_size :: nat
  ss_target_aggregators :: nat
  ss_subnet_count :: nat

definition score_settings_new :: "chain_spec \<Rightarrow> nat \<Rightarrow> score_settings" where
  "score_settings_new spec mesh_n =
     (let slot = from_secs (seconds_per_slot spec); count = spec_subnet_count spec;
          weight = 1 / real count in
      \<lparr> ss_slot = slot, ss_epoch = slot * slots_per_epoch spec, ss_slots_per_epoch = slots_per_epoch spec,
        ss_subnet_weight = weight,
        ss_max_positive_score = (MAX_IN_MESH_SCORE + MAX_FIRST_MESSAGE_DELIVERIES_SCORE)
          * (BEACON_BLOCK_WEIGHT + BEACON_AGGREGATE_PROOF_WEIGHT + weight * real count
             + VOLUNTARY_EXIT_WEIGHT + PROPOSER_SLASHING_WEIGHT + ATTESTER_SLASHING_WEIGHT),
        ss_decay_interval = max (from_secs 1) slot,
        ss_decay_to_zero = 1 / 100,
        ss_mesh_n = mesh_n,
        ss_max_committees = spec_max_committees spec,
        ss_target_size = spec_target_size spec,
        ss_target_aggregators = spec_target_aggregators spec,
        ss_subnet_count = count \<rparr>)"

section \<open>Decays\<close>

definition as_secs_f64 :: "duration \<Rightarrow> f64" where "as_secs_f64 d = real d / real nanos_per_sec"

definition score_parameter_decay_with_base :: "duration \<Rightarrow> duration \<Rightarrow> f64 \<Rightarrow> f64" where
  "score_parameter_decay_with_base decay_time decay_interval decay_to_zero =
     (let ticks = as_secs_f64 decay_time / as_secs_f64 decay_interval in decay_to_zero powr (1 / ticks))"

definition decay_convergence :: "f64 \<Rightarrow> f64 \<Rightarrow> f64" where "decay_convergence decay rate = rate / (1 - decay)"

definition threshold :: "f64 \<Rightarrow> f64 \<Rightarrow> f64" where "threshold decay rate = decay_convergence decay rate * decay"

definition score_parameter_decay :: "score_settings \<Rightarrow> duration \<Rightarrow> f64" where
  "score_parameter_decay S t = score_parameter_decay_with_base t (ss_decay_interval S) (ss_decay_to_zero S)"

section \<open>The parameters of a topic\<close>

record topic_score_params =
  topic_weight :: f64
  time_in_mesh_quantum :: duration
  time_in_mesh_cap :: f64
  time_in_mesh_weight :: f64
  first_message_deliveries_decay :: f64
  first_message_deliveries_cap :: f64
  first_message_deliveries_weight :: f64
  mesh_message_deliveries_decay :: f64
  mesh_message_deliveries_threshold :: f64
  mesh_message_deliveries_cap :: f64
  mesh_message_deliveries_activation :: duration
  mesh_message_deliveries_window :: duration
  mesh_message_deliveries_weight :: f64
  mesh_failure_penalty_decay :: f64
  mesh_failure_penalty_weight :: f64
  invalid_message_deliveries_weight :: f64
  invalid_message_deliveries_decay :: f64

text \<open>The last argument is the decay in slots, the factor of the cap, the activation window and the current slot.\<close>

definition get_topic_params ::
  "score_settings \<Rightarrow> f64 \<Rightarrow> f64 \<Rightarrow> duration \<Rightarrow> (nat \<times> f64 \<times> duration \<times> slot) option \<Rightarrow> topic_score_params" where
  "get_topic_params S weight rate first_decay mesh_info =
     (let cap = 3600 / as_secs_f64 (ss_slot S);
          fdecay = score_parameter_decay S first_decay;
          fcap = decay_convergence fdecay (2 * rate / real (ss_mesh_n S));
          p = \<lparr> topic_weight = weight,
            time_in_mesh_quantum = ss_slot S,
            time_in_mesh_cap = cap,
            time_in_mesh_weight = 10 / cap,
            first_message_deliveries_decay = fdecay,
            first_message_deliveries_cap = fcap,
            first_message_deliveries_weight = 40 / fcap,
            mesh_message_deliveries_decay = 0,
            mesh_message_deliveries_threshold = 0,
            mesh_message_deliveries_cap = 0,
            mesh_message_deliveries_activation = 0,
            mesh_message_deliveries_window = 0,
            mesh_message_deliveries_weight = 0,
            mesh_failure_penalty_decay = 0,
            mesh_failure_penalty_weight = 0,
            invalid_message_deliveries_weight = - ss_max_positive_score S / weight,
            invalid_message_deliveries_decay = score_parameter_decay S (ss_epoch S * 50) \<rparr>
      in case mesh_info of
           None \<Rightarrow> p
         | Some (decay_slots, cap_factor, activation, current_slot) \<Rightarrow>
             (let decay = score_parameter_decay S (ss_slot S * decay_slots);
                  t = threshold decay (rate / 50);
                  early = decay_slots \<ge> current_slot
              in p\<lparr>mesh_message_deliveries_decay := decay,
                   mesh_message_deliveries_threshold := (if early then 0 else t),
                   mesh_message_deliveries_cap := (if cap_factor * t < 2 then 2 else cap_factor * t),
                   mesh_message_deliveries_activation := activation,
                   mesh_message_deliveries_window := from_secs MESH_MESSAGE_DELIVERIES_WINDOW,
                   mesh_failure_penalty_decay := decay,
                   mesh_message_deliveries_weight := (if early then 0 else - weight),
                   mesh_failure_penalty_weight := - weight\<rparr>))"

section \<open>The expected number of aggregators\<close>

text \<open>The committees of a slot for a number of validators, the greatest number of committees and their target
  size.  A division by zero panics.\<close>

type_synonym committee_count = "nat \<Rightarrow> nat \<Rightarrow> nat \<Rightarrow> string + nat"

definition expected_aggregator_count_per_slot ::
  "committee_count \<Rightarrow> score_settings \<Rightarrow> nat \<Rightarrow> (string + f64 \<times> nat) option" where
  "expected_aggregator_count_per_slot C S active =
     (case C active (ss_max_committees S) (ss_target_size S) of
        Inl e \<Rightarrow> Some (Inl (''Could not get committee count from spec: '' @ e))
      | Inr per_slot \<Rightarrow>
          (let committees = per_slot * ss_slots_per_epoch S in
           if committees = 0 \<or> ss_target_aggregators S = 0 then None
           else (let small = active div committees; larger = active - small * committees;
                     modulo_smaller = max 1 (small div ss_target_aggregators S);
                     modulo_larger = max 1 ((small + 1) div ss_target_aggregators S)
                 in Some (Inr ((real ((committees - larger) * small) / real modulo_smaller
                        + real (larger * (small + 1)) / real modulo_larger) / real (ss_slots_per_epoch S),
                      per_slot)))))"

text \<open>The parameters of blocks, aggregates and attestations depend on the validators and the slot.\<close>

definition get_dynamic_topic_params :: "committee_count \<Rightarrow> score_settings \<Rightarrow> nat \<Rightarrow> slot \<Rightarrow>
     (string + topic_score_params \<times> topic_score_params \<times> topic_score_params) option" where
  "get_dynamic_topic_params C S active current =
     (case expected_aggregator_count_per_slot C S active of
        None \<Rightarrow> None
      | Some (Inl e) \<Rightarrow> Some (Inl e)
      | Some (Inr (aggregators, per_slot)) \<Rightarrow>
          (let spe = ss_slots_per_epoch S; bursts = per_slot \<ge> 2 * ss_subnet_count S div spe
           in Some (Inr
             (get_topic_params S BEACON_BLOCK_WEIGHT 1 (ss_epoch S * 20) (Some (spe * 5, 3, ss_epoch S, current)),
              get_topic_params S BEACON_AGGREGATE_PROOF_WEIGHT aggregators (ss_epoch S)
                (Some (spe * 2, 4, ss_epoch S, current)),
              get_topic_params S (ss_subnet_weight S)
                (real active / real (ss_subnet_count S) / real spe)
                (ss_epoch S * (if bursts then 1 else 4))
                (Some (spe * (if bursts then 4 else 16), 16,
                   if bursts then ss_slot S * (spe div 2 + 1) else ss_epoch S * 3, current))))))"

section \<open>The parameters of a peer\<close>

record peer_score_params =
  psp_topics :: "(string, topic_score_params) hmap"
  topic_score_cap :: f64
  app_specific_weight :: f64
  ip_colocation_factor_weight :: f64
  ip_colocation_factor_threshold :: f64
  behaviour_penalty_weight :: f64
  behaviour_penalty_threshold :: f64
  behaviour_penalty_decay :: f64
  psp_decay_interval :: duration
  psp_decay_to_zero :: f64
  retain_score :: duration

definition topic_hash :: "hex_api \<Rightarrow> bytes \<Rightarrow> gossip_kind \<Rightarrow> string" where
  "topic_hash H digest k = gossip_topic_display H (gossip_topic_new k GossipSSZSnappy digest)"

definition fixed_topics :: "score_settings \<Rightarrow> (gossip_kind \<times> topic_score_params) list" where
  "fixed_topics S =
     [(VoluntaryExit, get_topic_params S VOLUNTARY_EXIT_WEIGHT (4 / real (ss_slots_per_epoch S)) (ss_epoch S * 100) None),
      (AttesterSlashing,
         get_topic_params S ATTESTER_SLASHING_WEIGHT (1 / 5 / real (ss_slots_per_epoch S)) (ss_epoch S * 100) None),
      (ProposerSlashing,
         get_topic_params S PROPOSER_SLASHING_WEIGHT (1 / 5 / real (ss_slots_per_epoch S)) (ss_epoch S * 100) None)]"

definition dynamic_topics :: "score_settings \<Rightarrow> topic_score_params \<times> topic_score_params \<times> topic_score_params \<Rightarrow>
     (gossip_kind \<times> topic_score_params) list" where
  "dynamic_topics S d = (case d of (block, aggregate, subnet) \<Rightarrow>
     [(BeaconBlock, block), (BeaconAggregateAndProof, aggregate)]
     @ map (\<lambda>i. (KindAttestation i, subnet)) [0..<ss_subnet_count S])"

definition get_peer_score_params :: "hex_api \<Rightarrow> committee_count \<Rightarrow> score_settings \<Rightarrow> nat \<Rightarrow>
     peer_score_thresholds \<Rightarrow> bytes \<Rightarrow> slot \<Rightarrow> (string + peer_score_params) option" where
  "get_peer_score_params H C S active thresholds digest current =
     (case get_dynamic_topic_params C S active current of
        None \<Rightarrow> None
      | Some (Inl e) \<Rightarrow> Some (Inl e)
      | Some (Inr d) \<Rightarrow>
          (let decay = score_parameter_decay S (ss_epoch S * 10);
               target_value = decay_convergence decay (10 / real (ss_slots_per_epoch S)) - 6;
               cap = ss_max_positive_score S * (5 / 10)
           in Some (Inr \<lparr>
             psp_topics = fold (\<lambda>(k, p). hm_insert (topic_hash H digest k) p)
               (fixed_topics S @ dynamic_topics S d) [],
             topic_score_cap = cap,
             app_specific_weight = 1,
             ip_colocation_factor_weight = - cap,
             ip_colocation_factor_threshold = 8,
             behaviour_penalty_weight = gossip_threshold thresholds / target_value ^ 2,
             behaviour_penalty_threshold = 6,
             behaviour_penalty_decay = decay,
             psp_decay_interval = ss_decay_interval S,
             psp_decay_to_zero = ss_decay_to_zero S,
             retain_score = ss_epoch S * 100 \<rparr>)))"

section \<open>The update\<close>

text \<open>Gossipsub takes the parameters of one topic at a time; the first refusal ends the update.\<close>

fun set_topics :: "(string \<Rightarrow> topic_score_params \<Rightarrow> 'g \<Rightarrow> 'g \<times> (string + unit)) \<Rightarrow>
     (string \<times> topic_score_params) list \<Rightarrow> 'g \<Rightarrow> 'g \<times> (string + unit)" where
  "set_topics put [] g = (g, Inr ())"
| "set_topics put ((t, p) # ts) g = (case put t p g of
       (g, Inl e) \<Rightarrow> (g, Inl e) | (g, Inr _) \<Rightarrow> set_topics put ts g)"

definition update_gossipsub_parameters ::
  "(string \<Rightarrow> topic_score_params \<Rightarrow> 'g \<Rightarrow> 'g \<times> (string + unit)) \<Rightarrow> hex_api \<Rightarrow> committee_count \<Rightarrow>
     score_settings \<Rightarrow> nat \<Rightarrow> slot \<Rightarrow> ('a, 'b, 'h, 'c, 'd, 'q, 'g) network \<Rightarrow>
     (('a, 'b, 'h, 'c, 'd, 'q, 'g) network \<times> (string + unit)) option" where
  "update_gossipsub_parameters put H C S active current n =
     (case get_dynamic_topic_params C S active current of
        None \<Rightarrow> None
      | Some (Inl e) \<Rightarrow> Some (n, Inl e)
      | Some (Inr d) \<Rightarrow>
          (let (g, r) = set_topics put
             (map (\<lambda>(k, p). (topic_hash H (fork_digest (n_fork_id n)) k, p)) (dynamic_topics S d)) (n_gossip n)
           in Some (n\<lparr>n_gossip := g\<rparr>, r)))"

end
