(* ===== verification/Network_Build.thy ===== *)
theory Network_Build
  imports Network_Start Gossip_Scoring
begin

text \<open>
  How the network is put together: the local record of \<open>discovery/enr.rs\<close>, the start of discovery in
  \<open>discovery/mod.rs\<close> and \<open>Network::new\<close> in \<open>network/mod.rs\<close>.  The libraries are gathered in one record of
  parameters; a failed \<open>expect\<close> gives nothing, an error is returned as a text.
\<close>

section \<open>The libraries\<close>

text \<open>The key of the node and its id, the signature of a record and of a new sequence number, the record and the
  metadata on disk, the encoding of the fork, the constants of the chain, the builder of gossipsub, discv5,
  the transport and the swarm.\<close>

record ('cfg, 'g, 'c, 'd) build_api =
  ba_key :: "string + nat"
  ba_sign :: "enr \<Rightarrow> string + enr"
  ba_set_seq :: "enr \<Rightarrow> 64 word \<Rightarrow> enr option"
  ba_disk_enr :: "enr option"
  ba_fork_id_of :: "enr \<Rightarrow> enr_fork_id option"
  ba_metadata :: md_codec
  ba_metadata_file :: "bytes option"
  ba_spec :: chain_spec
  ba_min_validators :: nat
  ba_committees :: committee_count
  ba_sync_subnets :: nat
  ba_fork_context :: fork_context
  ba_fork_digests :: "bytes list"
  ba_sha :: "bytes \<Rightarrow> bytes"
  ba_topic_hash :: "string \<Rightarrow> string"
  ba_gossip_builder :: "'cfg gossip_builder"
  ba_mesh_n :: "'cfg \<Rightarrow> nat"
  ba_max_transmit :: "'cfg \<Rightarrow> nat"
  ba_gossip_new :: "'cfg \<Rightarrow> string list \<Rightarrow> nat \<Rightarrow> string + 'g"
  ba_with_peer_score :: "peer_score_params \<Rightarrow> peer_score_thresholds \<Rightarrow> 'g \<Rightarrow> string + 'g"
  ba_discv5_new :: "discv5_settings \<Rightarrow> enr \<Rightarrow> string + 'd"
  ba_discv5_start :: "socket_addr \<Rightarrow> 'd \<Rightarrow> string + 'd"
  ba_request_enr :: "multiaddr \<Rightarrow> string + enr"
  ba_lru_new :: 'c
  ba_transport :: "string + unit"
  ba_listens :: "multiaddr \<Rightarrow> bool"

section \<open>The local record\<close>

definition create_enr_builder_from_config :: "'cfg network_config \<Rightarrow> bool \<Rightarrow> nat \<Rightarrow> enr" where
  "create_enr_builder_from_config cfg enable_tcp node = \<lparr> enr_node_id = node, enr_seq = 1,
     enr_ip4 = (case cfg_enr_address cfg of Some (V4 a) \<Rightarrow> Some a | _ \<Rightarrow> None),
     enr_tcp4 = (if enable_tcp
       then Some (case cfg_enr_tcp_port cfg of Some p \<Rightarrow> p | None \<Rightarrow> cfg_libp2p_port cfg) else None),
     enr_udp4 = cfg_enr_udp_port cfg,
     enr_ip6 = (case cfg_enr_address cfg of Some (V6 a) \<Rightarrow> Some a | _ \<Rightarrow> None),
     enr_tcp6 = None, enr_udp6 = None, enr_kv = [] \<rparr>"

definition add_value :: "string \<Rightarrow> bytes \<Rightarrow> enr \<Rightarrow> enr" where
  "add_value k v e = e\<lparr>enr_kv := hm_insert k v (enr_kv e)\<rparr>"

definition build_enr :: "('cfg, 'g, 'c, 'd) build_api \<Rightarrow> ('c, 'd) disc_api \<Rightarrow> 'cfg network_config \<Rightarrow>
     enr_fork_id \<Rightarrow> nat \<Rightarrow> string + enr" where
  "build_enr X A cfg fork node =
     (let b = create_enr_builder_from_config cfg True node;
          b = add_value ETH2_ENR_KEY (fork_id_ssz fork) b;
          b = add_value ATTESTATION_BITFIELD_ENR_KEY (encode_bits A (default_attnets (ba_metadata X))) b;
          b = add_value SYNC_COMMITTEE_BITFIELD_ENR_KEY (encode_bits A (default_syncnets (ba_metadata X))) b
      in case ba_sign X b of
           Inl e \<Rightarrow> Inl (''Could not build Local ENR: '' @ e)
         | Inr e \<Rightarrow> Inr e)"

definition build_or_load_enr :: "('cfg, 'g, 'c, 'd) build_api \<Rightarrow> ('c, 'd) disc_api \<Rightarrow> 'cfg network_config \<Rightarrow>
     enr_fork_id \<Rightarrow> string + enr" where
  "build_or_load_enr X A cfg fork = (case ba_key X of
       Inl e \<Rightarrow> Inl e
     | Inr node \<Rightarrow> (case build_enr X A cfg fork node of
           Inl e \<Rightarrow> Inl e
         | Inr local \<Rightarrow> map_sum id fst (use_or_load_enr (ba_set_seq X) local (ba_disk_enr X))))"

section \<open>Discovery\<close>

text \<open>The boot nodes go into the routing table, then those whose record an address answers with, in the order of
  the addresses; a record that is refused is logged.\<close>

definition discovery_new :: "('cfg, 'g, 'c, 'd) build_api \<Rightarrow> ('c, 'd) disc_api \<Rightarrow> 'cfg network_config \<Rightarrow> enr \<Rightarrow>
     string + ('c, 'd) discovery" where
  "discovery_new X A cfg local = (case ba_key X of
       Inl e \<Rightarrow> Inl e
     | Inr _ \<Rightarrow> (case ba_discv5_new X (cfg_discv5 cfg) local of
           Inl e \<Rightarrow> Inl (''Discv5 service failed. Error: '' @ e)
         | Inr dv \<Rightarrow>
             (let dv = fold (dv_add_enr A) (cfg_boot_nodes_enr cfg) dv in
              case (if cfg_disable_discovery cfg then Inr dv
                    else ba_discv5_start X (cfg_listen_address cfg, cfg_discovery_port cfg) dv) of
                Inl e \<Rightarrow> Inl e
              | Inr dv \<Rightarrow> Inr \<lparr> cached_enrs = ba_lru_new X,
                  discv5 = fold (\<lambda>addr dv. case ba_request_enr X addr of
                      Inr e \<Rightarrow> dv_add_enr A e dv | Inl _ \<Rightarrow> dv) (cfg_boot_nodes_multiaddr cfg) dv,
                  global_enr = local, enr_on_disk = Some local,
                  find_peer_active = False, queued_queries = [], active_queries = [],
                  disc_stream = (if cfg_disable_discovery cfg then InActive else Awaiting),
                  started = \<not> cfg_disable_discovery cfg \<rparr>)))"

section \<open>The network\<close>

text \<open>The scoring settings are computed from the configuration of gossipsub as it was given, before it is
  replaced by the one for the load.\<close>

definition gossipsub_new :: "('cfg, 'g, 'c, 'd) build_api \<Rightarrow> hex_api \<Rightarrow> 'cfg network_config \<Rightarrow> enr_fork_id \<Rightarrow>
     (string + 'g) option" where
  "gossipsub_new X H cfg fork =
     (let S = score_settings_new (ba_spec X) (ba_mesh_n X (cfg_gs cfg)) in
      case get_peer_score_params H (ba_committees X) S (ba_min_validators X) lighthouse_gossip_thresholds
             (fork_digest fork) 0 of
        None \<Rightarrow> None
      | Some (Inl e) \<Rightarrow> Some (Inl e)
      | Some (Inr params) \<Rightarrow> (case gossipsub_config (ba_gossip_builder X) (ba_sha X) (cfg_load cfg) (ba_fork_context X) of
            None \<Rightarrow> None
          | Some gs \<Rightarrow> (case ba_gossip_new X gs (create_whitelist_filter (ba_topic_hash X) H (ba_fork_digests X)
                   (spec_subnet_count (ba_spec X)) (ba_sync_subnets X)) (ba_max_transmit X gs) of
                Inl e \<Rightarrow> Some (Inl (''Could not construct gossipsub: '' @ e))
              | Inr g \<Rightarrow> (case ba_with_peer_score X params lighthouse_gossip_thresholds g of
                    Inl _ \<Rightarrow> None
                  | Inr g \<Rightarrow> Some (Inr g)))))"

definition network_build :: "('cfg, 'g, 'c, 'd) build_api \<Rightarrow> ('h, 'c, 'd, 'q, 'g, 'o) net_env \<Rightarrow>
     'cfg network_config \<Rightarrow> enr_fork_id \<Rightarrow> instant \<Rightarrow>
     (string + ('a, 'b, 'h, 'c, 'd, 'q, 'g) network \<times> multiaddr list \<times> gossip_kind list) option" where
  "network_build X E cfg fork0 now = (case build_or_load_enr X (disc_of E) cfg fork0 of
       Inl e \<Rightarrow> Some (Inl e)
     | Inr local \<Rightarrow>
         (let g = network_globals_new (id_of_enr (disc_of E)) now local (cfg_libp2p_port cfg) (cfg_discovery_port cfg)
                (load_or_build_metadata (ba_metadata X) (ba_metadata_file X)) (cfg_trusted_peers cfg)
          in case ba_fork_id_of X local of
               None \<Rightarrow> None
             | Some fork \<Rightarrow> (case gossipsub_new X (hex_of E) cfg fork of
                   None \<Rightarrow> None
                 | Some (Inl e) \<Rightarrow> Some (Inl e)
                 | Some (Inr gossip) \<Rightarrow> (case rpc_new now of
                       Inl _ \<Rightarrow> None
                     | Inr rpc \<Rightarrow> (case discovery_new X (disc_of E) cfg local of
                           Inl e \<Rightarrow> Some (Inl e)
                         | Inr disc \<Rightarrow> (case ba_transport X of
                               Inl e \<Rightarrow> Some (Inl (''Failed to build transport: '' @ e))
                             | Inr _ \<Rightarrow> network_start E (ba_listens X) cfg
                                 (network_new E
                                    (network_pm_config (cfg_disable_discovery cfg) (cfg_metrics cfg) (cfg_target_peers cfg))
                                    g fork (seconds_per_slot (ba_spec X)) (slots_per_epoch (ba_spec X))
                                    disc rpc gossip)))))))"

end
