(* ===== verification/Network_Props.thy ===== *)
theory Network_Props
  imports Network_Events Peer_Manager_Life Discovery_Props
begin

text \<open>
  The network service keeps the invariants of its parts together: the exact counters of the peer database, the
  bounds of discovery and the agreement of the message cache with its queue, whatever the application asks
  for and the swarm reports.
\<close>

section \<open>Steps that keep the invariants of all parts\<close>

definition net_safe :: "('h, 'c, 'd, 'q, 'g, 'o) net_env \<Rightarrow> ('a, 'b, 'h, 'c, 'd, 'q, 'g) network \<Rightarrow>
     ('a, 'b, 'h, 'c, 'd, 'q, 'g) network \<Rightarrow> bool" where
  "net_safe E n n' \<longleftrightarrow> (db_ok (net_db n) \<longrightarrow> db_steps (net_db n) (net_db n'))
     \<and> (disc_ok (n_disc n) \<longrightarrow> disc_ok (n_disc n'))
     \<and> (cache_ok (queue_of E) (n_cache n) \<longrightarrow> cache_ok (queue_of E) (n_cache n'))"

lemma net_safe_refl [simp]: "net_safe E n n"
  by (simp add: net_safe_def)

lemma net_safe_trans: "net_safe E n n' \<Longrightarrow> net_safe E n' n'' \<Longrightarrow> net_safe E n n''"
  unfolding net_safe_def using db_steps_ok rtranclp_trans by meson

lemma net_safe_fold: "(\<And>x n. net_safe E n (f x n)) \<Longrightarrow> net_safe E n (fold f xs n)"
  by (induction xs arbitrary: n) (auto intro: net_safe_trans)

lemma net_safe_frame:
  "net_db n' = net_db n \<Longrightarrow> n_disc n' = n_disc n \<Longrightarrow> n_cache n' = n_cache n \<Longrightarrow> net_safe E n n'"
  by (simp add: net_safe_def)

lemma net_db_simps [simp]:
  "net_db (n\<lparr>n_disc := d\<rparr>) = net_db n" "net_db (n\<lparr>n_rpc := r\<rparr>) = net_db n"
  "net_db (n\<lparr>n_cache := c\<rparr>) = net_db n" "net_db (n\<lparr>n_gossip := g\<rparr>) = net_db n"
  "net_db (n\<lparr>n_fork_id := fi\<rparr>) = net_db n" "net_db (n\<lparr>n_swarm := s\<rparr>) = net_db n"
  "net_db (n\<lparr>n_metadata_on_disk := m\<rparr>) = net_db n" "net_db (n\<lparr>n_pm := pm\<rparr>) = pm_db pm"
  "net_db (on_pm f n) = pm_db (f (n_pm n))" "net_db (on_disc h n) = net_db n" "net_db (on_rpc k n) = net_db n"
  by (simp_all add: net_db_def on_pm_def on_disc_def on_rpc_def)

lemma part_simps [simp]:
  "n_disc (on_pm f n) = n_disc n" "n_cache (on_pm f n) = n_cache n" "n_pm (on_pm f n) = f (n_pm n)"
  "n_disc (on_rpc k n) = n_disc n" "n_cache (on_rpc k n) = n_cache n" "n_pm (on_rpc k n) = n_pm n"
  "n_disc (on_disc h n) = h (n_disc n)" "n_cache (on_disc h n) = n_cache n" "n_pm (on_disc h n) = n_pm n"
  "n_disc (on_db u n) = n_disc n" "n_cache (on_db u n) = n_cache n" "net_db (on_db u n) = u (net_db n)"
  "n_disc (on_globals v n) = n_disc n" "n_cache (on_globals v n) = n_cache n"
  by (simp_all add: on_pm_def on_rpc_def on_disc_def on_db_def on_globals_def net_db_def pm_db_def set_db_def)

lemma net_safe_pm:
  assumes "shuffle_laws (pm_of E)" and "pm_step (pm_of E) (n_pm n) (f (n_pm n))"
  shows "net_safe E n (on_pm f n)"
  using pm_step_db [OF assms(2,1)] by (simp add: net_safe_def net_db_def)

lemma pm_ops_safe:
  assumes "shuffle_laws (pm_of E)"
  shows "net_safe E n (on_pm (report_peer (pm_of E) now p a r) n)"
    and "net_safe E n (on_pm (goodbye_peer (pm_of E) now p reason) n)"
    and "net_safe E n (on_pm (handle_rpc_error (pm_of E) now p pr err dir) n)"
    and "net_safe E n (on_pm (ping_request (pm_of E) now p sn) n)"
    and "net_safe E n (on_pm (pong_response p sn) n)"
    and "net_safe E n (on_pm (meta_data_response p md) n)"
    and "net_safe E n (on_pm (identify p ident listen) n)"
    and "net_safe E n (on_pm (peer_statusd (pm_of E) now p) n)"
    and "net_safe E n (on_pm (add_sync_subnet i t) n)"
    and "net_safe E n (on_pm (pm_update_gossipsub_scores (pm_of E) now f) n)"
    and "net_safe E n (on_pm (dial_peer p e) n)"
    and "net_safe E n (on_pm (dial_trusted_peer p e) n)"
    and "net_safe E n (on_pm (remove_trusted p) n)"
  by (rule net_safe_pm, rule assms, rule pm_step.intros)+

lemma net_safe_db: "(\<And>db. db_step db (f db)) \<Longrightarrow> net_safe E n (on_db f n)"
  by (simp add: net_safe_def r_into_rtranclp)

lemma net_safe_globals: "(\<And>g. g_peers (f g) = g_peers g) \<Longrightarrow> net_safe E n (on_globals f n)"
  by (rule net_safe_frame) (simp_all add: on_globals_def on_pm_def net_db_def pm_db_def)

lemma net_safe_disc: "(disc_ok (n_disc n) \<Longrightarrow> disc_ok (f (n_disc n))) \<Longrightarrow> net_safe E n (on_disc f n)"
  by (simp add: net_safe_def)

lemma net_safe_rpc: "net_safe E n (on_rpc f n)"
  by (rule net_safe_frame) simp_all

lemma net_safe_gossip: "net_safe E n (n\<lparr>n_gossip := g\<rparr>)"
  by (rule net_safe_frame) simp_all

section \<open>Operations of the application\<close>

lemma net_safe_subscribe: "net_safe E n (fst (net_subscribe E t n))"
proof -
  let ?n = "on_globals (\<lambda>g. g\<lparr>gossipsub_subscriptions := List.insert t (gossipsub_subscriptions g)\<rparr>) n"
  have "net_safe E n ?n" by (rule net_safe_globals) simp
  moreover have "net_safe E ?n (fst (net_subscribe E t n))"
    by (auto simp: net_subscribe_def Let_def intro: net_safe_gossip split: prod.split sum.split)
  ultimately show ?thesis by (rule net_safe_trans)
qed

lemma net_safe_unsubscribe: "net_safe E n (fst (net_unsubscribe E t n))"
proof -
  let ?n = "on_globals (\<lambda>g. g\<lparr>gossipsub_subscriptions := removeAll t (gossipsub_subscriptions g)\<rparr>) n"
  have "net_safe E n ?n" by (rule net_safe_globals) simp
  moreover have "net_safe E ?n (fst (net_unsubscribe E t n))"
    by (auto simp: net_unsubscribe_def Let_def intro: net_safe_gossip split: prod.split sum.split)
  ultimately show ?thesis by (rule net_safe_trans)
qed

lemma net_safe_publish_on: "dq_laws (queue_of E) \<Longrightarrow> net_safe E n (publish_on E now m t n)"
  by (auto simp: publish_on_def Let_def net_safe_def intro: cache_ok_insert split: prod.split sum.split)

lemma net_safe_publish: "dq_laws (queue_of E) \<Longrightarrow> net_safe E n (net_publish E now ms n)"
  by (auto simp: net_publish_def intro!: net_safe_fold net_safe_publish_on)

lemma net_safe_publish_again: "dq_laws (queue_of E) \<Longrightarrow> net_safe E n (publish_again E t n)"
  using cache_ok_retrieve [of "queue_of E" "n_cache n" t]
  by (auto simp: publish_again_def net_safe_def split: prod.split option.split)

lemma disc_ok_records [simp]:
  "disc_ok (disc_add_enr A e d) = disc_ok d"
  "disc_ok (update_eth2_enr A bs d) = disc_ok d"
  "disc_ok (fst (remove_cached_enr A p d)) = disc_ok d"
  "disc_ok (fst (enr_of_peer A p d)) = disc_ok d"
  by (rule disc_ok_frame; simp add: disc_add_enr_def put_enr_def update_eth2_enr_def publish_enr_def
      remove_cached_enr_def enr_of_peer_def Let_def split: prod.split sum.split option.split)+

lemma net_safe_metadata: "update_metadata_bitfields E n = Some n' \<Longrightarrow> net_safe E n n'"
  by (auto simp: update_metadata_bitfields_def Let_def net_db_def pm_db_def on_globals_def on_pm_def
      intro!: net_safe_frame split: sum.splits)

lemma net_safe_enr_subnet: "update_enr_subnet E s v n = Some n' \<Longrightarrow> net_safe E n n'"
  unfolding update_enr_subnet_def
  by (rule net_safe_trans [OF net_safe_disc net_safe_metadata]) simp_all

lemma net_safe_fork_version: "net_safe E n (update_fork_version E f n)"
  by (simp add: update_fork_version_def net_safe_def)

lemma net_safe_dial_with_enr:
  assumes "shuffle_laws (pm_of E)"
  shows "net_safe E n (dial_with_enr E p n)"
proof -
  obtain d e where d: "enr_of_peer (disc_of E) p (n_disc n) = (d, e)" by force
  then have "disc_ok (n_disc n) = disc_ok d" using disc_ok_records(4) by (metis fst_conv)
  then have "net_safe E n (n\<lparr>n_disc := d\<rparr>)" by (simp add: net_safe_def)
  then show ?thesis
    unfolding dial_with_enr_def d prod.case Let_def
    by (rule net_safe_trans) (rule pm_ops_safe [OF assms])
qed

lemma net_safe_dial_cached:
  assumes "shuffle_laws (pm_of E)"
  shows "net_safe E n (dial_cached_enrs_in_subnet E s n)"
  unfolding dial_cached_enrs_in_subnet_def Let_def
  by (rule net_safe_fold, rule net_safe_trans [OF net_safe_disc net_safe_dial_with_enr [OF assms]]) simp

lemma net_safe_want_subnet:
  assumes "shuffle_laws (pm_of E)"
  shows "net_safe E n (fst (want_subnet E s n))"
proof -
  let ?n = "case sd_min_ttl s of
            None \<Rightarrow> n
          | Some t \<Rightarrow> (let n = on_db (extend_peers_on_subnet (pm_ssz (pm_of E)) (sd_subnet s) t) n
              in case sd_subnet s of SyncCommittee i \<Rightarrow> on_pm (add_sync_subnet i t) n | Attestation _ \<Rightarrow> n)"
  have "net_safe E n ?n"
  proof (cases "sd_min_ttl s")
    case (Some t)
    have e: "net_safe E n (on_db (extend_peers_on_subnet (pm_ssz (pm_of E)) (sd_subnet s) t) n)"
      by (rule net_safe_db) (rule db_step.extend)
    then show ?thesis
      using Some net_safe_trans [OF e pm_ops_safe(9) [OF assms]]
      by (cases "sd_subnet s") (simp_all add: Let_def)
  qed simp
  moreover have "net_safe E ?n (fst (want_subnet E s n))"
    using net_safe_dial_cached [OF assms, of ?n "sd_subnet s"]
    unfolding want_subnet_def Let_def by (simp del: net_db_simps part_simps)
  ultimately show ?thesis by (rule net_safe_trans)
qed

lemma net_safe_want_subnets:
  assumes "shuffle_laws (pm_of E)"
  shows "net_safe E n (fst (want_subnets E ss n))"
proof (induction ss arbitrary: n)
  case (Cons s ss)
  obtain n1 k where n1: "want_subnet E s n = (n1, k)" by force
  then have "net_safe E n n1" using net_safe_want_subnet [OF assms, of n s] by simp
  from net_safe_trans [OF this Cons.IH] show ?case by (simp add: n1 split_beta)
qed simp

lemma net_safe_discover_subnet_peers:
  assumes "shuffle_laws (pm_of E)"
  shows "net_safe E n (net_discover_subnet_peers E ss n)"
proof -
  obtain n1 kept where n1: "want_subnets E ss n = (n1, kept)" by force
  then have s: "net_safe E n n1" using net_safe_want_subnets [OF assms, of n ss] by simp
  have "net_safe E n1 (on_disc (discover_subnet_peers kept) n1)"
    by (rule net_safe_disc) (rule disc_ok_discover_subnet_peers)
  from net_safe_trans [OF s this] s show ?thesis by (simp add: net_discover_subnet_peers_def n1)
qed

section \<open>Events\<close>

lemma net_safe_gs_event:
  assumes "shuffle_laws (pm_of E)" and "dq_laws (queue_of E)"
  shows "net_safe E n (fst (inject_gs_event E now ev n))"
proof (cases ev)
  case (GsMessage source i topic data)
  then show ?thesis
    by (auto simp: inject_gs_event_def report_message_validation_result_def intro: net_safe_gossip split: sum.split)
next
  case (GsSubscribed p topic)
  have "net_safe E n (case topic_subnet_id t of None \<Rightarrow> n | Some s \<Rightarrow> on_db (add_subscription p s) n)" for t
    by (cases "topic_subnet_id t") (auto intro: net_safe_db db_step.subscribe)
  from net_safe_trans [OF this net_safe_publish_again [OF assms(2)]] GsSubscribed show ?thesis
    by (simp add: inject_gs_event_def split: sum.split)
next
  case (GsUnsubscribed p topic)
  then show ?thesis
    by (auto simp: inject_gs_event_def intro: net_safe_db db_step.unsubscribe split: option.split)
next
  case (GsNotSupported p)
  then show ?thesis
    by (simp add: inject_gs_event_def pm_ops_safe [OF assms(1)])
qed

lemma net_safe_request:
  assumes "shuffle_laws (pm_of E)"
  shows "net_safe E n (fst (inject_request E now p i req n))"
proof (cases req)
  case (ReqPing ping)
  show ?thesis
    using net_safe_trans [OF pm_ops_safe(4) [OF assms] net_safe_rpc] ReqPing
    by (simp add: inject_request_def net_pong_def)
qed (simp_all add: inject_request_def send_meta_data_response_def net_safe_rpc pm_ops_safe [OF assms])

lemma net_safe_response:
  assumes "shuffle_laws (pm_of E)"
  shows "net_safe E n (fst (inject_response E now p i resp n))"
  by (cases resp) (simp_all add: inject_response_def pm_ops_safe [OF assms])

lemma net_safe_rpc_event:
  assumes "shuffle_laws (pm_of E)"
  shows "net_safe E n (fst (inject_rpc_event E now p conn ev n))"
  by (auto simp: inject_rpc_event_def pm_ops_safe [OF assms] net_safe_request [OF assms]
      net_safe_response [OF assms] split: sum.split handler_err.split rpc_received.split)

lemma net_safe_discovery_event:
  fixes n :: "('a, 'b, 'h, 'c, 'd, 'q, 'g) network"
  assumes "shuffle_laws (pm_of E)"
  shows "net_safe E n (inject_discovery_event E now results n)"
proof -
  obtain pm to_dial where pm: "peers_discovered now results (n_pm n) = (pm, to_dial)" by force
  have "net_safe E n (on_pm (\<lambda>_. fst (peers_discovered now results (n_pm n))) n)"
    by (rule net_safe_pm [OF assms]) (rule pm_step.Discovered)
  then have "net_safe E n (n\<lparr>n_pm := pm\<rparr>)" by (simp add: on_pm_def pm)
  moreover have "net_safe E m (fold (dial_with_enr E) to_dial m)"
    for m :: "('a, 'b, 'h, 'c, 'd, 'q, 'g) network"
    by (rule net_safe_fold) (rule net_safe_dial_with_enr [OF assms])
  ultimately show ?thesis unfolding inject_discovery_event_def pm Let_def prod.case by (rule net_safe_trans)
qed

lemma net_safe_identify_event:
  assumes "shuffle_laws (pm_of E)"
  shows "net_safe E n (inject_identify_event ev n)"
  by (cases ev) (simp_all add: inject_identify_event_def pm_ops_safe [OF assms])

lemma net_safe_pm_event:
  assumes "shuffle_laws (pm_of E)" and "has_fork (disc_of E) (n_disc n)"
  shows "net_safe E n (fst (inject_pm_event E ev n))"
proof (cases ev)
  case (PeerBanned p ips)
  then show ?thesis by (simp add: inject_pm_event_def net_safe_def)
next
  case (PeerUnBanned p ips)
  then show ?thesis by (simp add: inject_pm_event_def net_safe_def)
next
  case (DiscoverPeers k)
  then show ?thesis
    using disc_ok_discover_peers [OF assms(2)] by (simp add: inject_pm_event_def net_safe_def)
qed (simp_all add: inject_pm_event_def net_safe_discover_subnet_peers [OF assms(1)] net_ping_def
      send_meta_data_request_def net_safe_rpc)

lemma net_safe_swarm_event:
  assumes "shuffle_laws (pm_of E)" and "dq_laws (queue_of E)" and "has_fork (disc_of E) (n_disc n)"
  shows "net_safe E n (fst (handle_swarm_event E now ev n))"
  by (cases ev) (simp_all add: handle_swarm_event_def net_safe_gs_event [OF assms(1,2)]
      net_safe_rpc_event [OF assms(1)] net_safe_discovery_event [OF assms(1)]
      net_safe_identify_event [OF assms(1)] net_safe_pm_event [OF assms(1,3)])

section \<open>Polling\<close>

text \<open>The discv5 service only runs with a local record that has a fork id, and none of its operations removes
  it.\<close>

definition fork_kept :: "('c, 'd) disc_api \<Rightarrow> bool" where
  "fork_kept A \<longleftrightarrow> (\<forall>dv. enr_fork_digest A (dv_local_enr A dv) \<noteq> None)"

lemma has_fork_kept: "fork_kept A \<Longrightarrow> has_fork A d"
  by (simp add: fork_kept_def has_fork_def)

definition net_laws :: "('h, 'c, 'd, 'q, 'g, 'o) net_env \<Rightarrow> bool" where
  "net_laws E \<longleftrightarrow> shuffle_laws (pm_of E) \<and> dq_laws (queue_of E) \<and> fork_kept (disc_of E)"

lemma net_safe_poll_swarm:
  assumes "net_laws E"
  shows "poll_swarm E now evs n = (n', rest, r) \<Longrightarrow> net_safe E n n'"
proof (induction evs arbitrary: n)
  case (Cons ev evs)
  obtain m x where m: "handle_swarm_event E now ev n = (m, x)" by force
  then have "net_safe E n m"
    using net_safe_swarm_event [of E n now ev] has_fork_kept assms by (auto simp: net_laws_def)
  then show ?case
    using Cons m net_safe_trans [of E n m n'] by (cases x) auto
qed simp

text \<open>The timer of the queue does not fail.\<close>

definition timer_works :: "('q, 'x) delay_queue \<Rightarrow> bool" where
  "timer_works Q \<longleftrightarrow> (\<forall>now q q' e. dq_poll Q now q \<noteq> (q', TimerError e))"

lemma drain_cache_ok:
  assumes "drain_cache Q now c = Some c'" and "dq_laws Q" and "cache_ok Q c"
  shows "cache_ok Q c'"
proof -
  have "dq_laws Q \<longrightarrow> cache_ok Q c \<longrightarrow> cache_ok Q c'"
  proof (rule drain_cache.raw_induct [OF _ assms(1)], intro impI)
    fix drain and Q :: "('q, cache_item) delay_queue" and now c c'
    assume IH: "\<And>Q now c c'. drain Q now c = Some c' \<Longrightarrow> dq_laws Q \<longrightarrow> cache_ok Q c \<longrightarrow> cache_ok Q c'"
      and body: "(case cache_poll_next Q now c of
            (c, CacheExpired _) \<Rightarrow> drain Q now c | (c, CacheError _) \<Rightarrow> drain Q now c
          | (c, CacheDone) \<Rightarrow> Some c | (c, CachePending) \<Rightarrow> Some c | (c, CachePanic) \<Rightarrow> None) = Some c'"
      and Q: "dq_laws Q" and ok: "cache_ok Q c"
    obtain c1 r where p: "cache_poll_next Q now c = (c1, r)" by force
    have "cache_ok Q c1" using cache_ok_poll [OF Q ok, of now] p by simp
    then show "cache_ok Q c'" using IH body Q p by (cases r) auto
  qed
  then show ?thesis using assms(2,3) by blast
qed

lemma drain_cache_returns:
  assumes Q: "dq_laws Q" and T: "timer_works Q"
  shows "cache_ok Q c \<Longrightarrow> \<exists>c'. drain_cache Q now c = Some c'"
proof (induction "card (dom (dq_at Q (expirations c)))" arbitrary: c rule: less_induct)
  case less
  obtain q r where p: "dq_poll Q now (expirations c) = (q, r)" by force
  show ?case
  proof (cases r)
    case (Expired k x)
    obtain t d where x: "x = (t, d)" by force
    note e = cache_poll_expired [OF Q less.prems p [unfolded Expired x]]
    obtain c1 where c1: "cache_poll_next Q now c = (c1, CacheExpired t)" "cache_ok Q c1"
      using e by (cases "cache_poll_next Q now c") auto
    have at: "dq_at Q (expirations c1) = (dq_at Q (expirations c))(k := None)"
      using dq_lawsD(5) [OF Q p [unfolded Expired]] p Expired x c1(1)
      by (auto simp: cache_poll_next_def Let_def split: option.splits if_splits)
    have "k \<in> dom (dq_at Q (expirations c))" using dq_lawsD(4) [OF Q p [unfolded Expired]] by blast
    then have "card (dom (dq_at Q (expirations c1))) < card (dom (dq_at Q (expirations c)))"
      using Q unfolding at dq_laws_def by (simp add: card_Diff1_less del: card_Diff_insert)
    from less.hyps [OF this c1(2)] show ?thesis by (simp add: drain_cache.simps [of Q now c] c1(1))
  qed (use p T in \<open>auto simp: drain_cache.simps [of Q now c] cache_poll_next_def timer_works_def\<close>)
qed

lemma net_safe_gossip_scores:
  assumes "net_laws E"
  shows "net_safe E n (((\<lambda>n. on_pm (pm_update_gossipsub_scores (pm_of E) now (f (n_gossip n))) n) ^^ k) n)"
  using assms by (induction k) (auto simp: net_laws_def intro: net_safe_trans pm_ops_safe)

lemma net_safe_poll:
  assumes E: "net_laws E" and poll: "poll_network E now evs ticks n = Some (n', rest, r)"
  shows "net_safe E n n'"
proof -
  obtain n1 rest1 r1 where n1: "poll_swarm E now evs n = (n1, rest1, r1)" by (metis prod_cases3)
  note s = net_safe_poll_swarm [OF E n1]
  show ?thesis
  proof (cases r1)
    case None
    define n2 where "n2 = ((\<lambda>n. on_pm (pm_update_gossipsub_scores (pm_of E) now
        (gs_peer_score (gossip_of E) (n_gossip n))) n) ^^ ticks) n1"
    obtain c where c: "drain_cache (queue_of E) now (n_cache n2) = Some c" "n' = n2\<lparr>n_cache := c\<rparr>"
      using poll n1 None by (auto simp: poll_network_def n2_def [symmetric] Let_def)
    have "net_safe E n1 n2" unfolding n2_def by (rule net_safe_gossip_scores [OF E])
    moreover have "net_safe E n2 n'"
      using drain_cache_ok [OF c(1)] E by (simp add: c(2) net_safe_def net_laws_def)
    ultimately show ?thesis using s net_safe_trans by metis
  qed (use poll n1 s in \<open>auto simp: poll_network_def\<close>)
qed

lemma poll_returns:
  assumes E: "net_laws E" and T: "timer_works (queue_of E)" and c: "cache_ok (queue_of E) (n_cache n)"
  shows "poll_network E now evs ticks n \<noteq> None"
proof -
  obtain n1 rest1 r1 where n1: "poll_swarm E now evs n = (n1, rest1, r1)" by (metis prod_cases3)
  define n2 where "n2 = ((\<lambda>n. on_pm (pm_update_gossipsub_scores (pm_of E) now
        (gs_peer_score (gossip_of E) (n_gossip n))) n) ^^ ticks) n1"
  have "net_safe E n n2"
    unfolding n2_def using net_safe_poll_swarm [OF E n1] net_safe_gossip_scores [OF E] by (rule net_safe_trans)
  then have "cache_ok (queue_of E) (n_cache n2)" using c by (simp add: net_safe_def)
  then obtain c' where "drain_cache (queue_of E) now (n_cache n2) = Some c'"
    using drain_cache_returns E T unfolding net_laws_def by metis
  then show ?thesis
    by (cases r1) (simp_all add: poll_network_def n1 n2_def [symmetric] Let_def)
qed

section \<open>Runs of the network\<close>

text \<open>What the application may ask for.\<close>

inductive app_step :: "('h, 'c, 'd, 'q, 'g, 'o) net_env \<Rightarrow> ('a, 'b, 'h, 'c, 'd, 'q, 'g) network \<Rightarrow>
     ('a, 'b, 'h, 'c, 'd, 'q, 'g) network \<Rightarrow> bool" for E :: "('h, 'c, 'd, 'q, 'g, 'o) net_env" where
  "app_step E n (fst (net_subscribe E t n))"
| "app_step E n (fst (net_unsubscribe E t n))"
| "app_step E n (subscribe_new_fork_topics E digest n)"
| "app_step E n (unsubscribe_from_fork_topics_except E digest n)"
| "app_step E n (net_publish E now ms n)"
| "app_step E n (report_message_validation_result E p i result n)"
| "app_step E n (net_send_request p rid req n)"
| "app_step E n (net_send_response p ids resp n)"
| "app_step E n (send_error_response p ids code reason n)"
| "app_step E n (net_report_peer E now p a n)"
| "app_step E n (net_goodbye_peer E now p g n)"
| "app_step E n (net_add_enr E e n)"
| "update_enr_subnet E sn v n = Some n' \<Longrightarrow> app_step E n n'"
| "app_step E n (net_discover_subnet_peers E ss n)"
| "app_step E n (update_fork_version E f n)"
| "app_step E n (on_pm (dial_trusted_peer p oe) n)"
| "app_step E n (on_pm (remove_trusted p) n)"

lemma app_step_safe:
  assumes "app_step E n n'" and "net_laws E"
  shows "net_safe E n n'"
  using assms
  by (induction rule: app_step.induct)
     (auto simp: net_laws_def subscribe_new_fork_topics_def unsubscribe_from_fork_topics_except_def
       report_message_validation_result_def net_send_request_def net_send_response_def send_error_response_def
       net_report_peer_def net_goodbye_peer_def net_add_enr_def
       intro: net_safe_subscribe net_safe_unsubscribe net_safe_fold net_safe_publish net_safe_gossip net_safe_rpc
         pm_ops_safe net_safe_disc net_safe_enr_subnet net_safe_discover_subnet_peers net_safe_fork_version)

text \<open>What the swarm makes the parts do by themselves, between two polls of the network.\<close>

inductive parts_step :: "('h, 'c, 'd, 'q, 'g, 'o) net_env \<Rightarrow> ('a, 'b, 'h, 'c, 'd, 'q, 'g) network \<Rightarrow>
     ('a, 'b, 'h, 'c, 'd, 'q, 'g) network \<Rightarrow> bool" for E :: "('h, 'c, 'd, 'q, 'g, 'o) net_env" where
  Manager: "pm_step (pm_of E) (n_pm n) pm \<Longrightarrow> parts_step E n (n\<lparr>n_pm := pm\<rparr>)"
| Searching: "parts_step E n (on_disc (\<lambda>d. fst (disc_poll (disc_of E) now (net_db n) tcp ready stream devs d)) n)"
| DialFailed: "parts_step E n (on_disc (disc_inject_dial_failure (disc_of E) op err) n)"
| Rpc: "parts_step E n (on_rpc f n)"
| Gossip: "parts_step E n (n\<lparr>n_gossip := g\<rparr>)"

text \<open>A run starts with the service just built and interleaves requests of the application, polls, and the work of
  the parts.\<close>

inductive net_run :: "('h, 'c, 'd, 'q, 'g, 'o) net_env \<Rightarrow> ('a, 'b, 'h, 'c, 'd, 'q, 'g) network \<Rightarrow> bool"
  for E :: "('h, 'c, 'd, 'q, 'g, 'o) net_env" where
  Start: "active_queries disc = [] \<Longrightarrow> queued_queries disc = [] \<Longrightarrow> \<not> find_peer_active disc \<Longrightarrow>
    net_run E (network_new E cfg (network_globals_new id_of now e tcp udp md trusted) fork sps spe disc rpc g)"
| App: "net_run E n \<Longrightarrow> app_step E n n' \<Longrightarrow> net_run E n'"
| Poll: "net_run E n \<Longrightarrow> poll_network E now evs ticks n = Some (n', rest, r) \<Longrightarrow> net_run E n'"
| Parts: "net_run E n \<Longrightarrow> parts_step E n n' \<Longrightarrow> net_run E n'"

lemma parts_step_safe:
  assumes "parts_step E n n'" and E: "net_laws E"
  shows "net_safe E n n'"
  using assms(1)
proof (induction rule: parts_step.induct)
  case (Manager n pm)
  then have "net_safe E n (on_pm (\<lambda>_. pm) n)"
    using E by (intro net_safe_pm) (simp_all add: net_laws_def)
  then show ?case by (simp add: on_pm_def)
next
  case (Searching n now tcp ready stream devs)
  show ?case by (rule net_safe_disc) (simp add: disc_ok_poll)
next
  case (DialFailed n op err)
  show ?case by (rule net_safe_disc) (simp add: disc_inject_dial_failure_def split: option.split)
qed (rule net_safe_rpc net_safe_gossip)+

lemma net_run_invariant:
  fixes n :: "('a, 'b, 'h, 'c, 'd, 'q, 'g) network"
  assumes "net_run E n" and E: "net_laws E"
  shows "db_reachable (net_db n) \<and> disc_ok (n_disc n) \<and> cache_ok (queue_of E) (n_cache n)"
proof -
  have step: "db_reachable (net_db n') \<and> disc_ok (n_disc n') \<and> cache_ok (queue_of E) (n_cache n')"
    if "net_safe E n n'" "db_reachable (net_db n) \<and> disc_ok (n_disc n) \<and> cache_ok (queue_of E) (n_cache n)"
    for n n' :: "('a, 'b, 'h, 'c, 'd, 'q, 'g) network"
    using that db_reachable_steps db_reachable_ok unfolding net_safe_def by blast
  show ?thesis using assms(1)
  proof (induction rule: net_run.induct)
    case (Start disc cfg id_of now e tcp udp md trusted fork sps spe rpc g)
    have "disc_ok disc" using Start by (simp add: disc_ok_def)
    then have "disc_ok (discover_peers (disc_of E) k disc)" for k
      using E disc_ok_discover_peers has_fork_kept unfolding net_laws_def by blast
    then show ?case
      using E cache_ok_build
      by (auto simp: net_laws_def network_new_def net_db_def pm_db_def peer_manager_new_def
          network_globals_new_def db_reachable.start)
  next
    case (App n n')
    then show ?case using step app_step_safe [OF _ E] by blast
  next
    case (Poll n now evs ticks n' rest r)
    then show ?case using step net_safe_poll [OF E] by blast
  next
    case (Parts n n')
    then show ?case using step parts_step_safe [OF _ E] by blast
  qed
qed

section \<open>Properties\<close>

text \<open>C30. Whatever the application asks for, the peers send and the swarm reports, in any order: the database of
  peers is one it reaches by its own operations, so that its counters are exact; discovery runs at most
  three queries and queues a subnet once, with at most three retries; a message is in the table of the
  cache exactly when the queue holds it, under the same key; and the next poll returns, if the timer of
  the queue does not fail.\<close>
theorem network_run_safe:
  assumes "net_run E n" and "net_laws E"
  shows "db_reachable (net_db n)
    \<and> length (active_queries (n_disc n)) \<le> 3
    \<and> distinct (map sq_subnet (queued_queries (n_disc n)))
    \<and> (\<forall>q \<in> set (queued_queries (n_disc n)). sq_retries q \<le> 3)
    \<and> (\<forall>x k. cached_key (n_cache n) x = Some k
          \<longleftrightarrow> (\<exists>u. dq_at (queue_of E) (expirations (n_cache n)) k = Some (x, u)))
    \<and> (timer_works (queue_of E) \<longrightarrow> poll_network E now evs ticks n \<noteq> None)"
proof -
  from net_run_invariant [OF assms] have ok: "db_reachable (net_db n)" "disc_ok (n_disc n)"
    "cache_ok (queue_of E) (n_cache n)" by simp_all
  have "timer_works (queue_of E) \<longrightarrow> poll_network E now evs ticks n \<noteq> None"
    using poll_returns [OF assms(2) _ ok(3)] by blast
  then show ?thesis
    using ok(1,2) disc_ok_length [OF ok(2)] cache_okD [OF ok(3)]
    by (simp add: disc_ok_def MAX_CONCURRENT_SUBNET_QUERIES_def MAX_DISCOVERY_RETRY_def)
qed

subsection \<open>Topics across a fork\<close>

lemma subscriptions_subscribe:
  "set (gossipsub_subscriptions (net_globals (fst (net_subscribe E t n))))
     = insert t (set (gossipsub_subscriptions (net_globals n)))"
  by (simp add: net_subscribe_def Let_def net_globals_def on_globals_def on_pm_def split: prod.split sum.split)

lemma subscriptions_unsubscribe:
  "set (gossipsub_subscriptions (net_globals (fst (net_unsubscribe E t n))))
     = set (gossipsub_subscriptions (net_globals n)) - {t}"
  by (simp add: net_unsubscribe_def Let_def net_globals_def on_globals_def on_pm_def split: prod.split sum.split)

lemma subscriptions_fold:
  "set (gossipsub_subscriptions (net_globals (fold (\<lambda>t n. fst (net_subscribe E (f t) n)) ts n)))
     = f ` set ts \<union> set (gossipsub_subscriptions (net_globals n))"
  "set (gossipsub_subscriptions (net_globals (fold (\<lambda>t n. fst (net_unsubscribe E t n)) ts n)))
     = set (gossipsub_subscriptions (net_globals n)) - set ts"
  by (induction ts arbitrary: n) (auto simp: subscriptions_subscribe subscriptions_unsubscribe)


subsection \<open>Peers that break the protocol\<close>

lemma report_without_reason: "report_peer E now p a None pm = report_peer E now p a (Some GoodbyeBadScore) pm"
proof -
  have "handle_score_action E p r None q = handle_score_action E p r (Some GoodbyeBadScore) q" for r q
  proof (cases r)
    case (Ban op)
    then show ?thesis by (cases op) simp_all
  qed simp_all
  then show ?thesis by (simp add: report_peer_def split: prod.split)
qed

text \<open>The events after which a peer is reported as beyond repair.\<close>

fun fatal_event :: "('a request_id, 'b) handler_event \<Rightarrow> bool" where
  "fatal_event (Inl (InboundErr _ proto err)) = (rpc_error_action proto err Incoming = Some Fatal)"
| "fatal_event (Inl (OutboundErr _ proto err)) = (rpc_error_action proto err Outgoing = Some Fatal)"
| "fatal_event (Inr (ReceivedRequest _ (ReqBlocksByRange r))) = (old_step r = 0)"
| "fatal_event _ = False"

lemma fatal_event_reports:
  assumes "fatal_event ev" and "is_connected (net_db n) p"
  shows "fst (inject_rpc_event E now p conn ev n)
     = on_pm (goodbye_peer (pm_of E) now p GoodbyeBadScore) n"
  using assms
  by (cases ev rule: fatal_event.cases)
     (auto simp: inject_rpc_event_def inject_request_def pm_is_connected_def net_db_def handle_rpc_error_def
       report_without_reason goodbye_peer_def on_pm_def)


text \<open>C31. A connected peer that is not exempt and sends a request for a range with step zero, or causes an error
  that is beyond repair, is asked to leave with a bad score, by one goodbye on its connection; from then on it
  is disconnecting, and whatever it still sends is ignored.\<close>
theorem fatal_event_ends_conversation:
  assumes ev: "fatal_event ev" and ok: "db_ok (net_db n)"
    and i: "hm_get (peers (net_db n)) p = Some i" "info_is_connected i" "\<not> info_exempt i" "\<not> score_is_banned i"
    and n1_def: "n1 = fst (inject_rpc_event E now p conn ev n)"
  shows "pm_events (n_pm n1) = pm_events (n_pm n) @ [DisconnectPeer p GoodbyeBadScore]
    \<and> rpc_events (n_rpc (fst (inject_pm_event E (DisconnectPeer p GoodbyeBadScore) n1)))
        = rpc_events (n_rpc n) @ [NotifyHandler p NotifyAny (SendShutdown Internal GoodbyeBadScore)]
    \<and> db_connection_status (net_db n1) p = Some (Disconnecting True)
    \<and> inject_rpc_event E later p conn' ev' n1 = (n1, None)"
proof -
  have "is_connected (net_db n) p"
    using i(1,2) by (simp add: is_connected_def db_connection_status_def info_is_connected_def
        split: peer_connection_status.splits)
  then have n1: "n1 = on_pm (goodbye_peer (pm_of E) now p GoodbyeBadScore) n"
    unfolding n1_def by (rule fatal_event_reports [OF ev])
  have "\<exists>j. pm_events (n_pm n1) = pm_events (n_pm n) @ [DisconnectPeer p GoodbyeBadScore]
      \<and> hm_get (peers (net_db n1)) p = Some j \<and> connection_status j = Disconnecting True \<and> score_is_banned j"
    unfolding n1 using goodbye_connected [of "n_pm n" p i "pm_of E" now GoodbyeBadScore] ok i
    by (simp add: net_db_def)
  then obtain j where j: "pm_events (n_pm n1) = pm_events (n_pm n) @ [DisconnectPeer p GoodbyeBadScore]"
    "hm_get (peers (net_db n1)) p = Some j" "connection_status j = Disconnecting True" by blast
  have st: "db_connection_status (net_db n1) p = Some (Disconnecting True)"
    using j(2,3) by (simp add: db_connection_status_def)
  then have "inject_rpc_event E later p conn' ev' n1 = (n1, None)"
    by (simp add: inject_rpc_event_def pm_is_connected_def is_connected_def net_db_def)
  moreover have "n_rpc n1 = n_rpc n" by (simp add: n1 on_pm_def)
  ultimately show ?thesis
    using j(1) st by (simp add: inject_pm_event_def on_rpc_def rpc_shutdown_def rpc_push_def)
qed

subsection \<open>Messages that could not be published\<close>

lemma cache_insert_holds:
  assumes Q: "dq_laws Q" and ok: "cache_ok Q c" and d: "timeout_of (gt_kind t) (timeouts c) = Some d"
  shows "\<exists>k. dq_at Q (expirations (cache_insert Q now t data c)) k = Some ((t, data), now + d)"
proof (cases "hm_get (msgs_of (topic_msgs c) t) data")
  case None
  obtain q k where ins: "dq_insert Q (t, data) (now + d) (expirations c) = (q, k)" by force
  have "dq_at Q q k = Some ((t, data), now + d)" using dq_lawsD(2) [OF Q ins] by simp
  then show ?thesis using None d ins by (auto simp: cache_insert_def Let_def)
next
  case (Some k)
  then obtain u where "dq_at Q (expirations c) k = Some ((t, data), u)"
    using cache_okD [OF ok, of "(t, data)" k] by (auto simp: cached_key_def)
  then have "dq_at Q (dq_reset Q k (now + d) (expirations c)) k = Some ((t, data), now + d)"
    using dq_lawsD(3) [OF Q] by simp
  then show ?thesis using Some d by (auto simp: cache_insert_def Let_def)
qed

lemma cache_retrieve_all:
  assumes ok: "cache_ok Q c" and k: "cached_key c (t, data) = Some k"
  shows "\<exists>c' msgs. cache_retrieve Q t c = (c', Some msgs) \<and> distinct msgs
    \<and> set msgs = {d. cached_key c (t, d) \<noteq> None} \<and> (\<forall>d. cached_key c' (t, d) = None)"
proof -
  obtain ms where ms: "hm_get (topic_msgs c) t = Some ms"
    using k by (auto simp: cached_key_def msgs_of_def split: option.splits)
  then have "hm_ok ms" using ok by (simp add: cache_ok_def)
  then show ?thesis
    using ok ms by (auto simp: cache_retrieve_def cached_key_def msgs_of_def hm_ok_def cache_ok_def
        hm_get_None_iff image_iff)
qed

text \<open>C32. A message that could not be published for want of peers, of a kind that may be sent late, waits in the
  cache for as long as its kind allows.  As soon as a peer subscribes to its topic while it waits, it is
  handed to gossipsub again, once, with the other messages that wait for the topic, and none of them
  waits any longer.\<close>
theorem unpublished_message_is_retried:
  assumes Q: "dq_laws (queue_of E)" and H: "hex_laws (hex_of E)"
    and ok: "cache_ok (queue_of E) (n_cache n)" "cache_ok (queue_of E) (n_cache later)"
    and t: "length (gt_fork_digest t) = 4" "kind_in_range (gt_kind t)"
    and late: "timeout_of (gt_kind t) (timeouts (n_cache n)) = Some d"
    and fails: "gs_publish (gossip_of E) (gossip_topic_display (hex_of E) t)
          (pubsub_encode (objects_of E) m GossipSSZSnappy) (n_gossip n) = (g, Inl InsufficientPeers)"
    and waits: "dq_at (queue_of E) (expirations (n_cache later)) k = Some ((t, data), u)"
    and after_def: "after = fst (inject_gs_event E later_now (GsSubscribed p (gossip_topic_display (hex_of E) t)) later)"
  shows "(\<exists>k. dq_at (queue_of E) (expirations (n_cache (publish_on E now m t n))) k
            = Some ((t, pubsub_encode (objects_of E) m GossipSSZSnappy), now + d))
    \<and> (\<exists>msgs. data \<in> set msgs \<and> distinct msgs \<and> n_gossip after
             = fold (\<lambda>bs g. fst (gs_publish (gossip_of E) (gossip_topic_display (hex_of E) t) bs g)) msgs (n_gossip later)
         \<and> (\<forall>bs. bs \<in> set msgs \<longleftrightarrow> cached_key (n_cache later) (t, bs) \<noteq> None))
    \<and> (\<forall>bs. cached_key (n_cache after) (t, bs) = None)"
proof -
  let ?later = "case topic_subnet_id t of None \<Rightarrow> later | Some s \<Rightarrow> on_db (add_subscription p s) later"
  have part: "n_cache ?later = n_cache later" "n_gossip ?later = n_gossip later"
    by (simp_all add: on_db_def on_pm_def split: option.split)
  have key: "cached_key (n_cache later) (t, data) = Some k"
    using cache_okD [OF ok(2)] waits by blast
  obtain c msgs where msgs: "cache_retrieve (queue_of E) t (n_cache later) = (c, Some msgs)" "distinct msgs"
    "set msgs = {d. cached_key (n_cache later) (t, d) \<noteq> None}" "\<forall>d. cached_key c (t, d) = None"
    using cache_retrieve_all [OF ok(2) key] by blast
  have after: "after = publish_again E t ?later"
    by (simp add: after_def inject_gs_event_def topic_decode_display [OF H t])
  then have "n_cache after = c" "n_gossip after
      = fold (\<lambda>bs g. fst (gs_publish (gossip_of E) (gossip_topic_display (hex_of E) t) bs g)) msgs (n_gossip later)"
    using msgs(1) part by (simp_all add: publish_again_def)
  moreover have "n_cache (publish_on E now m t n) = cache_insert (queue_of E) now t
      (pubsub_encode (objects_of E) m GossipSSZSnappy) (n_cache n)"
    using fails by (simp add: publish_on_def)
  ultimately show ?thesis
    using cache_insert_holds [OF Q ok(1) late, of now "pubsub_encode (objects_of E) m GossipSSZSnappy"]
      msgs(2-4) key by auto
qed

section \<open>Examples\<close>

text \<open>A gossipsub that knows no peers: nothing can be published.\<close>

definition lonely_gossip :: "unit gossip_api" where
  "lonely_gossip = \<lparr>gs_subscribe = (\<lambda>_ g. (g, Inr True)), gs_unsubscribe = (\<lambda>_ g. (g, Inr True)),
     gs_publish = (\<lambda>_ _ g. (g, Inl InsufficientPeers)), gs_validate = (\<lambda>_ _ _ g. (g, Inr False)),
     gs_peer_score = (\<lambda>_ _. None), gs_add_explicit = (\<lambda>_ g. g), gs_remove_explicit = (\<lambda>_ g. g)\<rparr>"

definition raw_objects :: "bytes object_codec" where
  "raw_objects = \<lparr>oc_encode = id, oc_block = (\<lambda>_. Inr), oc_object = (\<lambda>_. Inr), oc_fork = (\<lambda>_. Some Base)\<rparr>"

definition lonely_env :: "((peer_id, instant) hmap \<times> duration, (peer_id, enr) hmap, enr,
    nat \<times> (nat, cache_item \<times> instant) hmap, unit, bytes) net_env" where
  "lonely_env = \<lparr>pm_of = simple_env, disc_of = simple_api\<lparr>dv_local_enr := \<lambda>_. simple_enr 0\<rparr>,
     queue_of = list_dq, gossip_of = lonely_gossip, hex_of = list_hex, objects_of = raw_objects,
     cached_items = (\<lambda>c. c)\<rparr>"

definition lonely_network :: "(nat, nat, (peer_id, instant) hmap \<times> duration, (peer_id, enr) hmap, enr,
    nat \<times> (nat, cache_item \<times> instant) hmap, unit) network" where
  "lonely_network = network_new lonely_env default_pm_config
     (network_globals_new enr_node_id 0 blank_enr 9000 9000 \<lparr>seq_number = 0, attnets = [], syncnets = None\<rparr> [])
     \<lparr>fork_digest = [0, 0, 0, 0], fork_id_ssz = []\<rparr> 12 32 (simple_discovery []) (projr (rpc_new 0)) ()"

lemma lonely_laws: "net_laws lonely_env"
  by (simp add: net_laws_def lonely_env_def simple_env_laws list_dq_laws fork_kept_def simple_api_def
      simple_enr_def enr_fork_digest_def)

lemma lonely_run: "net_run lonely_env lonely_network"
  unfolding lonely_network_def by (rule net_run.Start) (simp_all add: simple_discovery_def)

lemma network_run_safe_witness:
  "db_reachable (net_db lonely_network) \<and> length (active_queries (n_disc lonely_network)) \<le> 3"
  using network_run_safe [OF lonely_run lonely_laws] by blast

definition zero_step :: "(nat request_id, nat) handler_event" where
  "zero_step = Inr (ReceivedRequest 0 (ReqBlocksByRange \<lparr>old_start_slot = 7, old_count = 2, old_step = 0\<rparr>))"

lemma fatal_event_ends_conversation_witness:
  "pm_events (n_pm (fst (inject_rpc_event lonely_env 3 1 0 zero_step (lonely_network\<lparr>n_pm := two_peers duty_peer\<rparr>))))
     = pm_events (two_peers duty_peer) @ [DisconnectPeer 1 GoodbyeBadScore]"
proof -
  let ?n = "lonely_network\<lparr>n_pm := two_peers duty_peer\<rparr>"
  have "fatal_event zero_step" "db_ok (net_db ?n)" "hm_get (peers (net_db ?n)) 1 = Some duty_peer"
    using two_peers_ok(1) by (simp_all add: zero_step_def net_db_def) (simp add: two_peers_def)
  moreover have "info_is_connected duty_peer" "\<not> info_exempt duty_peer" "\<not> score_is_banned duty_peer"
    by (simp_all add: duty_peer_def info_is_connected_def info_exempt_def score_is_banned_def score_state_of_def
        default_peer_info_def default_score_def default_real_score_def state_of_Real is_max_def score_consts)
  ultimately show ?thesis
    using fatal_event_ends_conversation [where ev = zero_step and n = ?n and p = 1 and i = duty_peer
        and E = lonely_env and now = 3 and conn = 0, OF _ _ _ _ _ _ refl] by auto
qed

text \<open>A message for a subnet is published twice; it is kept once, until a peer joins.\<close>

definition waiting_network :: "(nat, nat, (peer_id, instant) hmap \<times> duration, (peer_id, enr) hmap, enr,
    nat \<times> (nat, cache_item \<times> instant) hmap, unit) network" where
  "waiting_network = publish_on lonely_env 5 (PubsubAttestation 3 [1, 2])
     (gossip_topic_new (KindAttestation 3) GossipSSZSnappy [0, 0, 0, 0]) lonely_network"

lemma unpublished_message_is_retried_witness:
  "(\<exists>k. dq_at list_dq (expirations (n_cache waiting_network)) k
       = Some ((gossip_topic_new (KindAttestation 3) GossipSSZSnappy [0, 0, 0, 0], [1, 2]), 5 + from_secs 192))
     \<and> cached_key (n_cache (fst (inject_gs_event lonely_env 6 (GsSubscribed 1 (gossip_topic_display list_hex
           (gossip_topic_new (KindAttestation 3) GossipSSZSnappy [0, 0, 0, 0]))) waiting_network)))
         (gossip_topic_new (KindAttestation 3) GossipSSZSnappy [0, 0, 0, 0], [1, 2]) = None"
proof -
  let ?t = "gossip_topic_new (KindAttestation 3) GossipSSZSnappy [0, 0, 0, 0]"
  have env: "queue_of lonely_env = list_dq" "hex_of lonely_env = list_hex" "gossip_of lonely_env = lonely_gossip"
    "objects_of lonely_env = raw_objects" by (simp_all add: lonely_env_def)
  have ok: "cache_ok (queue_of lonely_env) (n_cache lonely_network)"
    using net_run_invariant [OF lonely_run lonely_laws] by simp
  then have "cache_ok (queue_of lonely_env) (n_cache waiting_network)"
    using net_safe_publish_on [of lonely_env lonely_network] lonely_laws
    by (auto simp: waiting_network_def net_safe_def net_laws_def)
  moreover have "dq_laws (queue_of lonely_env)" "hex_laws (hex_of lonely_env)"
    using list_dq_laws list_hex_laws by (simp_all add: env)
  moreover have "timeout_of (gt_kind ?t) (timeouts (n_cache lonely_network)) = Some (from_secs 192)"
    by (simp add: lonely_network_def network_new_def cache_build_def network_cache_builder_def cache_builder_defs Let_def
        gossip_topic_new_def or_else_def)
  moreover have "gs_publish (gossip_of lonely_env) topic bs g = (g, Inl InsufficientPeers)" for topic bs g
    by (simp add: env lonely_gossip_def)
  moreover have "dq_at (queue_of lonely_env) (expirations (n_cache waiting_network)) 0
      = Some ((?t, [1, 2]), 5 + from_secs 192)"
    by (simp add: waiting_network_def publish_on_def env lonely_gossip_def lonely_network_def network_new_def
        cache_build_def network_cache_builder_def cache_builder_defs Let_def gossip_topic_new_def cache_insert_def msgs_of_def
        list_dq_def pubsub_encode_def raw_objects_def or_else_def)
  ultimately show ?thesis
    using unpublished_message_is_retried [where E = lonely_env and n = lonely_network and later = waiting_network
        and t = ?t and m = "PubsubAttestation 3 [1, 2]" and k = 0 and data = "[1, 2]" and p = 1 and later_now = 6,
        OF _ _ _ _ _ _ _ _ _ refl]
      ok by (auto simp: env gossip_topic_new_def kind_in_range_def u64_max_def)
qed

end
