(* ===== verification/Network_Start_Props.thy ===== *)
theory Network_Start_Props
  imports Network_Start Network_Props
begin

text \<open>
  A sequence number of the metadata never stands for two contents, over any updates and restarts, and the node
  dials only what can be dialed.
\<close>

section \<open>Sequence numbers of the metadata\<close>

definition md_laws :: "md_codec \<Rightarrow> bool" where
  "md_laws M \<longleftrightarrow> (\<forall>n att sync. md_decode_v2 M (md_encode M \<lparr> seq_number = n, attnets = att, syncnets = Some sync \<rparr>)
     = Some (n, att, sync))"

text \<open>The metadata of a node, the latest first: it starts without a file, the bit fields are updated, and the
  node restarts from the file saved last.\<close>

inductive metadata_run :: "('h, 'c, 'd, 'q, 'g, 'o) net_env \<Rightarrow> md_codec \<Rightarrow> meta_data list \<Rightarrow> bool"
  for E :: "('h, 'c, 'd, 'q, 'g, 'o) net_env" and M :: md_codec where
  First: "metadata_run E M [load_or_build_metadata M None]"
| Update: "metadata_run E M (md # mds) \<Longrightarrow> g_local_metadata (net_globals n) = md \<Longrightarrow>
    update_metadata_bitfields E (n :: (nat, nat, 'h, 'c, 'd, 'q, 'g) network) = Some n' \<Longrightarrow>
    metadata_run E M (g_local_metadata (net_globals n') # md # mds)"
| Restart: "metadata_run E M (md # mds) \<Longrightarrow>
    metadata_run E M (load_or_build_metadata M (save_metadata_to_disk M md) # md # mds)"

lemma update_metadata_next:
  assumes "update_metadata_bitfields E n = Some n'"
  shows "seq_number (g_local_metadata (net_globals n')) = seq_number (g_local_metadata (net_globals n)) + 1
    \<and> (syncnets (g_local_metadata (net_globals n')) = None) = (syncnets (g_local_metadata (net_globals n)) = None)
    \<and> n_metadata_on_disk n' = Some (g_local_metadata (net_globals n'))"
  using assms
  by (auto simp: update_metadata_bitfields_def Let_def on_globals_def on_pm_def net_globals_def split: sum.splits)

lemma restart_next:
  assumes "md_laws M" and "syncnets md \<noteq> None"
  shows "load_or_build_metadata M (save_metadata_to_disk M md) = md
    \<or> seq_number (load_or_build_metadata M (save_metadata_to_disk M md)) = seq_number md + 1"
proof -
  obtain sync where "syncnets md = Some sync" using assms(2) by blast
  then have md: "md = \<lparr> seq_number = seq_number md, attnets = attnets md, syncnets = Some sync \<rparr>" by simp
  have "md_decode_v2 M (md_encode M md) = Some (seq_number md, attnets md, sync)"
    using assms(1) unfolding md_laws_def by (subst md) simp
  then show ?thesis
    by (subst (2) md) (simp add: load_or_build_metadata_def save_metadata_to_disk_def)
qed

definition history_ok :: "meta_data list \<Rightarrow> bool" where
  "history_ok mds \<longleftrightarrow> mds \<noteq> [] \<and> unat (seq_number (hd mds)) < length mds \<and> (\<forall>m \<in> set mds. syncnets m \<noteq> None)
    \<and> sorted_wrt (\<lambda>later m. m = later \<or> unat (seq_number m) < unat (seq_number later)) mds"

lemma history_ok_Cons:
  assumes ok: "history_ok (md # mds)" and m: "syncnets m \<noteq> None" "m = md \<or> seq_number m = seq_number md + 1"
    and len: "length (m # md # mds) < 2 ^ 64"
  shows "history_ok (m # md # mds)"
proof (cases "m = md")
  case True
  then show ?thesis using ok by (auto simp: history_ok_def)
next
  case False
  have "unat (seq_number md) < length (md # mds)" using ok by (simp add: history_ok_def)
  then have "unat (seq_number md) + 1 < 2 ^ 64" using len by simp
  then have "unat (seq_number m) = unat (seq_number md) + 1"
    using False m(2) unat_add_lem [of "seq_number md" 1] by simp
  then show ?thesis using ok m(1) by (auto simp: history_ok_def)
qed

lemma metadata_run_invariant:
  assumes "metadata_run E M mds" and M: "md_laws M" and "length mds < 2 ^ 64"
  shows "history_ok mds"
  using assms(1,3)
proof (induction rule: metadata_run.induct)
  case First
  then show ?case by (simp add: history_ok_def load_or_build_metadata_def)
next
  case (Update md mds n n')
  then have ok: "history_ok (md # mds)" by simp
  then have "syncnets md \<noteq> None" by (simp add: history_ok_def)
  then show ?case
    using Update.hyps(2) Update.prems update_metadata_next [OF Update.hyps(3)]
    by (intro history_ok_Cons [OF ok]) auto
next
  case (Restart md mds)
  then have ok: "history_ok (md # mds)" by simp
  then have "syncnets md \<noteq> None" by (simp add: history_ok_def)
  moreover have "syncnets (load_or_build_metadata M f) \<noteq> None" for f by (simp add: load_or_build_metadata_def)
  ultimately show ?case
    using Restart.prems restart_next [OF M] by (intro history_ok_Cons [OF ok]) auto
qed

lemma sorted_wrt_pair: "sorted_wrt P xs \<Longrightarrow> x \<in> set xs \<Longrightarrow> y \<in> set xs \<Longrightarrow> x = y \<or> P x y \<or> P y x"
  by (induction xs) auto


text \<open>An encoding of the number in unary and of the bits, with a separator.\<close>

definition bit_bytes :: "bitfield \<Rightarrow> bytes" where "bit_bytes = map (\<lambda>b. if b then 1 else 0)"

definition unary_codec :: md_codec where
  "unary_codec = \<lparr> md_encode = (\<lambda>md. replicate (unat (seq_number md)) 1 @ [2] @ bit_bytes (attnets md) @ [2]
       @ bit_bytes (case syncnets md of Some s \<Rightarrow> s | None \<Rightarrow> [])),
     md_decode_v2 = (\<lambda>bs. let (n, rest) = (takeWhile (\<lambda>b. b \<noteq> 2) bs, tl (dropWhile (\<lambda>b. b \<noteq> 2) bs))
       in Some (of_nat (length n), map (\<lambda>b. b = 1) (takeWhile (\<lambda>b. b \<noteq> 2) rest),
            map (\<lambda>b. b = 1) (tl (dropWhile (\<lambda>b. b \<noteq> 2) rest)))),
     md_decode_v1 = (\<lambda>_. None),
     default_attnets = replicate 64 False, default_syncnets = replicate 4 False \<rparr>"

lemma separated:
  assumes "\<forall>b \<in> set xs. b \<noteq> 2"
  shows "takeWhile (\<lambda>b. b \<noteq> 2) (xs @ 2 # ys) = xs" and "dropWhile (\<lambda>b. b \<noteq> 2) (xs @ 2 # ys) = 2 # ys"
  using assms by (induction xs) auto

lemma unary_laws: "md_laws unary_codec"
proof -
  have bits: "map (\<lambda>b. b = 1) (bit_bytes bs) = bs" "\<forall>b \<in> set (bit_bytes bs). b \<noteq> 2" for bs
    by (induction bs) (auto simp: bit_bytes_def)
  have ones: "\<forall>b \<in> set (replicate n 1). b \<noteq> (2 :: u8)" for n by simp
  show ?thesis
    by (simp add: md_laws_def unary_codec_def separated [OF ones] separated [OF bits(2)] bits(1))
qed


section \<open>Dialing\<close>

lemma strip_peer_id_id: "list_all (\<lambda>q. case q of P2p _ \<Rightarrow> False | _ \<Rightarrow> True) a \<Longrightarrow> strip_peer_id a = a"
proof (cases a rule: rev_cases)
  case (snoc xs q)
  assume "list_all (\<lambda>q. case q of P2p _ \<Rightarrow> False | _ \<Rightarrow> True) a"
  with snoc show ?thesis by (cases q) (simp_all add: strip_peer_id_def)
qed (simp add: strip_peer_id_def)

lemma boot_dials_exact:
  "boot_dials A db e = Some (if is_connected_or_dialing db (id_of_enr A e) then [] else enr_multiaddr_tcp e)"
  by (auto simp: boot_dials_def Let_def enr_multiaddr_def enr_multiaddr_tcp_def enr_addr_def strip_peer_id_def
      split: option.split)

lemma all_boot_dials_exact:
  "all_boot_dials A db es = Some (concat (map (\<lambda>e. if is_connected_or_dialing db (id_of_enr A e) then []
     else enr_multiaddr_tcp e) es))"
  by (induction es) (simp_all add: boot_dials_exact)

lemma set_subscribe_kinds:
  "set (gossipsub_subscriptions (net_globals (fst (subscribe_kinds E ks n))))
     = set (gossipsub_subscriptions (net_globals n))
       \<union> (\<lambda>k. gossip_topic_new k GossipSSZSnappy (fork_digest (n_fork_id n))) ` set ks
   \<and> n_fork_id (fst (subscribe_kinds E ks n)) = n_fork_id n \<and> set (snd (subscribe_kinds E ks n)) \<subseteq> set ks"
proof (induction ks arbitrary: n)
  case (Cons k ks)
  obtain m ok where m: "subscribe_kind E k n = (m, ok)" by force
  then have "m = fst (net_subscribe E (gossip_topic_new k GossipSSZSnappy (fork_digest (n_fork_id n))) n)"
    by (simp add: subscribe_kind_def split: prod.splits)
  then have "set (gossipsub_subscriptions (net_globals m))
      = insert (gossip_topic_new k GossipSSZSnappy (fork_digest (n_fork_id n))) (set (gossipsub_subscriptions (net_globals n)))"
    "n_fork_id m = n_fork_id n"
    by (simp_all add: subscriptions_subscribe)
       (simp add: net_subscribe_def Let_def on_globals_def on_pm_def split: prod.split sum.split)
  then show ?case using Cons.IH [of m] m by (auto simp: split_beta)
qed simp

text \<open>The start of the network never panics: unless the swarm cannot listen, it dials the configured nodes without
  their peer ids, of each boot node that is not connected or being dialed exactly the TCP addresses of its
  record, and the other boot addresses that have a TCP part; and it records every configured topic as a
  subscription, under the fork digest of the node.\<close>
theorem network_start_exact:
  "network_start E listens cfg n =
     Some (if listens (listen_multiaddr cfg)
       then Inr (fst (subscribe_kinds E (cfg_topics cfg) n),
         map strip_peer_id (cfg_libp2p_nodes cfg)
         @ concat (map (\<lambda>e. if is_connected_or_dialing (net_db n) (id_of_enr (disc_of E) e) then []
             else enr_multiaddr_tcp e) (remdups_adj (cfg_boot_nodes_enr cfg)))
         @ map strip_peer_id (filter has_tcp (cfg_boot_nodes_multiaddr cfg)),
         snd (subscribe_kinds E (cfg_topics cfg) n))
       else Inl ''Libp2p was unable to listen on the given listen address.'')
   \<and> set (gossipsub_subscriptions (net_globals (fst (subscribe_kinds E (cfg_topics cfg) n))))
     = set (gossipsub_subscriptions (net_globals n))
       \<union> (\<lambda>k. gossip_topic_new k GossipSSZSnappy (fork_digest (n_fork_id n))) ` set (cfg_topics cfg)"
  using set_subscribe_kinds [of E "cfg_topics cfg" n]
  by (simp add: network_start_def start_dials_def all_boot_dials_exact split_beta)

end
