(* ===== verification/Config_Props.thy ===== *)
theory Config_Props
  imports Config
begin

text \<open>
  The names of messages tell them apart, the configuration of gossipsub exists for every load, and the test
  for global addresses refuses exactly the reserved blocks.
\<close>

section \<open>Message ids\<close>

lemma length_to_le_bytes [simp]: "length (to_le_bytes n) = 8"
  by (simp add: to_le_bytes_def)

lemma low_digits_eq:
  fixes n n' :: nat
  assumes "\<And>i. i < k \<Longrightarrow> n div 256 ^ i mod 256 = n' div 256 ^ i mod 256"
  shows "n mod 256 ^ k = n' mod 256 ^ k"
  using assms
proof (induction k)
  case (Suc k)
  have "n mod 256 ^ k = n' mod 256 ^ k" using Suc by simp
  moreover have "n div 256 ^ k mod 256 = n' div 256 ^ k mod 256" using Suc.prems by simp
  moreover have "m mod 256 ^ Suc k = 256 ^ k * (m div 256 ^ k mod 256) + m mod 256 ^ k" for m :: nat
    using mod_mult2_eq [of m "256 ^ k" 256] by (simp add: mult.commute)
  ultimately show ?case by simp
qed simp

lemma byte_of_nat_eq: "(of_nat a :: u8) = of_nat b \<longleftrightarrow> a mod 256 = b mod 256"
  by (simp add: word_unat_eq_iff unsigned_of_nat take_bit_eq_mod)

lemma to_le_bytes_inject:
  assumes "to_le_bytes n = to_le_bytes n'" and "n < 2 ^ 64" "n' < 2 ^ 64"
  shows "n = n'"
proof -
  have "n div 256 ^ i mod 256 = n' div 256 ^ i mod 256" if "i < 8" for i
    using arg_cong [OF assms(1), of "\<lambda>xs. xs ! i"] that by (simp add: to_le_bytes_def byte_of_nat_eq)
  from low_digits_eq [OF this] have "n mod 256 ^ 8 = n' mod 256 ^ 8" by blast
  then show ?thesis using assms(2,3) by simp
qed

lemma as_bytes_inject: "as_bytes s = as_bytes s' \<longleftrightarrow> s = s'"
proof -
  have "inj (of_char :: char \<Rightarrow> u8)"
  proof (rule injI)
    fix c d :: char
    assume "(of_char c :: u8) = of_char d"
    then have "(of_nat (of_char c) :: u8) = of_nat (of_char d)" by (simp only: of_nat_of_char)
    then show "c = d" unfolding byte_of_nat_eq by simp
  qed
  then show ?thesis by (simp add: as_bytes_def inj_map_eq_map)
qed

text \<open>C39. The bytes a message id is computed from: since Altair they determine both the topic and the data; before
  Altair they determine the data only, so that the same data on two topics has one id.\<close>
theorem message_prefix_identifies:
  assumes "length (gm_topic m) < 2 ^ 64" and "length (gm_topic m') < 2 ^ 64"
  shows "message_prefix d m fc = message_prefix d m' fc \<longleftrightarrow>
    (if current_fork fc = Base then gm_data m = gm_data m' else m = m')"
proof (cases "current_fork fc = Base")
  case False
  have len: "length (as_bytes s) = length s" for s by (simp add: as_bytes_def)
  have "message_prefix d m fc = d @ to_le_bytes (length (gm_topic m)) @ as_bytes (gm_topic m) @ gm_data m" for m
    using False by (cases "current_fork fc") (simp_all add: message_prefix_def len)
  moreover have "to_le_bytes (length (gm_topic m)) @ as_bytes (gm_topic m) @ gm_data m
      = to_le_bytes (length (gm_topic m')) @ as_bytes (gm_topic m') @ gm_data m' \<longleftrightarrow> m = m'"
    using to_le_bytes_inject [OF _ assms] by (auto simp: len as_bytes_inject)
  ultimately show ?thesis using False by simp
qed (simp add: message_prefix_def)

section \<open>The configuration of gossipsub\<close>

text \<open>What the builder documents to accept: a mesh whose bounds are in order, with at most half of it reserved
  for outbound peers, and a history as long as what is gossiped of it.\<close>

definition builder_accepts :: "'cfg gossip_builder \<Rightarrow> bool" where
  "builder_accepts build \<longleftrightarrow> (\<forall>s f g. 100 \<le> gs_max_transmit_size s \<and> gs_history_gossip s \<le> gs_history_length s
     \<and> gs_mesh_outbound_min s \<le> gs_mesh_n_low s \<and> gs_mesh_n_low s \<le> gs_mesh_n s \<and> gs_mesh_n s \<le> gs_mesh_n_high s
     \<and> 2 * gs_mesh_outbound_min s \<le> gs_mesh_n s \<longrightarrow> (\<exists>cfg. build s f g = Inr cfg))"

lemma gossipsub_config_returns:
  assumes "builder_accepts build"
  shows "gossipsub_config build sha load fc \<noteq> None"
proof -
  let ?s = "load_settings (network_load_of load) (to_context_bytes fc Merge \<noteq> None)"
  have "\<exists>cfg. build ?s f g = Inr cfg" for f g
    using assms unfolding builder_accepts_def
    by (simp add: load_settings_def network_load_of_def gossip_max_size_def GOSSIP_MAX_SIZE_def
        GOSSIP_MAX_SIZE_POST_MERGE_def)
  then show ?thesis
    unfolding gossipsub_config_def by (auto split: sum.split) (metis Inr_not_Inl)
qed

text \<open>A heavier load never makes the mesh smaller nor the heartbeat slower.\<close>

lemma network_load_mono:
  assumes "load \<le> load'" and "load \<noteq> 0"
  shows "mesh_n (network_load_of load) \<le> mesh_n (network_load_of load')"
    and "mesh_n_high (network_load_of load) \<le> mesh_n_high (network_load_of load')"
    and "heartbeat_interval (network_load_of load') \<le> heartbeat_interval (network_load_of load)"
proof -
  have "unat load \<le> unat load'" "unat load \<noteq> 0"
    using assms by (simp_all add: word_le_nat_alt unat_eq_zero)
  then show "mesh_n (network_load_of load) \<le> mesh_n (network_load_of load')"
    "mesh_n_high (network_load_of load) \<le> mesh_n_high (network_load_of load')"
    "heartbeat_interval (network_load_of load') \<le> heartbeat_interval (network_load_of load)"
    by (auto simp: network_load_of_def word_unat_eq_iff from_millis_def)
qed

section \<open>Global addresses\<close>

text \<open>The blocks of addresses that are not globally routable, first and last address.\<close>

definition reserved_blocks :: "(32 word \<times> 32 word) list" where
  "reserved_blocks =
    [(0x00000000, 0x00ffffff), (0x0a000000, 0x0affffff), (0x64400000, 0x647fffff), (0x7f000000, 0x7fffffff),
     (0xa9fe0000, 0xa9feffff), (0xac100000, 0xac1fffff), (0xc0000000, 0xc00000ff), (0xc0000200, 0xc00002ff),
     (0xc0a80000, 0xc0a8ffff), (0xc6336400, 0xc63364ff), (0xcb007100, 0xcb0071ff), (0xf0000000, 0xffffffff)]"

definition octet :: "nat \<Rightarrow> nat \<Rightarrow> nat" where "octet i n = n div 256 ^ (3 - i) mod 256"

lemma unat_ucast_drop_bit: "unat (ucast (drop_bit k a) :: u8) = unat a div 2 ^ k mod 256"
  by (simp add: unsigned_ucast_eq unat_drop_bit_eq take_bit_eq_mod drop_bit_eq_div [of k "unat a"] del: drop_bit_eq_div)

lemma octets_nth:
  assumes "i < 4"
  shows "unat (octets a ! i) = octet i (unat a)"
proof -
  have "octets a ! i = ucast (drop_bit (8 * (3 - i)) a)"
    using assms by (auto simp: octets_def less_Suc_eq numeral_eq_Suc)
  moreover have "256 ^ (3 - i) = (2::nat) ^ (8 * (3 - i))" by (simp add: power_mult)
  ultimately show ?thesis
    by (simp only: octet_def unat_ucast_drop_bit)
qed

text \<open>Conditions on single octets as bounds of the address.\<close>

lemma and_high_mask: "(n :: nat) AND (push_bit k (mask l)) = 2 ^ k * (n div 2 ^ k mod 2 ^ l)"
proof -
  have "n AND push_bit k (mask l) = push_bit k (take_bit l (drop_bit k n))"
    by (rule bit_eqI) (auto simp: bit_simps)
  then show ?thesis by (simp add: push_bit_eq_mult take_bit_eq_mod drop_bit_eq_div)
qed

lemma octet_conds:
  fixes b :: u8
  shows "(b AND 192) = 64 \<longleftrightarrow> 64 \<le> unat b \<and> unat b \<le> 127" and "(b AND 240) = 240 \<longleftrightarrow> 240 \<le> unat b"
proof -
  have "unat b < 256" using unsigned_less [of b] by simp
  then have small: "unat b div 64 mod 4 = unat b div 64" "unat b div 16 mod 16 = unat b div 16"
    by (simp_all add: div_less_iff_less_mult)
  have "unat (b AND 192) = 64 * (unat b div 64)" "unat (b AND 240) = 16 * (unat b div 16)"
    using and_high_mask [of "unat b" 6 2] and_high_mask [of "unat b" 4 4] small
    by (simp_all add: unsigned_and_eq mask_eq_exp_minus_1 push_bit_eq_mult)
  then have "(b AND 192) = 64 \<longleftrightarrow> unat b div 64 = 1" "(b AND 240) = 240 \<longleftrightarrow> unat b div 16 = 15"
    by (simp_all add: word_unat_eq_iff)
  moreover have "m div 64 = 1 \<longleftrightarrow> 64 \<le> m \<and> m \<le> 127" "m div 16 = 15 \<longleftrightarrow> 240 \<le> m \<and> m \<le> 255" for m :: nat
    by (auto simp: div_nat_eqI)
  ultimately show "(b AND 192) = 64 \<longleftrightarrow> 64 \<le> unat b \<and> unat b \<le> 127" "(b AND 240) = 240 \<longleftrightarrow> 240 \<le> unat b"
    using \<open>unat b < 256\<close> by simp_all
qed

lemma octets_sum:
  assumes "n < 2 ^ 32"
  shows "n = 16777216 * octet 0 n + (65536 * octet 1 n + (256 * octet 2 n + octet 3 n))"
proof -
  define p q r where "p = n div 256" and "q = p div 256" and "r = q div 256"
  have "octet 3 n = n mod 256" "octet 2 n = p mod 256" "octet 1 n = q mod 256" "octet 0 n = r mod 256"
    by (simp_all add: octet_def p_def q_def r_def div_mult2_eq [symmetric])
  moreover have "r < 256" using assms by (simp add: p_def q_def r_def div_mult2_eq [symmetric] less_mult_imp_div_less)
  moreover have "n = 256 * p + n mod 256" "p = 256 * q + p mod 256" "q = 256 * r + q mod 256"
    by (simp_all add: p_def q_def r_def)
  ultimately show ?thesis by (simp only: mod_less)
qed

lemma octet_bound: "octet i n \<le> 255"
  using mod_less_divisor [of 256 "n div 256 ^ (3 - i)"] by (simp add: octet_def)

text \<open>A block fixes the leading octets and bounds the next.\<close>

lemma leading_digit:
  fixes B :: nat
  assumes "r < B" and "y < B"
  shows "B * k + x \<le> B * a + r \<and> B * a + r \<le> B * k + y \<longleftrightarrow> a = k \<and> x \<le> r \<and> r \<le> y"
proof -
  have "B * a + B \<le> B * k" if "a < k" using mult_le_mono2 [of "Suc a" k B] that by simp
  moreover have "B * k + B \<le> B * a" if "k < a" using mult_le_mono2 [of "Suc k" a B] that by simp
  ultimately show ?thesis using assms by (cases a k rule: linorder_cases) auto
qed

lemma block_bounds:
  fixes a b c d k l m :: nat
  assumes d: "b \<le> 255" "c \<le> 255" "d \<le> 255" and n: "n = 16777216 * a + (65536 * b + (256 * c + d))"
  shows "16777216 * k \<le> n \<and> n \<le> 16777216 * k + 16777215 \<longleftrightarrow> a = k"
    and "h \<le> 255 \<Longrightarrow> 16777216 * k + 65536 * l \<le> n \<and> n \<le> 16777216 * k + (65536 * h + 65535)
      \<longleftrightarrow> a = k \<and> l \<le> b \<and> b \<le> h"
    and "l \<le> 255 \<Longrightarrow> m \<le> 255 \<Longrightarrow> 16777216 * k + (65536 * l + 256 * m) \<le> n
      \<and> n \<le> 16777216 * k + (65536 * l + (256 * m + 255)) \<longleftrightarrow> a = k \<and> b = l \<and> c = m"
proof -
  have r: "256 * c + d < 65536" "65536 * b + (256 * c + d) < 16777216" using d by linarith+
  then show "16777216 * k \<le> n \<and> n \<le> 16777216 * k + 16777215 \<longleftrightarrow> a = k"
    using leading_digit [of "65536 * b + (256 * c + d)" 16777216 16777215 k 0 a] unfolding n by simp
  show "16777216 * k + 65536 * l \<le> n \<and> n \<le> 16777216 * k + (65536 * h + 65535) \<longleftrightarrow> a = k \<and> l \<le> b \<and> b \<le> h"
    if "h \<le> 255"
  proof -
    have "65536 * l \<le> 65536 * b + (256 * c + d) \<and> 65536 * b + (256 * c + d) \<le> 65536 * h + 65535 \<longleftrightarrow> l \<le> b \<and> b \<le> h"
      using r(1) by linarith
    then show ?thesis
      using leading_digit [of "65536 * b + (256 * c + d)" 16777216 "65536 * h + 65535" k "65536 * l" a] r that
      unfolding n by auto
  qed
  show "16777216 * k + (65536 * l + 256 * m) \<le> n \<and> n \<le> 16777216 * k + (65536 * l + (256 * m + 255))
      \<longleftrightarrow> a = k \<and> b = l \<and> c = m" if "l \<le> 255" "m \<le> 255"
    using leading_digit [of "65536 * b + (256 * c + d)" 16777216 "65536 * l + (256 * m + 255)" k "65536 * l + 256 * m" a]
      leading_digit [of "256 * c + d" 65536 "256 * m + 255" l "256 * m" b]
      leading_digit [of d 256 255 m 0 c] r that d unfolding n by auto
qed

lemma octet_eq: "i < 4 \<Longrightarrow> octets a ! i = w \<longleftrightarrow> octet i (unat a) = unat w"
  by (simp add: word_unat_eq_iff octets_nth)

lemma octets_list: "octets a = [octets a ! 0, octets a ! 1, octets a ! 2, octets a ! 3]"
  by (simp add: octets_def)

lemma filter_Nil_iff: "filter P [] = [] \<longleftrightarrow> True" "filter P (x # xs) = [] \<longleftrightarrow> \<not> P x \<and> filter P xs = []"
  by simp_all

lemma reserved_regroup:
  assumes "bc \<longrightarrow> h"
  shows "(if x \<or> y then True else \<not> (p1 \<or> p2 \<or> p3) \<and> \<not> l \<and> \<not> k \<and> \<not> bc \<and> \<not> (d1 \<or> d2 \<or> d3) \<and> \<not> sh
      \<and> \<not> (h \<and> \<not> bc) \<and> \<not> z \<and> \<not> n)
    \<longleftrightarrow> x \<or> y \<or> \<not> (n \<or> p1 \<or> sh \<or> l \<or> k \<or> p2 \<or> z \<or> d1 \<or> p3 \<or> d2 \<or> d3 \<or> h)"
  using assms by auto

text \<open>An address is global exactly when it is one of the two exceptions or lies in no reserved block.\<close>
theorem is_global_exact:
  "is_global a \<longleftrightarrow> a \<in> {0xc0000009, 0xc000000a} \<or> filter (\<lambda>(lo, hi). lo \<le> a \<and> a \<le> hi) reserved_blocks = []"
proof -
  define n p q r s where "n = unat a" and "p = octet 0 n" and "q = octet 1 n" and "r = octet 2 n" and "s = octet 3 n"
  note parts = p_def q_def r_def s_def
  have b: "q \<le> 255" "r \<le> 255" "s \<le> 255" "p \<le> 255" by (simp_all add: parts octet_bound)
  have n: "n = 16777216 * p + (65536 * q + (256 * r + s))"
    unfolding parts using unsigned_less [of a] by (intro octets_sum) (simp add: n_def)
  note block = block_bounds [OF b(1-3) n]
  have broadcast: "is_broadcast a \<longleftrightarrow> p = 255 \<and> q = 255 \<and> r = 255 \<and> s = 255"
    unfolding is_broadcast_def by (subst octets_list) (simp add: octet_eq n_def parts)
  have documentation: "is_documentation a \<longleftrightarrow> p = 192 \<and> q = 0 \<and> r = 2 \<or> p = 198 \<and> q = 51 \<and> r = 100
      \<or> p = 203 \<and> q = 0 \<and> r = 113"
    unfolding is_documentation_def by (subst octets_list) (simp add: octet_eq n_def parts)
  have priv: "is_private a \<longleftrightarrow> p = 10 \<or> p = 172 \<and> 16 \<le> q \<and> q \<le> 31 \<or> p = 192 \<and> q = 168"
    by (simp add: is_private_def octet_eq octets_nth word_le_nat_alt n_def parts)
  have rest: "is_loopback a \<longleftrightarrow> p = 127" "is_link_local a \<longleftrightarrow> p = 169 \<and> q = 254"
    "octets a ! 0 = 100 \<longleftrightarrow> p = 100" "octets a ! 0 = 192 \<longleftrightarrow> p = 192" "octets a ! 1 = 0 \<longleftrightarrow> q = 0"
    "octets a ! 2 = 0 \<longleftrightarrow> r = 0" "octets a ! 0 = 0 \<longleftrightarrow> p = 0"
    "(octets a ! 1 AND 192) = 64 \<longleftrightarrow> 64 \<le> q \<and> q \<le> 127" "(octets a ! 0 AND 240) = 240 \<longleftrightarrow> 240 \<le> p"
    by (simp_all add: is_loopback_def is_link_local_def octet_conds octet_eq octets_nth n_def parts)
  have le: "u \<le> a \<longleftrightarrow> unat u \<le> n" "a \<le> u \<longleftrightarrow> n \<le> unat u" for u
    by (simp_all add: word_le_nat_alt n_def)
  have blocks: "0 \<le> a \<and> a \<le> 0xffffff \<longleftrightarrow> p = 0"
    "0xa000000 \<le> a \<and> a \<le> 0xaffffff \<longleftrightarrow> p = 10"
    "0x64400000 \<le> a \<and> a \<le> 0x647fffff \<longleftrightarrow> p = 100 \<and> 64 \<le> q \<and> q \<le> 127"
    "0x7f000000 \<le> a \<and> a \<le> 0x7fffffff \<longleftrightarrow> p = 127"
    "0xa9fe0000 \<le> a \<and> a \<le> 0xa9feffff \<longleftrightarrow> p = 169 \<and> 254 \<le> q \<and> q \<le> 254"
    "0xac100000 \<le> a \<and> a \<le> 0xac1fffff \<longleftrightarrow> p = 172 \<and> 16 \<le> q \<and> q \<le> 31"
    "0xc0000000 \<le> a \<and> a \<le> 0xc00000ff \<longleftrightarrow> p = 192 \<and> q = 0 \<and> r = 0"
    "0xc0000200 \<le> a \<and> a \<le> 0xc00002ff \<longleftrightarrow> p = 192 \<and> q = 0 \<and> r = 2"
    "0xc0a80000 \<le> a \<and> a \<le> 0xc0a8ffff \<longleftrightarrow> p = 192 \<and> 168 \<le> q \<and> q \<le> 168"
    "0xc6336400 \<le> a \<and> a \<le> 0xc63364ff \<longleftrightarrow> p = 198 \<and> q = 51 \<and> r = 100"
    "0xcb007100 \<le> a \<and> a \<le> 0xcb0071ff \<longleftrightarrow> p = 203 \<and> q = 0 \<and> r = 113"
    unfolding le using block(1) [of 0]
      block(1) [of 10]
      block(2) [of 127 100 64]
      block(1) [of 127]
      block(2) [of 254 169 254]
      block(2) [of 31 172 16]
      block(3) [of 0 0 192]
      block(3) [of 0 2 192]
      block(2) [of 168 192 168]
      block(3) [of 51 100 198]
      block(3) [of 0 113 203]
    by simp_all
  have top: "0xf0000000 \<le> a \<and> a \<le> 0xffffffff \<longleftrightarrow> 240 \<le> p"
    unfolding le using n b unsigned_less [of a] by (simp add: n_def [symmetric]) linarith
  have same: "254 \<le> q \<and> q \<le> 254 \<longleftrightarrow> q = 254" "168 \<le> q \<and> q \<le> 168 \<longleftrightarrow> q = 168" by linarith+
  have high: "p = 255 \<and> q = 255 \<and> r = 255 \<and> s = 255 \<longrightarrow> 240 \<le> p" by linarith
  have "filter (\<lambda>(lo, hi). lo \<le> a \<and> a \<le> hi) reserved_blocks = [] \<longleftrightarrow>
      \<not> (p = 0 \<or> p = 10 \<or> (p = 100 \<and> 64 \<le> q \<and> q \<le> 127) \<or> p = 127 \<or> (p = 169 \<and> q = 254)
        \<or> (p = 172 \<and> 16 \<le> q \<and> q \<le> 31) \<or> (p = 192 \<and> q = 0 \<and> r = 0) \<or> (p = 192 \<and> q = 0 \<and> r = 2)
        \<or> (p = 192 \<and> q = 168) \<or> (p = 198 \<and> q = 51 \<and> r = 100) \<or> (p = 203 \<and> q = 0 \<and> r = 113) \<or> 240 \<le> p)"
    unfolding reserved_blocks_def filter_Nil_iff prod.case blocks same top by (simp only: de_Morgan_disj simp_thms)
  moreover have "is_global a \<longleftrightarrow> a = 0xc0000009 \<or> a = 0xc000000a \<or>
      \<not> (p = 0 \<or> p = 10 \<or> (p = 100 \<and> 64 \<le> q \<and> q \<le> 127) \<or> p = 127 \<or> (p = 169 \<and> q = 254)
        \<or> (p = 172 \<and> 16 \<le> q \<and> q \<le> 31) \<or> (p = 192 \<and> q = 0 \<and> r = 0) \<or> (p = 192 \<and> q = 0 \<and> r = 2)
        \<or> (p = 192 \<and> q = 168) \<or> (p = 198 \<and> q = 51 \<and> r = 100) \<or> (p = 203 \<and> q = 0 \<and> r = 113) \<or> 240 \<le> p)"
    unfolding is_global_def broadcast documentation priv rest by (rule reserved_regroup [OF high])
  ultimately show ?thesis by (simp only: insert_iff empty_iff simp_thms disj_assoc)
qed

section \<open>Examples\<close>

text \<open>A builder that checks what the documentation asks and keeps the settings.\<close>

definition checking_builder :: "gossip_settings gossip_builder" where
  "checking_builder s f g =
     (if 100 \<le> gs_max_transmit_size s \<and> gs_history_gossip s \<le> gs_history_length s
         \<and> gs_mesh_outbound_min s \<le> gs_mesh_n_low s \<and> gs_mesh_n_low s \<le> gs_mesh_n s
         \<and> gs_mesh_n s \<le> gs_mesh_n_high s \<and> 2 * gs_mesh_outbound_min s \<le> gs_mesh_n s
      then Inr s else Inl ''invalid'')"

lemma checking_builder_accepts: "builder_accepts checking_builder"
  by (simp add: builder_accepts_def checking_builder_def)

lemma message_prefix_identifies_witness:
  "message_prefix [1] \<lparr>gm_topic = ''ab'', gm_data = [7]\<rparr>
      \<lparr>current_fork = Capella, to_context_bytes = (\<lambda>_. None), genesis_context_bytes = [], from_context_bytes = (\<lambda>_. None)\<rparr>
    \<noteq> message_prefix [1] \<lparr>gm_topic = ''b'', gm_data = [97, 7]\<rparr>
      \<lparr>current_fork = Capella, to_context_bytes = (\<lambda>_. None), genesis_context_bytes = [], from_context_bytes = (\<lambda>_. None)\<rparr>"
  by (subst message_prefix_identifies) simp_all

end
