(* ===== verification/Gossip_Scoring_Props.thy ===== *)
theory Gossip_Scoring_Props
  imports Gossip_Scoring
begin

text \<open>
  The parameters are ones gossipsub accepts, a counter decays to the floor in exactly the time asked for, and
  the positive score a peer can collect over all topics is the total the other weights are computed from.
\<close>

section \<open>Decays\<close>

lemma powr_below_one:
  fixes a x :: real
  assumes "0 < a" "a < 1" "0 < x"
  shows "0 < a powr x \<and> a powr x < 1"
proof -
  have "x * ln a < 0" using assms by (simp add: mult_pos_neg ln_less_zero)
  then show ?thesis using assms by (simp add: powr_def)
qed

definition settings_ok :: "score_settings \<Rightarrow> bool" where
  "settings_ok S \<longleftrightarrow> from_secs 1 \<le> ss_slot S \<and> ss_epoch S = ss_slot S * ss_slots_per_epoch S \<and> 0 < ss_decay_interval S \<and> 0 < ss_decay_to_zero S
     \<and> ss_decay_to_zero S < 1 \<and> 0 < ss_mesh_n S \<and> 0 < ss_slots_per_epoch S \<and> 0 < ss_subnet_count S
     \<and> 0 < ss_subnet_weight S \<and> ss_subnet_weight S * real (ss_subnet_count S) = 1
     \<and> ss_max_positive_score S = 50 * (115 / 100 + 1)"

lemma settings_ok_new:
  assumes "0 < seconds_per_slot spec" "0 < slots_per_epoch spec" "0 < spec_subnet_count spec" "0 < mesh_n"
  shows "settings_ok (score_settings_new spec mesh_n)"
  using assms
  by (simp add: settings_ok_def score_settings_new_def Let_def scoring_consts from_secs_def nanos_per_sec_def)

lemma settings_pos:
  assumes "settings_ok S"
  shows "0 < ss_slot S" and "0 < ss_epoch S" and "from_secs 1 \<le> ss_epoch S"
proof -
  have slot: "from_secs 1 \<le> ss_slot S" "0 < ss_slots_per_epoch S" "ss_epoch S = ss_slot S * ss_slots_per_epoch S"
    using assms by (simp_all add: settings_ok_def)
  then show "0 < ss_slot S" by (simp add: from_secs_def nanos_per_sec_def)
  then show "0 < ss_epoch S" using slot by simp
  have "ss_slot S * 1 \<le> ss_slot S * ss_slots_per_epoch S" using slot by (intro mult_le_mono2) simp
  with slot(1) show "from_secs 1 \<le> ss_epoch S" unfolding slot(3) mult_1_right by (rule le_trans)
qed

lemma as_secs_f64_pos: "0 < t \<Longrightarrow> 0 < as_secs_f64 t"
  by (simp add: as_secs_f64_def nanos_per_sec_def)

lemma decay_range:
  assumes "settings_ok S" and "0 < t"
  shows "0 < score_parameter_decay S t \<and> score_parameter_decay S t < 1"
  unfolding score_parameter_decay_def score_parameter_decay_with_base_def Let_def
  using assms by (intro powr_below_one) (simp_all add: settings_ok_def as_secs_f64_pos)

lemma decay_convergence_pos: "decay < 1 \<Longrightarrow> 0 < rate \<Longrightarrow> 0 < decay_convergence decay rate"
  by (simp add: decay_convergence_def)

text \<open>A counter that is multiplied by the decay at each of the ticks of the decay time has shrunk to the floor.\<close>

lemma decays_to_zero:
  assumes "settings_ok S" and "0 < k"
  shows "score_parameter_decay S (k * ss_decay_interval S) ^ k = ss_decay_to_zero S"
proof -
  have "as_secs_f64 (k * ss_decay_interval S) / as_secs_f64 (ss_decay_interval S) = real k"
    using assms by (simp add: as_secs_f64_def settings_ok_def nanos_per_sec_def)
  then have "score_parameter_decay S (k * ss_decay_interval S) = ss_decay_to_zero S powr (1 / real k)"
    by (simp add: score_parameter_decay_def score_parameter_decay_with_base_def Let_def)
  then show ?thesis
    using assms by (simp add: settings_ok_def powr_realpow [symmetric] powr_powr)
qed

text \<open>With a constant number of messages a tick, a counter stays at the convergence value once it is there.\<close>

lemma convergence_fixed: "decay < 1 \<Longrightarrow> (decay_convergence decay rate) * decay + rate = decay_convergence decay rate"
  by (simp add: decay_convergence_def divide_simps) (simp add: algebra_simps)

section \<open>The score of one topic\<close>

definition positive_max :: "topic_score_params \<Rightarrow> f64" where
  "positive_max p = topic_weight p * (time_in_mesh_weight p * time_in_mesh_cap p
     + first_message_deliveries_weight p * first_message_deliveries_cap p)"

lemma positive_max_topic:
  assumes "settings_ok S" and "0 < rate" and "0 < t"
  shows "positive_max (get_topic_params S w rate t info) = w * 50"
proof -
  let ?d = "score_parameter_decay S t"
  have "0 < decay_convergence ?d (2 * rate / real (ss_mesh_n S))"
    using assms decay_range [OF assms(1,3)] by (intro decay_convergence_pos) (simp_all add: settings_ok_def)
  moreover have "0 < as_secs_f64 (ss_slot S)" using settings_pos [OF assms(1)] by (simp add: as_secs_f64_pos)
  ultimately show ?thesis
    by (auto simp: positive_max_def get_topic_params_def Let_def split: option.split)
qed

text \<open>What gossipsub documents to require of the parameters of a topic.\<close>

definition decay_valid :: "f64 \<Rightarrow> bool" where "decay_valid d \<longleftrightarrow> 0 < d \<and> d < 1"

definition topic_params_valid :: "topic_score_params \<Rightarrow> bool" where
  "topic_params_valid p \<longleftrightarrow> 0 \<le> topic_weight p \<and> 0 < time_in_mesh_quantum p
     \<and> 0 \<le> time_in_mesh_weight p \<and> (time_in_mesh_weight p = 0 \<or> 0 < time_in_mesh_cap p)
     \<and> 0 \<le> first_message_deliveries_weight p \<and> (first_message_deliveries_weight p = 0
         \<or> decay_valid (first_message_deliveries_decay p) \<and> 0 < first_message_deliveries_cap p)
     \<and> mesh_message_deliveries_weight p \<le> 0 \<and> (mesh_message_deliveries_weight p = 0
         \<or> decay_valid (mesh_message_deliveries_decay p) \<and> 0 < mesh_message_deliveries_threshold p
           \<and> 0 < mesh_message_deliveries_cap p \<and> from_secs 1 \<le> mesh_message_deliveries_activation p)
     \<and> mesh_failure_penalty_weight p \<le> 0 \<and> (mesh_failure_penalty_weight p = 0
         \<or> decay_valid (mesh_failure_penalty_decay p))
     \<and> invalid_message_deliveries_weight p \<le> 0 \<and> decay_valid (invalid_message_deliveries_decay p)"

lemma topic_params_valid_get:
  assumes S: "settings_ok S" and w: "0 < w" "0 < rate" "0 < t"
    and info: "\<And>n c a s. info = Some (n, c, a, s) \<Longrightarrow> 0 < n \<and> from_secs 1 \<le> a"
  shows "topic_params_valid (get_topic_params S w rate t info)"
proof -
  note range = decay_range [OF S]
  have cap: "0 < decay_convergence (score_parameter_decay S t) (2 * rate / real (ss_mesh_n S))"
    using S w range [OF w(3)] by (intro decay_convergence_pos) (simp_all add: settings_ok_def)
  have slot: "0 < as_secs_f64 (ss_slot S)" "0 < ss_slot S" using settings_pos [OF S] by (simp_all add: as_secs_f64_pos)
  have epoch: "0 < ss_epoch S * 50" and pos: "0 \<le> ss_max_positive_score S"
    using S settings_pos [OF S] by (simp_all add: settings_ok_def)
  have inv: "decay_valid (score_parameter_decay S (ss_epoch S * 50))" and fd: "decay_valid (score_parameter_decay S t)"
    using range [OF epoch] range [OF w(3)] by (simp_all add: decay_valid_def)
  have base: "- ss_max_positive_score S / w \<le> 0" using pos w by simp
  show ?thesis
  proof (cases info)
    case None
    then show ?thesis
      using cap slot inv fd base w by (simp add: topic_params_valid_def get_topic_params_def Let_def)
  next
    case (Some i)
    obtain n c a s where i: "i = (n, c, a, s)" by (cases i)
    then have n: "0 < ss_slot S * n" "from_secs 1 \<le> a" using info Some slot by simp_all
    have md: "decay_valid (score_parameter_decay S (ss_slot S * n))" using range [OF n(1)] by (simp add: decay_valid_def)
    then have "0 < threshold (score_parameter_decay S (ss_slot S * n)) (rate / 50)"
      using w by (auto simp: threshold_def decay_valid_def intro!: mult_pos_pos decay_convergence_pos)
    then show ?thesis
      using cap slot inv fd base w n md
      by (auto simp: topic_params_valid_def get_topic_params_def Let_def Some i)
  qed
qed

section \<open>All topics\<close>

lemma expected_aggregators_pos:
  assumes "expected_aggregator_count_per_slot C S active = Some (Inr (a, c))" and "0 < active" "settings_ok S"
  shows "0 < a"
proof -
  obtain per_slot where C: "C active (ss_max_committees S) (ss_target_size S) = Inr per_slot"
    using assms(1) by (auto simp: expected_aggregator_count_per_slot_def split: sum.splits)
  define n where "n = per_slot * ss_slots_per_epoch S"
  define small where "small = active div n"
  define larger where "larger = active - small * n"
  have n: "0 < n" using assms(1) C by (auto simp: expected_aggregator_count_per_slot_def Let_def n_def split: if_splits)
  have "larger = active mod n" by (simp add: larger_def small_def minus_div_mult_eq_mod)
  then have l: "larger < n" "small = 0 \<Longrightarrow> larger = active" using n by (simp_all add: larger_def)
  have a: "a = (real ((n - larger) * small) / real (max 1 (small div ss_target_aggregators S))
      + real (larger * (small + 1)) / real (max 1 ((small + 1) div ss_target_aggregators S))) / real (ss_slots_per_epoch S)"
    using assms(1) unfolding expected_aggregator_count_per_slot_def C sum.case Let_def
      n_def [symmetric] small_def [symmetric] larger_def [symmetric]
    by (simp only: option.inject sum.inject prod.inject option.distinct split: if_splits)
  have "0 < real ((n - larger) * small) / real (max 1 (small div ss_target_aggregators S))
      \<or> 0 < real (larger * (small + 1)) / real (max 1 ((small + 1) div ss_target_aggregators S))"
    using l assms(2) by (cases "small = 0") (simp_all add: zero_less_divide_iff max_def)
  moreover have "0 \<le> real ((n - larger) * small) / real (max 1 (small div ss_target_aggregators S))"
    "0 \<le> real (larger * (small + 1)) / real (max 1 ((small + 1) div ss_target_aggregators S))" by simp_all
  ultimately have "0 < real ((n - larger) * small) / real (max 1 (small div ss_target_aggregators S))
      + real (larger * (small + 1)) / real (max 1 ((small + 1) div ss_target_aggregators S))" by linarith
  then show ?thesis using assms(3) by (simp add: a settings_ok_def)
qed

lemma dynamic_topics_ok:
  assumes d: "get_dynamic_topic_params C S active current = Some (Inr d)" and pos: "0 < active" and S: "settings_ok S"
  shows "sum_list (map (positive_max \<circ> snd) (dynamic_topics S d)) = 100
    \<and> (\<forall>x \<in> set (dynamic_topics S d). topic_params_valid (snd x))"
proof -
  obtain a c where e: "expected_aggregator_count_per_slot C S active = Some (Inr (a, c))"
    using d by (auto simp: get_dynamic_topic_params_def split: option.splits sum.splits)
  define b where "b \<longleftrightarrow> 2 * ss_subnet_count S div ss_slots_per_epoch S \<le> c"
  have a: "0 < a" by (rule expected_aggregators_pos [OF e pos S])
  have r: "0 < real active / real (ss_subnet_count S) / real (ss_slots_per_epoch S)"
    using pos S by (simp add: settings_ok_def)
  have w: "0 < ss_subnet_weight S" "ss_subnet_weight S * real (ss_subnet_count S) = 1" "0 < ss_slots_per_epoch S"
    "from_secs 1 \<le> ss_slot S" using S by (simp_all add: settings_ok_def)
  note p = settings_pos [OF S]
  have act: "from_secs 1 \<le> ss_slot S * (ss_slots_per_epoch S div 2 + 1)" "from_secs 1 \<le> ss_epoch S * 3"
    using w(4) p(3) by (simp_all add: algebra_simps)
  show ?thesis
    using d a r w p act e
    by (auto simp: get_dynamic_topic_params_def Let_def dynamic_topics_def positive_max_topic [OF S] scoring_consts
        comp_def sum_list_triv algebra_simps intro!: topic_params_valid_get [OF S])
qed

lemma hm_insert_fresh: "k \<notin> fst ` set m \<Longrightarrow> hm_insert k v m = m @ [(k, v)]"
  by (induction k v m rule: hm_insert.induct) auto

lemma fold_insert_fresh:
  assumes "distinct (map (f \<circ> fst) xs)" and "(f \<circ> fst) ` set xs \<inter> fst ` set m = {}"
  shows "fold (\<lambda>(k, p). hm_insert (f k) p) xs m = m @ map (\<lambda>(k, p). (f k, p)) xs"
  using assms
proof (induction xs arbitrary: m)
  case (Cons x xs)
  obtain k p where x: "x = (k, p)" by force
  have "fold (\<lambda>(k, p). hm_insert (f k) p) xs (m @ [(f k, p)]) = (m @ [(f k, p)]) @ map (\<lambda>(k, p). (f k, p)) xs"
    using Cons.prems by (intro Cons.IH) (auto simp: x)
  then show ?case using Cons.prems by (simp add: x hm_insert_fresh)
qed simp

lemma topic_hash_inj:
  assumes "hex_laws H" and "length digest = 4" and "kind_in_range k" "kind_in_range k'"
    and "topic_hash H digest k = topic_hash H digest k'"
  shows "k = k'"
proof -
  have "topic_decode H (topic_hash H digest i) = Inr (gossip_topic_new i GossipSSZSnappy digest)"
    if "kind_in_range i" for i
    unfolding topic_hash_def using assms(1,2) that
    by (intro topic_decode_display) (simp_all add: gossip_topic_new_def)
  then have "gossip_topic_new k GossipSSZSnappy digest = gossip_topic_new k' GossipSSZSnappy digest"
    using assms(3-5) by (metis sum.inject(2))
  then show ?thesis by (simp add: gossip_topic_new_def)
qed

lemma score_params_facts:
  assumes H: "hex_laws H" "length digest = 4"
    and spec: "0 < seconds_per_slot spec" "0 < slots_per_epoch spec" "0 < spec_subnet_count spec"
      "spec_subnet_count spec \<le> u64_max" "0 < mesh"
    and S: "S = score_settings_new spec mesh" and active: "0 < active"
    and P: "get_peer_score_params H C S active T digest current = Some (Inr P)"
  shows "sum_list (map (positive_max \<circ> snd) (psp_topics P)) = ss_max_positive_score S
    \<and> topic_score_cap P = ss_max_positive_score S / 2
    \<and> list_all (topic_params_valid \<circ> snd) (psp_topics P)
    \<and> distinct (map fst (psp_topics P)) \<and> length (psp_topics P) = 5 + spec_subnet_count spec"
proof -
  have ok: "settings_ok S" unfolding S using spec by (intro settings_ok_new)
  obtain d where d: "get_dynamic_topic_params C S active current = Some (Inr d)"
    using P by (auto simp: get_peer_score_params_def split: option.splits sum.splits)
  let ?ts = "fixed_topics S @ dynamic_topics S d"
  have count: "ss_subnet_count S = spec_subnet_count spec" by (simp add: S score_settings_new_def Let_def)
  have kinds: "map fst ?ts = [VoluntaryExit, AttesterSlashing, ProposerSlashing, BeaconBlock, BeaconAggregateAndProof]
      @ map KindAttestation [0..<spec_subnet_count spec]"
    by (cases d) (simp add: fixed_topics_def dynamic_topics_def count comp_def)
  then have "\<forall>k \<in> set (map fst ?ts). kind_in_range k" using spec(4) by (auto simp: kind_in_range_def)
  then have "inj_on (topic_hash H digest) (set (map fst ?ts))"
    using topic_hash_inj [OF H] by (intro inj_onI) blast
  moreover have "distinct (map fst ?ts)" unfolding kinds by (auto simp: distinct_map inj_on_def)
  ultimately have dist: "distinct (map (topic_hash H digest \<circ> fst) ?ts)"
    by (simp only: distinct_map comp_inj_on map_map [symmetric] set_map [symmetric] simp_thms)
  then have topics: "psp_topics P = map (\<lambda>(k, p). (topic_hash H digest k, p)) ?ts"
    using P d fold_insert_fresh [OF dist, of "[]"] by (auto simp: get_peer_score_params_def Let_def)
  have fixed: "sum_list (map (positive_max \<circ> snd) (fixed_topics S)) = 50 * 15 / 100
      \<and> (\<forall>x \<in> set (fixed_topics S). topic_params_valid (snd x))"
    using ok settings_pos [OF ok]
    by (auto simp: fixed_topics_def positive_max_topic [OF ok] scoring_consts settings_ok_def
        intro!: topic_params_valid_get [OF ok])
  have shape: "map (positive_max \<circ> snd) (psp_topics P) = map (positive_max \<circ> snd) ?ts"
    "map snd (psp_topics P) = map snd ?ts" "map fst (psp_topics P) = map (topic_hash H digest \<circ> fst) ?ts"
    unfolding topics by (simp_all add: split_beta comp_def)
  note dynamic = dynamic_topics_ok [OF d active ok]
  have max: "ss_max_positive_score S = 50 * 15 / 100 + 100" using ok by (simp add: settings_ok_def)
  have "sum_list (map (positive_max \<circ> snd) (psp_topics P)) = ss_max_positive_score S"
    unfolding shape max map_append sum_list_append using fixed dynamic by simp
  moreover have "topic_score_cap P = ss_max_positive_score S / 2"
    using P d by (auto simp: get_peer_score_params_def Let_def)
  moreover have "list_all (topic_params_valid \<circ> snd) (psp_topics P)"
  proof -
    have "\<forall>p \<in> set (map snd (psp_topics P)). topic_params_valid p"
      unfolding shape using fixed dynamic by auto
    then show ?thesis by (simp add: list_all_iff)
  qed
  moreover have "distinct (map fst (psp_topics P))" unfolding shape by (rule dist)
  moreover have "length (psp_topics P) = 5 + spec_subnet_count spec"
    using arg_cong [OF kinds, of length] arg_cong [OF shape(2), of length] by simp
  ultimately show ?thesis by blast
qed

text \<open>What gossipsub documents to require of the parameters of a peer and of the thresholds.\<close>

definition peer_params_valid :: "peer_score_params \<Rightarrow> bool" where
  "peer_params_valid P \<longleftrightarrow> list_all (topic_params_valid \<circ> snd) (psp_topics P) \<and> 0 \<le> topic_score_cap P
     \<and> ip_colocation_factor_weight P \<le> 0
     \<and> (ip_colocation_factor_weight P = 0 \<or> 1 \<le> ip_colocation_factor_threshold P)
     \<and> behaviour_penalty_weight P \<le> 0
     \<and> (behaviour_penalty_weight P = 0 \<or> decay_valid (behaviour_penalty_decay P))
     \<and> 0 \<le> behaviour_penalty_threshold P \<and> from_secs 1 \<le> psp_decay_interval P \<and> decay_valid (psp_decay_to_zero P)"

definition thresholds_valid :: "peer_score_thresholds \<Rightarrow> bool" where
  "thresholds_valid T \<longleftrightarrow> gossip_threshold T \<le> 0 \<and> publish_threshold T \<le> gossip_threshold T
     \<and> graylist_threshold T \<le> publish_threshold T \<and> 0 \<le> accept_px_threshold T
     \<and> 0 \<le> opportunistic_graft_threshold T"

lemma lighthouse_thresholds_valid: "thresholds_valid lighthouse_gossip_thresholds"
  by (simp add: thresholds_valid_def lighthouse_gossip_thresholds_def GREYLIST_THRESHOLD_def)

lemma peer_params_valid_get:
  assumes "hex_laws H" "length digest = 4"
    and spec: "0 < seconds_per_slot spec" "0 < slots_per_epoch spec" "0 < spec_subnet_count spec"
      "spec_subnet_count spec \<le> u64_max" "0 < mesh"
    and S: "S = score_settings_new spec mesh" and "0 < active" and T: "thresholds_valid T"
    and P: "get_peer_score_params H C S active T digest current = Some (Inr P)"
  shows "peer_params_valid P"
proof -
  have ok: "settings_ok S" unfolding S using spec by (intro settings_ok_new)
  have "0 < ss_epoch S * 10" using settings_pos [OF ok] by simp
  note decay = decay_range [OF ok this]
  have "from_secs 1 \<le> ss_decay_interval S" by (simp add: S score_settings_new_def Let_def)
  moreover have "0 \<le> ss_max_positive_score S" "decay_valid (ss_decay_to_zero S)"
    using ok by (simp_all add: settings_ok_def decay_valid_def)
  moreover have "gossip_threshold T / x ^ 2 \<le> 0" for x
    using T by (simp add: thresholds_valid_def divide_nonpos_nonneg)
  ultimately show ?thesis
    using score_params_facts [OF assms(1-9) P] P decay
    by (auto simp: peer_params_valid_def get_peer_score_params_def Let_def decay_valid_def split: option.splits sum.splits)
qed

lemma get_peer_score_params_returns:
  assumes "\<And>a m t n. C a m t = Inr n \<Longrightarrow> 0 < n" and "0 < ss_slots_per_epoch S" "0 < ss_target_aggregators S"
  shows "get_peer_score_params H C S active T digest current \<noteq> None"
proof -
  have "expected_aggregator_count_per_slot C S active \<noteq> None"
    using assms by (auto simp: expected_aggregator_count_per_slot_def Let_def split: sum.split)
  then show ?thesis
    by (auto simp: get_peer_score_params_def get_dynamic_topic_params_def Let_def split: option.splits sum.splits)
qed

text \<open>C38. The parameters of a peer, when they can be computed: gossipsub accepts those of every topic, the positive
  score over all topics adds up to the greatest positive score of the settings, of which the cap is half,
  and each topic has an entry of its own.\<close>
theorem score_params_total:
  assumes H: "hex_laws H" "length digest = 4"
    and spec: "0 < seconds_per_slot spec" "0 < slots_per_epoch spec" "0 < spec_subnet_count spec"
      "spec_subnet_count spec \<le> u64_max" "0 < mesh"
    and S: "S = score_settings_new spec mesh" and active: "0 < active"
    and P: "get_peer_score_params H C S active T digest current = Some (Inr P)"
  shows "sum_list (map (positive_max \<circ> snd) (psp_topics P)) = ss_max_positive_score S
    \<and> topic_score_cap P = ss_max_positive_score S / 2
    \<and> list_all (topic_params_valid \<circ> snd) (psp_topics P)
    \<and> distinct (map fst (psp_topics P)) \<and> length (psp_topics P) = 5 + spec_subnet_count spec"
  using assms by (rule score_params_facts)

text \<open>The constants of the main network: a slot of twelve seconds, an epoch of 32 slots, 64 subnets.\<close>

definition mainnet_spec :: chain_spec where
  "mainnet_spec = \<lparr> seconds_per_slot = 12, slots_per_epoch = 32, spec_subnet_count = 64, spec_max_committees = 64,
     spec_target_size = 128, spec_target_aggregators = 16 \<rparr>"

definition mainnet_committees :: committee_count where
  "mainnet_committees active most target = Inr (max 1 (min most (active div 32 div target)))"

lemma score_params_total_witness:
  "\<exists>P. get_peer_score_params list_hex mainnet_committees (score_settings_new mainnet_spec 5) 16384
       lighthouse_gossip_thresholds [0, 0, 0, 0] 0 = Some (Inr P)
     \<and> sum_list (map (positive_max \<circ> snd) (psp_topics P)) = 215 / 2"
proof -
  let ?S = "score_settings_new mainnet_spec 5"
  obtain P where P: "get_peer_score_params list_hex mainnet_committees ?S 16384 lighthouse_gossip_thresholds
      [0, 0, 0, 0] 0 = Some (Inr P)"
    by (simp add: get_peer_score_params_def get_dynamic_topic_params_def expected_aggregator_count_per_slot_def
        mainnet_committees_def score_settings_new_def mainnet_spec_def Let_def)
  have "ss_max_positive_score ?S = 215 / 2"
    by (simp add: score_settings_new_def mainnet_spec_def Let_def scoring_consts)
  then show ?thesis
    using P score_params_total [OF list_hex_laws _ _ _ _ _ _ refl _ P]
    by (auto simp: mainnet_spec_def u64_max_def)
qed

end
