(* ===== verification/Network_Build_Props.thy ===== *)
theory Network_Build_Props
  imports Network_Build Network_Start_Props Config_Props Gossip_Scoring_Props
begin

text \<open>
  Building the network never panics, and gives a state from which the runs of \<open>Network_Props\<close> start.
\<close>

section \<open>What the libraries document\<close>

definition build_laws :: "('cfg, 'g, 'c, 'd) build_api \<Rightarrow> enr_fork_id \<Rightarrow> bool" where
  "build_laws X fork \<longleftrightarrow> (\<forall>b e. ba_sign X b = Inr e \<longrightarrow> enr_kv e = enr_kv b)
     \<and> (\<forall>e n e'. ba_set_seq X e n = Some e' \<longrightarrow> enr_kv e' = enr_kv e)
     \<and> (\<forall>e. hm_get (enr_kv e) ETH2_ENR_KEY = Some (fork_id_ssz fork) \<longrightarrow> ba_fork_id_of X e = Some fork)
     \<and> (\<forall>a m t n. ba_committees X a m t = Inr n \<longrightarrow> 0 < n)
     \<and> builder_accepts (ba_gossip_builder X)
     \<and> (\<forall>P T g. peer_params_valid P \<and> thresholds_valid T \<longrightarrow> (\<exists>g'. ba_with_peer_score X P T g = Inr g'))"

definition build_spec_ok :: "('cfg, 'g, 'c, 'd) build_api \<Rightarrow> 'cfg network_config \<Rightarrow> bool" where
  "build_spec_ok X cfg \<longleftrightarrow> 0 < seconds_per_slot (ba_spec X) \<and> 0 < slots_per_epoch (ba_spec X)
     \<and> 0 < spec_subnet_count (ba_spec X) \<and> spec_subnet_count (ba_spec X) \<le> u64_max
     \<and> 0 < spec_target_aggregators (ba_spec X) \<and> 0 < ba_min_validators X \<and> 0 < ba_mesh_n X (cfg_gs cfg)"

section \<open>The local record\<close>

lemma build_enr_kv:
  assumes "build_enr X A cfg fork node = Inr e" and "build_laws X fork"
  shows "hm_get (enr_kv e) ETH2_ENR_KEY = Some (fork_id_ssz fork)"
    and "hm_get (enr_kv e) ATTESTATION_BITFIELD_ENR_KEY \<noteq> None" "hm_get (enr_kv e) SYNC_COMMITTEE_BITFIELD_ENR_KEY \<noteq> None"
  using assms
  by (auto simp: build_enr_def Let_def build_laws_def add_value_def create_enr_builder_from_config_def
      ETH2_ENR_KEY_def ATTESTATION_BITFIELD_ENR_KEY_def SYNC_COMMITTEE_BITFIELD_ENR_KEY_def split: sum.splits)

text \<open>Whether it is built or taken from disk, the local record has the fork of the node and both bit fields.\<close>

lemma local_enr_kv:
  assumes e: "build_or_load_enr X A cfg fork = Inr e" and X: "build_laws X fork"
  shows "ba_fork_id_of X e = Some fork" and "hm_get (enr_kv e) ATTESTATION_BITFIELD_ENR_KEY \<noteq> None"
    and "hm_get (enr_kv e) SYNC_COMMITTEE_BITFIELD_ENR_KEY \<noteq> None"
proof -
  obtain node local saved where local: "build_enr X A cfg fork node = Inr local"
    "use_or_load_enr (ba_set_seq X) local (ba_disk_enr X) = Inr (e, saved)"
    using e by (fastforce simp: build_or_load_enr_def map_sum_def split: sum.splits)
  note kv = build_enr_kv [OF local(1) X]
  have set: "enr_kv e' = enr_kv l" if "ba_set_seq X l n = Some e'" for l n e'
    using X that by (simp add: build_laws_def)
  have "hm_get (enr_kv e) k = hm_get (enr_kv local) k"
    if "k \<in> {ETH2_ENR_KEY, ATTESTATION_BITFIELD_ENR_KEY, SYNC_COMMITTEE_BITFIELD_ENR_KEY}" for k
    using local(2) that set by (auto simp: use_or_load_enr_def compare_enr_def split: option.splits if_splits)
  then have "hm_get (enr_kv e) ETH2_ENR_KEY = Some (fork_id_ssz fork)"
    and "hm_get (enr_kv e) ATTESTATION_BITFIELD_ENR_KEY \<noteq> None" "hm_get (enr_kv e) SYNC_COMMITTEE_BITFIELD_ENR_KEY \<noteq> None"
    using kv by simp_all
  then show "ba_fork_id_of X e = Some fork" "hm_get (enr_kv e) ATTESTATION_BITFIELD_ENR_KEY \<noteq> None"
    "hm_get (enr_kv e) SYNC_COMMITTEE_BITFIELD_ENR_KEY \<noteq> None" using X by (simp_all add: build_laws_def)
qed

section \<open>Gossipsub\<close>

lemma gossipsub_new_returns:
  assumes X: "build_laws X fork" and spec: "build_spec_ok X cfg" and H: "hex_laws H" "length (fork_digest fork) = 4"
  shows "gossipsub_new X H cfg fork \<noteq> None"
proof -
  let ?S = "score_settings_new (ba_spec X) (ba_mesh_n X (cfg_gs cfg))"
  let ?params = "get_peer_score_params H (ba_committees X) ?S (ba_min_validators X) lighthouse_gossip_thresholds
      (fork_digest fork) 0"
  have "?params \<noteq> None"
    using X spec by (intro get_peer_score_params_returns) (auto simp: build_laws_def build_spec_ok_def
        score_settings_new_def Let_def)
  then obtain r where r: "?params = Some r" by blast
  obtain gs where gs: "gossipsub_config (ba_gossip_builder X) (ba_sha X) (cfg_load cfg) (ba_fork_context X) = Some gs"
    using gossipsub_config_returns [of "ba_gossip_builder X" "ba_sha X" "cfg_load cfg" "ba_fork_context X"] X
    by (auto simp: build_laws_def)
  show ?thesis
  proof (cases r)
    case (Inl e)
    then show ?thesis by (simp add: gossipsub_new_def Let_def r)
  next
    case (Inr P)
    have "peer_params_valid P"
      using peer_params_valid_get [OF H _ _ _ _ _ refl _ lighthouse_thresholds_valid r [unfolded Inr]] spec
      by (simp add: build_spec_ok_def)
    then have "\<exists>g'. ba_with_peer_score X P lighthouse_gossip_thresholds g = Inr g'" for g
      using X lighthouse_thresholds_valid by (simp add: build_laws_def)
    then show ?thesis
      by (auto simp: gossipsub_new_def Let_def r Inr gs split: sum.split) (metis Inr_not_Inl)
  qed
qed

section \<open>The network\<close>

lemma rpc_limits_returns: "\<exists>rl. rpc_limits_config now = Inr rl"
  by (simp add: rpc_limits_config_def builder_build_def n_every_def one_every_def set_quota_def
      builder_new_def ok_or_def from_quota_def from_secs_def nanos_per_sec_def Let_def MAX_REQUEST_BLOCKS_def)

lemma net_run_subscribe_kinds: "net_run E n \<Longrightarrow> net_run E (fst (subscribe_kinds E ks n))"
proof (induction ks arbitrary: n)
  case (Cons k ks)
  have "net_run E (fst (subscribe_kind E k n))"
    unfolding subscribe_kind_def using Cons.prems by (rule net_run.App) (rule app_step.intros)
  then show ?case using Cons.IH by (simp add: split_beta)
qed simp

lemma network_start_returns: "\<exists>r. network_start E listens cfg n = Some r"
  by (simp add: network_start_def start_dials_def all_boot_dials_exact split_beta)

lemma network_start_network:
  "network_start E listens cfg n = Some (Inr (m, ds, ts)) \<Longrightarrow> m = fst (subscribe_kinds E (cfg_topics cfg) n)"
  by (auto simp: network_start_def start_dials_def all_boot_dials_exact split_beta split: if_splits)

lemma built_network:
  assumes "discovery_new X (disc_of E) cfg local = Inr disc"
  shows "net_run E (fst (subscribe_kinds E ts (network_new E pc (network_globals_new i now l tcp udp md tr)
      fork sps spe disc rpc g)))"
    and "n_fork_id (fst (subscribe_kinds E ts (network_new E pc gl fork sps spe disc rpc g))) = fork"
proof -
  have "active_queries disc = []" "queued_queries disc = []" "\<not> find_peer_active disc"
    using assms by (auto simp: discovery_new_def Let_def split: sum.splits if_splits)
  then show "net_run E (fst (subscribe_kinds E ts (network_new E pc (network_globals_new i now l tcp udp md tr)
      fork sps spe disc rpc g)))"
    by (intro net_run_subscribe_kinds net_run.Start)
  show "n_fork_id (fst (subscribe_kinds E ts (network_new E pc gl fork sps spe disc rpc g))) = fork"
    using set_subscribe_kinds [of E ts "network_new E pc gl fork sps spe disc rpc g"] by (simp add: network_new_def)
qed

text \<open>When the libraries keep to their documentation and the constants are those of a chain, building the network
  never panics; it fails with an error of a library, or gives a network with the fork id it was asked for,
  from which every run starts.\<close>
theorem network_build_safe:
  assumes X: "build_laws X fork" and spec: "build_spec_ok X cfg" and H: "hex_laws (hex_of E)" "length (fork_digest fork) = 4"
  shows "network_build X E cfg fork now \<noteq> None
    \<and> (\<forall>n dials topics. network_build X E cfg fork now = Some (Inr (n, dials, topics))
          \<longrightarrow> net_run E n \<and> n_fork_id n = fork)"
proof (cases "build_or_load_enr X (disc_of E) cfg fork")
  case (Inr local)
  note fork = local_enr_kv(1) [OF Inr X]
  obtain r where r: "gossipsub_new X (hex_of E) cfg fork = Some r" using gossipsub_new_returns [OF X spec H] by blast
  obtain rl where "rpc_limits_config now = Inr rl" using rpc_limits_returns by blast
  then have rpc: "rpc_new now = Inr \<lparr> rpc_limiter = rl, rpc_events = [] \<rparr>" by (simp add: rpc_new_def)
  show ?thesis
    by (cases r) (auto simp: network_build_def Inr fork r rpc Let_def network_start_returns
      dest!: network_start_network intro: built_network split: sum.split)
qed (simp add: network_build_def)

section \<open>Examples\<close>

text \<open>Libraries that accept what they should, on the constants of the main network.\<close>

definition plain_build :: "(gossip_settings, unit, (peer_id, enr) hmap, enr) build_api" where
  "plain_build = \<lparr> ba_key = Inr 7, ba_sign = Inr, ba_set_seq = (\<lambda>e n. Some (e\<lparr>enr_seq := n\<rparr>)), ba_disk_enr = None,
     ba_fork_id_of = (\<lambda>e. map_option (\<lambda>bs. \<lparr>fork_digest = take 4 bs, fork_id_ssz = bs\<rparr>) (hm_get (enr_kv e) ETH2_ENR_KEY)),
     ba_metadata = unary_codec, ba_metadata_file = None, ba_spec = mainnet_spec, ba_min_validators = 16384,
     ba_committees = mainnet_committees, ba_sync_subnets = 4,
     ba_fork_context = \<lparr>current_fork = Capella, to_context_bytes = (\<lambda>_. None), genesis_context_bytes = [],
       from_context_bytes = (\<lambda>_. None)\<rparr>,
     ba_fork_digests = [[0, 0, 0, 0]], ba_sha = (\<lambda>bs. bs), ba_topic_hash = (\<lambda>t. t),
     ba_gossip_builder = checking_builder, ba_mesh_n = gs_mesh_n, ba_max_transmit = gs_max_transmit_size,
     ba_gossip_new = (\<lambda>_ _ _. Inr ()),
     ba_with_peer_score = (\<lambda>_ _. Inr), ba_discv5_new = (\<lambda>_. Inr), ba_discv5_start = (\<lambda>_. Inr),
     ba_request_enr = (\<lambda>_. Inl ''none''), ba_lru_new = [], ba_transport = Inr (), ba_listens = (\<lambda>_. True) \<rparr>"

definition plain_config_env :: "gossip_settings config_env" where
  "plain_config_env = \<lparr> ce_gs = load_settings (network_load_of 3) True, ce_home = Some ''/root'',
     ce_directories = [''.lighthouse'', ''mainnet'', ''beacon'', ''network''], ce_client_version = ''v4'' \<rparr>"

lemma plain_network_dir: "cfg_network_dir (default_network_config plain_config_env) = ''/root/.lighthouse/mainnet/beacon/network''"
  by (simp add: default_network_config_def plain_config_env_def path_join_def)

lemma plain_build_laws: "build_laws plain_build \<lparr>fork_digest = [1, 2, 3, 4], fork_id_ssz = [1, 2, 3, 4, 9]\<rparr>"
  using checking_builder_accepts
  by (auto simp: build_laws_def plain_build_def mainnet_committees_def)

lemma network_build_safe_witness:
  "network_build plain_build lonely_env
     (default_network_config plain_config_env) \<lparr>fork_digest = [1, 2, 3, 4], fork_id_ssz = [1, 2, 3, 4, 9]\<rparr> 0
   \<noteq> (None :: (string + (nat, nat, _, _, _, _, _) network \<times> multiaddr list \<times> gossip_kind list) option)"
proof -
  have "build_spec_ok plain_build (default_network_config plain_config_env)"
    by (simp add: build_spec_ok_def plain_build_def mainnet_spec_def default_network_config_def plain_config_env_def load_settings_def
        network_load_of_def u64_max_def)
  moreover have "hex_laws (hex_of lonely_env)" by (simp add: lonely_env_def list_hex_laws)
  ultimately show ?thesis
    by (intro network_build_safe [OF plain_build_laws, THEN conjunct1]) simp_all
qed

end
