(* ===== verification/Sentry.thy ===== *)
theory Sentry
  imports Network_Events Config
begin

text \<open>
  \<open>sentry.rs\<close>: the service of the whole program.  It runs the network, takes commands, answers the status
  requests of peers with a status it keeps up to date from the blocks it receives, and hands the messages
  of the subscribed topics on.  The slot and the root of a block are parameters; what is sent to the holder
  of a handle is recorded.
\<close>

section \<open>Configuration\<close>

record sentry_config =
  sc_boot_enrs :: "enr list"
  sc_libp2p_port :: port
  sc_discovery_port :: port
  sc_max_peers :: nat
  sc_metrics_enabled :: bool
  sc_network_load :: u8

text \<open>The records of the boot nodes are decoded by the library from the text in \<open>bootnode_enrs\<close>.\<close>

definition default_sentry_config :: "enr list \<Rightarrow> sentry_config" where
  "default_sentry_config bootnode_enrs = \<lparr> sc_boot_enrs = bootnode_enrs, sc_libp2p_port = 9000,
     sc_discovery_port = 9000, sc_max_peers = 50, sc_metrics_enabled = True, sc_network_load = 6 \<rparr>"

definition sentry_network_config :: "'cfg config_env \<Rightarrow> sentry_config \<Rightarrow> 'cfg network_config" where
  "sentry_network_config C cfg = (default_network_config C)\<lparr>
     cfg_libp2p_port := sc_libp2p_port cfg, cfg_discovery_port := sc_discovery_port cfg,
     cfg_boot_nodes_enr := sc_boot_enrs cfg, cfg_target_peers := sc_max_peers cfg,
     cfg_metrics := sc_metrics_enabled cfg, cfg_load := sc_network_load cfg \<rparr>"

section \<open>State\<close>

record 'o sentry_message =
  msg_peer_id :: peer_id
  msg_remote_addr :: "socket_addr option"
  msg_message :: "'o pubsub_message"

record local_network_info =
  lni_enr :: enr
  lni_peer_id :: peer_id

text \<open>A command that asks for an answer carries the sending end of a channel for it, here its number.\<close>

type_synonym reply = nat

datatype 'o sentry_command =
    Subscribe gossip_kind
  | Publish "'o pubsub_message"
  | PeerCount reply
  | LocalNetworkInfo reply
  | AddTrusted peer_id enr
  | RemoveTrusted peer_id

text \<open>What goes back through the channels.\<close>

datatype 'o sentry_output =
    OutPeerCount reply nat
  | OutLocalNetworkInfo reply local_network_info
  | OutMessage "'o sentry_message"

record 'o block_api =
  block_slot :: "'o \<Rightarrow> slot"
  block_root :: "'o \<Rightarrow> hash256"

text \<open>What the service knows of the chain.\<close>

record chain_view =
  highest_status :: status_message
  epoch_blocks :: "(slot \<times> hash256) list"
  epoch_up_to_date :: bool
  last_epoch :: epoch

record ('b, 'h, 'c, 'd, 'q, 'g, 'o) sentry =
  se_network :: "(nat, 'b, 'h, 'c, 'd, 'q, 'g) network"
  se_listener :: bool
  se_view :: chain_view
  se_trusted :: "peer_id list"
  se_output :: "'o sentry_output list"

definition first_status :: "bytes \<Rightarrow> status_message" where
  "first_status digest = \<lparr> sm_fork_digest = digest,
     sm_finalized_root = 0xb6adca904a0674b7263f8f9518b2a0dff5ee6089ee92890e742d0a64a2cbbb43,
     sm_finalized_epoch = 194863,
     sm_head_root = 0xb41d25d17ef959d15aabdc01df99e2ec94dd600a0ac218d5b79b2a95cb14acad,
     sm_head_slot = 6235698 \<rparr>"

definition first_view :: "bytes \<Rightarrow> chain_view" where
  "first_view digest = \<lparr> highest_status = first_status digest, epoch_blocks = [], epoch_up_to_date = False,
     last_epoch = 0 \<rparr>"

definition sentry_start :: "bytes \<Rightarrow> bool \<Rightarrow> (nat, 'b, 'h, 'c, 'd, 'q, 'g) network \<Rightarrow>
     ('b, 'h, 'c, 'd, 'q, 'g, 'o) sentry" where
  "sentry_start digest listener n = \<lparr> se_network = n, se_listener = listener, se_view = first_view digest,
     se_trusted = [], se_output = [] \<rparr>"

section \<open>Blocks\<close>

text \<open>The first block of an epoch above all seen so far is remembered; when there are three, the oldest is
  taken for finalized.  From then on the highest block is the head.\<close>

definition mark_epoch :: "slot \<Rightarrow> hash256 \<Rightarrow> chain_view \<Rightarrow> chain_view" where
  "mark_epoch slot h v =
     (if slot mod 32 = 0 \<and> slot div 32 > last_epoch v
      then (let v = v\<lparr>last_epoch := slot div 32, epoch_blocks := epoch_blocks v @ [(slot, h)]\<rparr>
        in if length (epoch_blocks v) > 2
           then (let (finalized_slot, finalized_root) = hd (epoch_blocks v)
             in v\<lparr>epoch_blocks := tl (epoch_blocks v),
                  highest_status := (highest_status v)\<lparr>sm_finalized_root := finalized_root,
                     sm_finalized_epoch := finalized_slot div 32\<rparr>,
                  epoch_up_to_date := True\<rparr>)
           else v)
      else v)"

definition mark_head :: "slot \<Rightarrow> hash256 \<Rightarrow> chain_view \<Rightarrow> chain_view" where
  "mark_head slot h v =
     (if epoch_up_to_date v \<and> slot > sm_head_slot (highest_status v)
      then v\<lparr>highest_status := (highest_status v)\<lparr>sm_head_root := h, sm_head_slot := slot\<rparr>\<rparr>
      else v)"

fun see_block :: "slot \<times> hash256 \<Rightarrow> chain_view \<Rightarrow> chain_view" where
  "see_block (slot, h) v = mark_head slot h (mark_epoch slot h v)"

section \<open>Commands and events\<close>

definition on_network :: "((nat, 'b, 'h, 'c, 'd, 'q, 'g) network \<Rightarrow> (nat, 'b, 'h, 'c, 'd, 'q, 'g) network) \<Rightarrow>
     ('b, 'h, 'c, 'd, 'q, 'g, 'o) sentry \<Rightarrow> ('b, 'h, 'c, 'd, 'q, 'g, 'o) sentry" where
  "on_network f s = s\<lparr>se_network := f (se_network s)\<rparr>"

definition say :: "'o sentry_output \<Rightarrow> ('b, 'h, 'c, 'd, 'q, 'g, 'o) sentry \<Rightarrow>
     ('b, 'h, 'c, 'd, 'q, 'g, 'o) sentry" where
  "say x s = s\<lparr>se_output := se_output s @ [x]\<rparr>"

definition add_explicit :: "('h, 'c, 'd, 'q, 'g, 'o) net_env \<Rightarrow> peer_id \<Rightarrow>
     (nat, 'b, 'h, 'c, 'd, 'q, 'g) network \<Rightarrow> (nat, 'b, 'h, 'c, 'd, 'q, 'g) network" where
  "add_explicit E p n = n\<lparr>n_gossip := gs_add_explicit (gossip_of E) p (n_gossip n)\<rparr>"

definition remove_explicit :: "('h, 'c, 'd, 'q, 'g, 'o) net_env \<Rightarrow> peer_id \<Rightarrow>
     (nat, 'b, 'h, 'c, 'd, 'q, 'g) network \<Rightarrow> (nat, 'b, 'h, 'c, 'd, 'q, 'g) network" where
  "remove_explicit E p n = n\<lparr>n_gossip := gs_remove_explicit (gossip_of E) p (n_gossip n)\<rparr>"

definition handle_command :: "('h, 'c, 'd, 'q, 'g, 'o) net_env \<Rightarrow> instant \<Rightarrow> 'o sentry_command \<Rightarrow>
     ('b, 'h, 'c, 'd, 'q, 'g, 'o) sentry \<Rightarrow> ('b, 'h, 'c, 'd, 'q, 'g, 'o) sentry" where
  "handle_command E now cmd s = (case cmd of
       Subscribe k \<Rightarrow> on_network (\<lambda>n. fst (subscribe_kind E k n)) s
     | Publish data \<Rightarrow> on_network (net_publish E now [data]) s
     | PeerCount tx \<Rightarrow> say (OutPeerCount tx (connected_count (net_globals (se_network s)))) s
     | LocalNetworkInfo tx \<Rightarrow> say (OutLocalNetworkInfo tx \<lparr> lni_enr = net_local_enr (se_network s),
         lni_peer_id = local_peer_id (net_globals (se_network s)) \<rparr>) s
     | AddTrusted p e \<Rightarrow>
         (let s = on_network (net_add_enr E e) s
          in if pm_is_connected (n_pm (se_network s)) p then s
             else (on_network (on_pm (dial_trusted_peer p (Some e))) s)\<lparr>se_trusted := List.insert p (se_trusted s)\<rparr>)
     | RemoveTrusted p \<Rightarrow>
         (if p \<in> set (se_trusted s)
          then on_network (\<lambda>n. on_pm (remove_trusted p) (remove_explicit E p n))
                 (s\<lparr>se_trusted := removeAll p (se_trusted s)\<rparr>)
          else s))"

definition trusted_connected :: "('h, 'c, 'd, 'q, 'g, 'o) net_env \<Rightarrow> peer_id \<Rightarrow>
     ('b, 'h, 'c, 'd, 'q, 'g, 'o) sentry \<Rightarrow> ('b, 'h, 'c, 'd, 'q, 'g, 'o) sentry" where
  "trusted_connected E p s = (if p \<in> set (se_trusted s) then on_network (add_explicit E p) s else s)"

definition forward_message :: "peer_id \<Rightarrow> 'o pubsub_message \<Rightarrow>
     ('b, 'h, 'c, 'd, 'q, 'g, 'o) sentry \<Rightarrow> ('b, 'h, 'c, 'd, 'q, 'g, 'o) sentry" where
  "forward_message source m s =
     (if se_listener s
      then say (OutMessage \<lparr> msg_peer_id = source,
          msg_remote_addr = (case peer_info_get (net_db (se_network s)) source of
             Some info \<Rightarrow> (case seen_addresses info of a # _ \<Rightarrow> Some a | [] \<Rightarrow> None)
           | None \<Rightarrow> None),
          msg_message = m \<rparr>) s
      else s)"

definition handle_event :: "('h, 'c, 'd, 'q, 'g, 'o) net_env \<Rightarrow> 'o block_api \<Rightarrow> (nat, 'b, 'o) network_event \<Rightarrow>
     ('b, 'h, 'c, 'd, 'q, 'g, 'o) sentry \<Rightarrow> ('b, 'h, 'c, 'd, 'q, 'g, 'o) sentry" where
  "handle_event E B ev s = (case ev of
       EvPeerConnectedIncoming p \<Rightarrow> trusted_connected E p s
     | EvPeerConnectedOutgoing p \<Rightarrow> trusted_connected E p
         (on_network (net_send_request p 10 (AppStatus (highest_status (se_view s)))) s)
     | EvPubsubMessage _ source _ m \<Rightarrow> forward_message source m
         (case m of PubsubBeaconBlock b \<Rightarrow> s\<lparr>se_view := see_block (block_slot B b, block_root B b) (se_view s)\<rparr>
                  | _ \<Rightarrow> s)
     | EvRequestReceived p i req \<Rightarrow> (case req of
           AppStatus _ \<Rightarrow> on_network (net_send_response p i (RespondStatus (highest_status (se_view s)))) s
         | _ \<Rightarrow> s)
     | _ \<Rightarrow> s)"

section \<open>The loop\<close>

text \<open>One round of the loop: a command arrives, or the network is polled and may give an event.\<close>

datatype ('b, 'o) sentry_input =
    InCommand "'o sentry_command"
  | InPoll "(nat, 'b) swarm_event list" nat

definition sentry_round :: "('h, 'c, 'd, 'q, 'g, 'o) net_env \<Rightarrow> 'o block_api \<Rightarrow> instant \<Rightarrow> ('b, 'o) sentry_input \<Rightarrow>
     ('b, 'h, 'c, 'd, 'q, 'g, 'o) sentry \<Rightarrow> ('b, 'h, 'c, 'd, 'q, 'g, 'o) sentry option" where
  "sentry_round E B now i s = (case i of
       InCommand cmd \<Rightarrow> Some (handle_command E now cmd s)
     | InPoll evs ticks \<Rightarrow> (case poll_network E now evs ticks (se_network s) of
           None \<Rightarrow> None
         | Some (n, rest, None) \<Rightarrow> Some (s\<lparr>se_network := n\<rparr>)
         | Some (n, rest, Some ev) \<Rightarrow> Some (handle_event E B ev (s\<lparr>se_network := n\<rparr>))))"

end
