(* ===== verification/Sentry_Handle.thy ===== *)
theory Sentry_Handle
  imports Sentry Network_Build
begin

text \<open>
  The outside of the service in \<open>sentry.rs\<close>: \<open>SentryHandle\<close>, whose methods put commands into the channel of the
  service, and \<open>Sentry\<close> itself before and after its start.  The channel is the list of the commands sent and not
  yet taken; a one-shot channel for an answer is a number, and what was sent into it is in the output of the
  service.  A panic of the service drops its end of the channel with all commands in it.
\<close>

section \<open>The service and its channel\<close>

text \<open>\<open>Sentry\<close> before \<open>start\<close> has its configuration, and whether the stream of messages was asked for; \<open>start\<close>
  never returns, so that the service ends only in a panic.\<close>

datatype ('b, 'h, 'c, 'd, 'q, 'g, 'o) phase =
    Created sentry_config bool
  | Running "('b, 'h, 'c, 'd, 'q, 'g, 'o) sentry"
  | Ended "'o sentry_output list"

record ('b, 'h, 'c, 'd, 'q, 'g, 'o) service =
  sv_phase :: "('b, 'h, 'c, 'd, 'q, 'g, 'o) phase"
  sv_queue :: "'o sentry_command list"
  sv_replies :: nat

fun phase_output :: "('b, 'h, 'c, 'd, 'q, 'g, 'o) phase \<Rightarrow> 'o sentry_output list" where
  "phase_output (Created cfg listener) = []"
| "phase_output (Running s) = se_output s"
| "phase_output (Ended os) = os"

definition sentry_new :: "sentry_config \<Rightarrow> ('b, 'h, 'c, 'd, 'q, 'g, 'o) service" where
  "sentry_new cfg = \<lparr> sv_phase = Created cfg False, sv_queue = [], sv_replies = 0 \<rparr>"

definition pubsub_event_stream :: "('b, 'h, 'c, 'd, 'q, 'g, 'o) service \<Rightarrow> ('b, 'h, 'c, 'd, 'q, 'g, 'o) service" where
  "pubsub_event_stream v = (case sv_phase v of Created cfg _ \<Rightarrow> v\<lparr>sv_phase := Created cfg True\<rparr> | _ \<Rightarrow> v)"

definition end_service :: "('b, 'h, 'c, 'd, 'q, 'g, 'o) service \<Rightarrow> ('b, 'h, 'c, 'd, 'q, 'g, 'o) service" where
  "end_service v = v\<lparr>sv_phase := Ended (phase_output (sv_phase v)), sv_queue := []\<rparr>"

section \<open>The handle\<close>

text \<open>Sending into a channel without a receiver is an error that is ignored.\<close>

definition send_command :: "'o sentry_command \<Rightarrow> ('b, 'h, 'c, 'd, 'q, 'g, 'o) service \<Rightarrow>
     ('b, 'h, 'c, 'd, 'q, 'g, 'o) service" where
  "send_command cmd v = (case sv_phase v of Ended _ \<Rightarrow> v | _ \<Rightarrow> v\<lparr>sv_queue := sv_queue v @ [cmd]\<rparr>)"

definition subscribe_topic :: "gossip_kind \<Rightarrow> ('b, 'h, 'c, 'd, 'q, 'g, 'o) service \<Rightarrow>
     ('b, 'h, 'c, 'd, 'q, 'g, 'o) service" where
  "subscribe_topic k = send_command (Subscribe k)"

definition add_trusted_peer :: "peer_id \<Rightarrow> enr \<Rightarrow> ('b, 'h, 'c, 'd, 'q, 'g, 'o) service \<Rightarrow>
     ('b, 'h, 'c, 'd, 'q, 'g, 'o) service" where
  "add_trusted_peer p e = send_command (AddTrusted p e)"

definition remove_trusted_peer :: "peer_id \<Rightarrow> ('b, 'h, 'c, 'd, 'q, 'g, 'o) service \<Rightarrow>
     ('b, 'h, 'c, 'd, 'q, 'g, 'o) service" where
  "remove_trusted_peer p = send_command (RemoveTrusted p)"

definition publish_message :: "'o pubsub_message \<Rightarrow> ('b, 'h, 'c, 'd, 'q, 'g, 'o) service \<Rightarrow>
     ('b, 'h, 'c, 'd, 'q, 'g, 'o) service" where
  "publish_message m = send_command (Publish m)"

text \<open>The two methods with an answer first send the command with a new channel, and then wait.\<close>

definition peer_count :: "('b, 'h, 'c, 'd, 'q, 'g, 'o) service \<Rightarrow> reply \<times> ('b, 'h, 'c, 'd, 'q, 'g, 'o) service" where
  "peer_count v = (sv_replies v, (send_command (PeerCount (sv_replies v)) v)\<lparr>sv_replies := sv_replies v + 1\<rparr>)"

definition ask_network_info :: "('b, 'h, 'c, 'd, 'q, 'g, 'o) service \<Rightarrow>
     reply \<times> ('b, 'h, 'c, 'd, 'q, 'g, 'o) service" where
  "ask_network_info v =
     (sv_replies v, (send_command (LocalNetworkInfo (sv_replies v)) v)\<lparr>sv_replies := sv_replies v + 1\<rparr>)"

datatype 'a awaited = Waiting | Ready 'a | Panicked

fun count_reply :: "reply \<Rightarrow> 'o sentry_output list \<Rightarrow> nat option" where
  "count_reply r [] = None"
| "count_reply r (OutPeerCount tx n # os) = (if tx = r then Some n else count_reply r os)"
| "count_reply r (_ # os) = count_reply r os"

fun info_reply :: "reply \<Rightarrow> 'o sentry_output list \<Rightarrow> local_network_info option" where
  "info_reply r [] = None"
| "info_reply r (OutLocalNetworkInfo tx i # os) = (if tx = r then Some i else info_reply r os)"
| "info_reply r (_ # os) = info_reply r os"

text \<open>The answer, or what the method makes of a channel whose sending end was dropped with its command.\<close>

definition peer_count_await :: "reply \<Rightarrow> ('b, 'h, 'c, 'd, 'q, 'g, 'o) service \<Rightarrow> nat awaited" where
  "peer_count_await r v = (case count_reply r (phase_output (sv_phase v)) of
       Some n \<Rightarrow> Ready n
     | None \<Rightarrow> if PeerCount r \<in> set (sv_queue v) then Waiting else Ready 0)"

definition network_info_await :: "reply \<Rightarrow> ('b, 'h, 'c, 'd, 'q, 'g, 'o) service \<Rightarrow> local_network_info awaited" where
  "network_info_await r v = (case info_reply r (phase_output (sv_phase v)) of
       Some i \<Rightarrow> Ready i
     | None \<Rightarrow> if LocalNetworkInfo r \<in> set (sv_queue v) then Waiting else Panicked)"

section \<open>The start and the loop\<close>

text \<open>The chain of the main network, from another crate: the epoch of a fork, the first slot of an epoch, the
  context of the forks and the fork id at a slot.\<close>

record chain_api =
  ca_fork_epoch :: "fork_name \<Rightarrow> epoch option"
  ca_start_slot :: "epoch \<Rightarrow> slot"
  ca_fork_context :: "slot \<Rightarrow> hash256 \<Rightarrow> fork_context"
  ca_enr_fork_id :: "slot \<Rightarrow> hash256 \<Rightarrow> enr_fork_id"

text \<open>All a service runs in.\<close>

record ('cfg, 'h, 'c, 'd, 'q, 'g, 'o) deployment =
  de_build :: "('cfg, 'g, 'c, 'd) build_api"
  de_config :: "'cfg config_env"
  de_chain :: chain_api
  de_env :: "('h, 'c, 'd, 'q, 'g, 'o) net_env"
  de_blocks :: "'o block_api"

definition genesis_validators_root :: hash256 where
  "genesis_validators_root = 0x4b363db94e286120d76eb905340fdd4e54bfe9f06bf33ff6cf5ad27f511bfe95"

definition capella_slot :: "('cfg, 'h, 'c, 'd, 'q, 'g, 'o) deployment \<Rightarrow> slot option" where
  "capella_slot W = map_option (ca_start_slot (de_chain W)) (ca_fork_epoch (de_chain W) Capella)"

definition capella_context :: "('cfg, 'h, 'c, 'd, 'q, 'g, 'o) deployment \<Rightarrow> slot \<Rightarrow> fork_context" where
  "capella_context W slot = ca_fork_context (de_chain W) slot genesis_validators_root"

definition capella_fork_id :: "('cfg, 'h, 'c, 'd, 'q, 'g, 'o) deployment \<Rightarrow> slot \<Rightarrow> enr_fork_id" where
  "capella_fork_id W slot = ca_enr_fork_id (de_chain W) slot genesis_validators_root"

definition service_network :: "('cfg, 'h, 'c, 'd, 'q, 'g, 'o) deployment \<Rightarrow> instant \<Rightarrow> sentry_config \<Rightarrow> slot \<Rightarrow>
     (string + (nat, 'b, 'h, 'c, 'd, 'q, 'g) network \<times> multiaddr list \<times> gossip_kind list) option" where
  "service_network W now cfg slot = network_build ((de_build W)\<lparr>ba_fork_context := capella_context W slot\<rparr>) (de_env W)
     (sentry_network_config (de_config W) cfg) (capella_fork_id W slot) now"

text \<open>\<open>Sentry::start\<close> up to its loop: every \<open>unwrap\<close> on the way is a panic.\<close>

definition launch :: "('cfg, 'h, 'c, 'd, 'q, 'g, 'o) deployment \<Rightarrow> instant \<Rightarrow> sentry_config \<Rightarrow> bool \<Rightarrow>
     ('b, 'h, 'c, 'd, 'q, 'g, 'o) sentry option" where
  "launch W now cfg listener = (case capella_slot W of
       None \<Rightarrow> None
     | Some slot \<Rightarrow> (case to_context_bytes (capella_context W slot) Capella of
           None \<Rightarrow> None
         | Some digest \<Rightarrow> (case service_network W now cfg slot of
               Some (Inr (n, dials, topics)) \<Rightarrow> Some (sentry_start digest listener n)
             | _ \<Rightarrow> None)))"

definition start_service :: "('cfg, 'h, 'c, 'd, 'q, 'g, 'o) deployment \<Rightarrow> instant \<Rightarrow>
     ('b, 'h, 'c, 'd, 'q, 'g, 'o) service \<Rightarrow> ('b, 'h, 'c, 'd, 'q, 'g, 'o) service" where
  "start_service W now v = (case sv_phase v of
       Created cfg listener \<Rightarrow> (case launch W now cfg listener of
           None \<Rightarrow> end_service v
         | Some s \<Rightarrow> v\<lparr>sv_phase := Running s\<rparr>)
     | _ \<Rightarrow> v)"

definition service_round :: "('cfg, 'h, 'c, 'd, 'q, 'g, 'o) deployment \<Rightarrow> instant \<Rightarrow> ('b, 'o) sentry_input \<Rightarrow>
     ('b, 'h, 'c, 'd, 'q, 'g, 'o) service \<Rightarrow> ('b, 'h, 'c, 'd, 'q, 'g, 'o) service" where
  "service_round W now i v = (case sv_phase v of
       Running s \<Rightarrow> (case sentry_round (de_env W) (de_blocks W) now i s of
           None \<Rightarrow> end_service v
         | Some s \<Rightarrow> v\<lparr>sv_phase := Running s\<rparr>)
     | _ \<Rightarrow> v)"

text \<open>The branch of the loop that takes a command; the service keeps a sender itself, so that the channel is never
  closed and an empty one is waited for.\<close>

definition take_command :: "('cfg, 'h, 'c, 'd, 'q, 'g, 'o) deployment \<Rightarrow> instant \<Rightarrow>
     ('b, 'h, 'c, 'd, 'q, 'g, 'o) service \<Rightarrow> ('b, 'h, 'c, 'd, 'q, 'g, 'o) service" where
  "take_command W now v = (case sv_queue v of
       [] \<Rightarrow> v
     | cmd # cmds \<Rightarrow> service_round W now (InCommand cmd) (v\<lparr>sv_queue := cmds\<rparr>))"

end
