(* ===== verification/Sentry_Props.thy ===== *)
theory Sentry_Props
  imports Sentry Network_Props
begin

text \<open>
  What the service announces to its peers as a function of the blocks it has received, the life of a trusted
  peer, and the invariants of the network in every run of the loop.
\<close>

section \<open>The announced status\<close>

text \<open>The first blocks of epochs, each epoch above the one before.\<close>

fun boundaries :: "epoch \<Rightarrow> (slot \<times> hash256) list \<Rightarrow> (slot \<times> hash256) list" where
  "boundaries e [] = []"
| "boundaries e ((s, h) # bs) =
     (if s mod 32 = 0 \<and> s div 32 > e then (s, h) # boundaries (s div 32) bs else boundaries e bs)"

text \<open>The blocks from the boundary on that follows \<open>k\<close> others.\<close>

fun since_boundary :: "nat \<Rightarrow> epoch \<Rightarrow> (slot \<times> hash256) list \<Rightarrow> (slot \<times> hash256) list" where
  "since_boundary k e [] = []"
| "since_boundary k e ((s, h) # bs) =
     (if s mod 32 = 0 \<and> s div 32 > e
      then (if k = 0 then (s, h) # bs else since_boundary (k - 1) (s div 32) bs)
      else since_boundary k e bs)"

definition higher :: "slot \<times> hash256 \<Rightarrow> slot \<times> hash256 \<Rightarrow> slot \<times> hash256" where
  "higher b best = (if fst b > fst best then b else best)"

definition view_finalized :: "chain_view \<Rightarrow> epoch \<times> hash256" where
  "view_finalized v = (sm_finalized_epoch (highest_status v), sm_finalized_root (highest_status v))"

definition view_head :: "chain_view \<Rightarrow> slot \<times> hash256" where
  "view_head v = (sm_head_slot (highest_status v), sm_head_root (highest_status v))"

definition third_last :: "(slot \<times> hash256) list \<Rightarrow> epoch \<times> hash256 \<Rightarrow> epoch \<times> hash256" where
  "third_last ms d = (if length ms < 3 then d else map_prod (\<lambda>s. s div 32) id (ms ! (length ms - 3)))"

lemma mark_head_simps [simp]:
  "epoch_blocks (mark_head s h v) = epoch_blocks v" "last_epoch (mark_head s h v) = last_epoch v"
  "epoch_up_to_date (mark_head s h v) = epoch_up_to_date v" "view_finalized (mark_head s h v) = view_finalized v"
  "sm_fork_digest (highest_status (mark_head s h v)) = sm_fork_digest (highest_status v)"
  "view_head (mark_head s h v) = (if epoch_up_to_date v then higher (s, h) (view_head v) else view_head v)"
  by (simp_all add: mark_head_def view_finalized_def view_head_def higher_def)

lemma mark_epoch_skips: "\<not> (s mod 32 = 0 \<and> s div 32 > last_epoch v) \<Longrightarrow> mark_epoch s h v = v"
  by (auto simp: mark_epoch_def)

lemma mark_epoch_adds:
  assumes "s mod 32 = 0 \<and> s div 32 > last_epoch v"
  shows "last_epoch (mark_epoch s h v) = s div 32" and "view_head (mark_epoch s h v) = view_head v"
    and "sm_fork_digest (highest_status (mark_epoch s h v)) = sm_fork_digest (highest_status v)"
    and "length (epoch_blocks v) < 2 \<Longrightarrow> epoch_blocks (mark_epoch s h v) = epoch_blocks v @ [(s, h)]
      \<and> epoch_up_to_date (mark_epoch s h v) = epoch_up_to_date v \<and> view_finalized (mark_epoch s h v) = view_finalized v"
    and "epoch_blocks v = [x, y] \<Longrightarrow> epoch_blocks (mark_epoch s h v) = [y, (s, h)]
      \<and> epoch_up_to_date (mark_epoch s h v) \<and> view_finalized (mark_epoch s h v) = map_prod (\<lambda>s. s div 32) id x"
  using assms
  by (auto simp: mark_epoch_def view_head_def view_finalized_def Let_def split: prod.split)

lemma third_last_Cons: "2 \<le> length ms \<Longrightarrow> third_last (x # ms) d = third_last ms (map_prod (\<lambda>s. s div 32) id x)"
  by (cases ms rule: rev_cases) (auto simp: third_last_def nth_Cons' Suc_diff_le numeral_2_eq_2)

lemma see_blocks:
  assumes "length (epoch_blocks v) \<le> 2" and "epoch_up_to_date v \<Longrightarrow> length (epoch_blocks v) = 2"
  shows "view_finalized (fold see_block bs v) = third_last (epoch_blocks v @ boundaries (last_epoch v) bs) (view_finalized v)
    \<and> view_head (fold see_block bs v) = fold higher (if epoch_up_to_date v then bs
        else since_boundary (2 - length (epoch_blocks v)) (last_epoch v) bs) (view_head v)
    \<and> sm_fork_digest (highest_status (fold see_block bs v)) = sm_fork_digest (highest_status v)"
  using assms
proof (induction bs arbitrary: v)
  case Nil
  then show ?case by (simp add: third_last_def)
next
  case (Cons b bs)
  obtain s h where b: "b = (s, h)" by force
  let ?e = "mark_epoch s h v"
  show ?case
  proof (cases "s mod 32 = 0 \<and> s div 32 > last_epoch v")
    case False
    then show ?thesis
      using Cons.IH [of "mark_head s h v"] Cons.prems by (auto simp: b mark_epoch_skips)
  next
    case mark: True
    note adds = mark_epoch_adds [OF mark, where h = h]
    show ?thesis
    proof (cases "length (epoch_blocks v) < 2")
      case True
      then have "\<not> epoch_up_to_date v" using Cons.prems by auto
      then show ?thesis
        using Cons.IH [of "mark_head s h ?e"] Cons.prems mark adds True
        by (auto simp: b Suc_diff_le)
    next
      case False
      then obtain x y where xy: "epoch_blocks v = [x, y]"
        using Cons.prems(1) by (auto simp: numeral_2_eq_2 le_Suc_eq length_Suc_conv)
      then show ?thesis
        using Cons.IH [of "mark_head s h ?e"] mark adds third_last_Cons
        by (auto simp: b)
    qed
  qed
qed

lemma higher_ge: "fst best \<le> fst (fold higher bs best)"
proof (induction bs arbitrary: best)
  case (Cons b bs)
  have "fst best \<le> fst (higher b best)" by (simp add: higher_def)
  then show ?case using Cons [of "higher b best"] by simp
qed simp

lemma higher_all: "b \<in> set bs \<Longrightarrow> fst b \<le> fst (fold higher bs best)"
proof (induction bs arbitrary: best)
  case (Cons c bs)
  have "fst c \<le> fst (higher c best)" by (simp add: higher_def)
  then show ?case using Cons higher_ge [of "higher c best" bs] by fastforce
qed simp

text \<open>The finalized epoch ends before the head.\<close>

definition view_ok :: "chain_view \<Rightarrow> bool" where
  "view_ok v \<longleftrightarrow> length (epoch_blocks v) \<le> 2 \<and> sorted_wrt (\<lambda>a b. fst a div 32 < fst b div 32) (epoch_blocks v)
     \<and> (\<forall>b \<in> set (epoch_blocks v). fst b div 32 \<le> last_epoch v)
     \<and> (epoch_up_to_date v \<longrightarrow> length (epoch_blocks v) = 2 \<and> 32 * last_epoch v \<le> fst (view_head v))
     \<and> 32 * fst (view_finalized v) < fst (view_head v)"

lemma view_ok_see_block:
  assumes ok: "view_ok v"
  shows "view_ok (see_block (s, h) v)"
proof (cases "s mod 32 = 0 \<and> s div 32 > last_epoch v")
  case False
  then show ?thesis using ok by (auto simp: mark_epoch_skips view_ok_def higher_def)
next
  case mark: True
  then have s: "s = 32 * (s div 32)" using mult_div_mod_eq [of 32 s] by simp
  note adds = mark_epoch_adds [OF mark, where h = h]
  show ?thesis
  proof (cases "length (epoch_blocks v) < 2")
    case True
    then show ?thesis
      using ok mark adds by (auto simp: view_ok_def sorted_wrt_append)
  next
    case False
    then obtain x y where xy: "epoch_blocks v = [x, y]"
      using ok by (auto simp: view_ok_def numeral_2_eq_2 le_Suc_eq length_Suc_conv)
    then have "fst x div 32 < s div 32" "fst y div 32 < s div 32" using ok mark by (auto simp: view_ok_def)
    then show ?thesis
      using ok mark adds xy s by (auto simp: view_ok_def higher_def)
  qed
qed

lemma view_ok_see_blocks: "view_ok v \<Longrightarrow> view_ok (fold see_block bs v)"
proof (induction bs arbitrary: v)
  case (Cons b bs)
  then show ?case using view_ok_see_block [of v "fst b" "snd b"] by simp
qed simp

lemma view_ok_first: "view_ok (first_view digest)"
  by (simp add: view_ok_def first_view_def first_status_def view_head_def view_finalized_def)

text \<open>C36. The status announced to peers is a function of the blocks received so far: the finalized checkpoint is
  the third-last epoch boundary seen, the built-in one while there are fewer than three; the head is the
  first of the highest blocks received since the third boundary; the finalized epoch always starts before
  the head, and the head never goes back.\<close>
theorem announced_status:
  "(let v = fold see_block bs (first_view digest) in
      view_finalized v = third_last (boundaries 0 bs) (view_finalized (first_view digest))
      \<and> view_head v = fold higher (since_boundary 2 0 bs) (view_head (first_view digest))
      \<and> sm_fork_digest (highest_status v) = digest
      \<and> 32 * fst (view_finalized v) < fst (view_head v)
      \<and> fst (view_head v) \<le> fst (view_head (see_block b v)))"
proof -
  let ?v = "fold see_block bs (first_view digest)"
  have ok: "view_ok ?v" by (rule view_ok_see_blocks [OF view_ok_first])
  obtain s h where b: "b = (s, h)" by force
  have "view_head (mark_epoch s h ?v) = view_head ?v"
    using mark_epoch_adds(2) mark_epoch_skips by metis
  then have "fst (view_head ?v) \<le> fst (view_head (see_block b ?v))"
    by (simp add: b higher_def)
  moreover have "epoch_blocks (first_view digest) = []" "last_epoch (first_view digest) = 0"
    "\<not> epoch_up_to_date (first_view digest)" "sm_fork_digest (highest_status (first_view digest)) = digest"
    by (simp_all add: first_view_def first_status_def)
  ultimately show ?thesis
    using see_blocks [of "first_view digest" bs] ok by (simp add: view_ok_def Let_def numeral_2_eq_2)
qed

text \<open>The finalized epoch can go back: three old boundaries replace the built-in one.\<close>

lemma finalized_epoch_goes_back:
  "fst (view_finalized (fold see_block [(32, 1), (64, 2), (96, 3)] (first_view digest))) = 1
     \<and> fst (view_finalized (first_view digest)) = 194863"
  by (simp add: mark_epoch_def view_finalized_def first_view_def first_status_def mark_head_def Let_def)

section \<open>Runs of the service\<close>

text \<open>The block a round receives.\<close>

definition blocks_of :: "('h, 'c, 'd, 'q, 'g, 'o) net_env \<Rightarrow> 'o block_api \<Rightarrow> instant \<Rightarrow> ('b, 'o) sentry_input \<Rightarrow>
     ('b, 'h, 'c, 'd, 'q, 'g, 'o) sentry \<Rightarrow> (slot \<times> hash256) list" where
  "blocks_of E B now i s = (case i of
       InPoll evs ticks \<Rightarrow> (case poll_network E now evs ticks (se_network s) of
           Some (_, _, Some (EvPubsubMessage _ _ _ (PubsubBeaconBlock b))) \<Rightarrow> [(block_slot B b, block_root B b)]
         | _ \<Rightarrow> [])
     | InCommand _ \<Rightarrow> [])"

text \<open>The loop starts with a network just built; between its rounds the parts of the network work by
  themselves.  The run records the blocks it has received.\<close>

inductive sentry_run :: "('h, 'c, 'd, 'q, 'g, 'o) net_env \<Rightarrow> 'o block_api \<Rightarrow> bytes \<Rightarrow>
     (slot \<times> hash256) list \<Rightarrow> ('b, 'h, 'c, 'd, 'q, 'g, 'o) sentry \<Rightarrow> bool"
  for E :: "('h, 'c, 'd, 'q, 'g, 'o) net_env" and B :: "'o block_api" and digest :: bytes where
  Start: "net_run E n \<Longrightarrow> sentry_run E B digest [] (sentry_start digest listener n)"
| Round: "sentry_run E B digest bs s \<Longrightarrow> sentry_round E B now i s = Some s' \<Longrightarrow>
    sentry_run E B digest (bs @ blocks_of E B now i s) s'"
| Parts: "sentry_run E B digest bs s \<Longrightarrow> parts_step E (se_network s) n \<Longrightarrow>
    sentry_run E B digest bs (s\<lparr>se_network := n\<rparr>)"

lemma sentry_parts [simp]:
  "se_network (on_network f s) = f (se_network s)" "se_view (on_network f s) = se_view s"
  "se_trusted (on_network f s) = se_trusted s" "se_listener (on_network f s) = se_listener s"
  "se_network (say x s) = se_network s" "se_view (say x s) = se_view s" "se_trusted (say x s) = se_trusted s"
  "se_network (forward_message p m s) = se_network s" "se_view (forward_message p m s) = se_view s"
  "se_trusted (forward_message p m s) = se_trusted s"
  "se_view (trusted_connected E p s) = se_view s" "se_trusted (trusted_connected E p s) = se_trusted s"
  by (simp_all add: on_network_def say_def forward_message_def trusted_connected_def)

lemma net_run_explicit:
  assumes "net_run E n"
  shows "net_run E (add_explicit E p n)" and "net_run E (remove_explicit E p n)"
  using assms by (auto simp: add_explicit_def remove_explicit_def intro: net_run.Parts parts_step.Gossip)

lemma net_run_command:
  assumes "net_run E (se_network s)"
  shows "net_run E (se_network (handle_command E now cmd s))"
proof (cases cmd)
  case (AddTrusted p e)
  have "net_run E (net_add_enr E e (se_network s))" using assms by (rule net_run.App) (rule app_step.intros)
  moreover from this have "net_run E (on_pm (dial_trusted_peer p (Some e)) (net_add_enr E e (se_network s)))"
    by (rule net_run.App) (rule app_step.intros)
  ultimately show ?thesis by (simp add: AddTrusted handle_command_def Let_def)
next
  case (RemoveTrusted p)
  have "net_run E (on_pm (remove_trusted p) (remove_explicit E p (se_network s)))"
    using net_run_explicit(2) [OF assms] by (rule net_run.App) (rule app_step.intros)
  then show ?thesis using assms by (simp add: RemoveTrusted handle_command_def on_network_def)
qed (use assms in \<open>auto simp: handle_command_def subscribe_kind_def intro: net_run.App app_step.intros\<close>)

lemma net_run_trusted: "net_run E (se_network s) \<Longrightarrow> net_run E (se_network (trusted_connected E p s))"
  by (auto simp: trusted_connected_def intro: net_run_explicit)

lemma net_run_event:
  assumes "net_run E (se_network s)"
  shows "net_run E (se_network (handle_event E B ev s))"
proof -
  have "net_run E (se_network (on_network (net_send_request p r q) s))"
    "net_run E (se_network (on_network (net_send_response p ids resp) s))" for p r q ids resp
    using assms by (auto intro: net_run.App app_step.intros)
  moreover from this(1) net_run_trusted
  have "net_run E (se_network (trusted_connected E p (on_network (net_send_request p r q) s)))" for p r q by blast
  ultimately show ?thesis
    using assms net_run_trusted [OF assms]
    by (auto simp: handle_event_def split: network_event.split app_request.split pubsub_message.split)
qed

lemma sentry_run_invariant:
  assumes "sentry_run E B digest bs s"
  shows "net_run E (se_network s) \<and> se_view s = fold see_block bs (first_view digest)"
  using assms
proof (induction rule: sentry_run.induct)
  case (Start n listener)
  then show ?case by (simp add: sentry_start_def)
next
  case (Round bs s now i s')
  show ?case
  proof (cases i)
    case (InCommand cmd)
    have "se_view (handle_command E now cmd s) = se_view s"
      by (simp add: handle_command_def Let_def on_network_def split: sentry_command.split)
    then show ?thesis
      using Round net_run_command [of E s now cmd] by (auto simp: InCommand sentry_round_def blocks_of_def)
  next
    case (InPoll evs ticks)
    then obtain n rest r where poll: "poll_network E now evs ticks (se_network s) = Some (n, rest, r)"
      using Round.hyps(2) by (auto simp: sentry_round_def split: option.splits)
    then have "net_run E n" using Round.IH net_run.Poll by blast
    moreover have "s' = (case r of None \<Rightarrow> s\<lparr>se_network := n\<rparr> | Some ev \<Rightarrow> handle_event E B ev (s\<lparr>se_network := n\<rparr>))"
      using Round.hyps(2) poll by (auto simp: sentry_round_def InPoll split: option.splits)
    moreover have "se_view (handle_event E B ev (s\<lparr>se_network := n\<rparr>)) = (case ev of
        EvPubsubMessage _ _ _ (PubsubBeaconBlock b) \<Rightarrow> see_block (block_slot B b, block_root B b) (se_view s)
      | _ \<Rightarrow> se_view s)" for ev
      by (simp add: handle_event_def split: network_event.split app_request.split pubsub_message.split)
    ultimately show ?thesis
      using Round.IH net_run_event [of E "s\<lparr>se_network := n\<rparr>" B] poll
      by (auto simp: blocks_of_def InPoll split: option.split network_event.split pubsub_message.split)
  qed
next
  case (Parts bs s n)
  then show ?case using net_run.Parts by auto
qed

text \<open>In every run of the service, whatever its holder asks and the network brings: the status it announces is
  the function of the received blocks given above, its network keeps the invariants of all parts, and the
  next round returns, if the timer of the queue of messages does not fail.\<close>
theorem sentry_run_safe:
  assumes "sentry_run E B digest bs s" and "net_laws E"
  shows "se_view s = fold see_block bs (first_view digest)
    \<and> db_reachable (net_db (se_network s))
    \<and> length (active_queries (n_disc (se_network s))) \<le> 3
    \<and> (timer_works (queue_of E) \<longrightarrow> (\<exists>s'. sentry_round E B now i s = Some s'))"
proof -
  from sentry_run_invariant [OF assms(1)] have run: "net_run E (se_network s)" by simp
  note inv = net_run_invariant [OF run assms(2)]
  have "\<exists>s'. sentry_round E B now i s = Some s'" if T: "timer_works (queue_of E)"
  proof (cases i)
    case (InPoll evs ticks)
    obtain n rest r where "poll_network E now evs ticks (se_network s) = Some (n, rest, r)"
      using poll_returns [OF assms(2) T] inv by fast
    then show ?thesis by (cases r) (simp_all add: sentry_round_def InPoll)
  qed (simp add: sentry_round_def)
  then show ?thesis
    using sentry_run_invariant [OF assms(1)] inv disc_ok_length [of "n_disc (se_network s)"]
    by (simp add: MAX_CONCURRENT_SUBNET_QUERIES_def)
qed

lemma sentry_run_safe_witness:
  "se_view (sentry_start [1, 2, 3, 4] True lonely_network :: (_, _, _, _, _, _, bytes) sentry)
     = fold see_block [] (first_view [1, 2, 3, 4])"
  using sentry_run_safe [where B = "\<lparr>block_slot = length, block_root = \<lambda>_. 0\<rparr>",
      OF sentry_run.Start [OF lonely_run] lonely_laws] by blast

section \<open>Trusted peers\<close>

text \<open>A peer that is not connected and is added as trusted is queued to be dialed as such; when its connection is
  reported, in either direction, it becomes an explicit peer of gossipsub, and a status request is sent only
  when the node dialed; removing it undoes both marks; removing one that was not added does nothing.\<close>
theorem trusted_peer_life:
  assumes new: "\<not> pm_is_connected (n_pm (se_network s)) p"
    and s1: "s1 = handle_command E now (AddTrusted p e) s"
    and later: "p \<in> set (se_trusted later)" and other: "q \<notin> set (se_trusted s)"
  shows "p \<in> set (se_trusted s1)
    \<and> peers_to_dial (n_pm (se_network s1)) = peers_to_dial (n_pm (se_network s)) @ [(p, Some e, True)]
    \<and> n_gossip (se_network (handle_event E B (EvPeerConnectedIncoming p) later))
        = gs_add_explicit (gossip_of E) p (n_gossip (se_network later))
    \<and> n_rpc (se_network (handle_event E B (EvPeerConnectedIncoming p) later)) = n_rpc (se_network later)
    \<and> n_gossip (se_network (handle_event E B (EvPeerConnectedOutgoing p) later))
        = gs_add_explicit (gossip_of E) p (n_gossip (se_network later))
    \<and> rpc_events (n_rpc (se_network (handle_event E B (EvPeerConnectedOutgoing p) later)))
        = rpc_events (n_rpc (se_network later))
          @ [NotifyHandler p NotifyAny (SendRequest (Application 10) (ReqStatus (highest_status (se_view later))))]
    \<and> p \<notin> set (se_trusted (handle_command E now (RemoveTrusted p) later))
    \<and> n_gossip (se_network (handle_command E now (RemoveTrusted p) later))
        = gs_remove_explicit (gossip_of E) p (n_gossip (se_network later))
    \<and> hm_get (peers (net_db (se_network (handle_command E now (RemoveTrusted p) later)))) p
        = map_option set_untrusted (hm_get (peers (net_db (se_network later))) p)
    \<and> handle_command E now (RemoveTrusted q) s = s"
  using new later other unfolding s1
  by (simp add: handle_command_def handle_event_def trusted_connected_def add_explicit_def remove_explicit_def
      on_network_def on_pm_def on_rpc_def on_disc_def net_add_enr_def dial_trusted_peer_def remove_trusted_def
      net_send_request_def rpc_send_request_def rpc_push_def net_db_def pm_db_def set_db_def hm_get_adjust Let_def)

lemma trusted_peer_life_witness:
  "5 \<in> set (se_trusted (handle_command lonely_env 9 (AddTrusted 5 blank_enr)
     (sentry_start [1, 2, 3, 4] True lonely_network :: (_, _, _, _, _, _, bytes) sentry)))"
proof -
  let ?s = "sentry_start [1, 2, 3, 4] True lonely_network :: (_, _, _, _, _, _, bytes) sentry"
  have "\<not> pm_is_connected (n_pm (se_network ?s)) 5"
    by (simp add: sentry_start_def lonely_network_def network_new_def peer_manager_new_def network_globals_new_def
        pm_is_connected_def is_connected_def pm_db_def db_connection_status_def new_db_def)
  moreover have "5 \<in> set (se_trusted (?s\<lparr>se_trusted := [5]\<rparr>))" "6 \<notin> set (se_trusted ?s)"
    by (simp_all add: sentry_start_def)
  ultimately show ?thesis using trusted_peer_life [OF _ refl, of ?s 5] by blast
qed

text \<open>A peer that is connected already when it is added is neither marked as trusted nor made an explicit peer.\<close>

lemma connected_peer_stays_untrusted:
  assumes "pm_is_connected (n_pm (se_network s)) p"
  shows "handle_command E now (AddTrusted p e) s = on_network (net_add_enr E e) s"
  using assms by (simp add: handle_command_def net_add_enr_def on_disc_def Let_def)

text \<open>A trusted peer that is removed before it is dialed is still dialed as trusted.\<close>

lemma removed_peer_dialed_as_trusted:
  assumes "\<not> pm_is_connected (n_pm (se_network s)) p"
  shows "(p, Some e, True) \<in> set (peers_to_dial (n_pm (se_network
    (handle_command E now (RemoveTrusted p) (handle_command E now (AddTrusted p e) s)))))"
  using assms
  by (simp add: handle_command_def remove_explicit_def on_network_def on_pm_def on_disc_def net_add_enr_def
      dial_trusted_peer_def remove_trusted_def set_db_def Let_def)

end
