(* ===== verification/Sentry_Handle_Props.thy ===== *)
theory Sentry_Handle_Props
  imports Sentry_Handle Sentry_Props Network_Build_Props
begin

text \<open>
  Runs of the whole program: handles send commands at any time, the service is started, takes commands, polls its
  network and never ends but by an error at its start.  Commands are taken in the order they were sent, and
  a question is answered from the state left by the commands sent before it.
\<close>

section \<open>Runs\<close>

inductive client_step :: "'o sentry_command \<Rightarrow> ('b, 'h, 'c, 'd, 'q, 'g, 'o) service \<Rightarrow>
     ('b, 'h, 'c, 'd, 'q, 'g, 'o) service \<Rightarrow> bool" where
  "client_step (Subscribe k) v (subscribe_topic k v)"
| "client_step (Publish m) v (publish_message m v)"
| "client_step (AddTrusted p e) v (add_trusted_peer p e v)"
| "client_step (RemoveTrusted p) v (remove_trusted_peer p v)"
| "client_step (PeerCount (sv_replies v)) v (snd (peer_count v))"
| "client_step (LocalNetworkInfo (sv_replies v)) v (snd (ask_network_info v))"

text \<open>A step with the commands it takes from the channel and those it sends.\<close>

inductive service_step :: "('cfg, 'h, 'c, 'd, 'q, 'g, 'o) deployment \<Rightarrow> 'o sentry_command list \<Rightarrow>
     'o sentry_command list \<Rightarrow> ('b, 'h, 'c, 'd, 'q, 'g, 'o) service \<Rightarrow> ('b, 'h, 'c, 'd, 'q, 'g, 'o) service \<Rightarrow> bool"
  for W :: "('cfg, 'h, 'c, 'd, 'q, 'g, 'o) deployment" where
  Client: "client_step cmd v v' \<Longrightarrow> service_step W [] [cmd] v v'"
| Listen: "service_step W [] [] v (pubsub_event_stream v)"
| Launch: "service_step W [] [] v (start_service W now v)"
| Take: "sv_phase v = Running s \<Longrightarrow> sv_queue v = cmd # cmds \<Longrightarrow> service_step W [cmd] [] v (take_command W now v)"
| Poll: "service_step W [] [] v (service_round W now (InPoll evs ticks) v)"
| Parts: "sv_phase v = Running s \<Longrightarrow> parts_step (de_env W) (se_network s) n \<Longrightarrow>
    service_step W [] [] v (v\<lparr>sv_phase := Running (s\<lparr>se_network := n\<rparr>)\<rparr>)"

inductive service_steps :: "('cfg, 'h, 'c, 'd, 'q, 'g, 'o) deployment \<Rightarrow> 'o sentry_command list \<Rightarrow>
     'o sentry_command list \<Rightarrow> ('b, 'h, 'c, 'd, 'q, 'g, 'o) service \<Rightarrow> ('b, 'h, 'c, 'd, 'q, 'g, 'o) service \<Rightarrow> bool"
  for W :: "('cfg, 'h, 'c, 'd, 'q, 'g, 'o) deployment" where
  Done: "service_steps W [] [] v v"
| Step: "service_steps W taken sent v v' \<Longrightarrow> service_step W taken' sent' v' v'' \<Longrightarrow>
    service_steps W (taken @ taken') (sent @ sent') v v''"

definition open_service :: "('b, 'h, 'c, 'd, 'q, 'g, 'o) service \<Rightarrow> bool" where
  "open_service v = (case sv_phase v of Ended _ \<Rightarrow> False | _ \<Rightarrow> True)"

section \<open>The channel\<close>

lemma send_command_open: "open_service v \<Longrightarrow> send_command cmd v = v\<lparr>sv_queue := sv_queue v @ [cmd]\<rparr>"
  by (auto simp: send_command_def open_service_def split: phase.split)

lemma send_command_phase [simp]: "sv_phase (send_command cmd v) = sv_phase v"
  by (simp add: send_command_def split: phase.split)

lemmas handle_defs = subscribe_topic_def publish_message_def add_trusted_peer_def remove_trusted_peer_def
  peer_count_def ask_network_info_def

lemma client_step_sends:
  assumes "client_step cmd v v'"
  shows "sv_phase v' = sv_phase v" and "open_service v \<Longrightarrow> sv_queue v' = sv_queue v @ [cmd]"
  using assms by (auto simp: handle_defs send_command_open elim!: client_step.cases)

lemma open_end [simp]: "\<not> open_service (end_service v)"
  by (simp add: open_service_def end_service_def)

lemma service_round_cases:
  obtains "service_round W now i v = v" "\<forall>s. sv_phase v \<noteq> Running s"
  | s where "sv_phase v = Running s" "sentry_round (de_env W) (de_blocks W) now i s = None"
      "service_round W now i v = end_service v"
  | s s' where "sv_phase v = Running s" "sentry_round (de_env W) (de_blocks W) now i s = Some s'"
      "service_round W now i v = v\<lparr>sv_phase := Running s'\<rparr>"
proof (cases "sv_phase v")
  case (Running s)
  then show ?thesis
    by (cases "sentry_round (de_env W) (de_blocks W) now i s") (auto simp: service_round_def intro: that)
qed (auto simp: service_round_def intro: that)

text \<open>What is in the channel after a step: what was in it without what was taken, and what was sent.\<close>

lemma service_step_fifo:
  assumes "service_step W taken sent v v'" and "open_service v'"
  shows "open_service v \<and> sv_queue v @ sent = taken @ sv_queue v'"
  using assms
proof (induction rule: service_step.induct)
  case (Client cmd v v')
  then have "open_service v" using client_step_sends(1) [OF Client.hyps] by (simp add: open_service_def)
  then show ?case using client_step_sends(2) [OF Client.hyps] by simp
next
  case (Listen v)
  then show ?case by (auto simp: pubsub_event_stream_def open_service_def split: phase.splits)
next
  case (Launch v now)
  then show ?case
    by (auto simp: start_service_def split: phase.splits option.splits) (simp add: open_service_def)
next
  case (Take v s cmd cmds now)
  then show ?case by (simp add: take_command_def sentry_round_def service_round_def open_service_def)
next
  case (Poll v now evs ticks)
  then show ?case
    by (cases rule: service_round_cases [of W now "InPoll evs ticks" v])
      (simp_all add: open_service_def end_service_def)
next
  case (Parts v s n)
  then show ?case by (simp add: open_service_def)
qed

lemma service_steps_fifo:
  assumes "service_steps W taken sent v v'" and "open_service v'"
  shows "open_service v \<and> sv_queue v @ sent = taken @ sv_queue v'"
  using assms
proof (induction rule: service_steps.induct)
  case (Step taken sent v v' taken' sent' v'')
  then show ?case using service_step_fifo [OF Step.hyps(2) Step.prems] by (metis append_assoc)
qed simp

section \<open>The answers\<close>

fun command_replies :: "'o sentry_command \<Rightarrow> reply list" where
  "command_replies (PeerCount r) = [r]"
| "command_replies (LocalNetworkInfo r) = [r]"
| "command_replies _ = []"

fun output_replies :: "'o sentry_output \<Rightarrow> reply list" where
  "output_replies (OutPeerCount r n) = [r]"
| "output_replies (OutLocalNetworkInfo r i) = [r]"
| "output_replies (OutMessage m) = []"

abbreviation outputs_replies :: "'o sentry_output list \<Rightarrow> reply list" where
  "outputs_replies os \<equiv> concat (map output_replies os)"

abbreviation commands_replies :: "'o sentry_command list \<Rightarrow> reply list" where
  "commands_replies cmds \<equiv> concat (map command_replies cmds)"

text \<open>Every answer channel is used once: it is in a command that waits, or it was answered, never both.\<close>

definition reply_numbers :: "('b, 'h, 'c, 'd, 'q, 'g, 'o) service \<Rightarrow> reply list" where
  "reply_numbers v = outputs_replies (phase_output (sv_phase v)) @ commands_replies (sv_queue v)"

definition replies_ok :: "('b, 'h, 'c, 'd, 'q, 'g, 'o) service \<Rightarrow> bool" where
  "replies_ok v \<longleftrightarrow> distinct (reply_numbers v) \<and> (\<forall>r \<in> set (reply_numbers v). r < sv_replies v)"

lemma handle_command_output:
  "\<exists>os. se_output (handle_command E now cmd s) = se_output s @ os \<and> outputs_replies os = command_replies cmd"
  by (cases cmd) (simp_all add: handle_command_def on_network_def say_def Let_def)

lemma forward_message_output:
  "\<exists>os. se_output (forward_message p m s) = se_output s @ os \<and> outputs_replies os = []"
  by (simp add: forward_message_def say_def)

lemma sentry_output [simp]:
  "se_output (trusted_connected E p s) = se_output s" "se_output (on_network f s) = se_output s"
  by (simp_all add: trusted_connected_def on_network_def)

lemma handle_event_output:
  "\<exists>os. se_output (handle_event E B ev s) = se_output s @ os \<and> outputs_replies os = []"
proof -
  have "\<exists>os. se_output (forward_message p m (s\<lparr>se_view := w\<rparr>)) = se_output s @ os \<and> outputs_replies os = []"
    for p m w using forward_message_output [of p m "s\<lparr>se_view := w\<rparr>"] by simp
  moreover note forward_message_output [of _ _ s]
  moreover have "\<exists>os. se_output s = se_output s @ os \<and> outputs_replies os = []" by (rule exI [of _ "[]"]) simp
  ultimately show ?thesis
    unfolding handle_event_def by (cases ev) (simp_all split: app_request.split pubsub_message.split)
qed

lemma sentry_round_output:
  assumes "sentry_round E B now i s = Some s'"
  shows "\<exists>os. se_output s' = se_output s @ os
    \<and> outputs_replies os = (case i of InCommand cmd \<Rightarrow> command_replies cmd | InPoll _ _ \<Rightarrow> [])"
proof (cases i)
  case (InCommand cmd)
  then show ?thesis using assms handle_command_output [of E now cmd s] by (simp add: sentry_round_def)
next
  case (InPoll evs ticks)
  then obtain n rest r where r: "poll_network E now evs ticks (se_network s) = Some (n, rest, r)"
    using assms by (auto simp: sentry_round_def split: option.splits)
  then show ?thesis
    using assms handle_event_output [of E B _ "s\<lparr>se_network := n\<rparr>"]
    by (cases r) (auto simp: sentry_round_def InPoll simp del: concat_eq_Nil_conv intro: exI [of _ "[]"])
qed

text \<open>What the service has sent stays; a step answers exactly the questions it takes.\<close>

lemma service_step_output:
  assumes "service_step W taken sent v v'"
  shows "\<exists>os. phase_output (sv_phase v') = phase_output (sv_phase v) @ os
    \<and> outputs_replies os = (if open_service v' then commands_replies taken else [])"
  using assms
proof (induction rule: service_step.induct)
  case (Client cmd v v')
  then show ?case using client_step_sends(1) [OF Client.hyps] by simp
next
  case (Listen v)
  then show ?case by (simp add: pubsub_event_stream_def split: phase.split)
next
  case (Launch v now)
  have "launch W now cfg l = Some s \<Longrightarrow> se_output s = []" for cfg l s
    by (auto simp: launch_def sentry_start_def Let_def split: option.splits sum.splits)
  then show ?case
    by (fastforce simp: start_service_def end_service_def split: phase.split option.split)
next
  case (Take v s cmd cmds now)
  then show ?case
    using handle_command_output [of "de_env W" now cmd s]
    by (auto simp: take_command_def sentry_round_def service_round_def open_service_def)
next
  case (Poll v now evs ticks)
  then show ?case
    using sentry_round_output [of "de_env W" "de_blocks W" now "InPoll evs ticks"]
    by (cases rule: service_round_cases [of W now "InPoll evs ticks" v]) (auto simp: end_service_def)
next
  case (Parts v s n)
  then show ?case by simp
qed


lemma service_steps_output:
  "service_steps W taken sent v v' \<Longrightarrow> \<exists>os. phase_output (sv_phase v') = phase_output (sv_phase v) @ os"
proof (induction rule: service_steps.induct)
  case (Step taken sent v v' taken' sent' v'')
  then show ?case using service_step_output [OF Step.hyps(2)] by force
qed simp

lemma client_step_replies:
  assumes "client_step cmd v v'"
  shows "sv_queue v' = sv_queue v \<or> sv_queue v' = sv_queue v @ [cmd]"
    and "command_replies cmd = [] \<and> sv_replies v' = sv_replies v
      \<or> command_replies cmd = [sv_replies v] \<and> sv_replies v' = sv_replies v + 1"
  using assms by (auto simp: handle_defs send_command_def elim!: client_step.cases split: phase.split)

lemma replies_ok_end: "replies_ok v \<Longrightarrow> replies_ok (end_service v)"
  by (auto simp: replies_ok_def reply_numbers_def end_service_def)

lemma replies_okI:
  assumes "replies_ok v" and "sv_replies v' = sv_replies v" and "reply_numbers v' = reply_numbers v"
  shows "replies_ok v'"
  using assms(1) unfolding replies_ok_def assms(2,3) .

lemma replies_ok_fresh:
  assumes "replies_ok v" and "sv_replies v \<le> sv_replies v'"
    and "reply_numbers v' = reply_numbers v
      \<or> reply_numbers v' = reply_numbers v @ [sv_replies v] \<and> sv_replies v' = sv_replies v + 1"
  shows "replies_ok v'"
proof -
  have less: "r < sv_replies v" if "r \<in> set (reply_numbers v)" for r using assms(1) that by (simp add: replies_ok_def)
  moreover from this have "sv_replies v \<notin> set (reply_numbers v)" by blast
  ultimately show ?thesis
    using assms less_le_trans [OF less assms(2)] by (auto simp: replies_ok_def)
qed

lemma service_step_replies:
  assumes "service_step W taken sent v v'" and "replies_ok v"
  shows "replies_ok v'"
  using assms
proof (induction rule: service_step.induct)
  case (Client cmd v v')
  have "commands_replies (sv_queue v') = commands_replies (sv_queue v)
      \<or> commands_replies (sv_queue v') = commands_replies (sv_queue v) @ [sv_replies v] \<and> sv_replies v' = sv_replies v + 1"
    using client_step_replies [OF Client.hyps] by (auto simp del: concat_eq_Nil_conv)
  moreover have "sv_replies v \<le> sv_replies v'" using client_step_replies(2) [OF Client.hyps] by auto
  ultimately show ?case
    using client_step_sends(1) [OF Client.hyps] by (intro replies_ok_fresh [OF Client.prems]) (auto simp: reply_numbers_def)
next
  case (Listen v)
  show ?case
    by (rule replies_okI [OF Listen.prems]) (simp_all add: reply_numbers_def pubsub_event_stream_def split: phase.split)
next
  case (Launch v now)
  have quiet: "launch W now cfg l = Some s \<Longrightarrow> se_output s = []" for cfg l s
    by (auto simp: launch_def sentry_start_def Let_def split: option.splits sum.splits)
  have started: "replies_ok (v\<lparr>sv_phase := Running s\<rparr>)"
    if "sv_phase v = Created cfg l" "launch W now cfg l = Some s" for cfg l s
    using that Launch.prems quiet [OF that(2)]
    by (intro replies_okI [OF Launch.prems]) (simp_all add: reply_numbers_def)
  show ?case
    using Launch.prems replies_ok_end [OF Launch.prems] started
    by (cases "sv_phase v") (simp_all add: start_service_def split: option.split)
next
  case (Take v s cmd cmds now)
  obtain os where "se_output (handle_command (de_env W) now cmd s) = se_output s @ os"
    "outputs_replies os = command_replies cmd"
    using handle_command_output [of "de_env W" now cmd s] by blast
  then show ?case
    using Take by (intro replies_okI [OF Take.prems])
      (simp_all add: reply_numbers_def take_command_def sentry_round_def service_round_def)
next
  case (Poll v now evs ticks)
  show ?case
  proof (cases rule: service_round_cases [of W now "InPoll evs ticks" v])
    case (3 s s')
    then show ?thesis
      using sentry_round_output [OF 3(2)] by (intro replies_okI [OF Poll.prems]) (auto simp: reply_numbers_def)
  qed (simp_all add: Poll.prems replies_ok_end)
next
  case (Parts v s n)
  show ?case by (rule replies_okI [OF Parts.prems]) (simp_all add: reply_numbers_def Parts.hyps)
qed

lemma service_steps_replies: "service_steps W taken sent v v' \<Longrightarrow> replies_ok v \<Longrightarrow> replies_ok v'"
  by (induction rule: service_steps.induct) (auto dest: service_step_replies)

lemma replies_ok_new: "replies_ok (sentry_new cfg)"
  by (simp add: replies_ok_def reply_numbers_def sentry_new_def)

lemma count_reply_append: "count_reply r (os @ os') = (case count_reply r os of None \<Rightarrow> count_reply r os' | x \<Rightarrow> x)"
  by (induction r os rule: count_reply.induct) auto

lemma info_reply_append: "info_reply r (os @ os') = (case info_reply r os of None \<Rightarrow> info_reply r os' | x \<Rightarrow> x)"
  by (induction r os rule: info_reply.induct) auto

lemma reply_number:
  "r \<notin> set (outputs_replies os) \<Longrightarrow> count_reply r os = None" "r \<notin> set (outputs_replies os) \<Longrightarrow> info_reply r os = None"
  by (induction r os rule: count_reply.induct) auto

text \<open>A question at the end of the channel is the first command in it once those before are taken, and it has not
  been answered.\<close>

lemma question_first:
  assumes ok: "replies_ok v" and op: "open_service v" and cmd: "command_replies cmd = [r]"
    and ask: "client_step cmd v v1"
    and later: "service_steps W taken sent v1 v2" "length taken = length (sv_queue v)" "sv_phase v2 = Running s"
  shows "taken = sv_queue v" and "sv_queue v2 = cmd # sent" and "r \<notin> set (outputs_replies (se_output s))"
proof -
  have v1: "replies_ok v1" using service_step_replies [OF Client ok] ask .
  have "sv_queue v @ cmd # sent = taken @ sv_queue v2"
    using service_steps_fifo [OF later(1)] client_step_sends(2) [OF ask op] later(3) by (simp add: open_service_def)
  then show "taken = sv_queue v" and q: "sv_queue v2 = cmd # sent" using later(2) by (auto simp: append_eq_append_conv)
  have "replies_ok v2" using service_steps_replies [OF later(1) v1] .
  then show "r \<notin> set (outputs_replies (se_output s))" by (auto simp: replies_ok_def reply_numbers_def q cmd later(3))
qed

lemma service_steps_count:
  "service_steps W taken sent v v' \<Longrightarrow> count_reply r (phase_output (sv_phase v)) = Some n \<Longrightarrow>
    count_reply r (phase_output (sv_phase v')) = Some n"
  using service_steps_output by (fastforce simp: count_reply_append)

lemma service_steps_info:
  "service_steps W taken sent v v' \<Longrightarrow> info_reply r (phase_output (sv_phase v)) = Some i \<Longrightarrow>
    info_reply r (phase_output (sv_phase v')) = Some i"
  using service_steps_output by (fastforce simp: info_reply_append)

text \<open>C35. A question through a handle waits while the commands sent before it are taken, in their order; it is answered
  from the network as they leave it, and keeps its answer.\<close>
theorem question_answered:
  assumes reach: "service_steps W taken0 sent0 (sentry_new cfg) v" and op: "open_service v"
    and ask: "peer_count v = (r, v1)"
    and later: "service_steps W taken sent v1 v2" "length taken = length (sv_queue v)" "sv_phase v2 = Running s"
    and answer: "service_steps W taken' sent' (take_command W now v2) v3"
  shows "taken = sv_queue v \<and> sv_queue v2 = PeerCount r # sent
    \<and> peer_count_await r v2 = Waiting
    \<and> peer_count_await r v3 = Ready (connected_count (net_globals (se_network s)))"
proof -
  have ok: "replies_ok v" using service_steps_replies [OF reach replies_ok_new] .
  have v1: "client_step (PeerCount r) v v1" using ask client_step.intros(5) [of v] by (auto simp: peer_count_def)
  note first = question_first [OF ok op _ v1 later, of r, simplified]
  have "count_reply r (phase_output (sv_phase (take_command W now v2))) = Some (connected_count (net_globals (se_network s)))"
    by (simp add: take_command_def first later(3) service_round_def sentry_round_def handle_command_def say_def
        count_reply_append reply_number)
  then show ?thesis
    using first service_steps_count [OF answer] by (simp add: peer_count_await_def later(3) reply_number)
qed

text \<open>A question to a service that has ended is answered at once: no peers, and a panic of the asker.\<close>

lemma ended_service_answers:
  assumes "service_steps W taken sent (sentry_new cfg) v" and "\<not> open_service v"
    and "peer_count v = (r, v1)" and "ask_network_info v = (q, v2)"
  shows "peer_count_await r v1 = Ready 0 \<and> network_info_await q v2 = Panicked"
proof -
  have "replies_ok v" using service_steps_replies [OF assms(1) replies_ok_new] .
  then have "sv_replies v \<notin> set (reply_numbers v)" by (auto simp: replies_ok_def)
  moreover obtain os where "sv_phase v = Ended os" using assms(2) by (auto simp: open_service_def split: phase.splits)
  moreover from this have "send_command cmd v = v" for cmd by (simp add: send_command_def)
  ultimately show ?thesis
    using assms(3,4)
    by (auto simp: peer_count_def ask_network_info_def peer_count_await_def network_info_await_def reply_numbers_def
        reply_number) force+
qed

section \<open>The whole program\<close>

text \<open>What the libraries document, for the fork the service runs on.\<close>

definition deployment_ok :: "('cfg, 'h, 'c, 'd, 'q, 'g, 'o) deployment \<Rightarrow> sentry_config \<Rightarrow> bytes \<Rightarrow> bool" where
  "deployment_ok W cfg digest \<longleftrightarrow>
     (\<exists>slot. capella_slot W = Some slot \<and> to_context_bytes (capella_context W slot) Capella = Some digest
        \<and> fork_digest (capella_fork_id W slot) = digest \<and> build_laws (de_build W) (capella_fork_id W slot))
     \<and> length digest = 4 \<and> build_spec_ok (de_build W) (sentry_network_config (de_config W) cfg)
     \<and> net_laws (de_env W) \<and> timer_works (queue_of (de_env W)) \<and> hex_laws (hex_of (de_env W))"

lemma build_laws_context [simp]: "build_laws (X\<lparr>ba_fork_context := c\<rparr>) fork = build_laws X fork"
  by (simp add: build_laws_def)

lemma build_spec_context [simp]: "build_spec_ok (X\<lparr>ba_fork_context := c\<rparr>) cfg = build_spec_ok X cfg"
  by (simp add: build_spec_ok_def)

lemma service_network_safe:
  fixes r :: "(string + (nat, 'b, 'h, 'c, 'd, 'q, 'g) network \<times> multiaddr list \<times> gossip_kind list) option"
  assumes "build_laws (de_build W) (capella_fork_id W slot)" "build_spec_ok (de_build W) (sentry_network_config (de_config W) cfg)"
    and "hex_laws (hex_of (de_env W))" "length (fork_digest (capella_fork_id W slot)) = 4"
    and r: "service_network W now cfg slot = r"
  shows "(\<exists>e. r = Some (Inl e)) \<or> (\<exists>n dials topics. r = Some (Inr (n, dials, topics)) \<and> net_run (de_env W) n)"
proof -
  note safe = network_build_safe [of "(de_build W)\<lparr>ba_fork_context := capella_context W slot\<rparr>"
      "capella_fork_id W slot" "sentry_network_config (de_config W) cfg" "de_env W" now, simplified, OF assms(1-4)]
  obtain x where x: "r = Some x" using safe [THEN conjunct1] r by (auto simp: service_network_def)
  show ?thesis
  proof (cases x)
    case (Inr y)
    then show ?thesis
      using safe [THEN conjunct2] r x by (cases y) (auto simp: service_network_def)
  qed (simp add: x)
qed

lemma launch_gives:
  fixes s :: "('b, 'h, 'c, 'd, 'q, 'g, 'o) sentry"
  assumes W: "deployment_ok W cfg digest"
  shows "launch W now cfg l = Some s \<Longrightarrow> sentry_run (de_env W) (de_blocks W) digest [] s"
    and "launch W now cfg l = (None :: ('b, 'h, 'c, 'd, 'q, 'g, 'o) sentry option) \<Longrightarrow>
      \<exists>slot e. capella_slot W = Some slot \<and> service_network W now cfg slot
        = (Some (Inl e) :: (string + (nat, 'b, 'h, 'c, 'd, 'q, 'g) network \<times> multiaddr list \<times> gossip_kind list) option)"
proof -
  obtain slot where slot: "capella_slot W = Some slot" "to_context_bytes (capella_context W slot) Capella = Some digest"
    "fork_digest (capella_fork_id W slot) = digest" "build_laws (de_build W) (capella_fork_id W slot)"
    using W by (auto simp: deployment_ok_def)
  have "build_spec_ok (de_build W) (sentry_network_config (de_config W) cfg)" "hex_laws (hex_of (de_env W))"
    "length (fork_digest (capella_fork_id W slot)) = 4"
    using W slot(3) by (simp_all add: deployment_ok_def)
  note safe = service_network_safe [OF slot(4) this refl,
      where now = now and ?'b = 'b]
  show "launch W now cfg l = Some s \<Longrightarrow> sentry_run (de_env W) (de_blocks W) digest [] s"
    using slot safe by (auto simp: launch_def split: option.splits sum.splits intro: sentry_run.Start)
  show "launch W now cfg l = (None :: ('b, 'h, 'c, 'd, 'q, 'g, 'o) sentry option) \<Longrightarrow>
      \<exists>slot e. capella_slot W = Some slot \<and> service_network W now cfg slot
        = (Some (Inl e) :: (string + (nat, 'b, 'h, 'c, 'd, 'q, 'g) network \<times> multiaddr list \<times> gossip_kind list) option)"
    using slot safe by (auto simp: launch_def split: option.splits sum.splits)
qed

text \<open>What a phase of the service is known to be.\<close>

fun phase_ok :: "('cfg, 'h, 'c, 'd, 'q, 'g, 'o) deployment \<Rightarrow> sentry_config \<Rightarrow> bytes \<Rightarrow>
     ('b, 'h, 'c, 'd, 'q, 'g, 'o) phase \<Rightarrow> bool" where
  "phase_ok W cfg digest (Created c l) \<longleftrightarrow> c = cfg"
| "phase_ok W cfg digest (Running s) \<longleftrightarrow> (\<exists>bs. sentry_run (de_env W) (de_blocks W) digest bs s)"
| "phase_ok W cfg digest (Ended os) \<longleftrightarrow> os = [] \<and> (\<exists>now l. launch W now cfg l = (None :: ('b, 'h, 'c, 'd, 'q, 'g, 'o) sentry option))"

lemma running_round:
  assumes "deployment_ok W cfg digest" and "sentry_run (de_env W) (de_blocks W) digest bs s"
  shows "\<exists>s'. sentry_round (de_env W) (de_blocks W) now i s = Some s'"
  using sentry_run_safe [OF assms(2)] assms(1) unfolding deployment_ok_def by blast

lemma service_round_ok:
  assumes W: "deployment_ok W cfg digest" and ok: "phase_ok W cfg digest (sv_phase v)"
  shows "phase_ok W cfg digest (sv_phase (service_round W now i v))"
proof (cases "sv_phase v")
  case (Running s)
  then obtain bs where run: "sentry_run (de_env W) (de_blocks W) digest bs s" using ok by auto
  obtain s' where s': "sentry_round (de_env W) (de_blocks W) now i s = Some s'" using running_round [OF W run] by blast
  have "sentry_run (de_env W) (de_blocks W) digest (bs @ blocks_of (de_env W) (de_blocks W) now i s) s'"
    using run s' by (rule sentry_run.Round)
  then show ?thesis by (auto simp: service_round_def Running s')
qed (use ok in \<open>simp_all add: service_round_def\<close>)

lemma service_step_ok:
  fixes v :: "('b, 'h, 'c, 'd, 'q, 'g, 'o) service"
  assumes "service_step W taken sent v v'" and W: "deployment_ok W cfg digest" and "phase_ok W cfg digest (sv_phase v)"
  shows "phase_ok W cfg digest (sv_phase v')"
  using assms(1,3)
proof (induction rule: service_step.induct)
  case (Client cmd v v')
  then show ?case using client_step_sends(1) [OF Client.hyps] by simp
next
  case (Listen v)
  then show ?case by (cases "sv_phase v") (simp_all add: pubsub_event_stream_def)
next
  case (Launch v now)
  show ?case
  proof (cases "sv_phase v")
    case (Created c l)
    show ?thesis
    proof (cases "launch W now c l :: ('b, 'h, 'c, 'd, 'q, 'g, 'o) sentry option")
      case None
      then show ?thesis using Launch.prems by (auto simp: start_service_def Created end_service_def)
    next
      case (Some s)
      then show ?thesis
        using Launch.prems launch_gives(1) [OF W, of now l s] by (auto simp: start_service_def Created)
    qed
  qed (use Launch.prems in \<open>simp_all add: start_service_def\<close>)
next
  case (Take v s cmd cmds now)
  then show ?case
    using service_round_ok [OF W, of "v\<lparr>sv_queue := cmds\<rparr>"] by (simp add: take_command_def)
next
  case (Poll v now evs ticks)
  then show ?case by (rule service_round_ok [OF W])
next
  case (Parts v s n)
  then show ?case by (auto intro: sentry_run.Parts)
qed

lemma service_steps_ok:
  "service_steps W taken sent v v' \<Longrightarrow> deployment_ok W cfg digest \<Longrightarrow> phase_ok W cfg digest (sv_phase v) \<Longrightarrow>
    phase_ok W cfg digest (sv_phase v')"
  by (induction rule: service_steps.induct) (blast intro: service_step_ok)+


section \<open>Examples\<close>

definition plain_fork :: enr_fork_id where
  "plain_fork = \<lparr>fork_digest = [1, 2, 3, 4], fork_id_ssz = [1, 2, 3, 4, 9]\<rparr>"

definition plain_deployment :: "(gossip_settings, (peer_id, instant) hmap \<times> duration, (peer_id, enr) hmap, enr,
    nat \<times> (nat, cache_item \<times> instant) hmap, unit, bytes) deployment" where
  "plain_deployment = \<lparr> de_build = plain_build, de_config = plain_config_env,
     de_chain = \<lparr> ca_fork_epoch = (\<lambda>f. if f = Capella then Some 194048 else None), ca_start_slot = (\<lambda>e. 32 * e),
       ca_fork_context = (\<lambda>_ _. \<lparr>current_fork = Capella, to_context_bytes = (\<lambda>_. Some [1, 2, 3, 4]),
         genesis_context_bytes = [], from_context_bytes = (\<lambda>_. None)\<rparr>),
       ca_enr_fork_id = (\<lambda>_ _. plain_fork) \<rparr>,
     de_env = lonely_env, de_blocks = \<lparr>block_slot = length, block_root = (\<lambda>_. 0)\<rparr> \<rparr>"

lemma plain_parts:
  "capella_slot plain_deployment = Some 6209536" "capella_fork_id plain_deployment slot = plain_fork"
  "to_context_bytes (capella_context plain_deployment slot) Capella = Some [1, 2, 3, 4]"
  "de_build plain_deployment = plain_build" "de_env plain_deployment = lonely_env"
  "de_config plain_deployment = plain_config_env"
  by (simp_all add: capella_slot_def capella_fork_id_def capella_context_def plain_deployment_def)

abbreviation plain_config :: sentry_config where
  "plain_config \<equiv> default_sentry_config []"

lemma plain_spec_ok: "build_spec_ok plain_build (sentry_network_config C cfg)"
  if "0 < gs_mesh_n (ce_gs C)"
  using that
  by (simp add: build_spec_ok_def plain_build_def mainnet_spec_def sentry_network_config_def default_network_config_def
      u64_max_def)

lemma plain_deployment_ok: "deployment_ok plain_deployment plain_config [1, 2, 3, 4]"
proof -
  have "net_laws lonely_env" by (rule lonely_laws)
  moreover have "hex_laws (hex_of lonely_env)" by (simp add: lonely_env_def list_hex_laws)
  moreover have "timer_works (queue_of lonely_env)" by (auto simp: lonely_env_def timer_works_def list_dq_def split: option.split)
  moreover have "build_spec_ok plain_build (sentry_network_config plain_config_env plain_config)"
    by (rule plain_spec_ok) (simp add: plain_config_env_def load_settings_def network_load_of_def)
  ultimately show ?thesis
    using plain_build_laws by (simp add: deployment_ok_def plain_parts plain_fork_def)
qed

lemma plain_gossipsub:
  "\<exists>g. gossipsub_new (plain_build\<lparr>ba_fork_context := c\<rparr>) list_hex (sentry_network_config plain_config_env plain_config)
     plain_fork = Some (Inr g)"
proof -
  obtain P where "get_peer_score_params list_hex mainnet_committees (score_settings_new mainnet_spec 5) 16384
      lighthouse_gossip_thresholds [1, 2, 3, 4] 0 = Some (Inr P)"
    by (simp add: get_peer_score_params_def get_dynamic_topic_params_def expected_aggregator_count_per_slot_def
        mainnet_committees_def score_settings_new_def mainnet_spec_def Let_def)
  moreover obtain gs where "gossipsub_config checking_builder (\<lambda>bs. bs) 6 c = Some gs"
    using gossipsub_config_returns [OF checking_builder_accepts] by blast
  ultimately show ?thesis
    by (simp add: gossipsub_new_def plain_build_def plain_fork_def sentry_network_config_def default_network_config_def
        default_sentry_config_def plain_config_env_def load_settings_def network_load_of_def Let_def)
qed

lemma plain_launch: "\<exists>s. launch plain_deployment 0 plain_config listener = Some s"
proof -
  let ?X = "plain_build\<lparr>ba_fork_context := capella_context plain_deployment 6209536\<rparr>"
  let ?cfg = "sentry_network_config plain_config_env plain_config"
  obtain e where e: "build_or_load_enr ?X (disc_of lonely_env) ?cfg plain_fork = Inr e"
    by (simp add: build_or_load_enr_def build_enr_def plain_build_def use_or_load_enr_def Let_def)
  have fork: "ba_fork_id_of ?X e = Some plain_fork"
    using local_enr_kv(1) [OF e] plain_build_laws by (simp add: plain_fork_def)
  obtain g where g: "gossipsub_new ?X list_hex ?cfg plain_fork = Some (Inr g)" using plain_gossipsub by blast
  obtain rl where "rpc_limits_config 0 = Inr rl" using rpc_limits_returns by blast
  then have rpc: "rpc_new 0 = Inr \<lparr> rpc_limiter = rl, rpc_events = [] \<rparr>" by (simp add: rpc_new_def)
  obtain disc where disc: "discovery_new ?X (disc_of lonely_env) ?cfg e = Inr disc"
    by (simp add: discovery_new_def plain_build_def sentry_network_config_def default_network_config_def Let_def)
  have "ba_transport ?X = Inr ()" "hex_of lonely_env = list_hex" "\<forall>a. ba_listens ?X a"
    by (simp_all add: plain_build_def lonely_env_def)
  then show ?thesis
    by (simp add: launch_def service_network_def network_build_def plain_parts e fork [simplified] g rpc disc
        network_start_def start_dials_def all_boot_dials_exact Let_def split_beta)
qed

text \<open>A service that was sent a subscription before it was started, and is then asked for its peers.\<close>

definition asked_early :: "(nat, (peer_id, instant) hmap \<times> duration, (peer_id, enr) hmap, enr,
    nat \<times> (nat, cache_item \<times> instant) hmap, unit, bytes) service" where
  "asked_early = start_service plain_deployment 0 (subscribe_topic BeaconBlock (sentry_new plain_config))"

lemma asked_early_steps: "service_steps plain_deployment [] [Subscribe BeaconBlock] (sentry_new plain_config) asked_early"
  using Step [OF Step [OF Done Client [OF client_step.intros(1)]] Launch [where now = 0]] by (simp add: asked_early_def)

lemma asked_early_running: "\<exists>s. sv_phase asked_early = Running s" "sv_queue asked_early = [Subscribe BeaconBlock]"
  "sv_replies asked_early = 0"
  using plain_launch [of False, where ?'a = nat]
  by (auto simp: asked_early_def start_service_def subscribe_topic_def send_command_def sentry_new_def)

lemma question_answered_witness:
  "\<exists>s. sv_phase (take_command plain_deployment 1 (snd (peer_count asked_early))) = Running s
    \<and> peer_count_await 0 (take_command plain_deployment 1 (snd (peer_count asked_early))) = Waiting
    \<and> peer_count_await 0 (take_command plain_deployment 2 (take_command plain_deployment 1 (snd (peer_count asked_early))))
      = Ready (connected_count (net_globals (se_network s)))"
proof -
  let ?v1 = "snd (peer_count asked_early)"
  obtain s where s: "sv_phase asked_early = Running s" using asked_early_running(1) by blast
  then have op: "open_service asked_early" by (simp add: open_service_def)
  have v1: "sv_phase ?v1 = Running s" "sv_queue ?v1 = [Subscribe BeaconBlock, PeerCount 0]"
    by (simp_all add: peer_count_def s send_command_def asked_early_running)
  then have "service_steps plain_deployment [Subscribe BeaconBlock] [] ?v1 (take_command plain_deployment 1 ?v1)"
    using Step [OF Done Take, of ?v1] by fastforce
  moreover have s2: "sv_phase (take_command plain_deployment 1 ?v1)
      = Running (handle_command lonely_env 1 (Subscribe BeaconBlock) s)"
    by (simp add: take_command_def v1 service_round_def sentry_round_def plain_parts)
  ultimately show ?thesis
    using question_answered [OF asked_early_steps op, of 0 ?v1 "[Subscribe BeaconBlock]" "[]" _ _ "[]" "[]" 2, OF _ _ _ s2 Done]
    by (auto simp: asked_early_running peer_count_def)
qed


end
