(* ===== verification/Identity.thy ===== *)
theory Identity
  imports Topics Enr "HOL-Library.Countable"
begin

text \<open>
  The identity of the node: the key on disk (\<open>load_private_key\<close> of \<open>network/utils.rs\<close>) and the names that
  are made of it, the peer id of libp2p and the node id of discv5 (\<open>discovery/enr_ext.rs\<close>).  The elliptic
  curves, the hash and the protobuf encoding of keys are libraries: they are the argument \<open>K\<close>, and what is
  relied on of them is \<open>key_laws\<close>.
\<close>

section \<open>Keys\<close>

text \<open>A secret key is given by its bytes and a public key by its encoded bytes.  An error of a library that
  the code unwraps is the value \<open>None\<close>.\<close>

datatype keypair = KpSecp256k1 bytes | KpEd25519 bytes | KpEcdsa bytes
datatype public_key = PkSecp256k1 bytes | PkEd25519 bytes | PkEcdsa bytes
datatype combined_key = CkSecp256k1 bytes | CkEd25519 bytes
datatype combined_public_key = CpkSecp256k1 bytes | CpkEd25519 bytes

record key_api =
  secp_secret_ok :: "bytes \<Rightarrow> bool"
  secp_public :: "bytes \<Rightarrow> bytes"
  secp_public_ok :: "bytes \<Rightarrow> bool"
  secp_uncompressed :: "bytes \<Rightarrow> bytes"
  k256_secret_ok :: "bytes \<Rightarrow> bool"
  k256_public :: "bytes \<Rightarrow> bytes"
  ed_secret_ok :: "bytes \<Rightarrow> bool"
  ed_public :: "bytes \<Rightarrow> bytes"
  ed_public_ok :: "bytes \<Rightarrow> bool"
  protobuf_of :: "public_key \<Rightarrow> bytes"
  protobuf_read :: "bytes \<Rightarrow> string + public_key"
  peer_id_of :: "public_key \<Rightarrow> peer_id"
  peer_id_bytes :: "peer_id \<Rightarrow> bytes"
  peer_id_text :: "peer_id \<Rightarrow> string"
  keccak256 :: "bytes \<Rightarrow> bytes"
  node_id_parse :: "bytes \<Rightarrow> nat option"

text \<open>The libraries' own derivations: the public half of a key pair, and the peer id of libp2p.\<close>

fun keypair_public :: "key_api \<Rightarrow> keypair \<Rightarrow> public_key" where
  "keypair_public K (KpSecp256k1 s) = PkSecp256k1 (secp_public K s)"
| "keypair_public K (KpEd25519 s) = PkEd25519 (ed_public K s)"
| "keypair_public K (KpEcdsa b) = PkEcdsa b"

definition keypair_peer_id :: "key_api \<Rightarrow> keypair \<Rightarrow> peer_id" where
  "keypair_peer_id K k = peer_id_of K (keypair_public K k)"

fun combined_public :: "key_api \<Rightarrow> combined_key \<Rightarrow> combined_public_key" where
  "combined_public K (CkSecp256k1 s) = CpkSecp256k1 (k256_public K s)"
| "combined_public K (CkEd25519 s) = CpkEd25519 (ed_public K s)"

text \<open>The node id of a record under the v4 identity scheme: the hash of its public key, uncompressed and
  without the leading tag byte.\<close>

fun record_node_id :: "key_api \<Rightarrow> combined_public_key \<Rightarrow> nat option" where
  "record_node_id K (CpkSecp256k1 b) = node_id_parse K (keccak256 K (tl (secp_uncompressed K b)))"
| "record_node_id K (CpkEd25519 b) = node_id_parse K (keccak256 K b)"

section \<open>Conversions\<close>

fun as_peer_id :: "key_api \<Rightarrow> combined_public_key \<Rightarrow> peer_id option" where
  "as_peer_id K (CpkSecp256k1 b) =
     (if secp_public_ok K b then Some (peer_id_of K (PkSecp256k1 b)) else None)"
| "as_peer_id K (CpkEd25519 b) =
     (if ed_public_ok K b then Some (peer_id_of K (PkEd25519 b)) else None)"

fun from_libp2p :: "key_api \<Rightarrow> keypair \<Rightarrow> (string + combined_key) option" where
  "from_libp2p K (KpSecp256k1 s) = (if k256_secret_ok K s then Some (Inr (CkSecp256k1 s)) else None)"
| "from_libp2p K (KpEd25519 s) = (let secret = take 32 (s @ ed_public K s) in
     if ed_secret_ok K secret then Some (Inr (CkEd25519 secret)) else None)"
| "from_libp2p K (KpEcdsa _) = Some (Inl ''Ecdsa keypairs not supported'')"

definition peer_id_to_node_id :: "key_api \<Rightarrow> peer_id \<Rightarrow> (string + nat) option" where
  "peer_id_to_node_id K p = (case protobuf_read K (drop 2 (peer_id_bytes K p)) of
       Inl e \<Rightarrow> Some (Inl ('' Cannot parse libp2p public key public key from peer id: '' @ e))
     | Inr (PkSecp256k1 b) \<Rightarrow> map_option Inr (node_id_parse K (keccak256 K (drop 1 (secp_uncompressed K b))))
     | Inr (PkEd25519 b) \<Rightarrow> map_option Inr (node_id_parse K (keccak256 K b))
     | Inr (PkEcdsa _) \<Rightarrow> Some (Inl (''Unsupported public key (Ecdsa) from peer '' @ peer_id_text K p)))"

text \<open>A key given as text, for debugging.  The \<open>Debug\<close> texts of the errors of the libraries are the arguments
  \<open>hex_err\<close> and \<open>err\<close>.\<close>

definition keypair_from_bytes :: "key_api \<Rightarrow> (bytes \<Rightarrow> string) \<Rightarrow> bytes \<Rightarrow> string + keypair" where
  "keypair_from_bytes K err bs = (if secp_secret_ok K bs then Inr (KpSecp256k1 bs)
     else Inl (''Unable to parse p2p secret key: '' @ err bs))"

definition keypair_from_hex ::
  "hex_api \<Rightarrow> key_api \<Rightarrow> (string \<Rightarrow> string) \<Rightarrow> (bytes \<Rightarrow> string) \<Rightarrow> string \<Rightarrow> string + keypair" where
  "keypair_from_hex H K hex_err err hex =
     (case hex_decode H (if starts_with ''0x'' hex then drop 2 hex else hex) of
        Inl e \<Rightarrow> Inl (''Failed to parse p2p secret key bytes: '' @ hex_err e)
      | Inr bs \<Rightarrow> keypair_from_bytes K err bs)"

section \<open>The key on disk\<close>

text \<open>A file as the code finds it, and what comes of creating and writing it: it may not be created, or be cut
  short when the write fails.\<close>

datatype disk_file = NoFile | Unreadable | Contents bytes

datatype write_outcome = NotCreated | CutAfter nat | Written

fun write_file :: "write_outcome \<Rightarrow> bytes \<Rightarrow> disk_file \<Rightarrow> disk_file" where
  "write_file NotCreated bs f = f"
| "write_file (CutAfter n) bs f = Contents (take n bs)"
| "write_file Written bs f = Contents bs"

definition stored_key :: "key_api \<Rightarrow> disk_file \<Rightarrow> keypair option" where
  "stored_key K f = (case f of
       Contents bs \<Rightarrow> if secp_secret_ok K bs then Some (KpSecp256k1 bs) else None
     | _ \<Rightarrow> None)"

text \<open>The stored key, or else the generated one, of secret \<open>fresh\<close>, which is then written.\<close>

definition load_private_key :: "key_api \<Rightarrow> bytes \<Rightarrow> write_outcome \<Rightarrow> disk_file \<Rightarrow> keypair \<times> disk_file" where
  "load_private_key K fresh w f = (case stored_key K f of
       Some k \<Rightarrow> (k, f)
     | None \<Rightarrow> (KpSecp256k1 fresh, write_file w fresh f))"

definition save_enr_to_disk :: "(enr \<Rightarrow> bytes) \<Rightarrow> write_outcome \<Rightarrow> enr \<Rightarrow> disk_file \<Rightarrow> disk_file" where
  "save_enr_to_disk to_base64 w e f = write_file w (to_base64 e) f"

section \<open>Laws\<close>

text \<open>The two secp256k1 libraries accept the same secrets and agree on the public key; a public key is accepted
  in its own encoding; a short key is held in its peer id as it is, under a code byte and its length; the hash
  has 32 bytes, as many as a node id.\<close>

definition key_laws :: "key_api \<Rightarrow> bool" where
  "key_laws K \<longleftrightarrow>
     (\<forall>s. secp_secret_ok K s \<longrightarrow> k256_secret_ok K s \<and> k256_public K s = secp_public K s
        \<and> secp_public_ok K (secp_public K s))
     \<and> (\<forall>s. length s = 32 \<longrightarrow> ed_secret_ok K s \<and> ed_public_ok K (ed_public K s))
     \<and> (\<forall>pk. protobuf_read K (protobuf_of K pk) = Inr pk)
     \<and> (\<forall>pk. length (protobuf_of K pk) \<le> 42 \<longrightarrow> peer_id_bytes K (peer_id_of K pk)
          = [0, of_nat (length (protobuf_of K pk))] @ protobuf_of K pk)
     \<and> (\<forall>b. secp_public_ok K b \<longrightarrow> length (protobuf_of K (PkSecp256k1 b)) = 37)
     \<and> (\<forall>b. ed_public_ok K b \<longrightarrow> length (protobuf_of K (PkEd25519 b)) = 36)
     \<and> (\<forall>x. length (keccak256 K x) = 32) \<and> (\<forall>x. length x = 32 \<longrightarrow> node_id_parse K x \<noteq> None)"

definition short_keypair :: "key_api \<Rightarrow> keypair \<Rightarrow> bool" where
  "short_keypair K k = (case k of
       KpSecp256k1 s \<Rightarrow> secp_secret_ok K s | KpEd25519 s \<Rightarrow> length s = 32 | KpEcdsa _ \<Rightarrow> False)"

section \<open>One identity\<close>

lemma public_of_peer_id:
  assumes "key_laws K" and "short_keypair K k"
  shows "protobuf_read K (drop 2 (peer_id_bytes K (keypair_peer_id K k))) = Inr (keypair_public K k)"
proof -
  have "length (protobuf_of K (keypair_public K k)) \<le> 42"
    using assms by (cases k) (simp_all add: key_laws_def short_keypair_def)
  then have "peer_id_bytes K (keypair_peer_id K k)
      = [0, of_nat (length (protobuf_of K (keypair_public K k)))] @ protobuf_of K (keypair_public K k)"
    using assms(1) by (simp add: key_laws_def keypair_peer_id_def)
  then show ?thesis using assms(1) by (simp add: key_laws_def)
qed

lemma identity_of_keypair:
  assumes K: "key_laws K" and k: "short_keypair K k"
  shows "\<exists>ck n. from_libp2p K k = Some (Inr ck)
    \<and> as_peer_id K (combined_public K ck) = Some (keypair_peer_id K k)
    \<and> record_node_id K (combined_public K ck) = Some n
    \<and> peer_id_to_node_id K (keypair_peer_id K k) = Some (Inr n)"
proof -
  have n: "\<exists>n. node_id_parse K (keccak256 K x) = Some n" for x using K by (auto simp: key_laws_def)
  show ?thesis
  proof (cases k)
    case (KpSecp256k1 s)
    with k K have "k256_secret_ok K s" "k256_public K s = secp_public K s" "secp_public_ok K (secp_public K s)"
      by (auto simp: short_keypair_def key_laws_def)
    with n [of "tl (secp_uncompressed K (secp_public K s))"] public_of_peer_id [OF K k] KpSecp256k1
    show ?thesis by (auto simp: peer_id_to_node_id_def keypair_peer_id_def drop_Suc)
  next
    case (KpEd25519 s)
    with k K have "ed_secret_ok K s" "ed_public_ok K (ed_public K s)" "length s = 32"
      by (auto simp: short_keypair_def key_laws_def)
    with n [of "ed_public K s"] public_of_peer_id [OF K k] KpEd25519
    show ?thesis by (auto simp: peer_id_to_node_id_def keypair_peer_id_def)
  qed (use k in \<open>simp add: short_keypair_def\<close>)
qed

lemma stored_key_short: "stored_key K f = Some k \<Longrightarrow> short_keypair K k"
  by (auto simp: stored_key_def short_keypair_def split: disk_file.splits if_splits)

text \<open>C40. The node has one identity, and keeps it: when its key was read from disk or could be written there, the
  next start loads the same key, whatever key it would generate, and leaves the file alone.  The key is one
  discv5 can use; the record signed with it belongs to the peer id the node has in libp2p, and the node id that
  is computed from this peer id is the one of the record.\<close>

theorem node_identity_stable:
  assumes "key_laws K" and "secp_secret_ok K fresh" and "load_private_key K fresh w f = (k, f')"
    and "w = Written \<or> stored_key K f \<noteq> None"
  shows "load_private_key K fresh' w' f' = (k, f')
    \<and> (\<exists>ck n. from_libp2p K k = Some (Inr ck)
        \<and> as_peer_id K (combined_public K ck) = Some (keypair_peer_id K k)
        \<and> record_node_id K (combined_public K ck) = Some n
        \<and> peer_id_to_node_id K (keypair_peer_id K k) = Some (Inr n))"
proof
  have k: "stored_key K f' = Some k"
    using assms(2-4) by (auto simp: load_private_key_def stored_key_def split: option.splits)
  then show "load_private_key K fresh' w' f' = (k, f')" by (simp add: load_private_key_def)
  show "\<exists>ck n. from_libp2p K k = Some (Inr ck)
        \<and> as_peer_id K (combined_public K ck) = Some (keypair_peer_id K k)
        \<and> record_node_id K (combined_public K ck) = Some n
        \<and> peer_id_to_node_id K (keypair_peer_id K k) = Some (Inr n)"
    using identity_of_keypair [OF assms(1) stored_key_short [OF k]] .
qed

text \<open>A simple library of keys: a public key is its secret with a tag, and the hash pads or cuts to 32 bytes.\<close>

definition toy_bytes_id :: "bytes \<Rightarrow> nat" where "toy_bytes_id bs = to_nat (map unat bs)"

definition toy_protobuf_of :: "public_key \<Rightarrow> bytes" where
  "toy_protobuf_of pk = (case pk of PkSecp256k1 b \<Rightarrow> [8, 2, 18, 33] @ b | PkEd25519 b \<Rightarrow> [8, 1, 18, 32] @ b
     | PkEcdsa b \<Rightarrow> [8, 3, 18, 91] @ b)"

definition toy_protobuf_read :: "bytes \<Rightarrow> string + public_key" where
  "toy_protobuf_read bs = (if take 4 bs = [8, 2, 18, 33] then Inr (PkSecp256k1 (drop 4 bs))
     else if take 4 bs = [8, 1, 18, 32] then Inr (PkEd25519 (drop 4 bs))
     else if take 4 bs = [8, 3, 18, 91] then Inr (PkEcdsa (drop 4 bs)) else Inl ''unknown key type'')"

definition toy_keys :: key_api where
  "toy_keys = \<lparr> secp_secret_ok = (\<lambda>s. length s = 32), secp_public = (#) 2,
     secp_public_ok = (\<lambda>b. length b = 33), secp_uncompressed = (#) 4,
     k256_secret_ok = (\<lambda>s. length s = 32), k256_public = (#) 2,
     ed_secret_ok = (\<lambda>s. length s = 32), ed_public = id, ed_public_ok = (\<lambda>b. length b = 32),
     protobuf_of = toy_protobuf_of, protobuf_read = toy_protobuf_read,
     peer_id_of = (\<lambda>pk. toy_bytes_id ([0, of_nat (length (toy_protobuf_of pk))] @ toy_protobuf_of pk)),
     peer_id_bytes = (\<lambda>p. map of_nat (from_nat p)), peer_id_text = (\<lambda>_. ''peer''),
     keccak256 = (\<lambda>x. take 32 (x @ replicate 32 0)),
     node_id_parse = (\<lambda>x. if length x = 32 then Some (toy_bytes_id x) else None) \<rparr>"

lemma toy_bytes_id_inverse: "map of_nat (from_nat (toy_bytes_id bs)) = bs"
  by (simp add: toy_bytes_id_def comp_def)

lemma toy_key_laws: "key_laws toy_keys"
proof -
  have "toy_protobuf_read (toy_protobuf_of pk) = Inr pk" for pk
    by (cases pk) (simp_all add: toy_protobuf_read_def toy_protobuf_of_def)
  moreover have "min (length x) 32 + (32 - length x) = 32" for x :: bytes by (simp add: min_def)
  ultimately show ?thesis
    unfolding key_laws_def toy_keys_def key_api.simps toy_bytes_id_inverse by (simp add: toy_protobuf_of_def)
qed

lemma node_identity_stable_witness:
  "load_private_key toy_keys (replicate 32 5) NotCreated (Contents (replicate 32 7))
     = (KpSecp256k1 (replicate 32 7), Contents (replicate 32 7))"
proof -
  have "load_private_key toy_keys (replicate 32 7) Written NoFile
      = (KpSecp256k1 (replicate 32 7), Contents (replicate 32 7))"
    by (simp add: load_private_key_def stored_key_def)
  from node_identity_stable [OF toy_key_laws _ this, THEN conjunct1] show ?thesis
    by (simp add: toy_keys_def)
qed

text \<open>A key given as text with the prefix is read back.\<close>

lemma keypair_from_hex_encode:
  assumes "hex_laws H" and "secp_secret_ok K s"
  shows "keypair_from_hex H K hex_err err (''0x'' @ hex_encode H s) = Inr (KpSecp256k1 s)"
  using assms by (simp add: keypair_from_hex_def keypair_from_bytes_def hex_laws_def)

text \<open>A key that cannot be written is lost: the next start has another one.\<close>

lemma unwritten_key_is_lost:
  assumes "fresh \<noteq> fresh'"
  shows "fst (load_private_key K fresh' w' (snd (load_private_key K fresh NotCreated NoFile)))
    \<noteq> fst (load_private_key K fresh NotCreated NoFile)"
  using assms by (simp add: load_private_key_def stored_key_def)

end
