(* ===== verification/Rpc_Outbound.thy ===== *)
theory Rpc_Outbound
  imports Rpc_Protocol
begin

text \<open>
  \<open>OutboundRequest\<close> of \<open>rpc/outbound.rs\<close>: the requests this node sends, with their own tables.  The rest of
  the development works with one type of request for both directions; that the two sets of tables are the same
  is shown here.
\<close>

datatype outbound_request =
    OutStatus status_message
  | OutGoodbye goodbye_reason
  | OutBlocksByRange old_blocks_by_range_request
  | OutBlocksByRoot blocks_by_root_request
  | OutPing ping
  | OutMetaData

fun outbound_protocols :: "outbound_request \<Rightarrow> protocol_id list" where
  "outbound_protocols (OutStatus _) = [protocol_id_new ProtoStatus V1 SSZSnappy]"
| "outbound_protocols (OutGoodbye _) = [protocol_id_new ProtoGoodbye V1 SSZSnappy]"
| "outbound_protocols (OutBlocksByRange _) =
     [protocol_id_new ProtoBlocksByRange V2 SSZSnappy, protocol_id_new ProtoBlocksByRange V1 SSZSnappy]"
| "outbound_protocols (OutBlocksByRoot _) =
     [protocol_id_new ProtoBlocksByRoot V2 SSZSnappy, protocol_id_new ProtoBlocksByRoot V1 SSZSnappy]"
| "outbound_protocols (OutPing _) = [protocol_id_new ProtoPing V1 SSZSnappy]"
| "outbound_protocols OutMetaData =
     [protocol_id_new ProtoMetaData V2 SSZSnappy, protocol_id_new ProtoMetaData V1 SSZSnappy]"

fun outbound_expected :: "outbound_request \<Rightarrow> u64" where
  "outbound_expected (OutStatus _) = 1"
| "outbound_expected (OutGoodbye _) = 0"
| "outbound_expected (OutBlocksByRange req) = old_count req"
| "outbound_expected (OutBlocksByRoot req) = of_nat (length (block_roots req))"
| "outbound_expected (OutPing _) = 1"
| "outbound_expected OutMetaData = 1"

fun outbound_protocol :: "outbound_request \<Rightarrow> protocol_name" where
  "outbound_protocol (OutStatus _) = ProtoStatus"
| "outbound_protocol (OutGoodbye _) = ProtoGoodbye"
| "outbound_protocol (OutBlocksByRange _) = ProtoBlocksByRange"
| "outbound_protocol (OutBlocksByRoot _) = ProtoBlocksByRoot"
| "outbound_protocol (OutPing _) = ProtoPing"
| "outbound_protocol OutMetaData = ProtoMetaData"

text \<open>Four of the arms are declared unreachable: the value \<open>None\<close>.\<close>

fun outbound_termination :: "outbound_request \<Rightarrow> response_termination option" where
  "outbound_termination (OutBlocksByRange _) = Some TermBlocksByRange"
| "outbound_termination (OutBlocksByRoot _) = Some TermBlocksByRoot"
| "outbound_termination (OutStatus _) = None"
| "outbound_termination (OutGoodbye _) = None"
| "outbound_termination (OutPing _) = None"
| "outbound_termination OutMetaData = None"

text \<open>What the receiver makes of a request that is sent.\<close>

fun as_received :: "outbound_request \<Rightarrow> rpc_request" where
  "as_received (OutStatus m) = ReqStatus m"
| "as_received (OutGoodbye r) = ReqGoodbye r"
| "as_received (OutBlocksByRange r) = ReqBlocksByRange r"
| "as_received (OutBlocksByRoot r) = ReqBlocksByRoot r"
| "as_received (OutPing p) = ReqPing p"
| "as_received OutMetaData = ReqMetaData"

theorem outbound_tables_agree:
  "outbound_protocols r = supported_protocols (as_received r)
   \<and> outbound_expected r = expected_responses (as_received r)
   \<and> outbound_protocol r = request_protocol (as_received r)
   \<and> outbound_termination r = stream_termination (as_received r)"
  by (cases r) simp_all

text \<open>A request is offered on exactly the server's protocols of its name, in the server's order.\<close>

lemma offered_is_served:
  "outbound_protocols r = filter (\<lambda>i. message_name i = outbound_protocol r) protocol_info"
  by (cases r) (simp_all add: protocol_info_def protocol_id_new_def)

lemma bij_as_received: "bij as_received"
proof (rule bijI')
  show "as_received a = as_received b \<longleftrightarrow> a = b" for a b by (cases a; cases b) simp_all
  show "\<exists>a. b = as_received a" for b by (cases b) (metis as_received.simps)+
qed

end
