(* ===== verification/Rpc_Display.thy ===== *)
theory Rpc_Display
  imports Rpc_Outbound Pubsub
begin

text \<open>
  The texts of requests, responses, errors and gossip messages that the program writes into its log and takes
  for the names of its counters: \<open>rpc/methods.rs\<close>, \<open>rpc/protocol.rs\<close>, \<open>rpc/outbound.rs\<close> and
  \<open>types/pubsub.rs\<close>; and the lengths that the limits of \<open>rpc/protocol.rs\<close> are made of.  The texts and
  encodings of the types of other crates are parameters.
\<close>

section \<open>Texts\<close>

record 'b show_api =
  sh_hash :: "hash256 \<Rightarrow> string"
  sh_hashes :: "hash256 list \<Rightarrow> string"
  sh_epoch :: "epoch \<Rightarrow> string"
  sh_slot :: "slot \<Rightarrow> string"
  sh_block_slot :: "'b \<Rightarrow> slot"

definition show_u64 :: "u64 \<Rightarrow> string" where
  "show_u64 n = show_nat (unat n)"

definition status_display :: "'b show_api \<Rightarrow> status_message \<Rightarrow> string" where
  "status_display S m = ''Status Message: Fork Digest: '' @ show_bytes (sm_fork_digest m)
     @ '', Finalized Root: '' @ sh_hash S (sm_finalized_root m)
     @ '', Finalized Epoch: '' @ sh_epoch S (sm_finalized_epoch m)
     @ '', Head Root: '' @ sh_hash S (sm_head_root m) @ '', Head Slot: '' @ sh_slot S (sm_head_slot m)"

fun response_display :: "'b show_api \<Rightarrow> 'b rpc_response \<Rightarrow> string" where
  "response_display S (RespStatus m) = status_display S m"
| "response_display S (RespBlocksByRange b) = ''BlocksByRange: Block slot: '' @ sh_slot S (sh_block_slot S b)"
| "response_display S (RespBlocksByRoot b) = ''BlocksByRoot: Block slot: '' @ sh_slot S (sh_block_slot S b)"
| "response_display S (RespPong p) = ''Pong: '' @ show_u64 (ping_data p)"
| "response_display S (RespMetaData m) = ''Metadata: '' @ show_u64 (seq_number m)"

fun coded_response_display :: "'b show_api \<Rightarrow> text_api \<Rightarrow> 'b rpc_coded_response \<Rightarrow> string" where
  "coded_response_display S T (Success r) = response_display S r"
| "coded_response_display S T (ErrorResp code err) = error_code_display code @ '': '' @ error_type_to_string T err"
| "coded_response_display S T (StreamTermination _) = ''Stream Termination''"

definition range_display :: "blocks_by_range_request \<Rightarrow> string" where
  "range_display r = ''Start Slot: '' @ show_u64 (range_start_slot r) @ '', Count: '' @ show_u64 (range_count r)"

definition old_range_display :: "old_blocks_by_range_request \<Rightarrow> string" where
  "old_range_display r = ''Start Slot: '' @ show_u64 (old_start_slot r) @ '', Count: '' @ show_u64 (old_count r)
     @ '', Step: '' @ show_u64 (old_step r)"

text \<open>The derived \<open>Debug\<close> format.\<close>

definition roots_debug :: "'b show_api \<Rightarrow> blocks_by_root_request \<Rightarrow> string" where
  "roots_debug S r = ''BlocksByRootRequest { block_roots: '' @ sh_hashes S (block_roots r) @ '' }''"

fun request_display :: "'b show_api \<Rightarrow> rpc_request \<Rightarrow> string" where
  "request_display S (ReqStatus m) = ''Status Message: '' @ status_display S m"
| "request_display S (ReqGoodbye r) = ''Goodbye: '' @ goodbye_display r"
| "request_display S (ReqBlocksByRange r) = ''Blocks by range: '' @ old_range_display r"
| "request_display S (ReqBlocksByRoot r) = ''Blocks by root: '' @ roots_debug S r"
| "request_display S (ReqPing p) = ''Ping: '' @ show_u64 (ping_data p)"
| "request_display S ReqMetaData = ''MetaData request''"

fun outbound_display :: "'b show_api \<Rightarrow> outbound_request \<Rightarrow> string" where
  "outbound_display S (OutStatus m) = ''Status Message: '' @ status_display S m"
| "outbound_display S (OutGoodbye r) = ''Goodbye: '' @ goodbye_display r"
| "outbound_display S (OutBlocksByRange r) = ''Blocks by range: '' @ old_range_display r"
| "outbound_display S (OutBlocksByRoot r) = ''Blocks by root: '' @ roots_debug S r"
| "outbound_display S (OutPing p) = ''Ping: '' @ show_u64 (ping_data p)"
| "outbound_display S OutMetaData = ''MetaData request''"

fun rpc_error_display :: "rpc_error \<Rightarrow> string" where
  "rpc_error_display (SSZDecodeError err) = ''Error while decoding ssz: '' @ err"
| "rpc_error_display (InvalidData err) = ''Peer sent unexpected data: '' @ err"
| "rpc_error_display (IoError err) = ''IO Error: '' @ err"
| "rpc_error_display (ErrorResponse code reason) =
     ''RPC response was an error: '' @ error_code_display code @ '' with reason: '' @ reason"
| "rpc_error_display StreamTimeout = ''Stream Timeout''"
| "rpc_error_display UnsupportedProtocol = ''Peer does not support the protocol''"
| "rpc_error_display IncompleteStream = ''Stream ended unexpectedly''"
| "rpc_error_display (InternalError err) = ''Internal error: '' @ err"
| "rpc_error_display NegotiationTimeout = ''Negotiation timeout''"
| "rpc_error_display HandlerRejected = ''Handler rejected the request''"
| "rpc_error_display RpcDisconnected = ''Gracefully Disconnected''"

text \<open>The names of errors, made of their constructors.\<close>

fun error_code_str :: "rpc_response_error_code \<Rightarrow> string" where
  "error_code_str RateLimited = ''rate_limited''"
| "error_code_str InvalidRequest = ''invalid_request''"
| "error_code_str ServerError = ''server_error''"
| "error_code_str ResourceUnavailable = ''resource_unavailable''"
| "error_code_str UnknownCode = ''unknown''"

fun as_static_str :: "rpc_error \<Rightarrow> string" where
  "as_static_str (ErrorResponse code _) = error_code_str code"
| "as_static_str (SSZDecodeError _) = ''decode_error''"
| "as_static_str (IoError _) = ''io_error''"
| "as_static_str StreamTimeout = ''stream_timeout''"
| "as_static_str UnsupportedProtocol = ''unsupported_protocol''"
| "as_static_str IncompleteStream = ''incomplete_stream''"
| "as_static_str (InvalidData _) = ''invalid_data''"
| "as_static_str (InternalError _) = ''internal_error''"
| "as_static_str NegotiationTimeout = ''negotiation_timeout''"
| "as_static_str HandlerRejected = ''handler_rejected''"
| "as_static_str RpcDisconnected = ''disconnected''"

text \<open>What a gossip message is shown with: the fields of the objects come from another crate.\<close>

record 'o object_fields =
  of_slot :: "'o \<Rightarrow> slot"
  of_proposer_index :: "'o \<Rightarrow> u64"
  of_index :: "'o \<Rightarrow> u64"
  of_aggregator_index :: "'o \<Rightarrow> u64"

fun pubsub_display :: "'b show_api \<Rightarrow> 'o object_fields \<Rightarrow> 'o pubsub_message \<Rightarrow> string" where
  "pubsub_display S F (PubsubBeaconBlock b) = ''Beacon Block: slot: '' @ sh_slot S (of_slot F b)
     @ '', proposer_index: '' @ show_u64 (of_proposer_index F b)"
| "pubsub_display S F (AggregateAndProofAttestation a) = ''Aggregate and Proof: slot: '' @ sh_slot S (of_slot F a)
     @ '', index: '' @ show_u64 (of_index F a) @ '', aggregator_index: '' @ show_u64 (of_aggregator_index F a)"
| "pubsub_display S F (PubsubAttestation i a) = ''Attestation: subnet_id: '' @ show_nat i
     @ '', attestation_slot: '' @ sh_slot S (of_slot F a) @ '', attestation_index: '' @ show_u64 (of_index F a)"
| "pubsub_display S F (PubsubVoluntaryExit _) = ''Voluntary Exit''"
| "pubsub_display S F (PubsubProposerSlashing _) = ''Proposer Slashing''"
| "pubsub_display S F (PubsubAttesterSlashing _) = ''Attester Slashing''"
| "pubsub_display S F (PubsubSignedContributionAndProof _) = ''Signed Contribution and Proof''"
| "pubsub_display S F (PubsubSyncCommitteeMessage i _) = ''Sync committee message: subnet_id: '' @ show_nat i"

section \<open>The lengths of extreme messages\<close>

text \<open>The SSZ lengths of the empty and the full block of a fork, of execution payloads, of lists of hashes and
  bytes and of the messages of fixed length.\<close>

record ssz_crate =
  ssz_block :: "fork_name \<Rightarrow> bool \<Rightarrow> nat"
  ssz_payload_max :: "fork_name \<Rightarrow> nat"
  ssz_offset :: nat
  ssz_hashes :: "nat \<Rightarrow> nat"
  ssz_bytes :: "nat \<Rightarrow> nat"
  ssz_status :: nat
  ssz_goodbye :: nat
  ssz_old_range :: nat
  ssz_ping :: nat
  ssz_metadata_v1 :: nat
  ssz_metadata_v2 :: nat

definition SIGNED_BEACON_BLOCK_MERGE_MAX :: "ssz_crate \<Rightarrow> nat" where
  "SIGNED_BEACON_BLOCK_MERGE_MAX C = ssz_block C Altair True + ssz_payload_max C Merge + ssz_offset C"

definition SIGNED_BEACON_BLOCK_CAPELLA_MAX :: "ssz_crate \<Rightarrow> nat" where
  "SIGNED_BEACON_BLOCK_CAPELLA_MAX C = ssz_block C Capella True + ssz_payload_max C Capella + ssz_offset C"

definition protocol_lengths :: "ssz_crate \<Rightarrow> ssz_lengths" where
  "protocol_lengths C = \<lparr> len_status = ssz_status C, len_goodbye = ssz_goodbye C, len_old_range = ssz_old_range C,
     len_ping = ssz_ping C, len_metadata_v1 = ssz_metadata_v1 C, len_metadata_v2 = ssz_metadata_v2 C,
     len_root_min = ssz_hashes C 0, len_root_max = ssz_hashes C 1024,
     len_base_min = ssz_block C Base False, len_base_max = ssz_block C Base True,
     len_altair_max = ssz_block C Altair True, len_merge_max = SIGNED_BEACON_BLOCK_MERGE_MAX C,
     len_capella_max = SIGNED_BEACON_BLOCK_CAPELLA_MAX C \<rparr>"

definition ERROR_TYPE_MIN :: "ssz_crate \<Rightarrow> nat" where "ERROR_TYPE_MIN C = ssz_bytes C 0"
definition ERROR_TYPE_MAX :: "ssz_crate \<Rightarrow> nat" where "ERROR_TYPE_MAX C = ssz_bytes C MAX_ERROR_LEN"

section \<open>Properties\<close>

text \<open>The name of an error tells its kind, and the code of an error response.\<close>

definition same_kind :: "rpc_error \<Rightarrow> rpc_error \<Rightarrow> bool" where
  "same_kind a b = (case (a, b) of
       (ErrorResponse c _, ErrorResponse d _) \<Rightarrow> c = d
     | (SSZDecodeError _, SSZDecodeError _) \<Rightarrow> True
     | (IoError _, IoError _) \<Rightarrow> True
     | (InvalidData _, InvalidData _) \<Rightarrow> True
     | (InternalError _, InternalError _) \<Rightarrow> True
     | _ \<Rightarrow> a = b)"

lemma error_code_str_inj: "error_code_str c = error_code_str d \<longleftrightarrow> c = d"
  by (cases c; cases d) simp_all

lemma static_str_kind: "as_static_str a = as_static_str b \<longleftrightarrow> same_kind a b"
proof (cases "\<exists>c r. a = ErrorResponse c r")
  case True
  then obtain c r where a: "a = ErrorResponse c r" by blast
  show ?thesis
    using error_code_str_inj [of c] by (cases b) (cases c, auto simp: a same_kind_def)+
next
  case False
  then show ?thesis
  proof (cases "\<exists>d r. b = ErrorResponse d r")
    case True
    then obtain d r where b: "b = ErrorResponse d r" by blast
    show ?thesis using False by (cases a; cases d) (auto simp: b same_kind_def)
  qed (cases a; cases b; auto simp: same_kind_def)
qed

text \<open>The limits of a fork take in the blocks of all forks before it, when the blocks of each fork have room for
  those of the one before.\<close>

definition fork_number :: "fork_name \<Rightarrow> nat" where
  "fork_number f = (case f of Base \<Rightarrow> 0 | Altair \<Rightarrow> 1 | Merge \<Rightarrow> 2 | Capella \<Rightarrow> 3)"

lemma block_limits_grow:
  assumes "ssz_block C Base True \<le> ssz_block C Altair True" "ssz_block C Altair True \<le> ssz_block C Capella True"
    and "ssz_payload_max C Merge \<le> ssz_payload_max C Capella" and "fork_number f \<le> fork_number g"
    and "\<not> is_out_of_bounds (rpc_block_limits_by_fork (protocol_lengths C) f) n (max_rpc_size f)"
  shows "\<not> is_out_of_bounds (rpc_block_limits_by_fork (protocol_lengths C) g) n (max_rpc_size g)"
  using assms
  by (cases f; cases g) (simp_all add: not_less fork_number_def is_out_of_bounds_def protocol_lengths_def rpc_limits_new_def
      SIGNED_BEACON_BLOCK_MERGE_MAX_def SIGNED_BEACON_BLOCK_CAPELLA_MAX_def MAX_RPC_SIZE_def
      MAX_RPC_SIZE_POST_MERGE_def MAX_RPC_SIZE_POST_CAPELLA_def)

end
