(* ===== verification/Repo_Tests.thy ===== *)
theory Repo_Tests
  imports Limiter Score Topics Discovery Gossip_Cache
begin

text \<open>
  Unit tests of the repository, run on the model: the same calls with the same numbers, and the results the
  tests assert.  A time given in fractions of a second is the one the conversion from \<open>f32\<close> gives, in
  nanoseconds.
\<close>

section \<open>\<open>rpc/rate_limiter.rs\<close>\<close>

text \<open>The answers to a sequence of requests of one key.\<close>

fun limiter_answers :: "(duration \<times> u64) list \<Rightarrow> nat limiter \<Rightarrow> bool list" where
  "limiter_answers [] l = []"
| "limiter_answers ((t, n) # rs) l =
     (case limiter_allows t 10 n l of (l, r) \<Rightarrow> (r = Inr ()) # limiter_answers rs l)"

definition test_limiter :: "nat limiter" where
  "test_limiter = \<lparr>tau = 2000000000, replenish_one = 500000000, tat_per_key = []\<rparr>"

lemma test_quota: "from_quota \<lparr>replenish_all_every = from_secs 2, max_tokens = 4\<rparr> = Inr test_limiter"
  by (simp add: from_quota_def from_secs_def nanos_per_sec_def test_limiter_def)

lemma it_works_a:
  "limiter_answers [(0, 4)] test_limiter = [True]"
  "limiter_answers [(100000001, 1), (500000000, 1), (1000000000, 1), (1399999976, 1), (2000000000, 2)]
      (limiter_prune 100000001 (fst (limiter_allows 0 10 4 test_limiter)))
    = [False, True, True, False, True]"
  by (simp_all add: test_limiter_def limiter_allows_def limiter_prune_def hm_retain_def saturating_sub64_def Let_def max_def)

lemma it_works_b:
  "limiter_answers [(0, 1), (100000001, 1), (200000003, 1), (300000012, 1), (400000006, 1)] test_limiter
    = [True, True, True, True, False]"
  by (simp add: test_limiter_def limiter_allows_def saturating_sub64_def Let_def max_def)

section \<open>\<open>peer_manager/peerdb/score.rs\<close>\<close>

lemma test_reputation_change:
  "score_field (add_score 0 (default_real_score now)) = DEFAULT_SCORE"
  "score_field (add_score (MIN_SCORE - 50) (default_real_score now)) = MIN_SCORE"
  "score_field (add_score (MAX_SCORE + 50) (default_real_score now)) = MAX_SCORE"
  "score_field (add_score 1.32 (default_real_score now)) = DEFAULT_SCORE + 1.32"
  by (simp_all add: add_score_def set_lighthouse_score_def update_state_def recompute_score_def
      effective_score_def default_real_score_def score_consts Let_def)

lemma test_very_negative_gossipsub_score:
  "let s = real_update_gossipsub_score now GREYLIST_THRESHOLD False (default_real_score now)
   in \<not> real_is_good_gossipsub_peer s \<and> score_field s < 0 \<and> state_of_score (Real s) = Healthy
     \<and> state_of_score (Real (add_score (-1.0001) s)) = score_state.Disconnected"
  by (simp add: real_update_gossipsub_score_def real_is_good_gossipsub_peer_def add_score_def
      set_lighthouse_score_def update_state_def recompute_score_def effective_score_def
      default_real_score_def state_of_Real score_consts Let_def)

lemma test_ignored_gossipsub_score:
  "let s = real_update_gossipsub_score now GREYLIST_THRESHOLD True (default_real_score now)
   in \<not> real_is_good_gossipsub_peer s \<and> score_field s = 0"
  by (simp add: real_update_gossipsub_score_def real_is_good_gossipsub_peer_def update_state_def
      recompute_score_def effective_score_def default_real_score_def score_consts Let_def)

section \<open>\<open>types/topics.rs\<close>\<close>

lemma test_decode_malicious:
  "isl (topic_decode H ''/tezos/e1925f3b/beacon_block/ssz_snappy'')"
  "isl (topic_decode H ''/eth2/e1925f3b/blocks/ssz_snappy'')"
  "isl (topic_decode H ''/eth2/e1925f3b/beacon_block/rlp'')"
  "isl (topic_decode H ''/eth2/e1925f3b/beacon_block/ssz_snappy/yolo'')"
  "isl (topic_decode H [])"
  "isl (topic_decode H ''////'')"
  by (simp_all add: topic_decode_def topic_consts decode_kind_def committee_topic_index_def Let_def
      split: sum.splits)

section \<open>\<open>discovery/mod.rs\<close>\<close>

lemma test_add_subnet_query:
  assumes "queued_queries d = []"
  shows "queued_queries (add_subnet_query (Attestation 1) (Some now) 0 d)
      = [\<lparr>sq_subnet = Attestation 1, sq_min_ttl = Some now, sq_retries = 0\<rparr>]"
    and "queued_queries (add_subnet_query (Attestation 1) (Some (now + from_secs 1)) 1
          (add_subnet_query (Attestation 1) (Some now) 0 d))
      = [\<lparr>sq_subnet = Attestation 1, sq_min_ttl = Some (now + from_secs 1), sq_retries = 1\<rparr>]"
    and "add_subnet_query (Attestation 1) (Some now) (MAX_DISCOVERY_RETRY + 1) d = d"
  using assms by (simp_all add: add_subnet_query_def ttl_less_def MAX_DISCOVERY_RETRY_def from_secs_def)

section \<open>\<open>peer_manager/peerdb.rs\<close>\<close>

lemma test_outbound_only_peers_counted_correctly:
  "length (connected_outbound_only_peers
     (db_connect_outgoing 4 3 [Ip4 0] None (db_connect_outgoing 3 2 [Ip4 0] None
       (db_connect_ingoing 2 2 [Ip4 0] None (db_connect_ingoing 1 1 [Ip4 0] None (new_db 0 [])))))) = 1"
  by (simp add: db_connect_outgoing_def db_connect_ingoing_def new_db_def update_connection_state_def transition_def
      ban_score_def entry_for_def to_connected_def default_peer_info_def info_connect_ingoing_def
      info_connect_outgoing_def see_address_def connected_outbound_only_peers_def ids_where_def
      is_outbound_only_def info_is_connected_def set_connection_status_def socket_addr_of_def Let_def)

end
