(* ===== verification/Repo_Tests_DB.thy ===== *)
theory Repo_Tests_DB
  imports Peer_DB_Ops
begin

text \<open>
  The unit tests of \<open>peer_manager/peerdb.rs\<close>, run on the model: the same calls on the same peers and addresses,
  and the assertions of the tests.  A test is a list of calls and the assertion that follows them; the clock
  reads the same time throughout, the random ids are numbers.
\<close>

section \<open>What the tests use\<close>

fun test_add :: "f64 \<Rightarrow> score \<Rightarrow> score" where
  "test_add x Max = Max"
| "test_add x (Real s) = Real (add_score x s)"

fun test_reset :: "score \<Rightarrow> score" where
  "test_reset Max = Max"
| "test_reset (Real s) = Real (set_lighthouse_score 0 s)"

definition add_to_score :: "f64 \<Rightarrow> peer_info \<Rightarrow> peer_info" where
  "add_to_score x info = (if is_trusted info then info else info\<lparr>info_score := test_add x (info_score info)\<rparr>)"

definition info_reset_score :: "peer_info \<Rightarrow> peer_info" where
  "info_reset_score info = info\<lparr>info_score := test_reset (info_score info)\<rparr>"

definition db_add_score :: "peer_id \<Rightarrow> f64 \<Rightarrow> peer_db \<Rightarrow> peer_db" where
  "db_add_score p x db = db\<lparr>peers := hm_adjust p (add_to_score x) (peers db)\<rparr>"

definition db_reset_score :: "peer_id \<Rightarrow> peer_db \<Rightarrow> peer_db" where
  "db_reset_score p db = db\<lparr>peers := hm_adjust p info_reset_score (peers db)\<rparr>"

definition get_db :: "instant \<Rightarrow> peer_db" where "get_db now = new_db now []"

text \<open>The calls of the tests, without their results.\<close>

definition conn_in :: "instant \<Rightarrow> multiaddr \<Rightarrow> peer_id \<Rightarrow> peer_db \<Rightarrow> peer_db" where
  "conn_in now a p = db_connect_ingoing now p a None"

definition conn_out :: "instant \<Rightarrow> multiaddr \<Rightarrow> peer_id \<Rightarrow> peer_db \<Rightarrow> peer_db" where
  "conn_out now a p = db_connect_outgoing now p a None"

definition disconnect :: "instant \<Rightarrow> peer_id \<Rightarrow> peer_db \<Rightarrow> peer_db" where
  "disconnect now p db = fst (db_inject_disconnect now p db)"

definition fatal :: "instant \<Rightarrow> peer_id \<Rightarrow> peer_db \<Rightarrow> peer_db" where
  "fatal now p db = fst (db_report_peer now p Fatal db)"

definition unban_peer :: "instant \<Rightarrow> peer_id \<Rightarrow> peer_db \<Rightarrow> peer_db" where
  "unban_peer now p db = fst (shrink_to_fit (fst (update_connection_state now p NewUnbanned (db_reset_score p db))))"

definition ip_multiaddr :: "ip_addr \<Rightarrow> multiaddr" where
  "ip_multiaddr ip = (case ip of V4 w \<Rightarrow> [Ip4 w] | V6 w \<Rightarrow> [Ip6 w])"

definition connect_peer_with_ips :: "instant \<Rightarrow> ip_addr list \<Rightarrow> peer_id \<Rightarrow> peer_db \<Rightarrow> peer_db" where
  "connect_peer_with_ips now ips p = fold (\<lambda>ip. conn_in now (ip_multiaddr ip @ [Tcp 9000]) p) ips"

abbreviation any_addr :: multiaddr where "any_addr \<equiv> [Ip4 0]"

text \<open>The assertions.\<close>

definition disconnected_counted :: "peer_db \<Rightarrow> bool" where
  "disconnected_counted db \<longleftrightarrow> db_disconnected db = length (disconnected_peer_ids db)"

definition banned_counted :: "peer_db \<Rightarrow> bool" where
  "banned_counted db \<longleftrightarrow> bp_total (db_banned_count db) = length (banned_peer_ids db)"

definition banned_among :: "peer_id list \<Rightarrow> peer_db \<Rightarrow> peer_id list" where
  "banned_among ps db = filter (\<lambda>p. ban_status db p \<noteq> NotBanned) ps"

fun run_test :: "((peer_db \<Rightarrow> peer_db) list \<times> (peer_db \<Rightarrow> bool)) list \<Rightarrow> peer_db \<Rightarrow> bool"
  and check_test :: "(peer_db \<Rightarrow> bool) \<Rightarrow> ((peer_db \<Rightarrow> peer_db) list \<times> (peer_db \<Rightarrow> bool)) list \<Rightarrow> peer_db \<Rightarrow> bool" where
  "run_test [] db = True"
| "run_test ((calls, check) # rest) db = check_test check rest (fold (\<lambda>f. f) calls db)"
| "check_test check rest db = (check db \<and> run_test rest db)"

section \<open>The tests\<close>

definition test_peer_connected_successfully :: "instant \<Rightarrow> bool" where
  "test_peer_connected_successfully now = run_test
     [(replicate 10 (conn_in now any_addr 0) @ replicate 20 (conn_out now any_addr 0),
       \<lambda>db. case peer_info_get db 0 of None \<Rightarrow> False
         | Some info \<Rightarrow> length (peers db) = 1 \<and> db_score now db 0 = score_of (default_score now)
             \<and> db_disconnected db = 0 \<and> info_is_connected info \<and> connections info = (10, 20))] (get_db now)"

definition test_outbound_only_peers :: "instant \<Rightarrow> bool" where
  "test_outbound_only_peers now = run_test
     [([conn_in now any_addr 0, conn_in now any_addr 1, conn_out now any_addr 1, conn_out now any_addr 2],
       \<lambda>db. length (connected_outbound_only_peers db) = 1)] (get_db now)"

definition test_best_peers :: "instant \<Rightarrow> bool" where
  "test_best_peers now = run_test
     [([conn_in now any_addr 0, conn_in now any_addr 1, conn_in now any_addr 2,
        db_add_score 0 70, db_add_score 1 100, db_add_score 2 50],
       \<lambda>db. map fst (best_peers_by_status info_is_connected db) = [1, 0, 2])] (get_db now)"

definition test_the_best_peer :: "instant \<Rightarrow> bool" where
  "test_the_best_peer now = run_test
     [([conn_in now any_addr 0, conn_in now any_addr 1, conn_in now any_addr 2,
        db_add_score 0 70, db_add_score 1 100, db_add_score 2 50],
       \<lambda>db. best_by_status info_is_connected db \<noteq> None
         \<and> best_by_status info_is_connected db = Some (fst (hd (best_peers_by_status info_is_connected db))))] (get_db now)"

definition test_disconnected_consistency :: "instant \<Rightarrow> bool" where
  "test_disconnected_consistency now = run_test
     [([conn_in now any_addr 0], disconnected_counted), ([conn_in now any_addr 0], disconnected_counted),
      ([disconnect now 0], disconnected_counted), ([conn_out now any_addr 0], disconnected_counted),
      ([disconnect now 0], disconnected_counted),
      ([fatal now 0, disconnect now 0, fatal now 0], disconnected_counted),
      ([disconnect now 0], disconnected_counted), ([disconnect now 0], disconnected_counted),
      ([disconnect now 0], disconnected_counted)] (get_db now)"

definition test_disconnected_ban_consistency :: "instant \<Rightarrow> bool" where
  "test_disconnected_ban_consistency now =
     (let a = [Tcp 9000, Ip4 0]; counted = (\<lambda>db. disconnected_counted db \<and> banned_counted db) in run_test
     [([conn_in now a 0, conn_in now a 1, conn_in now a 2, conn_in now a 3],
       \<lambda>db. disconnected_counted db \<and> bp_total (db_banned_count db) = length (banned_peers_by_score db)),
      ([disconnect now 1, fatal now 2, disconnect now 2, fatal now 2, conn_in now a 3], counted),
      ([fatal now 1, disconnect now 1, fatal now 1], counted),
      ([conn_out now a 2, db_add_score 2 100], counted),
      ([fatal now 3, disconnect now 3], counted),
      ([fatal now 3, disconnect now 3, conn_in now a 1, db_add_score 1 100, disconnect now 2, fatal now 3,
        disconnect now 3, conn_in now a 0, db_add_score 0 100], counted),
      ([disconnect now 0], counted), ([disconnect now 0], counted),
      ([fatal now 0, disconnect now 0], disconnected_counted)] (get_db now))"

definition test_ban_address :: "instant \<Rightarrow> bool" where
  "test_ban_address now =
     (let ip1 = V4 0x01020304; ip2 = V6 0x00010002000300040005000600070008; ip3 = V4 0x01020305;
          ip4 = V6 0x00010002000300040005000600070009; ip5 = V4 0x02020304 in run_test
     [(map (\<lambda>i. connect_peer_with_ips now (if i = 0 then [ip1, ip2] else [ip1, ip2, ip3, ip4]) i) [0, 1, 2, 3, 4, 5, 6]
       @ [connect_peer_with_ips now [ip1] 11, connect_peer_with_ips now [ip2, ip5] 12,
          connect_peer_with_ips now [ip3, ip5] 13, connect_peer_with_ips now [ip5, ip4] 14,
          connect_peer_with_ips now [ip5] 15]
       @ concat (map (\<lambda>p. [fatal now p, disconnect now p]) [0, 1, 2, 3, 4, 5]),
       \<lambda>db. banned_among [11, 12, 13, 14, 15] db = [11, 12]),
      ([fatal now 6, disconnect now 6], \<lambda>db. banned_among [11, 12, 13, 14, 15] db = [11, 12, 13, 14]),
      ([unban_peer now 0], \<lambda>db. banned_among [11, 12, 13, 14, 15] db = [11, 12, 13, 14]),
      ([unban_peer now 1], \<lambda>db. banned_among [11, 12, 13, 14, 15] db = [])] (get_db now))"

definition test_banned_ip_changing :: "instant \<Rightarrow> bool" where
  "test_banned_ip_changing now =
     (let ip1 = V4 0x01020304; ip2 = V6 0x00010002000300040005000600070008; ps = [0, 1, 2, 3, 4, 5] in run_test
     [(map (connect_peer_with_ips now [ip1]) ps
       @ [connect_peer_with_ips now [ip1] 11, connect_peer_with_ips now [ip2] 12]
       @ concat (map (\<lambda>p. [fatal now p, disconnect now p]) ps), \<lambda>db. banned_among [11, 12] db = [11]),
      ([unban_peer now 0], \<lambda>db. banned_among [11, 12] db = []),
      (map (unban_peer now) ps
       @ concat (map (\<lambda>p. [conn_in now (ip_multiaddr ip2 @ [Tcp 8080]) p, fatal now p, disconnect now p]) ps),
       \<lambda>db. banned_among [11, 12] db = [11, 12]),
      (map (unban_peer now) ps @ concat (map (\<lambda>p. [fatal now p, disconnect now p]) (tl ps)),
       \<lambda>db. banned_among [11, 12] db = []),
      ([fatal now 0, disconnect now 0], \<lambda>db. banned_among [11, 12] db = [11, 12])] (get_db now))"

definition test_trusted_peers_score :: "instant \<Rightarrow> bool" where
  "test_trusted_peers_score now = run_test
     [([conn_in now any_addr 0], \<lambda>db. case peer_info_get db 0 of None \<Rightarrow> False
         | Some info \<Rightarrow> is_trusted info \<and> score_of (info_score info) = score_of max_score),
      ([db_add_score 0 (- 50)], \<lambda>db. map_option (\<lambda>info. score_of (info_score info)) (peer_info_get db 0)
         = Some (score_of max_score))] (new_db now [0])"

section \<open>They pass\<close>

lemmas test_call_defs = conn_in_def conn_out_def disconnect_def fatal_def unban_peer_def ip_multiaddr_def
  connect_peer_with_ips_def get_db_def new_db_def db_add_score_def db_reset_score_def add_to_score_def
  info_reset_score_def

lemmas test_db_defs = db_connect_ingoing_def db_connect_outgoing_def db_inject_disconnect_def db_report_peer_def
  update_connection_state_def transition_def ban_score_def entry_for_def to_connected_def to_disconnected_def
  to_banned_def to_unbanned_def socket_addr_of_def forget_disconnected_def count_disconnected_def forget_banned_def
  count_banned_def ready_to_ban_def shrink_to_fit_def shrink_banned.simps shrink_disconnected.simps MAX_DC_PEERS_def
  MAX_BANNED_PEERS_def handle_score_transition_def free_ips_def of_ban_operation_def hm_upsert_def hm_adjust_def

lemmas test_ban_defs = add_banned_peer_def remove_banned_peer_def banned_ips_def ip_is_banned_def is_ip_banned_def
  BANNED_PEERS_PER_IP_THRESHOLD_def default_banned_count_def ban_status_def db_ip_is_banned_def seen_ip_addresses_def

lemmas test_info_defs = default_peer_info_def trusted_peer_info_def info_connect_ingoing_def info_connect_outgoing_def
  see_address_def set_connection_status_def clear_subnets_def apply_peer_action_to_score_def score_state_of_def
  default_score_def default_real_score_def add_score_def set_lighthouse_score_def update_state_def recompute_score_def
  score_consts state_of_Real

lemmas test_defs = test_call_defs test_db_defs test_ban_defs test_info_defs

lemmas test_checks = disconnected_counted_def banned_counted_def banned_among_def disconnected_peer_ids_def
  banned_peer_ids_def banned_peers_by_score_def ids_where_def info_is_disconnected_def info_is_banned_def
  score_is_banned_def info_is_connected_def

lemma peer_connected_successfully: "test_peer_connected_successfully now"
  by (simp add: test_peer_connected_successfully_def numeral_eq_Suc test_defs test_checks peer_info_get_def db_score_def connections_def Let_def cong: let_weak_cong)

lemma outbound_only_peers: "test_outbound_only_peers now"
  by (simp add: test_outbound_only_peers_def test_defs test_checks connected_outbound_only_peers_def is_outbound_only_def Let_def cong: let_weak_cong)

lemma best_peers: "test_best_peers now"
  by (simp add: test_best_peers_def test_defs test_checks best_peers_by_status_def Let_def cong: let_weak_cong)

lemma the_best_peer: "test_the_best_peer now"
  by (simp add: test_the_best_peer_def test_defs test_checks best_peers_by_status_def best_by_status_def Let_def cong: let_weak_cong)

lemma disconnected_consistency: "test_disconnected_consistency now"
  by (simp add: test_disconnected_consistency_def test_defs test_checks Let_def cong: let_weak_cong)

lemma trusted_peers_score: "test_trusted_peers_score now"
  by (simp add: test_trusted_peers_score_def test_defs test_checks peer_info_get_def Let_def cong: let_weak_cong)

lemma disconnected_ban_consistency: "test_disconnected_ban_consistency now"
  by (simp add: test_disconnected_ban_consistency_def test_defs test_checks Let_def cong: let_weak_cong)

lemma ban_address: "test_ban_address now"
  by (simp add: test_ban_address_def test_defs test_checks Let_def cong: let_weak_cong)

lemma banned_ip_changing: "test_banned_ip_changing now"
  by (simp add: test_banned_ip_changing_def test_defs test_checks Let_def cong: let_weak_cong)

end
