(* ===== verification/Repo_Tests_Manager.thy ===== *)
theory Repo_Tests_Manager
  imports Peer_Behaviour Repo_Tests_DB
begin

text \<open>
  The unit tests of \<open>peer_manager/mod.rs\<close>, run on the model: peers are connected, given scores and subnets, and
  a heartbeat prunes them.  The clock reads the same time throughout; the shuffle and the hash maps keep the order,
  and the ping and status timers, which the tests do not look at, are left out.
\<close>

section \<open>What the tests use\<close>

definition no_delays :: "unit delay_set" where
  "no_delays = \<lparr>ds_new = \<lambda>_. (), ds_insert = \<lambda>_ _ _. (), ds_remove = \<lambda>_ _. (), ds_poll = \<lambda>_ _. ((), NotElapsed),
     ds_at = \<lambda>_ _. None, ds_interval = \<lambda>_. 0\<rparr>"

definition test_env :: "unit pm_env" where
  "test_env = \<lparr>delays = no_delays, pm_ssz = list_ssz, shuffles = \<lambda>_ ps. ps\<rparr>"

text \<open>The record of the test globals is signed with a random key.\<close>

definition new_test_globals :: "instant \<Rightarrow> enr \<Rightarrow> network_globals" where
  "new_test_globals now e = network_globals_new enr_node_id now e 9000 9000
     \<lparr>seq_number = 0, attnets = [], syncnets = Some []\<rparr> []"

definition build_peer_manager :: "instant \<Rightarrow> enr \<Rightarrow> nat \<Rightarrow> unit peer_manager" where
  "build_peer_manager now e target = peer_manager_new test_env
     (default_pm_config\<lparr>cfg_target_peer_count := target, cfg_discovery_enabled := False\<rparr>) (new_test_globals now e)"

definition pm_conn_in :: "instant \<Rightarrow> multiaddr \<Rightarrow> peer_id \<Rightarrow> unit peer_manager \<Rightarrow> unit peer_manager" where
  "pm_conn_in now a p = inject_connect_ingoing test_env now p a None"

definition pm_conn_out :: "instant \<Rightarrow> multiaddr \<Rightarrow> peer_id \<Rightarrow> unit peer_manager \<Rightarrow> unit peer_manager" where
  "pm_conn_out now a p = inject_connect_outgoing test_env now p a None"

definition with_info :: "(peer_info \<Rightarrow> peer_info) \<Rightarrow> peer_id \<Rightarrow> unit peer_manager \<Rightarrow> unit peer_manager" where
  "with_info f p pm = set_db ((pm_db pm)\<lparr>peers := hm_adjust p f (peers (pm_db pm))\<rparr>) pm"

fun test_gossipsub_score :: "f64 \<Rightarrow> score \<Rightarrow> score" where
  "test_gossipsub_score x Max = Max"
| "test_gossipsub_score x (Real s) = Real (update_state (s\<lparr>gossipsub_score := x\<rparr>))"

definition info_gossipsub_score :: "f64 \<Rightarrow> peer_info \<Rightarrow> peer_info" where
  "info_gossipsub_score x info = info\<lparr>info_score := test_gossipsub_score x (info_score info)\<rparr>"

text \<open>A bit vector of \<open>n\<close> bits with some of them set.\<close>

definition bits :: "nat \<Rightarrow> nat list \<Rightarrow> bitfield" where
  "bits n is = map (\<lambda>i. i \<in> set is) [0..<n]"

definition with_meta :: "nat list \<Rightarrow> nat list \<Rightarrow> peer_id \<Rightarrow> unit peer_manager \<Rightarrow> unit peer_manager" where
  "with_meta att sync =
     with_info (set_meta_data \<lparr>seq_number = 0, attnets = bits 64 att, syncnets = Some (bits 4 sync)\<rparr>)"

text \<open>A peer is given metadata, and subscribes to the subnets in it.\<close>

definition with_subnets :: "nat list \<Rightarrow> nat list \<Rightarrow> peer_id \<Rightarrow> unit peer_manager \<Rightarrow> unit peer_manager" where
  "with_subnets att sync p pm =
     with_info (\<lambda>info. fold insert_subnet (long_lived_subnets list_ssz info) info) p (with_meta att sync p pm)"

definition pm_peer_count :: "unit peer_manager \<Rightarrow> nat" where
  "pm_peer_count pm = connected_or_dialing_count (globals pm)"

definition remaining :: "unit peer_manager \<Rightarrow> peer_id list" where
  "remaining pm = connected_or_dialing_peers (pm_db pm)"

text \<open>Heartbeats, each with the assertions that follow it.\<close>

primrec after_heartbeats :: "instant \<Rightarrow> (unit peer_manager \<Rightarrow> bool) list \<Rightarrow> unit peer_manager \<Rightarrow> bool" where
  "after_heartbeats now [] pm = True"
| "after_heartbeats now (check # checks) pm = (case heartbeat test_env now pm of
       None \<Rightarrow> False
     | Some pm \<Rightarrow> check pm \<and> after_heartbeats now checks pm)"

definition run_calls :: "(unit peer_manager \<Rightarrow> unit peer_manager) list \<Rightarrow> unit peer_manager \<Rightarrow> unit peer_manager" where
  "run_calls calls pm = fold (\<lambda>f. f) calls pm"

section \<open>The tests\<close>

definition test_disconnects_correctly :: "instant \<Rightarrow> enr \<Rightarrow> bool" where
  "test_disconnects_correctly now e = (let pm =
       run_calls [pm_conn_in now any_addr 0, pm_conn_in now any_addr 1, pm_conn_in now any_addr 2,
         pm_conn_out now any_addr 3, pm_conn_out now any_addr 4,
         with_info (add_to_score (- 1)) 3, with_info (add_to_score (- 2)) 4] (build_peer_manager now e 3)
     in pm_peer_count pm = 5 \<and> after_heartbeats now
       [\<lambda>pm. pm_peer_count pm = 3 \<and> is_connected (pm_db pm) 3 \<and> \<not> is_connected (pm_db pm) 4,
        \<lambda>pm. pm_peer_count pm = 3] pm)"

text \<open>The peer called outbound there is connected as an inbound one.\<close>

definition test_not_enough_outbound :: "instant \<Rightarrow> enr \<Rightarrow> bool" where
  "test_not_enough_outbound now e = after_heartbeats now [\<lambda>pm. pm_peer_count pm = 20]
     (run_calls (map (pm_conn_in now any_addr) [0..<19] @ [pm_conn_in now any_addr 19, with_info (add_to_score (- 1)) 19])
       (build_peer_manager now e 20))"

definition test_unhealthy_below_target :: "instant \<Rightarrow> enr \<Rightarrow> bool" where
  "test_unhealthy_below_target now e = (let a = [Ip4 0, Tcp 8000] in after_heartbeats now [\<lambda>pm. pm_peer_count pm = 3]
     (run_calls [pm_conn_in now a 0, pm_conn_in now a 1, pm_conn_in now a 2, pm_conn_out now a 3,
        with_info (add_to_score (- 19.8)) 2, with_info (add_to_score (- 19.8)) 3,
        with_info (info_gossipsub_score (- 85)) 2, with_info (info_gossipsub_score (- 85)) 3] (build_peer_manager now e 3)))"

definition test_enough_when_one_unhealthy :: "instant \<Rightarrow> enr \<Rightarrow> bool" where
  "test_enough_when_one_unhealthy now e = after_heartbeats now [\<lambda>pm. pm_peer_count pm = 3]
     (run_calls [pm_conn_in now any_addr 0, pm_conn_in now any_addr 1, pm_conn_in now any_addr 2, pm_conn_out now any_addr 4,
        pm_conn_in now any_addr 3, with_info (add_to_score (- 19.9)) 3, with_info (info_gossipsub_score (- 85)) 3]
       (build_peer_manager now e 3))"

definition test_non_subnet_peers :: "instant \<Rightarrow> enr \<Rightarrow> bool" where
  "test_non_subnet_peers now e = after_heartbeats now
     [\<lambda>pm. pm_peer_count pm = 3 \<and> map fst (filter (\<lambda>(_, info). case connection_status info of
         Disconnecting _ \<Rightarrow> True | _ \<Rightarrow> False) (peers (pm_db pm))) = [1, 3]]
     (run_calls (map (pm_conn_in now any_addr) [0, 1, 2, 3, 4]
       @ [with_meta [1] [] 0, with_info (insert_subnet (Attestation 1)) 0,
          with_meta [10] [] 2, with_info (insert_subnet (Attestation 10)) 2,
          with_meta [] [3] 4, with_info (insert_subnet (SyncCommittee 3)) 4]) (build_peer_manager now e 3))"

definition test_most_subscribed :: "instant \<Rightarrow> enr \<Rightarrow> bool" where
  "test_most_subscribed now e = after_heartbeats now
     [\<lambda>pm. pm_peer_count pm = 3 \<and> list_all (\<lambda>p. p \<notin> set (remaining pm)) [0, 4, 5]]
     (run_calls (concat (map (\<lambda>(p, att). [pm_conn_in now any_addr p, with_subnets att [] p])
        [(0, []), (1, [1, 2, 3]), (2, [1, 2]), (3, [3]),
         (4, [1]), (5, [2])])) (build_peer_manager now e 3))"

definition test_sync_committee :: "instant \<Rightarrow> enr \<Rightarrow> bool" where
  "test_sync_committee now e = after_heartbeats now
     [\<lambda>pm. pm_peer_count pm = 3 \<and> list_all (\<lambda>p. p \<notin> set (remaining pm)) [0, 1, 2]]
     (run_calls (concat (map (\<lambda>(p, att, sync). [pm_conn_in now any_addr p, with_subnets att sync p])
        [(0, [], []), (1, [1, 2, 3], []), (2, [1, 2], []), (3, [3], []),
         (4, [1, 2], [1]), (5, [1, 2], [2])]))
       (build_peer_manager now e 3))"

definition test_subnet_count :: "instant \<Rightarrow> enr \<Rightarrow> bool" where
  "test_subnet_count now e = after_heartbeats now
     [\<lambda>pm. pm_peer_count pm = 7 \<and> list_all (\<lambda>p. p \<in> set (remaining pm)) [6, 7]]
     (run_calls (concat (map (\<lambda>(p, out, att, sync). [(if out then pm_conn_out now any_addr p else pm_conn_in now any_addr p),
          with_subnets att sync p])
        [(0, True, [1], [1]), (1, True, [1], [1]),
         (2, True, [2], [2]), (3, True, [2], [2]),
         (4, True, [3], []), (5, True, [3], []),
         (6, False, [4], []), (7, False, [5], [])]))
       (build_peer_manager now e 7))"

definition test_grouped_subnets :: "instant \<Rightarrow> enr \<Rightarrow> bool" where
  "test_grouped_subnets now e = (let subnet = (\<lambda>x. if x < 15 then x mod 4 else x) in after_heartbeats now
     [\<lambda>pm. pm_peer_count pm = 9 \<and> list_all (\<lambda>p. p < 15 \<longrightarrow> list_all (\<lambda>q. q \<noteq> p \<and> q < 15 \<longrightarrow>
         q \<notin> set (remaining pm)) [p mod 4, p mod 4 + 4, p mod 4 + 8, p mod 4 + 12]) (remaining pm)]
     (run_calls (concat (map (\<lambda>x. [pm_conn_in now any_addr x, with_meta [subnet x] [] x,
         with_info (insert_subnet (Attestation (subnet x))) x])
        [0, 1, 2, 3, 4, 5, 6, 7, 8, 9, 10, 11, 12, 13, 14, 15, 16, 17, 18, 19])) (build_peer_manager now e 9)))"

section \<open>They pass\<close>

text \<open>A heartbeat at the time of the last changes, with nobody dialed and no search wanted, only prunes.\<close>

definition at_rest :: "instant \<Rightarrow> peer_info \<Rightarrow> bool" where
  "at_rest now info \<longleftrightarrow> info_update_score now info = info \<and> \<not> dialing_timed_out now info"

text \<open>The bits of a field, one after the other.\<close>

fun bits_from :: "nat \<Rightarrow> bitfield \<Rightarrow> nat list" where
  "bits_from n [] = []"
| "bits_from n (b # bs) = (if b then n # bits_from (Suc n) bs else bits_from (Suc n) bs)"

lemma bits_from_filter: "bits_from n b = filter (\<lambda>i. b ! (i - n)) [n..<n + length b]"
proof (induction b arbitrary: n)
  case (Cons x b)
  have "[n..<n + length (x # b)] = n # [Suc n..<Suc n + length b]" by (simp add: upt_conv_Cons del: upt_Suc)
  moreover have "filter (\<lambda>i. (x # b) ! (i - n)) [Suc n..<Suc n + length b]
      = filter (\<lambda>i. b ! (i - Suc n)) [Suc n..<Suc n + length b]"
    by (rule filter_cong) (auto simp: nth_Cons')
  ultimately show ?case by (cases x) (simp_all add: Cons.IH del: upt_Suc list.size)
qed simp

lemma list_ssz_bits [simp]:
  "bv_num_set_bits list_ssz b = length (bits_from 0 b)" "bv_is_zero list_ssz b \<longleftrightarrow> bits_from 0 b = []"
  by (simp_all add: list_ssz_def bit_indices_def bits_from_filter)

lemma set_bits_list_ssz [simp]: "set_bits_upto_highest list_ssz b = bits_from 0 b"
proof -
  have bits: "bits_from 0 b = bit_indices b" by (simp add: bit_indices_def bits_from_filter)
  show ?thesis
  proof (cases "bit_indices b = []")
    case True
    then have "\<not> bit_set list_ssz b 0" by (auto simp: bit_set_def list_ssz_def bit_indices_Nil)
    with True show ?thesis by (simp add: set_bits_upto_highest_def bits list_ssz_def)
  next
    case False
    let ?h = "last (bit_indices b)"
    have h: "?h < length b" "\<And>i. i \<in> set (bit_indices b) \<Longrightarrow> i \<le> ?h"
      using last_in_set [OF False] last_sorted_ge [OF sorted_bit_indices] by (auto simp: set_bit_indices)
    obtain k where "length b = Suc ?h + k" using h(1) by (metis Suc_leI le_Suc_ex)
    then have split: "[0..<length b] = [0..<Suc ?h] @ [Suc ?h..<length b]"
      using upt_add_eq_append [of 0 "Suc ?h" k] by (simp only: le0)
    have rest: "filter (\<lambda>i. b ! i) [Suc ?h..<length b] = []"
      using h(2) by (fastforce simp: filter_empty_conv set_bit_indices)
    have "bit_indices b = filter (\<lambda>i. b ! i) [0..<length b]" by (simp add: bit_indices_def)
    also have "\<dots> = filter (\<lambda>i. b ! i) [0..<Suc ?h]" by (simp only: split filter_append rest append_Nil2)
    also have "\<dots> = filter (bit_set list_ssz b) [0..<Suc ?h]"
      using h(1) by (intro filter_cong) (auto simp: bit_set_def list_ssz_def)
    finally show ?thesis using False by (simp add: set_bits_upto_highest_def bits list_ssz_def)
  qed
qed

lemma bits_from_bits [simp]:
  "sorted_wrt (<) is \<Longrightarrow> list_all (\<lambda>i. i < n) is \<Longrightarrow> bits_from 0 (bits n is) = is"
  by (rule sorted_distinct_set_unique)
    (auto simp: bits_from_filter bits_def list_all_iff strict_sorted_iff intro!: sorted_wrt_filter)

lemma no_unban: "handle_score_transition (score_state_of info) info \<noteq> TransUnbanned"
  by (cases "score_state_of info") (simp_all add: handle_score_transition_def)

lemma update_scores_at_rest:
  assumes "list_all (\<lambda>(_, info). at_rest now info) (peers db)"
  shows "update_scores now db = (db, [])"
proof -
  have "hm_map (info_update_score now) (peers db) = peers db"
    using assms unfolding hm_map_def by (induction "peers db") (auto simp: at_rest_def list_all_iff intro!: map_idI)
  moreover have "filter (\<lambda>(p, info). handle_score_transition (score_state_of info) (info_update_score now info)
      = TransUnbanned) (peers db) = []"
    using assms by (auto simp: filter_empty_conv list_all_iff at_rest_def no_unban)
  ultimately show ?thesis by (simp add: update_scores_def)
qed

lemma heartbeat_at_rest:
  assumes "\<not> discovery_enabled pm" and "sync_committee_subnets pm = []"
    and "list_all (\<lambda>(_, info). at_rest now info) (peers (pm_db pm))"
  shows "heartbeat E now pm = prune_excess_peers E now pm"
proof -
  have "ids_where (dialing_timed_out now) (pm_db pm) = []"
    using assms(3) by (auto simp: ids_where_def filter_empty_conv list_all_iff at_rest_def)
  then have "cleanup_dialing_peers now (pm_db pm) = pm_db pm" by (simp add: cleanup_dialing_peers_def)
  then show ?thesis
    using assms(1,2) update_scores_at_rest [OF assms(3)]
    by (cases pm) (simp add: heartbeat_def maintain_peer_count_def handle_score_actions_def maintain_sync_committee_peers_def
        set_db_def pm_db_def hm_retain_def map_filter_def)
qed

lemma after_heartbeats_at_rest:
  "\<not> discovery_enabled pm \<Longrightarrow> sync_committee_subnets pm = [] \<Longrightarrow> list_all (\<lambda>(_, info). at_rest now info) (peers (pm_db pm)) \<Longrightarrow>
    after_heartbeats now (check # checks) pm = (case prune_excess_peers test_env now pm of
       None \<Rightarrow> False | Some pm \<Rightarrow> check pm \<and> after_heartbeats now checks pm)"
  by (simp add: heartbeat_at_rest)

declare after_heartbeats.simps(2) [simp del]

lemmas test_pm_defs = no_delays_def test_env_def new_test_globals_def build_peer_manager_def pm_conn_in_def
  pm_conn_out_def with_info_def info_gossipsub_score_def with_meta_def with_subnets_def run_calls_def set_meta_data_def
  insert_subnet_def network_globals_new_def peer_manager_new_def default_pm_config_def
  inject_connect_ingoing_def inject_connect_outgoing_def inject_peer_connection_def set_db_def pm_db_def

lemmas test_rest_defs = at_rest_def info_update_score_def update_at_def checked_duration_since_def as_secs_def
  decay_factor_def update_state_def recompute_score_def score_consts dialing_timed_out_def score_state_of_def state_of_Real
  pm_db_def

lemmas test_prune_defs = prune_excess_peers_def peers_to_prune_def worst_prunable_def worst_connected_peers_def
  notify_disconnecting_def disconnect_peer_def to_disconnecting_def has_future_duty_def connected_count_def
  connected_peer_ids_def connected_peers_def outbound_only_count_def connected_outbound_only_peers_def
  is_outbound_only_def pm_peer_count_def connected_or_dialing_count_def connected_or_dialing_peers_def
  info_is_connected_or_dialing_def info_is_dialing_def is_connected_def db_connection_status_def ids_where_def
  info_is_connected_def push_event_def set_db_def pm_db_def test_env_def has_long_lived_subnet_def
  remaining_def update_connection_state_def transition_def ban_score_def entry_for_def
  set_connection_status_def

lemmas test_subnet_defs = prune_subnets.simps count_peer_def count_subnet_def smallest_committee_def may_prune_def
  drop_candidate_def prune_from_subnet_def long_lived_subnets_def long_lived_subnet_count_def
  hm_map_def map_filter_simps MIN_SYNC_COMMITTEE_PEERS_def

lemmas test_heartbeat_defs = after_heartbeats_at_rest test_rest_defs

lemmas f32_defs = target_outbound_peers_of_def f32_mult_def f32_of_nat_def f32_round_def round_half_even_def
  bit_length_half TARGET_OUTBOUND_ONLY_FACTOR_def F32_03_def F32_UNIT_def ceil_as_usize_def

lemma target_outbound: "target_outbound_peers_of 3 = 1" "target_outbound_peers_of 7 = 3"
  "target_outbound_peers_of 9 = 3"
  by (simp_all add: f32_defs Let_def)

lemma disconnects_correctly: "test_disconnects_correctly now e"
  by (simp add: test_disconnects_correctly_def test_pm_defs test_defs test_heartbeat_defs test_prune_defs target_outbound
      Let_def cong: let_weak_cong)

lemma not_enough_outbound: "test_not_enough_outbound now e"
  by (simp add: test_not_enough_outbound_def test_pm_defs test_defs test_heartbeat_defs test_prune_defs upt_rec
      Let_def cong: let_weak_cong)

lemma unhealthy_below_target: "test_unhealthy_below_target now e"
  by (simp add: test_unhealthy_below_target_def test_pm_defs test_defs test_heartbeat_defs test_prune_defs target_outbound
      Let_def cong: let_weak_cong)

lemma enough_when_one_unhealthy: "test_enough_when_one_unhealthy now e"
  by (simp add: test_enough_when_one_unhealthy_def test_pm_defs test_defs test_heartbeat_defs test_prune_defs target_outbound
      Let_def cong: let_weak_cong)

lemma non_subnet_peers: "test_non_subnet_peers now e"
  by (simp add: test_non_subnet_peers_def test_pm_defs test_defs test_heartbeat_defs test_prune_defs test_subnet_defs
      target_outbound Let_def cong: let_weak_cong)

lemma most_subscribed: "test_most_subscribed now e"
  by (simp add: test_most_subscribed_def test_pm_defs test_defs test_heartbeat_defs test_prune_defs test_subnet_defs
      target_outbound Let_def cong: let_weak_cong del: set_map set_filter list.set_map)

lemma sync_committee: "test_sync_committee now e"
  by (simp add: test_sync_committee_def test_pm_defs test_defs test_heartbeat_defs test_prune_defs test_subnet_defs
      target_outbound Let_def cong: let_weak_cong del: set_map set_filter list.set_map)

lemma subnet_count: "test_subnet_count now e"
  by (simp add: test_subnet_count_def test_pm_defs test_defs test_heartbeat_defs test_prune_defs test_subnet_defs
      target_outbound Let_def cong: let_weak_cong del: set_map set_filter list.set_map)

lemma grouped_subnets: "test_grouped_subnets now e"
  by (simp add: test_grouped_subnets_def test_pm_defs test_defs test_heartbeat_defs test_prune_defs test_subnet_defs
      target_outbound Let_def cong: let_weak_cong del: set_map set_filter list.set_map)

end
