(* ===== verification/End_To_End.thy ===== *)
theory End_To_End
  imports Network_Props Handler_Props Codec_Props
begin

text \<open>
  A request and its response from one application to the other: through the network service, the RPC behaviour
  and the connection handler of one node, over the wire, and through the same parts of the other node.  The
  functions of this theory stand for what the swarm does between the parts: it hands the first action of the
  RPC behaviour to the handler of the connection, polls the handler, and hands what it reports back.
\<close>

section \<open>The parts joined\<close>

text \<open>An event of a handler reaches the RPC behaviour, which passes it on to the service or answers it.\<close>

definition receive_event :: "('h, 'c, 'd, 'q, 'g, 'o) net_env \<Rightarrow> (duration \<Rightarrow> string) \<Rightarrow> instant \<Rightarrow> peer_id \<Rightarrow> nat \<Rightarrow>
     ('a request_id, 'b) handler_event \<Rightarrow> ('a, 'b, 'h, 'c, 'd, 'q, 'g) network \<Rightarrow>
     ('a, 'b, 'h, 'c, 'd, 'q, 'g) network \<times> ('a, 'b, 'o) network_event option" where
  "receive_event E sd now p conn ev n =
     (case rpc_poll now 0 (rpc_inject_event sd now p conn ev (n_rpc n)) of
        (r, Some (GenerateEvent p conn ev)) \<Rightarrow> inject_rpc_event E now p conn ev (n\<lparr>n_rpc := r\<rparr>)
      | (r, _) \<Rightarrow> (n\<lparr>n_rpc := r\<rparr>, None))"

text \<open>The request the handler of the client dials for what its application asks.\<close>

definition dialed_request :: "('s, 'b) substream_io \<Rightarrow> ('p, nat) delay_queue \<Rightarrow> instant \<Rightarrow>
     ('a, 'b, 'h, 'c, 'd, 'q, 'g) network \<Rightarrow> ('p, 's, 'a request_id, 'b) handler \<Rightarrow>
     ('a request_id \<times> rpc_request) option" where
  "dialed_request io Q now n h = (case rpc_poll now 0 (n_rpc n) of
       (_, Some (NotifyHandler _ _ send)) \<Rightarrow>
         (case handler_poll io Q now (handler_inject_event io now send h) of
            Some (_, OutboundSubstreamRequest i req) \<Rightarrow> Some (i, req)
          | _ \<Rightarrow> None)
     | _ \<Rightarrow> None)"

text \<open>What the handler of the server reports of the bytes that arrive on a new substream of protocol \<open>p\<close>.\<close>

definition served_event :: "'b wire \<Rightarrow> protocol_id \<Rightarrow> nat \<Rightarrow> fork_context \<Rightarrow> ('s, 'r) substream_io \<Rightarrow>
     ('p, nat) delay_queue \<Rightarrow> instant \<Rightarrow> 's \<Rightarrow> bytes list \<Rightarrow> ('p, 's, 'i, 'r) handler \<Rightarrow>
     ('i, 'r) handler_event option" where
  "served_event W p max_size fc io Q now s chunks h = (case serve_stream W p max_size fc chunks of
       Inl _ \<Rightarrow> None
     | Inr (req, _, _) \<Rightarrow> (case negotiated_inbound io Q now req s h of
           None \<Rightarrow> None
         | Some h \<Rightarrow> (case handler_poll io Q now h of Some (_, Custom ev) \<Rightarrow> Some ev | _ \<Rightarrow> None)))"

section \<open>Handlers with nothing else to do\<close>

definition timers_rest :: "('p, nat) delay_queue \<Rightarrow> instant \<Rightarrow> ('p, 's, 'i, 'b) handler \<Rightarrow> bool" where
  "timers_rest Q now h \<longleftrightarrow>
     snd (dq_poll Q now (inbound_substreams_delay h)) \<in> {QueueEmpty, QueuePending}
     \<and> snd (dq_poll Q now (outbound_substreams_delay h)) \<in> {QueueEmpty, QueuePending}"

definition poll_timers :: "('p, nat) delay_queue \<Rightarrow> instant \<Rightarrow> ('p, 's, 'i, 'b) handler \<Rightarrow> ('p, 's, 'i, 'b) handler" where
  "poll_timers Q now h = h\<lparr> inbound_substreams_delay := fst (dq_poll Q now (inbound_substreams_delay h)),
     outbound_substreams_delay := fst (dq_poll Q now (outbound_substreams_delay h)) \<rparr>"

lemma resting_poll:
  assumes "timers_rest Q now h" and "handler_st h = HandlerActive" and "events_out h = []"
  shows "handler_poll io Q now h = Some (poll_substreams io Q now (poll_timers Q now h))"
proof -
  obtain q1 e1 where p1: "dq_poll Q now (inbound_substreams_delay h) = (q1, e1)" by force
  obtain q2 e2 where p2: "dq_poll Q now (outbound_substreams_delay h) = (q2, e2)" by force
  have e: "e1 = QueueEmpty \<or> e1 = QueuePending" "e2 = QueueEmpty \<or> e2 = QueuePending"
    using assms(1) p1 p2 by (auto simp: timers_rest_def)
  let ?h1 = "h\<lparr>inbound_substreams_delay := q1\<rparr>"
  have "purge_inbound Q now h = Some (?h1, None)"
    using e(1) by (subst purge_inbound.simps) (auto simp: p1)
  moreover have "purge_outbound Q now ?h1 = Some (?h1\<lparr>outbound_substreams_delay := q2\<rparr>, None)"
    using e(2) by (subst purge_outbound.simps) (auto simp: p2)
  ultimately show ?thesis
    using assms by (simp add: handler_poll_def poll_timers_def p1 p2)
qed

definition quiet :: "('p, nat) delay_queue \<Rightarrow> instant \<Rightarrow> ('p, 's, 'i, 'b) handler \<Rightarrow> bool" where
  "quiet Q now h \<longleftrightarrow> handler_st h = HandlerActive \<and> events_out h = [] \<and> inbound_substreams h = [] \<and> timers_rest Q now h"

lemma quiet_poll:
  assumes "quiet Q now h"
  shows "handler_poll io Q now h = Some
    (case drive_all_outbound io Q now (map fst (outbound_substreams h)) (poll_timers Q now h) of
       (h, Some r) \<Rightarrow> (h, r) | (h, None) \<Rightarrow> poll_dial h)"
proof -
  from assms have h: "timers_rest Q now h" "handler_st h = HandlerActive" "events_out h = []"
    "inbound_substreams h = []" by (simp_all add: quiet_def)
  then have "poll_inbound io Q now (poll_timers Q now h) = (poll_timers Q now h, False)"
    by (simp add: poll_inbound_def poll_timers_def)
  then show ?thesis
    unfolding resting_poll [OF h(1-3)] by (simp add: poll_substreams_def) (simp add: poll_timers_def)
qed

section \<open>A request\<close>

lemma rpc_poll_first: "rpc_events r = [] \<Longrightarrow> snd (rpc_poll now 0 (rpc_push a r)) = Some a"
  by (simp add: rpc_poll_def rpc_push_def)

lemma request_dialed:
  assumes "rpc_events (n_rpc client) = []" and h: "quiet Q now h" "outbound_substreams h = []" "dial_queue h = []"
    and "dial_negotiated h < max_dial_negotiated h"
  shows "dialed_request io Q now (net_send_request p i req client) h = Some (Application i, request_into req)"
proof -
  let ?h = "handler_inject_event io now (SendRequest (Application i) (request_into req)) h"
  have h': "?h = h\<lparr>dial_queue := [(Application i, request_into req)]\<rparr>"
    using h by (simp add: handler_inject_event_def handler_send_request_def quiet_def)
  then have "quiet Q now ?h" using h(1) by (simp add: quiet_def timers_rest_def)
  then have "handler_poll io Q now ?h = Some (poll_dial (poll_timers Q now ?h))"
    using quiet_poll [of Q now ?h io] h h' by simp
  then show ?thesis
    using assms(1,5) h'
    by (simp add: dialed_request_def net_send_request_def on_rpc_def rpc_send_request_def rpc_push_def rpc_poll_def
        poll_dial_def poll_timers_def)
qed

lemma request_served:
  assumes "serve_stream W p max_size fc chunks = Inr (req, codec, [])" and "\<forall>r. req \<noteq> ReqGoodbye r"
    and h: "handler_st h = HandlerActive" "events_out h = []" "length (inbound_substreams h) < 32"
    and memory: "io_reserve io (expected_responses req)"
  shows "served_event W p max_size fc io Q now s chunks h
    = Some (Inr (ReceivedRequest (current_inbound_substream_id h) req))"
proof -
  obtain h' where h': "negotiated_inbound io Q now req s h = Some h'"
    using negotiated_inbound_memory [OF memory] by blast
  then have "events_out h' = [Inr (ReceivedRequest (current_inbound_substream_id h) req)]"
    using assms by (auto simp: negotiated_inbound_def accept_request_def emit_def Let_def MAX_INBOUND_SUBSTREAMS_def
        split: rpc_request.splits prod.splits if_splits)
  with h' show ?thesis using assms(1) by (simp add: served_event_def handler_poll_def)
qed

text \<open>What the limiter grants is passed on.\<close>

lemma granted_event_received:
  assumes "rpc_events (n_rpc n) = []"
    and "snd (rl_allows now p req (rpc_limiter (n_rpc n))) = Inr ()"
  shows "\<exists>r. receive_event E sd now p conn (Inr (ReceivedRequest i req)) n
    = inject_rpc_event E now p conn (Inr (ReceivedRequest i req)) (n\<lparr>n_rpc := r\<rparr>)"
  using assms by (auto simp: receive_event_def rpc_inject_event_def Let_def rpc_push_def rpc_poll_def
      split: prod.splits)

lemma app_request_received:
  assumes "pm_is_connected (n_pm n) p"
  shows "snd (inject_rpc_event E now p conn (Inr (ReceivedRequest i (request_into req))) n)
    = Some (EvRequestReceived p (conn, i) req)"
  using assms by (cases req) (simp_all add: inject_rpc_event_def inject_request_def build_request_def)

text \<open>C24. The whole way of a request.  The client dials exactly what its application asked for; when its bytes
  arrive, in any pieces, on a stream of one of the protocols it offers, the application of the server gets this
  request, with the connection and the substream to answer on, provided the server knows the client as
  connected, the limiter grants the request and a substream is free.\<close>

theorem request_reaches_application:
  assumes W: "wire_laws W" "server_max < 2 ^ 64"
    and p: "p \<in> set (supported_protocols (request_into req))" "request_ssz_ok W (request_into req)"
    and sent: "send_request_stream W p client_max client_fc (request_into req) = Inr (concat chunks, codec)"
    and fits: "request_fits W p server_max (request_into req)"
    and ch: "quiet Q now ch" "outbound_substreams ch = []" "dial_queue ch = []"
      "dial_negotiated ch < max_dial_negotiated ch"
    and sh: "handler_st sh = HandlerActive" "events_out sh = []" "length (inbound_substreams sh) < 32"
      "io_reserve io (expected_responses (request_into req))"
    and queues: "rpc_events (n_rpc client) = []" "rpc_events (n_rpc server) = []"
    and allowed: "snd (rl_allows later client_id (request_into req) (rpc_limiter (n_rpc server))) = Inr ()"
    and connected: "pm_is_connected (n_pm server) client_id"
  shows "dialed_request io Q now (net_send_request server_id i req client) ch
      = Some (Application i, request_into req)
    \<and> (\<exists>ev. served_event W p server_max server_fc io Q later s chunks sh = Some ev
        \<and> snd (receive_event E sd later client_id conn ev server)
            = Some (EvRequestReceived client_id (conn, current_inbound_substream_id sh) req))"
proof
  show "dialed_request io Q now (net_send_request server_id i req client) ch
      = Some (Application i, request_into req)"
    by (rule request_dialed [OF queues(1) ch])
  have "serve_stream W p server_max server_fc chunks = Inr (request_into req, inbound_codec_for p server_max server_fc, [])"
    by (rule request_crosses_wire [OF W p sent fits])
  moreover have "\<forall>r. request_into req \<noteq> ReqGoodbye r" by (cases req) simp_all
  ultimately have "served_event W p server_max server_fc io Q later s chunks sh
      = Some (Inr (ReceivedRequest (current_inbound_substream_id sh) (request_into req)))"
    using sh by (rule request_served)
  moreover obtain r where "receive_event E sd later client_id conn
        (Inr (ReceivedRequest (current_inbound_substream_id sh) (request_into req))) server
      = inject_rpc_event E later client_id conn
        (Inr (ReceivedRequest (current_inbound_substream_id sh) (request_into req))) (server\<lparr>n_rpc := r\<rparr>)"
    using granted_event_received [OF queues(2) allowed] by blast
  moreover have "pm_is_connected (n_pm (server\<lparr>n_rpc := r\<rparr>)) client_id" using connected by simp
  ultimately show "\<exists>ev. served_event W p server_max server_fc io Q later s chunks sh = Some ev
        \<and> snd (receive_event E sd later client_id conn ev server)
            = Some (EvRequestReceived client_id (conn, current_inbound_substream_id sh) req)"
    by (simp add: app_request_received)
qed

text \<open>Nothing on the way limits the number of blocks a request asks for: one that asks for too many is read off the
  wire and panics in the handler, before the rate limiter sees it.\<close>
theorem huge_range_crosses_wire:
  assumes W: "wire_laws W" "server_max < 2 ^ 64" "p \<in> set (supported_protocols (ReqBlocksByRange r))"
    "request_ssz_ok W (ReqBlocksByRange r)"
    and sent: "send_request_stream W p client_max client_fc (ReqBlocksByRange r) = Inr (concat chunks, codec)"
    and fits: "request_fits W p server_max (ReqBlocksByRange r)"
    and sh: "handler_st sh = HandlerActive" "length (inbound_substreams sh) < 32"
    and huge: "reserve_laws io" "2 ^ 63 \<le> unat (old_count r)"
  shows "serve_stream W p server_max server_fc chunks = Inr (ReqBlocksByRange r, inbound_codec_for p server_max server_fc, [])
    \<and> negotiated_inbound io Q now (ReqBlocksByRange r) s sh = None"
  using request_crosses_wire [OF W sent fits] huge_range_panics [OF huge(1) sh huge(2)] by blast

section \<open>A response\<close>

text \<open>The substream of the server: its codec and what it has written.  A panic of the encoder does not return.\<close>

definition encode_send :: "'b wire \<Rightarrow> 'b signed_block rpc_coded_response \<Rightarrow> inbound_codec \<times> bytes \<Rightarrow>
     (inbound_codec \<times> bytes) \<times> (rpc_error + unit) poll" where
  "encode_send W m s = (case inbound_encode W (fst s) m [] of
       Some (Inr _, bs) \<Rightarrow> ((fst s, snd s @ bs), Ready (Inr ()))
     | Some (Inl e, _) \<Rightarrow> (s, Ready (Inl e))
     | None \<Rightarrow> (s, Pending))"

text \<open>The substream of the client: its codec and what has arrived and was not read yet.\<close>

definition decode_next :: "'b wire \<Rightarrow> outbound_codec \<times> bytes list \<Rightarrow>
     (outbound_codec \<times> bytes list) \<times> (rpc_error + 'b signed_block rpc_coded_response) option poll" where
  "decode_next W s = (case framed_read (outbound_decode W) (fst s) [] (snd s) of
       (None, c, buf) \<Rightarrow> ((c, [buf]), Pending)
     | (Some r, c, buf) \<Rightarrow> ((c, [buf]), Ready (Some r)))"

text \<open>What a substream of the handler has written.\<close>

fun future_stream :: "('s, 'b) send_future \<Rightarrow> 's" where
  "future_stream (Sending s _ _) = s"
| "future_stream (ClosingAfter s _) = s"

fun stream_of :: "('s, 'b) inbound_state \<Rightarrow> 's option" where
  "stream_of (InIdle s) = Some s"
| "stream_of (InBusy f) = Some (future_stream f)"
| "stream_of InPoisoned = None"

definition written :: "nat \<Rightarrow> ('p, inbound_codec \<times> bytes, 'i, 'b) handler \<Rightarrow> bytes option" where
  "written i h = Option.bind (hm_get (inbound_substreams h) i) (\<lambda>info. map_option snd (stream_of (in_state info)))"

text \<open>The bytes the handler of the server writes on a substream for what its application answers.\<close>

definition answer_written :: "(inbound_codec \<times> bytes, 'b) substream_io \<Rightarrow> ('p, nat) delay_queue \<Rightarrow> instant \<Rightarrow>
     ('a, 'b, 'h, 'c, 'd, 'q, 'g) network \<Rightarrow> nat \<Rightarrow> ('p, inbound_codec \<times> bytes, 'a request_id, 'b) handler \<Rightarrow>
     bytes option" where
  "answer_written io Q now n i h = (case rpc_poll now 0 (n_rpc n) of
       (_, Some (NotifyHandler _ _ send)) \<Rightarrow>
         Option.bind (handler_poll io Q now (handler_inject_event io now send h)) (\<lambda>(h, _). written i h)
     | _ \<Rightarrow> None)"

lemma drive_answer:
  assumes io: "io_send io = encode_send W" "io_close io = (\<lambda>s. (s, Pending))"
    and info: "in_state info = InIdle (c, out)" "pending_items info = [item]" "\<forall>t. item \<noteq> StreamTermination t"
    and enc: "inbound_encode W c item [] = Some (Inr u, bs)"
  shows "\<exists>info' q'. drive_inbound io Q False now i info q = (info', q', ([] :: ('i, 'b signed_block) handler_event list), Keep)
    \<and> stream_of (in_state info') = Some (c, out @ bs)"
proof -
  let ?flag = "in_remaining_chunks info \<le> 1"
  let ?last = "?flag \<or> is_error_resp item"
  let ?info = "start_next info (c, out)"
  have "in_state ?info = InBusy (Sending (c, out) item ?flag)" "pending_items ?info = []"
    using info(2,3) by (simp_all add: start_next_def send_message_def split: rpc_coded_response.split)
  note busy = this
  have send: "io_send io item (c, out) = ((c, out @ bs), Ready (Inr ()))"
    using enc by (simp add: io encode_send_def)
  have fut: "poll_future io (Sending (c, out) item ?flag)
      = (if ?last then (ClosingAfter (c, out @ bs) (Inr ()), Pending)
         else (Sending (c, out @ bs) item ?flag, Ready (Inr ((c, out @ bs), False))))"
    by (simp add: send poll_close_def io(2))
  have start: "drive_inbound io Q False now i info q
      = (drive_inbound io Q False now i ?info q :: _ \<times> _ \<times> ('i, 'b signed_block) handler_event list \<times> _)"
    by (rule drive_idle(1) [OF info(1)]) (simp_all add: info(2))
  have "drive_inbound io Q False now i ?info q = (if ?last
      then (?info\<lparr>in_state := InBusy (ClosingAfter (c, out @ bs) (Inr ()))\<rparr>, q, ([] :: ('i, 'b signed_block) handler_event list), Keep)
      else ((chunk_sent ?info)\<lparr>in_state := InIdle (c, out @ bs)\<rparr>, reset_timer Q now ?info q, [], Keep))"
    using drive_busy [OF busy(1) fut [THEN trans, OF prod.collapse [symmetric]], of Q False now i q] busy(2)
    by (cases ?last) simp_all
  then show ?thesis unfolding start by (cases ?last) simp_all
qed

text \<open>A handler with nothing else to do writes the item that waits on its only substream.\<close>

lemma item_written:
  fixes h :: "('p, inbound_codec \<times> bytes, 'i, 'b signed_block) handler"
  assumes io: "io_send io = encode_send W" "io_close io = (\<lambda>s. (s, Pending))"
    and h: "timers_rest Q now h" "handler_st h = HandlerActive" "events_out h = []"
      "inbound_substreams h = [(i, info)]" "outbound_substreams h = []"
    and info: "in_state info = InIdle (c, out)" "pending_items info = [item]" "\<forall>t. item \<noteq> StreamTermination t"
    and enc: "inbound_encode W c item [] = Some (Inr u, bs)"
  shows "\<exists>h2 r. handler_poll io Q now h = Some (h2, r) \<and> written i h2 = Some (out @ bs)"
proof -
  note poll = resting_poll [OF h(1-3), of io]
  obtain info' q' where drive: "drive_inbound io Q False now i info (fst (dq_poll Q now (inbound_substreams_delay h))) = (info', q', ([] :: ('i, 'b signed_block) handler_event list), Keep)"
    "stream_of (in_state info') = Some (c, out @ bs)" using drive_answer [OF io info enc, where ?'i = 'i] by metis
  have "\<exists>h2 r. handler_poll io Q now h = Some (h2, r) \<and> inbound_substreams h2 = [(i, info')]"
    unfolding poll poll_substreams_def poll_inbound_def
    using drive(1) h by (auto simp: poll_dial_def poll_timers_def split: list.split)
  then obtain h2 r where "handler_poll io Q now h = Some (h2, r)" "inbound_substreams h2 = [(i, info')]" by blast
  then show ?thesis using drive(2) by (auto simp: written_def)
qed

lemma answer_is_written:
  fixes n :: "('a, 'b signed_block, 'h, 'c, 'd, 'q, 'g) network"
  assumes io: "io_send io = encode_send W" "io_close io = (\<lambda>s. (s, Pending))"
    and queue: "rpc_events (n_rpc n) = []"
    and h: "timers_rest Q now h" "handler_st h = HandlerActive" "events_out h = []"
      "inbound_substreams h = [(i, info)]" "outbound_substreams h = []"
    and info: "in_state info = InIdle (c, out)" "pending_items info = []"
    and resp: "response_into resp = Success m" and enc: "inbound_encode W c (Success m) [] = Some (Inr u, bs)"
  shows "answer_written io Q now (net_send_response p (conn, i) resp n) i h = Some (out @ bs)"
proof -
  let ?h = "handler_inject_event io now (SendResponse i (Success m)) h"
  have h': "?h = h\<lparr>inbound_substreams := [(i, info\<lparr>pending_items := [Success m]\<rparr>)]\<rparr>"
    using h info by (simp add: handler_inject_event_def handler_send_response_def)
  have "timers_rest Q now ?h" "handler_st ?h = HandlerActive" "events_out ?h = []"
    "inbound_substreams ?h = [(i, info\<lparr>pending_items := [Success m]\<rparr>)]" "outbound_substreams ?h = []"
    using h by (simp_all add: h' timers_rest_def)
  from item_written [OF io this _ _ _ enc] info
  obtain h2 r where "handler_poll io Q now ?h = Some (h2, r)" "written i h2 = Some (out @ bs)" by auto
  then show ?thesis
    using queue resp
    by (simp add: answer_written_def net_send_response_def on_rpc_def rpc_send_response_def rpc_push_def
        rpc_poll_def)
qed

text \<open>A response that is waiting on the only substream of the client's handler is reported by the next poll.\<close>

lemma response_reported:
  fixes h :: "('p, outbound_codec \<times> bytes list, 'i, 'b signed_block) handler"
  assumes io: "io_next io = decode_next W"
    and h: "quiet Q now h" "outbound_substreams h = [(k, info)]"
    and info: "out_state info = RequestPendingResponse (c, chunks) req"
    and read: "framed_read (outbound_decode W) c [] chunks = (Some (Inr resp), c', buf)"
  shows "\<exists>h'. handler_poll io Q now h = Some (h', Custom (received_event (io_text io) info resp))"
proof -
  note poll = quiet_poll [OF h(1), of io]
  let ?h = "poll_timers Q now h"
  have "io_next io (c, chunks) = ((c', [buf]), Ready (Some (Inr resp)))"
    using read by (simp add: io decode_next_def)
  then have "\<exists>h'. drive_outbound io Q now k ?h = (h', Some (Custom (received_event (io_text io) info resp)))"
    using h info by (simp add: drive_outbound_def quiet_def poll_timers_def Let_def split: prod.split)
  then show ?thesis using h(2) poll by auto
qed

lemma app_response_received:
  assumes "pm_is_connected (n_pm n) p" and "response_into resp = Success m"
  shows "snd (inject_rpc_event E now p conn (Inr (ReceivedResponse (Application i) m)) n)
    = Some (EvResponseReceived p i resp)"
  using assms by (cases resp) (auto simp: inject_rpc_event_def inject_response_def split: option.splits)

lemma response_event_received:
  assumes "rpc_events (n_rpc n) = []"
  shows "\<exists>r. receive_event E sd now p conn (Inr (ReceivedResponse i m)) n
    = inject_rpc_event E now p conn (Inr (ReceivedResponse i m)) (n\<lparr>n_rpc := r\<rparr>)"
  using assms by (auto simp: receive_event_def rpc_inject_event_def rpc_push_def rpc_poll_def)

lemma app_response_not_metadata:
  "response_into resp = Success m \<Longrightarrow> received W v (Success m) = Success m"
  by (cases resp) (auto split: option.splits)

text \<open>C25. The whole way of a response.  The handler of the server writes what its application answers on the
  substream of the request; when these bytes arrive at the client, in any pieces and whatever follows them, its
  application gets exactly this response under the number it gave the request, provided it knows the server as
  connected and the response is one the client can expect: of the protocol of the stream, within the limits, and
  a block of a fork both know.\<close>

theorem response_reaches_application:
  fixes server :: "('a, 'b signed_block, 'h, 'c, 'd, 'q, 'g) network"
    and client :: "('a, 'b signed_block, 'h, 'c, 'd, 'q, 'g) network"
  assumes W: "wire_laws W" "client_max < 2 ^ 64" and p: "p \<in> set protocol_info"
    and sio: "io_send sio = encode_send W" "io_close sio = (\<lambda>s. (s, Pending))"
    and cio: "io_next cio = decode_next W"
    and sh: "timers_rest Q now sh" "handler_st sh = HandlerActive" "events_out sh = []"
      "inbound_substreams sh = [(sub, sinfo)]" "outbound_substreams sh = []"
      "in_state sinfo = InIdle (inbound_codec_for p server_max server_fc, [])" "pending_items sinfo = []"
    and ch: "quiet Q later ch" "outbound_substreams ch = [(k, cinfo)]" "req_id cinfo = Application i"
      "out_state cinfo = RequestPendingResponse (outbound_codec_for p client_max client_fc, chunks) req"
    and resp: "response_into resp = Success m"
    and enc: "inbound_encode W (inbound_codec_for p server_max server_fc) (Success m) [] = Some (Inr (), bs)"
    and pay: "response_payload W (pid_version p) (Success m) = Some payload" "payload \<noteq> []"
    and ex: "response_expected p server_fc client_fc (Success m)" "response_ssz_ok W (pid_version p) (Success m)"
    and fits: "response_fits W p client_max (current_fork client_fc) (Success m) payload"
    and arrived: "concat chunks = bs @ extra"
    and queues: "rpc_events (n_rpc server) = []" "rpc_events (n_rpc client) = []"
    and connected: "pm_is_connected (n_pm client) server_id"
  shows "answer_written sio Q now (net_send_response client_id (conn, sub) resp server) sub sh = Some bs
    \<and> (\<exists>ch' ev. handler_poll cio Q later ch = Some (ch', Custom ev)
        \<and> snd (receive_event E sd later server_id conn' ev client) = Some (EvResponseReceived server_id i resp))"
proof
  show "answer_written sio Q now (net_send_response client_id (conn, sub) resp server) sub sh = Some bs"
    using answer_is_written [OF sio queues(1) sh resp enc] by simp
  have "framed_read (outbound_decode W) (outbound_codec_for p client_max client_fc) [] chunks
      = (Some (Inr (received W (pid_version p) (Success m))), outbound_codec_for p client_max client_fc, extra)"
    by (rule response_crosses_wire [OF W p enc pay ex fits arrived])
  from response_reported [OF cio ch(1,2,4) this] obtain ch' where
    poll: "handler_poll cio Q later ch = Some (ch', Custom (Inr (ReceivedResponse (Application i) m)))"
    using app_response_not_metadata [OF resp, of W] ch(3) by (auto simp: received_event_def)
  obtain r where "receive_event E sd later server_id conn' (Inr (ReceivedResponse (Application i) m)) client
      = inject_rpc_event E later server_id conn' (Inr (ReceivedResponse (Application i) m)) (client\<lparr>n_rpc := r\<rparr>)"
    using response_event_received [OF queues(2)] by blast
  moreover have "pm_is_connected (n_pm (client\<lparr>n_rpc := r\<rparr>)) server_id" using connected by simp
  ultimately have "snd (receive_event E sd later server_id conn' (Inr (ReceivedResponse (Application i) m)) client)
      = Some (EvResponseReceived server_id i resp)"
    using app_response_received [OF _ resp] by metis
  with poll show "\<exists>ch' ev. handler_poll cio Q later ch = Some (ch', Custom ev)
        \<and> snd (receive_event E sd later server_id conn' ev client) = Some (EvResponseReceived server_id i resp)"
    by blast
qed

section \<open>Two nodes\<close>

text \<open>Two nodes that know each other as connected, each with a new connection handler.\<close>

definition talking_network :: "(nat, nat signed_block, (peer_id, instant) hmap \<times> duration, (peer_id, enr) hmap, enr,
    nat \<times> (nat, cache_item \<times> instant) hmap, unit) network" where
  "talking_network = (network_new lonely_env default_pm_config
     (network_globals_new enr_node_id 0 blank_enr 9000 9000 \<lparr>seq_number = 0, attnets = [], syncnets = None\<rparr> [])
     \<lparr>fork_digest = [0, 0, 0, 0], fork_id_ssz = []\<rparr> 12 32 (simple_discovery []) (projr (rpc_new 0)) ())
     \<lparr>n_pm := two_peers duty_peer\<rparr>"

definition still_io :: "('s, 'b) substream_io" where
  "still_io = \<lparr>io_send = (\<lambda>_ s. (s, Pending)), io_close = (\<lambda>s. (s, Pending)), io_next = (\<lambda>s. (s, Pending)),
     io_text = ascii_texts, io_reserve = (\<lambda>n. unat n < 2 ^ 63)\<rparr>"

lemma new_handler_rests: "timers_rest list_dq now (handler_new list_dq)"
  by (simp add: timers_rest_def handler_new_def list_dq_idle)

lemma talking_connected: "pm_is_connected (n_pm talking_network) 2"
  by (simp add: talking_network_def pm_is_connected_def two_peers_def set_db_def is_connected_def pm_db_def
      db_connection_status_def info_is_connected_def duty_peer_def)

lemma talking_rpc: "n_rpc talking_network = projr (rpc_new 0)"
  by (simp add: talking_network_def network_new_def)

abbreviation (input) two_blocks :: app_request where
  "two_blocks \<equiv> AppBlocksByRange \<lparr>range_start_slot = 7, range_count = 2\<rparr>"

lemma request_reaches_application_witness:
  "\<exists>ev. served_event small_wire (protocol_id_new ProtoBlocksByRange V2 SSZSnappy) 100 small_forks still_io list_dq 5 ()
      [[1, 1], [1, 0, 255, 7], [2], [1]] (handler_new list_dq) = Some ev
    \<and> snd (receive_event lonely_env (\<lambda>_. []) 5 2 0 ev talking_network)
        = Some (EvRequestReceived 2 (0, 0) two_blocks)"
proof -
  let ?p = "protocol_id_new ProtoBlocksByRange V2 SSZSnappy"
  let ?h = "handler_new list_dq :: (nat \<times> (nat, nat \<times> instant) hmap, unit, nat request_id, nat signed_block) handler"
  have rpc: "rpc_events (n_rpc talking_network) = []"
    "snd (rl_allows 5 2 (request_into two_blocks) (rpc_limiter (n_rpc talking_network))) = Inr ()"
    by (simp_all add: talking_rpc rpc_new_def rpc_limits_config_def builder_build_def n_every_def one_every_def
        set_quota_def builder_new_def ok_or_def from_quota_def from_secs_def nanos_per_sec_def Let_def
        MAX_REQUEST_BLOCKS_def rl_allows_def rl_of_def limiter_allows_def saturating_sub64_def max_def)
  have h: "quiet list_dq 4 ?h" by (simp add: quiet_def new_handler_rests, simp add: handler_new_def)
  have 0: "current_inbound_substream_id ?h = 0" by (simp add: handler_new_def)
  have "\<exists>ev. served_event small_wire ?p 100 small_forks still_io list_dq 5 () [[1, 1], [1, 0, 255, 7], [2], [1]] ?h = Some ev
    \<and> snd (receive_event lonely_env (\<lambda>_. []) 5 2 0 ev talking_network)
        = Some (EvRequestReceived 2 (0, current_inbound_substream_id ?h) two_blocks)"
    by (rule request_reaches_application [OF small_wire_laws, where ch = ?h and client = talking_network and i = 7
          and client_max = 100 and client_fc = small_forks and server_id = 1
          and codec = "outbound_codec_for ?p 100 small_forks", OF _ _ _ _ _ h, THEN conjunct2])
       (simp_all add: rpc [simplified] talking_connected, simp_all add: small_wire_def protocol_id_new_def send_request_stream_def
         outbound_codec_for_def base_outbound_new_def ssz_outbound_new_def base_outbound_encode_def
         ssz_outbound_encode_def write_payload_def request_fits_def is_out_of_bounds_def rpc_request_limits_def
         rpc_limits_new_def numeral_3_eq_3 handler_new_def still_io_def)
  then show ?thesis by (simp only: 0)
qed

text \<open>A handler that has one request to answer, and one that waits for the response.\<close>

abbreviation (input) roots_protocol :: protocol_id where
  "roots_protocol \<equiv> protocol_id_new ProtoBlocksByRoot V2 SSZSnappy"

definition answering_info :: "(inbound_codec \<times> bytes, nat signed_block) inbound_info" where
  "answering_info = \<lparr>in_state = InIdle (inbound_codec_for roots_protocol 100 small_forks, []), pending_items = [],
     in_protocol = ProtoBlocksByRoot, in_remaining_chunks = 1, request_start_time = 0, in_delay_key = None\<rparr>"

definition answering_handler ::
  "(nat \<times> (nat, nat \<times> instant) hmap, inbound_codec \<times> bytes, nat request_id, nat signed_block) handler" where
  "answering_handler = (handler_new list_dq)\<lparr>inbound_substreams := [(0, answering_info)]\<rparr>"

definition waiting_info :: "bytes list \<Rightarrow> (outbound_codec \<times> bytes list, nat request_id) outbound_info" where
  "waiting_info chunks = \<lparr>out_state = RequestPendingResponse (outbound_codec_for roots_protocol 100 small_forks, chunks)
        (ReqBlocksByRoot \<lparr>block_roots = [0]\<rparr>), out_delay_key = 0, out_proto = ProtoBlocksByRoot,
      out_remaining_chunks = None, req_id = Application 7\<rparr>"

definition waiting_handler :: "bytes list \<Rightarrow>
  (nat \<times> (nat, nat \<times> instant) hmap, outbound_codec \<times> bytes list, nat request_id, nat signed_block) handler" where
  "waiting_handler chunks = (handler_new list_dq)\<lparr>outbound_substreams := [(0, waiting_info chunks)]\<rparr>"

lemma handlers_rest: "timers_rest list_dq now answering_handler" "quiet list_dq now (waiting_handler chunks)"
  by (simp_all add: quiet_def timers_rest_def answering_handler_def waiting_handler_def handler_new_def list_dq_idle)

abbreviation (input) one_block :: "nat signed_block app_response" where
  "one_block \<equiv> RespondBlocksByRoot (Some (BlockAltair 9))"

lemma response_reaches_application_witness:
  "\<exists>ch' ev. handler_poll (still_io\<lparr>io_next := decode_next small_wire\<rparr>) list_dq 6
        (waiting_handler [[0, 1], [0, 0, 0, 1], [0, 255], [9], [0]]) = Some (ch', Custom ev)
     \<and> snd (receive_event lonely_env (\<lambda>_. []) 6 2 0 ev talking_network) = Some (EvResponseReceived 2 7 one_block)"
proof -
  let ?cio = "still_io\<lparr>io_next := decode_next small_wire\<rparr>" and ?sio = "still_io\<lparr>io_send := encode_send small_wire\<rparr>"
  have rpc: "rpc_events (n_rpc talking_network) = []"
    by (simp add: talking_rpc rpc_new_def rpc_limits_config_def builder_build_def n_every_def one_every_def
        set_quota_def builder_new_def ok_or_def from_quota_def from_secs_def nanos_per_sec_def Let_def
        MAX_REQUEST_BLOCKS_def)
  show ?thesis
    by (rule response_reaches_application [OF small_wire_laws, where sio = ?sio and sh = answering_handler
          and client_max = 100 and server_max = 100 and server_fc = small_forks and client_fc = small_forks
          and p = roots_protocol and payload = "[9]" and bs = "[0, 1, 0, 0, 0, 1, 0, 255, 9]" and extra = "[0]"
          and server = talking_network and client_id = 1 and conn = 0 and sinfo = answering_info
          and chunks = "[[0, 1], [0, 0, 0, 1], [0, 255], [9], [0]]" and req = "ReqBlocksByRoot \<lparr>block_roots = [0]\<rparr>"
          and cinfo = "waiting_info [[0, 1], [0, 0, 0, 1], [0, 255], [9], [0]]", THEN conjunct2])
       (simp_all add: handlers_rest rpc talking_connected, simp_all add: still_io_def answering_handler_def
          waiting_handler_def answering_info_def waiting_info_def handler_new_def small_wire_def small_forks_def protocol_id_new_def protocol_info_def
          inbound_codec_for_def base_inbound_new_def ssz_inbound_new_def base_inbound_encode_def
          ssz_inbound_encode_def write_payload_def context_bytes_def has_context_bytes_def response_expected_def
          response_fits_def is_out_of_bounds_def rpc_response_limits_def rpc_limits_new_def CONTEXT_BYTES_LEN_def)
qed

end
