(* ===== verification/Error_Path.thy ===== *)
theory Error_Path
  imports End_To_End
begin

text \<open>
  The way of an error response: from the application of one node, or from its rate limiter, through handler and
  wire to the application and the peer manager of the other node.
\<close>

section \<open>Where errors come from\<close>

lemma error_queued:
  assumes "rpc_events (n_rpc n) = []"
  shows "snd (rpc_poll now 0 (n_rpc (send_error_response p (conn, sub) code reason n)))
    = Some (NotifyHandler p (NotifyOne conn) (SendResponse sub (ErrorResp code (error_type_from reason))))"
  using assms by (simp add: send_error_response_def on_rpc_def rpc_send_response_def rpc_push_def rpc_poll_def)

text \<open>A request the limiter refuses is answered with such an error too, and never passed on.\<close>

lemma refusal_queued:
  assumes "rpc_events r = []" and "snd (rl_allows now p req (rpc_limiter r)) = Inl err"
  shows "\<exists>reason. snd (rpc_poll now 0 (rpc_inject_event sd now p conn (Inr (ReceivedRequest sub req)) r))
    = Some (NotifyHandler p (NotifyOne conn) (SendResponse sub (ErrorResp RateLimited (error_type_from reason))))"
  using assms
  by (cases err) (auto simp: rpc_inject_event_def rpc_send_response_def rpc_push_def rpc_poll_def split: prod.split)

section \<open>The server\<close>

text \<open>The handler first reports the error it is to send, and writes it when it is polled again.\<close>

lemma error_is_written:
  fixes h :: "('p, inbound_codec \<times> bytes, 'i, 'b signed_block) handler"
  assumes io: "io_send io = encode_send W" "io_close io = (\<lambda>s. (s, Pending))"
    and h: "timers_rest Q now h" "handler_st h = HandlerActive" "events_out h = []"
      "inbound_substreams h = [(i, info)]" "outbound_substreams h = []"
    and info: "in_state info = InIdle (c, out)" "pending_items info = []"
    and enc: "inbound_encode W c (ErrorResp code e) [] = Some (Inr u, bs)"
  shows "\<exists>h1 h2 r. handler_poll io Q now (handler_inject_event io now (SendResponse i (ErrorResp code e)) h)
      = Some (h1, Custom (Inl (InboundErr i (in_protocol info) (ErrorResponse code (error_type_to_string (io_text io) e)))))
    \<and> handler_poll io Q now h1 = Some (h2, r) \<and> written i h2 = Some (out @ bs)"
proof -
  let ?h1 = "h\<lparr>inbound_substreams := [(i, info\<lparr>pending_items := [ErrorResp code e]\<rparr>)]\<rparr>"
  have "handler_poll io Q now (handler_inject_event io now (SendResponse i (ErrorResp code e)) h)
      = Some (?h1, Custom (Inl (InboundErr i (in_protocol info) (ErrorResponse code (error_type_to_string (io_text io) e)))))"
    using h info by (simp add: handler_inject_event_def handler_send_response_def emit_def handler_poll_def)
  moreover have "timers_rest Q now ?h1" "handler_st ?h1 = HandlerActive" "events_out ?h1 = []"
    "inbound_substreams ?h1 = [(i, info\<lparr>pending_items := [ErrorResp code e]\<rparr>)]" "outbound_substreams ?h1 = []"
    using h by (simp_all add: timers_rest_def)
  from item_written [OF io this _ _ _ enc] info
  have "\<exists>h2 r. handler_poll io Q now ?h1 = Some (h2, r) \<and> written i h2 = Some (out @ bs)" by auto
  ultimately show ?thesis by blast
qed

section \<open>The client\<close>

lemma failure_event_received:
  assumes "rpc_events (n_rpc n) = []" and "pm_is_connected (n_pm n) p"
  shows "\<exists>n'. receive_event E sd now p conn (Inl (OutboundErr (Application i) pr err)) n = (n', Some (EvRPCFailed i p))
    \<and> n_pm n' = handle_rpc_error (pm_of E) now p pr err Outgoing (n_pm n)"
  using assms by (auto simp: receive_event_def rpc_inject_event_def rpc_push_def rpc_poll_def inject_rpc_event_def on_pm_def)

text \<open>C27. The whole way of an error.  What the application of the server refuses a request with, a printable reason of at
  most 256 characters, is written on the substream of the request; when the bytes arrive at the client, in any
  pieces and whatever follows them, its application is told that the request with its number has failed, and
  its peer manager judges the server by exactly the code and the reason that were given.\<close>
theorem error_reaches_application:
  fixes server :: "('a, 'b signed_block, 'h, 'c, 'd, 'q, 'g) network"
    and client :: "('a, 'b signed_block, 'h, 'c, 'd, 'q, 'g) network"
  assumes W: "wire_laws W" "client_max < 2 ^ 64" and p: "p \<in> set protocol_info"
    and sio: "io_send sio = encode_send W" "io_close sio = (\<lambda>s. (s, Pending))"
    and cio: "io_next cio = decode_next W" "text_laws (io_text cio)"
    and sh: "timers_rest Q now sh" "handler_st sh = HandlerActive" "events_out sh = []"
      "inbound_substreams sh = [(sub, sinfo)]" "outbound_substreams sh = []"
      "in_state sinfo = InIdle (inbound_codec_for p server_max server_fc, [])" "pending_items sinfo = []"
    and ch: "quiet Q later ch" "outbound_substreams ch = [(k, cinfo)]" "req_id cinfo = Application i"
      "out_state cinfo = RequestPendingResponse (outbound_codec_for p client_max client_fc, chunks) req"
    and reason: "list_all (\<lambda>c. 32 \<le> (of_char c :: nat) \<and> (of_char c :: nat) < 127) reason" "length reason \<le> MAX_ERROR_LEN"
      "item = ErrorResp code (error_type_from reason)"
    and enc: "inbound_encode W (inbound_codec_for p server_max server_fc) item [] = Some (Inr (), bs)"
    and pay: "response_payload W (pid_version p) item = Some payload" "payload \<noteq> []"
    and ssz: "response_ssz_ok W (pid_version p) item"
    and fits: "response_fits W p client_max (current_fork client_fc) item payload"
    and arrived: "concat chunks = bs @ extra"
    and queues: "rpc_events (n_rpc server) = []" "rpc_events (n_rpc client) = []"
    and connected: "pm_is_connected (n_pm client) server_id"
  shows "snd (rpc_poll now 0 (n_rpc (send_error_response client_id (conn, sub) code reason server)))
      = Some (NotifyHandler client_id (NotifyOne conn) (SendResponse sub item))
    \<and> (\<exists>sh1 sh2 r ev. handler_poll sio Q now (handler_inject_event sio now (SendResponse sub item) sh) = Some (sh1, Custom ev)
        \<and> handler_poll sio Q now sh1 = Some (sh2, r) \<and> written sub sh2 = Some bs)
    \<and> (\<exists>ch' ev client'. handler_poll cio Q later ch = Some (ch', Custom ev)
        \<and> receive_event E sd later server_id conn' ev client = (client', Some (EvRPCFailed i server_id))
        \<and> n_pm client' = handle_rpc_error (pm_of E) later server_id (out_proto cinfo) (ErrorResponse code reason)
            Outgoing (n_pm client))"
proof (intro conjI)
  show "snd (rpc_poll now 0 (n_rpc (send_error_response client_id (conn, sub) code reason server)))
      = Some (NotifyHandler client_id (NotifyOne conn) (SendResponse sub item))"
    using error_queued [OF queues(1)] reason(3) by simp
  show "\<exists>sh1 sh2 r ev. handler_poll sio Q now (handler_inject_event sio now (SendResponse sub item) sh) = Some (sh1, Custom ev)
        \<and> handler_poll sio Q now sh1 = Some (sh2, r) \<and> written sub sh2 = Some bs"
    using error_is_written [OF sio sh enc [unfolded reason(3)]] reason(3) by fastforce
  have expected: "response_expected p server_fc client_fc item" by (simp add: response_expected_def reason(3))
  have "framed_read (outbound_decode W) (outbound_codec_for p client_max client_fc) [] chunks
      = (Some (Inr (received W (pid_version p) item)), outbound_codec_for p client_max client_fc, extra)"
    by (rule response_crosses_wire [OF W p enc pay expected ssz fits arrived])
  from response_reported [OF cio(1) ch(1,2,4) this] obtain ch' where
    "handler_poll cio Q later ch = Some (ch', Custom (Inl (OutboundErr (Application i) (out_proto cinfo) (ErrorResponse code reason))))"
    using error_text_exact [OF cio(2) reason(1,2)] ch(3) by (auto simp: received_event_def reason(3))
  moreover obtain client' where "receive_event E sd later server_id conn'
      (Inl (OutboundErr (Application i) (out_proto cinfo) (ErrorResponse code reason))) client
      = (client', Some (EvRPCFailed i server_id))"
    "n_pm client' = handle_rpc_error (pm_of E) later server_id (out_proto cinfo) (ErrorResponse code reason) Outgoing (n_pm client)"
    using failure_event_received [OF queues(2) connected] by blast
  ultimately show "\<exists>ch' ev client'. handler_poll cio Q later ch = Some (ch', Custom ev)
        \<and> receive_event E sd later server_id conn' ev client = (client', Some (EvRPCFailed i server_id))
        \<and> n_pm client' = handle_rpc_error (pm_of E) later server_id (out_proto cinfo) (ErrorResponse code reason)
            Outgoing (n_pm client)" by blast
qed

lemma error_reaches_application_witness:
  "\<exists>ch' ev client'. handler_poll (still_io\<lparr>io_next := decode_next small_wire\<rparr>) list_dq 6
        (waiting_handler [[3, 1], [1, 0, 255, 78], [79, 0]]) = Some (ch', Custom ev)
     \<and> receive_event lonely_env (\<lambda>_. []) 6 2 0 ev talking_network = (client', Some (EvRPCFailed 7 2))
     \<and> n_pm client' = handle_rpc_error (pm_of lonely_env) 6 2 ProtoBlocksByRoot (ErrorResponse ResourceUnavailable ''NO'')
         Outgoing (n_pm talking_network)"
proof -
  let ?cio = "still_io\<lparr>io_next := decode_next small_wire\<rparr>" and ?sio = "still_io\<lparr>io_send := encode_send small_wire\<rparr>"
  have rpc: "rpc_events (n_rpc talking_network) = []"
    by (simp add: talking_rpc rpc_new_def rpc_limits_config_def builder_build_def n_every_def one_every_def
        set_quota_def builder_new_def ok_or_def from_quota_def from_secs_def nanos_per_sec_def Let_def
        MAX_REQUEST_BLOCKS_def)
  have said: "error_type_from ''NO'' = [78, 79]" by (simp add: error_type_from_def as_bytes_def MAX_ERROR_LEN_def)
  have proto: "out_proto (waiting_info [[3, 1], [1, 0, 255, 78], [79, 0]]) = ProtoBlocksByRoot" by (simp add: waiting_info_def)
  show ?thesis
    by (rule error_reaches_application [OF small_wire_laws, where sio = ?sio and sh = answering_handler
          and client_max = 100 and server_max = 100 and server_fc = small_forks and client_fc = small_forks
          and p = roots_protocol and payload = "[78, 79]" and bs = "[3, 1, 1, 0, 255, 78, 79]" and extra = "[0]"
          and server = talking_network and client_id = 1 and conn = 0 and sinfo = answering_info
          and chunks = "[[3, 1], [1, 0, 255, 78], [79, 0]]" and req = "ReqBlocksByRoot \<lparr>block_roots = [0]\<rparr>"
          and cinfo = "waiting_info [[3, 1], [1, 0, 255, 78], [79, 0]]" and reason = "''NO''" and code = ResourceUnavailable
          and item = "ErrorResp ResourceUnavailable [78, 79]", unfolded proto, THEN conjunct2, THEN conjunct2])
       (simp_all add: handlers_rest rpc talking_connected said MAX_ERROR_LEN_def, simp_all add: still_io_def answering_handler_def
          waiting_handler_def answering_info_def waiting_info_def handler_new_def small_wire_def small_forks_def protocol_id_new_def protocol_info_def
          inbound_codec_for_def base_inbound_new_def ssz_inbound_new_def base_inbound_encode_def ascii_text_laws
          ssz_inbound_encode_def write_payload_def context_bytes_def has_context_bytes_def response_expected_def
          response_fits_def is_out_of_bounds_def rpc_response_limits_def rpc_limits_new_def CONTEXT_BYTES_LEN_def)
qed

end
