(* ===== verification/Block_Stream.thy ===== *)
theory Block_Stream
  imports End_To_End
begin

text \<open>
  A stream of blocks from the wire to the application that asked for it: the connection handler is polled until
  the stream has ended, and what it reports goes through the RPC behaviour to the network service.
\<close>

section \<open>Polling again and again\<close>

fun poll_events :: "('s, 'b) substream_io \<Rightarrow> ('p, nat) delay_queue \<Rightarrow> instant \<Rightarrow> nat \<Rightarrow> ('p, 's, 'i, 'b) handler \<Rightarrow>
     (('p, 's, 'i, 'b) handler \<times> ('i, 'b) handler_event list) option" where
  "poll_events io Q now 0 h = Some (h, [])"
| "poll_events io Q now (Suc n) h = (case handler_poll io Q now h of
       Some (h, Custom ev) \<Rightarrow> map_option (apsnd ((#) ev)) (poll_events io Q now n h)
     | _ \<Rightarrow> None)"

fun receive_events :: "('h, 'c, 'd, 'q, 'g, 'o) net_env \<Rightarrow> (duration \<Rightarrow> string) \<Rightarrow> instant \<Rightarrow> peer_id \<Rightarrow> nat \<Rightarrow>
     ('a request_id, 'b) handler_event list \<Rightarrow> ('a, 'b, 'h, 'c, 'd, 'q, 'g) network \<Rightarrow>
     ('a, 'b, 'h, 'c, 'd, 'q, 'g) network \<times> ('a, 'b, 'o) network_event list" where
  "receive_events E sd now p conn [] n = (n, [])"
| "receive_events E sd now p conn (ev # evs) n = (let (n, r) = receive_event E sd now p conn ev n;
       (n, rs) = receive_events E sd now p conn evs n
     in (n, (case r of Some e \<Rightarrow> [e] | None \<Rightarrow> []) @ rs))"

section \<open>Timers that have not elapsed\<close>

definition before_deadlines :: "('p, nat) delay_queue \<Rightarrow> instant \<Rightarrow> ('p, 's, 'i, 'b) handler \<Rightarrow> bool" where
  "before_deadlines Q now h \<longleftrightarrow>
     (\<forall>k x t. dq_at Q (inbound_substreams_delay h) k = Some (x, t) \<longrightarrow> now < t)
     \<and> (\<forall>k x t. dq_at Q (outbound_substreams_delay h) k = Some (x, t) \<longrightarrow> now < t)"

lemma expired_is_due:
  "dq_laws Q \<Longrightarrow> dq_poll Q now q = (q', Expired k x) \<Longrightarrow> \<exists>t \<le> now. dq_at Q q k = Some (x, t)"
  unfolding dq_laws_def by (elim conjE) metis

lemma queue_rests:
  assumes Q: "dq_laws Q" "timer_works Q" and late: "\<And>k x t. dq_at Q q k = Some (x, t) \<Longrightarrow> now < t"
  shows "snd (dq_poll Q now q) \<in> {QueueEmpty, QueuePending}" and "dq_at Q (fst (dq_poll Q now q)) = dq_at Q q"
proof -
  obtain q' e where p: "dq_poll Q now q = (q', e)" by force
  have unexpired: "e \<noteq> Expired k x" for k x
  proof
    assume "e = Expired k x"
    with p expired_is_due [OF Q(1)] obtain t where "t \<le> now" "dq_at Q q k = Some (x, t)" by blast
    then show False using late [of k x t] by simp
  qed
  have "e \<noteq> TimerError s" for s using Q(2) p by (auto simp: timer_works_def)
  with unexpired show "snd (dq_poll Q now q) \<in> {QueueEmpty, QueuePending}"
    unfolding p snd_conv by (cases e) blast+
  show "dq_at Q (fst (dq_poll Q now q)) = dq_at Q q"
    using dq_lawsD(6) [OF Q(1) p] unexpired by (simp add: p)
qed

lemma deadlines_rest:
  assumes "dq_laws Q" "timer_works Q" "before_deadlines Q now h"
  shows "timers_rest Q now h" and "dq_at Q (inbound_substreams_delay (poll_timers Q now h)) = dq_at Q (inbound_substreams_delay h)"
    and "dq_at Q (outbound_substreams_delay (poll_timers Q now h)) = dq_at Q (outbound_substreams_delay h)"
  using queue_rests [OF assms(1,2), of "inbound_substreams_delay h" now]
    queue_rests [OF assms(1,2), of "outbound_substreams_delay h" now] assms(3)
  unfolding before_deadlines_def timers_rest_def poll_timers_def by auto

section \<open>The handler\<close>

text \<open>A handler with nothing but the stream on its substream \<open>k\<close>.\<close>

definition streaming :: "('p, nat) delay_queue \<Rightarrow> instant \<Rightarrow> nat \<Rightarrow> ('s, 'i) outbound_info \<Rightarrow> ('p, 's, 'i, 'b) handler \<Rightarrow> bool" where
  "streaming Q now k info h \<longleftrightarrow> handler_st h = HandlerActive \<and> events_out h = [] \<and> inbound_substreams h = []
     \<and> outbound_substreams h = [(k, info)] \<and> before_deadlines Q now h
     \<and> (\<exists>t. dq_at Q (outbound_substreams_delay h) (out_delay_key info) = Some (k, t))"

lemma streaming_quiet:
  assumes "dq_laws Q" "timer_works Q" "streaming Q now k info h"
  shows "quiet Q now h" and "streaming Q now k info (poll_timers Q now h)"
  using assms deadlines_rest [OF assms(1,2), of now h]
  by (simp_all add: streaming_def quiet_def before_deadlines_def) (auto simp: poll_timers_def)

lemma streaming_put:
  assumes Q: "dq_laws Q" and h: "streaming Q now k info h" and key: "out_delay_key info' = out_delay_key info"
  shows "streaming Q now k info' (put_out k info' h)"
    and "streaming Q now k info' ((put_out k info' h)\<lparr>outbound_substreams_delay :=
      dq_reset Q (out_delay_key info) (now + from_secs RESPONSE_TIMEOUT) (outbound_substreams_delay h)\<rparr>)"
proof -
  obtain t where t: "dq_at Q (outbound_substreams_delay h) (out_delay_key info) = Some (k, t)"
    using h by (auto simp: streaming_def)
  have later: "now < now + from_secs RESPONSE_TIMEOUT" by (simp add: from_secs_def RESPONSE_TIMEOUT_def nanos_per_sec_def)
  show "streaming Q now k info' (put_out k info' h)"
    using h key by (simp add: streaming_def put_out_def before_deadlines_def)
  show "streaming Q now k info' ((put_out k info' h)\<lparr>outbound_substreams_delay :=
      dq_reset Q (out_delay_key info) (now + from_secs RESPONSE_TIMEOUT) (outbound_substreams_delay h)\<rparr>)"
    using h key later dq_lawsD(3) [OF Q t] by (auto simp: streaming_def put_out_def before_deadlines_def)
qed

text \<open>One response of the stream.\<close>

lemma stream_step:
  fixes h :: "('p, outbound_codec \<times> bytes list, 'i, 'b signed_block) handler"
  assumes Q: "dq_laws Q" "timer_works Q" and io: "io_next io = decode_next W"
    and h: "streaming Q now k info h" and info: "out_state info = RequestPendingResponse (c, chunks) req"
    and read: "framed_read (outbound_decode W) c [] chunks = (Some (Inr resp), c', buf)"
  shows "\<exists>h'. handler_poll io Q now h = Some (h', Custom (received_event (io_text io) info resp))
    \<and> streaming Q now k (fst (after_response (c', [buf]) req resp info)) h'"
proof -
  let ?h = "poll_timers Q now h" and ?info = "fst (after_response (c', [buf]) req resp info)"
  have quiet: "quiet Q now h" and h': "streaming Q now k info ?h" using streaming_quiet [OF Q h] .
  have "io_next io (c, chunks) = ((c', [buf]), Ready (Some (Inr resp)))"
    using read by (simp add: io decode_next_def)
  moreover have "out_delay_key ?info = out_delay_key info" by (simp add: after_response_def Let_def)
  moreover have "handler_st ?h = HandlerActive" "hm_get (outbound_substreams ?h) k = Some info"
    using h' by (simp_all add: streaming_def)
  ultimately have "\<exists>h2. drive_outbound io Q now k ?h = (h2, Some (Custom (received_event (io_text io) info resp)))
      \<and> streaming Q now k ?info h2"
    using streaming_put [OF Q(1) h', of ?info] info
    by (cases "after_response (c', [buf]) req resp info") (auto simp: drive_outbound_def Let_def put_out_def)
  then show ?thesis
    using quiet_poll [OF quiet, of io] h by (auto simp: streaming_def)
qed

text \<open>A response that the server encodes as \<open>bs\<close> and the client can expect.\<close>

definition crosses :: "'b wire \<Rightarrow> protocol_id \<Rightarrow> nat \<Rightarrow> fork_context \<Rightarrow> nat \<Rightarrow> fork_context \<Rightarrow>
     'b signed_block rpc_response \<Rightarrow> bytes \<Rightarrow> bool" where
  "crosses W p server_max sfc client_max cfc r bs \<longleftrightarrow>
     inbound_encode W (inbound_codec_for p server_max sfc) (Success r) [] = Some (Inr (), bs)
     \<and> response_expected p sfc cfc (Success r) \<and> response_ssz_ok W (pid_version p) (Success r)
     \<and> (\<exists>payload. response_payload W (pid_version p) (Success r) = Some payload \<and> payload \<noteq> []
          \<and> response_fits W p client_max (current_fork cfc) (Success r) payload)
     \<and> received W (pid_version p) (Success r) = Success r"

lemma crosses_read:
  assumes "wire_laws W" "client_max < 2 ^ 64" "p \<in> set protocol_info"
    and "crosses W p server_max sfc client_max cfc r bs" and "concat chunks = bs @ extra"
  shows "framed_read (outbound_decode W) (outbound_codec_for p client_max cfc) [] chunks
    = (Some (Inr (Success r)), outbound_codec_for p client_max cfc, extra)"
  using assms response_crosses_wire [OF assms(1-3)] unfolding crosses_def by metis

lemma stream_delivered:
  fixes h :: "('p, outbound_codec \<times> bytes list, 'i, 'b signed_block) handler"
  assumes W: "wire_laws W" "client_max < 2 ^ 64" "p \<in> set protocol_info"
    and Q: "dq_laws Q" "timer_works Q" and io: "io_next io = decode_next W" and many: "1 < expected_responses req"
  shows "streaming Q now k info h \<Longrightarrow> out_state info = RequestPendingResponse (outbound_codec_for p client_max cfc, chunks) req \<Longrightarrow>
    out_remaining_chunks info = Some left \<Longrightarrow> unat left = length rs \<Longrightarrow> rs \<noteq> [] \<Longrightarrow>
    list_all2 (crosses W p server_max sfc client_max cfc) rs bss \<Longrightarrow> concat chunks = concat bss @ extra \<Longrightarrow>
    \<exists>h' info' s. poll_events io Q now (length rs) h = Some (h', map (\<lambda>r. Inr (ReceivedResponse (req_id info) r)) rs)
      \<and> streaming Q now k info' h' \<and> out_state info' = OutClosing s
      \<and> req_id info' = req_id info \<and> out_proto info' = out_proto info"
proof (induction rs arbitrary: info h chunks left bss)
  case (Cons r rs)
  obtain bs bss' where bss: "bss = bs # bss'" "crosses W p server_max sfc client_max cfc r bs"
    "list_all2 (crosses W p server_max sfc client_max cfc) rs bss'"
    using Cons.prems(6) by (auto simp: list_all2_Cons1)
  let ?c = "outbound_codec_for p client_max cfc" and ?rest = "concat bss' @ extra"
  let ?info = "fst (after_response (?c, [?rest]) req (Success r) info)"
  have "concat chunks = bs @ ?rest" using Cons.prems(7) bss(1) by simp
  from stream_step [OF Q io Cons.prems(1,2) crosses_read [OF W bss(2) this]]
  obtain h' where step: "handler_poll io Q now h = Some (h', Custom (Inr (ReceivedResponse (req_id info) r)))"
    and h': "streaming Q now k ?info h'" by (auto simp: received_event_def)
  have ids: "req_id ?info = req_id info" "out_proto ?info = out_proto info" by (simp_all add: after_response_def Let_def)
  have "left \<noteq> 0" using Cons.prems(4) by auto
  then have left: "left \<noteq> 0" "unat (left - 1) = length rs"
    using Cons.prems(4) by (simp_all add: unat_minus_one)
  show ?case
  proof (cases "rs = []")
    case True
    then have "left - 1 = 0" using left(2) by (simp add: unat_eq_zero)
    then have "out_state ?info = OutClosing (?c, [?rest])"
      using Cons.prems(3) many left(1) by (simp add: after_response_def)
    then show ?thesis using step h' ids True by auto
  next
    case False
    then have "left - 1 \<noteq> 0" using left(2) by (auto simp: unat_eq_zero)
    then have "out_state ?info = RequestPendingResponse (?c, [?rest]) req" "out_remaining_chunks ?info = Some (left - 1)"
      using Cons.prems(3) many left(1) by (simp_all add: after_response_def)
    from Cons.IH [OF h' this left(2) False bss(3)]
    show ?thesis using step ids by auto
  qed
qed simp

text \<open>The end of the stream is reported when the substream has closed.\<close>

definition end_of_stream :: "protocol_name \<Rightarrow> response_termination" where
  "end_of_stream pr = (if pr = ProtoBlocksByRange then TermBlocksByRange else TermBlocksByRoot)"

lemma stream_closes:
  assumes Q: "dq_laws Q" "timer_works Q" and h: "streaming Q now k info h"
    and info: "out_state info = OutClosing s" "out_proto info \<in> {ProtoBlocksByRange, ProtoBlocksByRoot}"
    and io: "io_close io s = (s', Ready x)"
  shows "\<exists>h'. handler_poll io Q now h = Some (h', Custom (Inr (ReceivedEndOfStream (req_id info) (end_of_stream (out_proto info)))))
    \<and> outbound_substreams h' = []"
proof -
  have quiet: "quiet Q now h" and h': "streaming Q now k info (poll_timers Q now h)" using streaming_quiet [OF Q h] .
  have "drive_outbound io Q now k (poll_timers Q now h) = (drop_out Q k info (poll_timers Q now h),
      Some (Custom (Inr (ReceivedEndOfStream (req_id info) (end_of_stream (out_proto info))))))"
    using h' info io by (auto simp: drive_outbound_def streaming_def end_of_stream_def)
  moreover have "outbound_substreams (drop_out Q k info (poll_timers Q now h)) = []"
    using h' by (simp add: drop_out_def streaming_def)
  ultimately show ?thesis using quiet_poll [OF quiet, of io] h by (auto simp: streaming_def)
qed

lemma poll_events_snoc:
  "poll_events io Q now n h = Some (h', es) \<Longrightarrow> handler_poll io Q now h' = Some (h'', Custom e) \<Longrightarrow>
    poll_events io Q now (Suc n) h = Some (h'', es @ [e])"
proof (induction n arbitrary: h es)
  case (Suc n)
  then obtain h1 ev es1 where h1: "handler_poll io Q now h = Some (h1, Custom ev)"
    "poll_events io Q now n h1 = Some (h', es1)" "es = ev # es1"
    by (auto split: option.splits handler_poll_result.splits)
  from Suc.IH [OF h1(2) Suc.prems(2)] h1 show ?case by (subst poll_events.simps) (simp del: poll_events.simps)
qed simp

section \<open>The application\<close>

definition block_response :: "protocol_name \<Rightarrow> 'b \<Rightarrow> 'b rpc_response" where
  "block_response pr b = (if pr = ProtoBlocksByRange then RespBlocksByRange b else RespBlocksByRoot b)"

definition app_block :: "protocol_name \<Rightarrow> 'b option \<Rightarrow> 'b app_response" where
  "app_block pr b = (if pr = ProtoBlocksByRange then RespondBlocksByRange b else RespondBlocksByRoot b)"

lemma receive_block:
  assumes "rpc_events (n_rpc n) = []" and "pm_is_connected (n_pm n) p"
  shows "\<exists>n'. receive_event E sd now p conn (Inr (ReceivedResponse (Application i) (block_response pr b))) n
      = (n', Some (EvResponseReceived p i (app_block pr (Some b))))
    \<and> rpc_events (n_rpc n') = [] \<and> n_pm n' = n_pm n"
  using assms
  by (auto simp: receive_event_def rpc_inject_event_def rpc_push_def rpc_poll_def inject_rpc_event_def
      inject_response_def block_response_def app_block_def)

lemma receive_end:
  assumes "rpc_events (n_rpc n) = []" and "pm_is_connected (n_pm n) p"
  shows "\<exists>n'. receive_event E sd now p conn (Inr (ReceivedEndOfStream (Application i) (end_of_stream pr))) n
      = (n', Some (EvResponseReceived p i (app_block pr None)))"
  using assms
  by (auto simp: receive_event_def rpc_inject_event_def rpc_push_def rpc_poll_def inject_rpc_event_def
      end_of_stream_def app_block_def)

lemma receive_stream:
  "rpc_events (n_rpc n) = [] \<Longrightarrow> pm_is_connected (n_pm n) p \<Longrightarrow>
    \<exists>n'. receive_events E sd now p conn (map (\<lambda>b. Inr (ReceivedResponse (Application i) (block_response pr b))) bs
        @ [Inr (ReceivedEndOfStream (Application i) (end_of_stream pr))]) n
      = (n', map (\<lambda>b. EvResponseReceived p i (app_block pr (Some b))) bs @ [EvResponseReceived p i (app_block pr None)])"
proof (induction bs arbitrary: n)
  case Nil
  then show ?case using receive_end [of n p E sd now conn i pr] by auto
next
  case (Cons b bs)
  obtain n1 where n1: "receive_event E sd now p conn (Inr (ReceivedResponse (Application i) (block_response pr b))) n
      = (n1, Some (EvResponseReceived p i (app_block pr (Some b))))" "rpc_events (n_rpc n1) = []" "n_pm n1 = n_pm n"
    using receive_block [OF Cons.prems, of E sd now conn i pr b] by blast
  obtain n2 where "receive_events E sd now p conn (map (\<lambda>b. Inr (ReceivedResponse (Application i) (block_response pr b))) bs
        @ [Inr (ReceivedEndOfStream (Application i) (end_of_stream pr))]) n1
      = (n2, map (\<lambda>b. EvResponseReceived p i (app_block pr (Some b))) bs @ [EvResponseReceived p i (app_block pr None)])"
    using Cons.IH [of n1] n1 Cons.prems(2) by auto
  then show ?case by (simp add: n1(1))
qed

text \<open>C26. A whole stream of blocks.  When the bytes of as many blocks as were asked for have arrived on the substream
  of the request, in any pieces, then so many polls of the handler and one more bring every block to the
  application, in order and under the number of the request, and after them the end of the stream; the
  substream is gone.\<close>
theorem block_stream_reaches_application:
  fixes client :: "('a, 'b signed_block, 'h, 'c, 'd, 'q, 'g) network"
    and ch :: "('p, outbound_codec \<times> bytes list, 'a request_id, 'b signed_block) handler"
  assumes W: "wire_laws W" "client_max < 2 ^ 64" "p \<in> set protocol_info"
    and Q: "dq_laws Q" "timer_works Q"
    and cio: "io_next cio = decode_next W" "\<And>s. \<exists>s' x. io_close cio s = (s', Ready x)"
    and ch: "streaming Q now k info ch" "req_id info = Application i"
      "out_state info = RequestPendingResponse (outbound_codec_for p client_max cfc, chunks) req"
    and asked: "out_proto info \<in> {ProtoBlocksByRange, ProtoBlocksByRoot}" "1 < expected_responses req"
      "out_remaining_chunks info = Some (expected_responses req)" "unat (expected_responses req) = length blocks"
    and sent: "list_all2 (\<lambda>b. crosses W p server_max sfc client_max cfc (block_response (out_proto info) b)) blocks bss"
    and arrived: "concat chunks = concat bss @ extra"
    and client: "rpc_events (n_rpc client) = []" "pm_is_connected (n_pm client) server_id"
  shows "\<exists>ch' events client'. poll_events cio Q now (Suc (length blocks)) ch = Some (ch', events)
    \<and> outbound_substreams ch' = []
    \<and> receive_events E sd now server_id conn events client
      = (client', map (\<lambda>b. EvResponseReceived server_id i (app_block (out_proto info) (Some b))) blocks
          @ [EvResponseReceived server_id i (app_block (out_proto info) None)])"
proof -
  let ?rs = "map (block_response (out_proto info)) blocks"
  have rs: "unat (expected_responses req) = length ?rs" "?rs \<noteq> []"
    using asked(2,4) by (auto simp: word_less_nat_alt)
  have "list_all2 (crosses W p server_max sfc client_max cfc) ?rs bss" using sent by (simp add: list_all2_map1)
  from stream_delivered [OF W Q cio(1) asked(2) ch(1,3) asked(3) rs this arrived]
  obtain h1 info1 s where h1: "poll_events cio Q now (length blocks) ch
      = Some (h1, map (\<lambda>b. Inr (ReceivedResponse (Application i) (block_response (out_proto info) b))) blocks)"
    "streaming Q now k info1 h1" "out_state info1 = OutClosing s" "req_id info1 = Application i"
    "out_proto info1 = out_proto info"
    by (auto simp: ch(2) comp_def)
  obtain s' x where "io_close cio s = (s', Ready x)" using cio(2) by blast
  from stream_closes [OF Q h1(2,3) _ this] h1(4,5) asked(1)
  obtain ch' where ch': "handler_poll cio Q now h1
      = Some (ch', Custom (Inr (ReceivedEndOfStream (Application i) (end_of_stream (out_proto info)))))"
    "outbound_substreams ch' = []" by auto
  show ?thesis
    using poll_events_snoc [OF h1(1) ch'(1)] ch'(2)
      receive_stream [OF client, where i = i and pr = "out_proto info" and bs = blocks and E = E and sd = sd and now = now and conn = conn]
    by blast
qed

section \<open>An example\<close>

text \<open>A handler that waits for two blocks by root, with a timer that elapses ten seconds later.\<close>

definition two_waiting :: "bytes list \<Rightarrow> (outbound_codec \<times> bytes list, nat request_id) outbound_info" where
  "two_waiting chunks = \<lparr>out_state = RequestPendingResponse (outbound_codec_for roots_protocol 100 small_forks, chunks)
        (ReqBlocksByRoot \<lparr>block_roots = [0, 1]\<rparr>), out_delay_key = 0, out_proto = ProtoBlocksByRoot,
      out_remaining_chunks = Some 2, req_id = Application 7\<rparr>"

definition stream_handler :: "bytes list \<Rightarrow>
  (nat \<times> (nat, nat \<times> instant) hmap, outbound_codec \<times> bytes list, nat request_id, nat signed_block) handler" where
  "stream_handler chunks = (handler_new list_dq)\<lparr>outbound_substreams := [(0, two_waiting chunks)],
     outbound_substreams_delay := fst (dq_insert list_dq 0 (from_secs 10) (dq_default list_dq))\<rparr>"

lemma stream_handler_streams: "streaming list_dq 6 0 (two_waiting chunks) (stream_handler chunks)"
  by (auto simp: streaming_def stream_handler_def before_deadlines_def list_dq_def handler_new_def two_waiting_def
      from_secs_def nanos_per_sec_def split: if_splits)

lemma list_dq_timer: "timer_works list_dq"
  by (auto simp: timer_works_def list_dq_def split: option.split)

lemma block_stream_reaches_application_witness:
  "\<exists>ch' events client'. poll_events (still_io\<lparr>io_next := decode_next small_wire, io_close := \<lambda>s. (s, Ready (Inr ()))\<rparr>) list_dq 6
        (Suc 2) (stream_handler [[0, 1, 0, 0, 0, 1, 0], [255, 9, 0, 1, 0], [0, 0, 1, 0, 255, 5]]) = Some (ch', events)
     \<and> outbound_substreams ch' = []
     \<and> receive_events lonely_env (\<lambda>_. []) 6 2 0 events talking_network
       = (client', [EvResponseReceived 2 7 (RespondBlocksByRoot (Some (BlockAltair 9))),
           EvResponseReceived 2 7 (RespondBlocksByRoot (Some (BlockAltair 5))),
           EvResponseReceived 2 7 (RespondBlocksByRoot None)])"
proof -
  let ?chunks = "[[0, 1, 0, 0, 0, 1, 0], [255, 9, 0, 1, 0], [0, 0, 1, 0, 255, 5]] :: bytes list"
  have client: "rpc_events (n_rpc talking_network) = []"
    by (simp add: talking_rpc rpc_new_def rpc_limits_config_def builder_build_def n_every_def one_every_def
        set_quota_def builder_new_def ok_or_def from_quota_def from_secs_def nanos_per_sec_def Let_def
        MAX_REQUEST_BLOCKS_def)
  have sent: "crosses small_wire roots_protocol 100 small_forks 100 small_forks (block_response ProtoBlocksByRoot (BlockAltair b))
      [0, 1, 0, 0, 0, 1, 0, 255, of_nat b]" if "b < 256" for b
    using that
    by (simp add: crosses_def block_response_def small_wire_def small_forks_def protocol_id_new_def
        inbound_codec_for_def base_inbound_new_def ssz_inbound_new_def base_inbound_encode_def
        ssz_inbound_encode_def write_payload_def context_bytes_def has_context_bytes_def response_expected_def
        response_fits_def is_out_of_bounds_def rpc_response_limits_def rpc_limits_new_def CONTEXT_BYTES_LEN_def
        unsigned_of_nat take_bit_nat_eq_self)
  have parts: "out_proto (two_waiting ?chunks) = ProtoBlocksByRoot" "req_id (two_waiting ?chunks) = Application 7"
    by (simp_all add: two_waiting_def)
  show ?thesis
    using block_stream_reaches_application [OF small_wire_laws _ _ list_dq_laws list_dq_timer, of 100 roots_protocol
        "still_io\<lparr>io_next := decode_next small_wire, io_close := \<lambda>s. (s, Ready (Inr ()))\<rparr>" 6 0
        "two_waiting ?chunks" "stream_handler ?chunks" 7 small_forks ?chunks "ReqBlocksByRoot \<lparr>block_roots = [0, 1]\<rparr>"
        "[BlockAltair 9, BlockAltair 5]" 100 small_forks
        "[[0, 1, 0, 0, 0, 1, 0, 255, 9], [0, 1, 0, 0, 0, 1, 0, 255, 5]]" "[]" talking_network 2 lonely_env "\<lambda>_. []" 0]
      stream_handler_streams [of ?chunks] client talking_connected sent [of 9] sent [of 5]
    by (simp add: parts app_block_def numeral_3_eq_3 del: poll_events.simps)
      (simp add: two_waiting_def protocol_id_new_def protocol_info_def del: poll_events.simps)
qed

end
